(* ===== verification/Prelude.thy ===== *)
theory Prelude
  imports Main "HOL-Library.Word" "HOL-Library.Finite_Map"
    "HOL-Library.List_Lexorder" "HOL-Library.Char_ord"
begin

text \<open>
  What every component of the model shares: the machine integers and the time of the Go
  program, gRPC status codes and Go errors as values, the parts of \<open>fmt\<close> and \<open>strings\<close>
  the sources use, Go maps as finite maps with an explicit iteration order, and the record
  \<open>lib\<close> that holds the third-party functions the code calls (they are not under
  \<open>src/\<close> and stay parameters of the model).
\<close>

section \<open>Fact collections\<close>

named_theorems enum_defs \<open>the numeric values of the protobuf enumerations\<close>
named_theorems go_simps \<open>rewrite rules that evaluate the operations of a component\<close>

section \<open>Machine integers, time\<close>

text \<open>
  Go's \<open>uint32\<close>, \<open>int32\<close> and \<open>int64\<close> are words: \<open>+\<close> wraps, \<open>unat\<close> reads the unsigned
  and \<open>sint\<close> the signed value. A \<open>time.Time\<close> is the integer number of nanoseconds since
  the Unix epoch, a \<open>time.Duration\<close> an integer number of nanoseconds in the range of
  \<open>int64\<close>.
\<close>

type_synonym uint32 = "32 word"
type_synonym int32 = "32 word"
type_synonym int64 = "64 word"
type_synonym time = int
type_synonym duration = int

definition minDuration :: duration where
  "minDuration = - (2 ^ 63)"

definition maxDuration :: duration where
  "maxDuration = 2 ^ 63 - 1"

text \<open>\<open>t.Sub(u)\<close> saturates at the ends of the \<open>int64\<close> range.\<close>

definition time_Sub :: "time \<Rightarrow> time \<Rightarrow> duration" where
  "time_Sub t u = max minDuration (min maxDuration (t - u))"

text \<open>Unary minus on a \<open>time.Duration\<close> wraps at the least value.\<close>

definition duration_neg :: "duration \<Rightarrow> duration" where
  "duration_neg d = (if d = minDuration then minDuration else - d)"

text \<open>\<open>time.Unix(sec, 0)\<close> and \<open>t.Unix()\<close>; the second rounds down to whole seconds.\<close>

definition time_Unix :: "int \<Rightarrow> time" where
  "time_Unix sec = sec * 10 ^ 9"

definition time_unix_seconds :: "time \<Rightarrow> int" where
  "time_unix_seconds t = t div 10 ^ 9"

lemma time_Sub_mono: "t \<le> t' \<Longrightarrow> time_Sub t u \<le> time_Sub t' u"
  by (auto simp: time_Sub_def)

lemma time_Sub_antimono: "u \<le> u' \<Longrightarrow> time_Sub t u' \<le> time_Sub t u"
  by (auto simp: time_Sub_def)

lemma time_Sub_exact:
  "minDuration \<le> t - u \<Longrightarrow> t - u \<le> maxDuration \<Longrightarrow> time_Sub t u = t - u"
  by (auto simp: time_Sub_def)

lemma time_Unix_floor: "time_Unix (time_unix_seconds t) \<le> t"
  "t < time_Unix (time_unix_seconds t) + 10 ^ 9"
  by (simp_all add: time_Unix_def time_unix_seconds_def)

section \<open>Errors as values\<close>

text \<open>
  The status codes of gRPC (\<open>google.golang.org/grpc/codes\<close>), and Go errors: a status error
  (\<open>status.Error\<close>), an error made by \<open>errors.New\<close> or \<open>fmt.Errorf\<close> with its text and the
  error it wraps with \<open>%w\<close>, and \<open>io.EOF\<close>.
\<close>

datatype code =
    OK | Canceled | Unknown | InvalidArgument | DeadlineExceeded | NotFound
  | AlreadyExists | PermissionDenied | ResourceExhausted | FailedPrecondition
  | Aborted | OutOfRange | Unimplemented | Internal | Unavailable | DataLoss
  | Unauthenticated

datatype error =
    Status code string
  | Errorf string "error option"
  | EOF

text \<open>\<open>errors.Is(err, target)\<close> follows the chain of wrapped errors.\<close>

fun errors_Is :: "error \<Rightarrow> error \<Rightarrow> bool" where
  "errors_Is (Errorf m (Some w)) target = (Errorf m (Some w) = target \<or> errors_Is w target)"
| "errors_Is e target = (e = target)"

lemma errors_Is_refl [simp]: "errors_Is e e"
  by (cases "(e, e)" rule: errors_Is.cases) auto

definition is_ok :: "'e + 'a \<Rightarrow> bool" where
  "is_ok r = (case r of Inl _ \<Rightarrow> False | Inr _ \<Rightarrow> True)"

lemma is_ok_simps [simp]: "is_ok (Inr a)" "\<not> is_ok (Inl e)"
  by (simp_all add: is_ok_def)

lemma is_ok_iff: "is_ok r \<longleftrightarrow> (\<exists>a. r = Inr a)"
  by (cases r) auto

section \<open>Strings: decimal printing, prefixes\<close>

text \<open>\<open>%d\<close> of \<open>fmt.Sprintf\<close>.\<close>

definition digit :: "nat \<Rightarrow> char" where
  "digit n = char_of (48 + n)"

fun dec :: "nat \<Rightarrow> string" where
  "dec n = (if n < 10 then [digit n] else dec (n div 10) @ [digit (n mod 10)])"

declare dec.simps [simp del]

definition dec_int :: "int \<Rightarrow> string" where
  "dec_int i = (if i < 0 then CHR ''-'' # dec (nat (- i)) else dec (nat i))"

definition undigit :: "char \<Rightarrow> nat" where
  "undigit c = of_char c - 48"

definition undec :: "string \<Rightarrow> nat" where
  "undec s = foldl (\<lambda>a c. 10 * a + undigit c) 0 s"

lemma undigit_digit: "n < 10 \<Longrightarrow> undigit (digit n) = n"
  by (simp add: undigit_def digit_def)

lemma undec_snoc: "undec (s @ [c]) = 10 * undec s + undigit c"
  by (simp add: undec_def)

lemma undec_dec [simp]: "undec (dec n) = n"
proof (induction n rule: dec.induct)
  case (1 n)
  show ?case
  proof (cases "n < 10")
    case True
    then show ?thesis
      by (subst dec.simps) (simp add: undec_def undigit_digit)
  next
    case False
    with "1.IH" have "undec (dec (n div 10)) = n div 10" by simp
    with False show ?thesis
      by (subst dec.simps) (simp add: undec_snoc undigit_digit)
  qed
qed

lemma dec_inj [simp]: "dec m = dec n \<longleftrightarrow> m = n"
  by (metis undec_dec)

text \<open>\<open>strings.HasPrefix\<close> and \<open>strings.TrimPrefix\<close>.\<close>

definition HasPrefix :: "string \<Rightarrow> string \<Rightarrow> bool" where
  "HasPrefix s p = (take (length p) s = p)"

definition TrimPrefix :: "string \<Rightarrow> string \<Rightarrow> string" where
  "TrimPrefix s p = (if HasPrefix s p then drop (length p) s else s)"

lemma HasPrefix_append [simp]: "HasPrefix (p @ s) p"
  by (simp add: HasPrefix_def)

lemma TrimPrefix_append [simp]: "TrimPrefix (p @ s) p = s"
  by (simp add: TrimPrefix_def)

lemma HasPrefix_iff: "HasPrefix s p \<longleftrightarrow> (\<exists>t. s = p @ t)"
  by (metis HasPrefix_append HasPrefix_def append_take_drop_id)

text \<open>
  \<open>strings.Split\<close> with a separator of one character, and \<open>strings.TrimSpace\<close> on ASCII text.
\<close>

fun split_on :: "char \<Rightarrow> string \<Rightarrow> string list" where
  "split_on sep [] = [[]]"
| "split_on sep (c # cs) =
     (if c = sep then [] # split_on sep cs
      else (c # hd (split_on sep cs)) # tl (split_on sep cs))"

definition is_space :: "char \<Rightarrow> bool" where
  "is_space c = (let n = of_char c :: nat in n = 32 \<or> (9 \<le> n \<and> n \<le> 13))"

definition TrimSpace :: "string \<Rightarrow> string" where
  "TrimSpace s = rev (dropWhile is_space (rev (dropWhile is_space s)))"

lemma split_on_nonempty [simp]: "split_on sep s \<noteq> []"
  by (cases s) simp_all

lemma split_on_chars: "list_all (\<lambda>p. set p \<subseteq> set s) (split_on sep s)"
proof (induction s)
  case (Cons c cs)
  obtain p ps where "split_on sep cs = p # ps" by (cases "split_on sep cs") simp_all
  with Cons show ?case by (auto simp: list_all_iff)
qed simp

lemma TrimSpace_chars: "set (TrimSpace s) \<subseteq> set s"
  by (auto simp: TrimSpace_def dest!: set_dropWhileD)

text \<open>
  \<open>%q\<close> of \<open>fmt.Sprintf\<close> on ASCII text (\<open>strconv.Quote\<close>): double quotes, escapes for the
  quote, the backslash and the control characters.
\<close>

definition hex_digit :: "nat \<Rightarrow> char" where
  "hex_digit n = (if n < 10 then char_of (48 + n) else char_of (87 + n))"

definition quote_char :: "char \<Rightarrow> string" where
  "quote_char c = (let n = of_char c :: nat; bs = char_of (92 :: nat) in
     if n = 34 \<or> n = 92 then [bs, c]
     else if n = 7 then [bs, CHR ''a''] else if n = 8 then [bs, CHR ''b'']
     else if n = 12 then [bs, CHR ''f''] else if n = 10 then [bs, CHR ''n'']
     else if n = 13 then [bs, CHR ''r''] else if n = 9 then [bs, CHR ''t'']
     else if n = 11 then [bs, CHR ''v'']
     else if n < 32 \<or> n \<ge> 127 then [bs, CHR ''x'', hex_digit (n div 16), hex_digit (n mod 16)]
     else [c])"

definition Quote :: "string \<Rightarrow> string" where
  "Quote s = char_of (34 :: nat) # concat (map quote_char s) @ [char_of (34 :: nat)]"

section \<open>Lists updated at an index\<close>

lemma sum_list_map_update:
  fixes f :: "'a \<Rightarrow> nat"
  shows "i < length ts \<Longrightarrow> sum_list (map f (ts[i := t])) + f (ts ! i) = sum_list (map f ts) + f t"
  by (induction ts arbitrary: i) (auto split: nat.split)

lemma list_all_update: "list_all P xs \<Longrightarrow> P x \<Longrightarrow> list_all P (xs[i := x])"
  by (auto simp: list_all_iff dest!: set_update_subset_insert [THEN subsetD])

section \<open>Go maps\<close>

text \<open>
  A Go map is a finite map. \<open>for k, v := range m\<close> visits every entry once, in an order the
  language leaves open: \<open>enumerates ks m\<close> says that \<open>ks\<close> is such an order.
  \<open>range_copy ks m r\<close> is the loop \<open>for k, v := range m { r[k] = v }\<close>.
\<close>

definition enumerates :: "'k list \<Rightarrow> ('k, 'v) fmap \<Rightarrow> bool" where
  "enumerates ks m = (distinct ks \<and> set ks = fmdom' m)"

definition sorted_keys :: "('k::linorder, 'v) fmap \<Rightarrow> 'k list" where
  "sorted_keys m = sorted_list_of_set (fmdom' m)"

fun range_copy :: "'k list \<Rightarrow> ('k, 'v) fmap \<Rightarrow> ('k, 'v) fmap \<Rightarrow> ('k, 'v) fmap" where
  "range_copy [] m r = r"
| "range_copy (k # ks) m r =
     range_copy ks m (case fmlookup m k of None \<Rightarrow> r | Some v \<Rightarrow> fmupd k v r)"

lemma in_fmdom'_iff: "k \<in> fmdom' m \<longleftrightarrow> (\<exists>v. fmlookup m k = Some v)"
  by (simp add: fmlookup_dom'_iff)

lemma enumerates_sorted_keys: "enumerates (sorted_keys m) m"
  by (simp add: enumerates_def sorted_keys_def)

lemma enumerates_iff: "enumerates ks m \<Longrightarrow> k \<in> set ks \<longleftrightarrow> (\<exists>v. fmlookup m k = Some v)"
  by (simp add: enumerates_def in_fmdom'_iff)

lemma fmlookup_range_copy:
  "fmlookup (range_copy ks m r) k =
     (if k \<in> set ks \<and> fmlookup m k \<noteq> None then fmlookup m k else fmlookup r k)"
  by (induction ks m r rule: range_copy.induct) (auto split: option.splits)

text \<open>Copying over any order of the keys gives the map back.\<close>

lemma range_copy_enumerates: "enumerates ks m \<Longrightarrow> range_copy ks m fmempty = m"
  by (rule fmap_ext) (auto simp: fmlookup_range_copy enumerates_iff)

end
