(* ===== verification/ProtoTypes.thy ===== *)
theory ProtoTypes
  imports Prelude
begin

text \<open>
  The messages and enumerations of \<open>proto/pkg/example.pb.go\<close>. An enumeration is an
  \<open>int32\<close> with named values: proto3 enumerations are open, so a field may hold a number
  without a name. A message is a record; a field that is a pointer (\<open>*Profile\<close>,
  \<open>*Timestamp\<close>), a slice or a map is an option, \<open>None\<close> being nil. The bookkeeping
  fields \<open>state\<close>, \<open>unknownFields\<close> and \<open>sizeCache\<close> carry nothing the program reads. The
  getters accept a nil receiver and return the zero value then.
\<close>

section \<open>Enumerations\<close>

type_synonym Role = int32

definition Role_GUEST :: Role where
  [enum_defs]: "Role_GUEST = 0"

definition Role_MEMBER :: Role where
  [enum_defs]: "Role_MEMBER = 1"

definition Role_ADMIN :: Role where
  [enum_defs]: "Role_ADMIN = 2"

definition Role_MODERATOR :: Role where
  [enum_defs]: "Role_MODERATOR = 3"

definition Role_name :: "(int32, string) fmap" where
  "Role_name = fmap_of_list
     [(0, ''GUEST''),
      (1, ''MEMBER''),
      (2, ''ADMIN''),
      (3, ''MODERATOR'')]"

definition Role_value :: "(string, int32) fmap" where
  "Role_value = fmap_of_list
     [(''GUEST'', 0),
      (''MEMBER'', 1),
      (''ADMIN'', 2),
      (''MODERATOR'', 3)]"

type_synonym UserStatus = int32

definition UserStatus_INACTIVE :: UserStatus where
  [enum_defs]: "UserStatus_INACTIVE = 0"

definition UserStatus_ACTIVE :: UserStatus where
  [enum_defs]: "UserStatus_ACTIVE = 1"

definition UserStatus_SUSPENDED :: UserStatus where
  [enum_defs]: "UserStatus_SUSPENDED = 2"

definition UserStatus_DELETED :: UserStatus where
  [enum_defs]: "UserStatus_DELETED = 3"

definition UserStatus_name :: "(int32, string) fmap" where
  "UserStatus_name = fmap_of_list
     [(0, ''INACTIVE''),
      (1, ''ACTIVE''),
      (2, ''SUSPENDED''),
      (3, ''DELETED'')]"

definition UserStatus_value :: "(string, int32) fmap" where
  "UserStatus_value = fmap_of_list
     [(''INACTIVE'', 0),
      (''ACTIVE'', 1),
      (''SUSPENDED'', 2),
      (''DELETED'', 3)]"

type_synonym Address_AddressType = int32

definition Address_HOME :: Address_AddressType where
  [enum_defs]: "Address_HOME = 0"

definition Address_WORK :: Address_AddressType where
  [enum_defs]: "Address_WORK = 1"

definition Address_OTHER :: Address_AddressType where
  [enum_defs]: "Address_OTHER = 2"

definition Address_AddressType_name :: "(int32, string) fmap" where
  "Address_AddressType_name = fmap_of_list
     [(0, ''HOME''),
      (1, ''WORK''),
      (2, ''OTHER'')]"

definition Address_AddressType_value :: "(string, int32) fmap" where
  "Address_AddressType_value = fmap_of_list
     [(''HOME'', 0),
      (''WORK'', 1),
      (''OTHER'', 2)]"

type_synonym UserActivity_ActivityType = int32

definition UserActivity_LOGIN :: UserActivity_ActivityType where
  [enum_defs]: "UserActivity_LOGIN = 0"

definition UserActivity_LOGOUT :: UserActivity_ActivityType where
  [enum_defs]: "UserActivity_LOGOUT = 1"

definition UserActivity_UPDATE_PROFILE :: UserActivity_ActivityType where
  [enum_defs]: "UserActivity_UPDATE_PROFILE = 2"

definition UserActivity_VIEW_PAGE :: UserActivity_ActivityType where
  [enum_defs]: "UserActivity_VIEW_PAGE = 3"

definition UserActivity_CLICK_BUTTON :: UserActivity_ActivityType where
  [enum_defs]: "UserActivity_CLICK_BUTTON = 4"

definition UserActivity_ActivityType_name :: "(int32, string) fmap" where
  "UserActivity_ActivityType_name = fmap_of_list
     [(0, ''LOGIN''),
      (1, ''LOGOUT''),
      (2, ''UPDATE_PROFILE''),
      (3, ''VIEW_PAGE''),
      (4, ''CLICK_BUTTON'')]"

definition UserActivity_ActivityType_value :: "(string, int32) fmap" where
  "UserActivity_ActivityType_value = fmap_of_list
     [(''LOGIN'', 0),
      (''LOGOUT'', 1),
      (''UPDATE_PROFILE'', 2),
      (''VIEW_PAGE'', 3),
      (''CLICK_BUTTON'', 4)]"

type_synonym SyncUserResponse_SyncStatus = int32

definition SyncUserResponse_SUCCESS :: SyncUserResponse_SyncStatus where
  [enum_defs]: "SyncUserResponse_SUCCESS = 0"

definition SyncUserResponse_FAILED :: SyncUserResponse_SyncStatus where
  [enum_defs]: "SyncUserResponse_FAILED = 1"

definition SyncUserResponse_PARTIAL :: SyncUserResponse_SyncStatus where
  [enum_defs]: "SyncUserResponse_PARTIAL = 2"

definition SyncUserResponse_SyncStatus_name :: "(int32, string) fmap" where
  "SyncUserResponse_SyncStatus_name = fmap_of_list
     [(0, ''SUCCESS''),
      (1, ''FAILED''),
      (2, ''PARTIAL'')]"

definition SyncUserResponse_SyncStatus_value :: "(string, int32) fmap" where
  "SyncUserResponse_SyncStatus_value = fmap_of_list
     [(''SUCCESS'', 0),
      (''FAILED'', 1),
      (''PARTIAL'', 2)]"

text \<open>
  A name table and its value table are inverse to each other when looking a name up and
  looking the result up again gives the number back, and the other way round.
\<close>

definition inverse_tables :: "(int32, string) fmap \<Rightarrow> (string, int32) fmap \<Rightarrow> bool" where
  "inverse_tables names vals =
     (\<forall>i n. fmlookup names i = Some n \<longleftrightarrow> fmlookup vals n = Some i)"

section \<open>Messages\<close>

text \<open>The well-known types the messages refer to.\<close>

record Timestamp =
  seconds :: int
  nanos :: int

record Duration =
  d_seconds :: int
  d_nanos :: int

type_synonym FieldMask = "string list"

text \<open>
  The third-party functions the code calls: the text of a status error
  (\<open>status.Error(c, m).Error()\<close>), the printed form of an enumeration value
  (\<open>protoimpl.X.EnumStringOf\<close>, given the table of names), and the conversions of
  \<open>timestamppb\<close> and \<open>durationpb\<close>.
\<close>

record lib =
  status_text :: "code \<Rightarrow> string \<Rightarrow> string"
  EnumStringOf :: "(int32, string) fmap \<Rightarrow> int32 \<Rightarrow> string"
  AsTime :: "Timestamp option \<Rightarrow> time"
  timestamppb_New :: "time \<Rightarrow> Timestamp"
  AsDuration :: "Duration \<Rightarrow> duration"

text \<open>\<open>err.Error()\<close>: the text of an error.\<close>

fun error_Error :: "lib \<Rightarrow> error \<Rightarrow> string" where
  "error_Error L (Status c m) = status_text L c m"
| "error_Error L (Errorf m w) = m"
| "error_Error L EOF = ''EOF''"

definition Role_String :: "lib \<Rightarrow> Role \<Rightarrow> string" where
  "Role_String L x = EnumStringOf L Role_name x"

definition UserStatus_String :: "lib \<Rightarrow> UserStatus \<Rightarrow> string" where
  "UserStatus_String L x = EnumStringOf L UserStatus_name x"

definition Address_AddressType_String :: "lib \<Rightarrow> Address_AddressType \<Rightarrow> string" where
  "Address_AddressType_String L x = EnumStringOf L Address_AddressType_name x"

definition UserActivity_ActivityType_String :: "lib \<Rightarrow> UserActivity_ActivityType \<Rightarrow> string" where
  "UserActivity_ActivityType_String L x = EnumStringOf L UserActivity_ActivityType_name x"

definition SyncUserResponse_SyncStatus_String :: "lib \<Rightarrow> SyncUserResponse_SyncStatus \<Rightarrow> string" where
  "SyncUserResponse_SyncStatus_String L x = EnumStringOf L SyncUserResponse_SyncStatus_name x"

record Address =
  a_Type :: Address_AddressType
  a_Street :: string
  a_City :: string
  a_State :: string
  a_PostalCode :: string
  a_Country :: string
  a_IsPrimary :: bool

text \<open>\<open>Address{}\<close>, the message that \<open>Reset\<close> leaves behind.\<close>

definition Address_zero :: Address where
  "Address_zero = \<lparr>a_Type = Address_HOME,
     a_Street = '''',
     a_City = '''',
     a_State = '''',
     a_PostalCode = '''',
     a_Country = '''',
     a_IsPrimary = False\<rparr>"

record Profile =
  p_DisplayName :: string
  p_Bio :: string
  p_AvatarUrl :: string
  p_DateOfBirth :: "Timestamp option"
  p_Preferences :: "(string, int32) fmap option"

text \<open>\<open>Profile{}\<close>, the message that \<open>Reset\<close> leaves behind.\<close>

definition Profile_zero :: Profile where
  "Profile_zero = \<lparr>p_DisplayName = '''',
     p_Bio = '''',
     p_AvatarUrl = '''',
     p_DateOfBirth = None,
     p_Preferences = None\<rparr>"

record User =
  u_Id :: uint32
  u_Role :: Role
  u_CreateDate :: "Timestamp option"
  u_Username :: string
  u_Email :: string
  u_Phone :: string
  u_Profile :: "Profile option"
  u_Tags :: "string list option"
  u_Metadata :: "(string, string) fmap option"
  u_Status :: UserStatus
  u_LastLogin :: "Timestamp option"
  u_Addresses :: "Address option list option"

text \<open>\<open>User{}\<close>, the message that \<open>Reset\<close> leaves behind.\<close>

definition User_zero :: User where
  "User_zero = \<lparr>u_Id = 0,
     u_Role = Role_GUEST,
     u_CreateDate = None,
     u_Username = '''',
     u_Email = '''',
     u_Phone = '''',
     u_Profile = None,
     u_Tags = None,
     u_Metadata = None,
     u_Status = UserStatus_INACTIVE,
     u_LastLogin = None,
     u_Addresses = None\<rparr>"

record UserRole =
  ur_Role :: Role

text \<open>\<open>UserRole{}\<close>, the message that \<open>Reset\<close> leaves behind.\<close>

definition UserRole_zero :: UserRole where
  "UserRole_zero = \<lparr>ur_Role = Role_GUEST\<rparr>"

record UpdateUserRequest =
  uu_User :: "User option"
  uu_UpdateMask :: "FieldMask option"

text \<open>\<open>UpdateUserRequest{}\<close>, the message that \<open>Reset\<close> leaves behind.\<close>

definition UpdateUserRequest_zero :: UpdateUserRequest where
  "UpdateUserRequest_zero = \<lparr>uu_User = None,
     uu_UpdateMask = None\<rparr>"

record ListUsersRequest =
  lu_CreatedSince :: "Timestamp option"
  lu_OlderThan :: "Duration option"
  lu_Status :: UserStatus
  lu_PageSize :: int32
  lu_PageToken :: string

text \<open>\<open>ListUsersRequest{}\<close>, the message that \<open>Reset\<close> leaves behind.\<close>

definition ListUsersRequest_zero :: ListUsersRequest where
  "ListUsersRequest_zero = \<lparr>lu_CreatedSince = None,
     lu_OlderThan = None,
     lu_Status = UserStatus_INACTIVE,
     lu_PageSize = 0,
     lu_PageToken = ''''\<rparr>"

record GetUserRequest =
  gu_Id :: uint32

text \<open>\<open>GetUserRequest{}\<close>, the message that \<open>Reset\<close> leaves behind.\<close>

definition GetUserRequest_zero :: GetUserRequest where
  "GetUserRequest_zero = \<lparr>gu_Id = 0\<rparr>"

record DeleteUserRequest =
  du_Id :: uint32

text \<open>\<open>DeleteUserRequest{}\<close>, the message that \<open>Reset\<close> leaves behind.\<close>

definition DeleteUserRequest_zero :: DeleteUserRequest where
  "DeleteUserRequest_zero = \<lparr>du_Id = 0\<rparr>"

record BatchAddUsersResponse =
  ba_TotalReceived :: int32
  ba_TotalAdded :: int32
  ba_TotalFailed :: int32
  ba_Errors :: "string list"
  ba_ProcessedAt :: "Timestamp option"

text \<open>\<open>BatchAddUsersResponse{}\<close>, the message that \<open>Reset\<close> leaves behind.\<close>

definition BatchAddUsersResponse_zero :: BatchAddUsersResponse where
  "BatchAddUsersResponse_zero = \<lparr>ba_TotalReceived = 0,
     ba_TotalAdded = 0,
     ba_TotalFailed = 0,
     ba_Errors = [],
     ba_ProcessedAt = None\<rparr>"

record UserActivity =
  ac_UserId :: uint32
  ac_ActivityType :: UserActivity_ActivityType
  ac_Timestamp :: "Timestamp option"
  ac_Details :: "(string, string) fmap option"

text \<open>\<open>UserActivity{}\<close>, the message that \<open>Reset\<close> leaves behind.\<close>

definition UserActivity_zero :: UserActivity where
  "UserActivity_zero = \<lparr>ac_UserId = 0,
     ac_ActivityType = UserActivity_LOGIN,
     ac_Timestamp = None,
     ac_Details = None\<rparr>"

record UserActivityResponse =
  ar_UserId :: uint32
  ar_Acknowledged :: bool
  ar_Message :: string
  ar_ProcessedAt :: "Timestamp option"

text \<open>\<open>UserActivityResponse{}\<close>, the message that \<open>Reset\<close> leaves behind.\<close>

definition UserActivityResponse_zero :: UserActivityResponse where
  "UserActivityResponse_zero = \<lparr>ar_UserId = 0,
     ar_Acknowledged = False,
     ar_Message = '''',
     ar_ProcessedAt = None\<rparr>"

record SyncUserResponse =
  sy_UserId :: uint32
  sy_Status :: SyncUserResponse_SyncStatus
  sy_ErrorMessage :: string
  sy_UpdatedFields :: "string list"

text \<open>\<open>SyncUserResponse{}\<close>, the message that \<open>Reset\<close> leaves behind.\<close>

definition SyncUserResponse_zero :: SyncUserResponse where
  "SyncUserResponse_zero = \<lparr>sy_UserId = 0,
     sy_Status = SyncUserResponse_SUCCESS,
     sy_ErrorMessage = '''',
     sy_UpdatedFields = []\<rparr>"

subsection \<open>Getters of Address\<close>

definition Address_GetType :: "Address option \<Rightarrow> Address_AddressType" where
  "Address_GetType x = (case x of None \<Rightarrow> Address_HOME | Some v \<Rightarrow> a_Type v)"

definition Address_GetStreet :: "Address option \<Rightarrow> string" where
  "Address_GetStreet x = (case x of None \<Rightarrow> '''' | Some v \<Rightarrow> a_Street v)"

definition Address_GetCity :: "Address option \<Rightarrow> string" where
  "Address_GetCity x = (case x of None \<Rightarrow> '''' | Some v \<Rightarrow> a_City v)"

definition Address_GetState :: "Address option \<Rightarrow> string" where
  "Address_GetState x = (case x of None \<Rightarrow> '''' | Some v \<Rightarrow> a_State v)"

definition Address_GetPostalCode :: "Address option \<Rightarrow> string" where
  "Address_GetPostalCode x = (case x of None \<Rightarrow> '''' | Some v \<Rightarrow> a_PostalCode v)"

definition Address_GetCountry :: "Address option \<Rightarrow> string" where
  "Address_GetCountry x = (case x of None \<Rightarrow> '''' | Some v \<Rightarrow> a_Country v)"

definition Address_GetIsPrimary :: "Address option \<Rightarrow> bool" where
  "Address_GetIsPrimary x = (case x of None \<Rightarrow> False | Some v \<Rightarrow> a_IsPrimary v)"

subsection \<open>Getters of Profile\<close>

definition Profile_GetDisplayName :: "Profile option \<Rightarrow> string" where
  "Profile_GetDisplayName x = (case x of None \<Rightarrow> '''' | Some v \<Rightarrow> p_DisplayName v)"

definition Profile_GetBio :: "Profile option \<Rightarrow> string" where
  "Profile_GetBio x = (case x of None \<Rightarrow> '''' | Some v \<Rightarrow> p_Bio v)"

definition Profile_GetAvatarUrl :: "Profile option \<Rightarrow> string" where
  "Profile_GetAvatarUrl x = (case x of None \<Rightarrow> '''' | Some v \<Rightarrow> p_AvatarUrl v)"

definition Profile_GetDateOfBirth :: "Profile option \<Rightarrow> (Timestamp option)" where
  "Profile_GetDateOfBirth x = (case x of None \<Rightarrow> None | Some v \<Rightarrow> p_DateOfBirth v)"

definition Profile_GetPreferences :: "Profile option \<Rightarrow> ((string, int32) fmap option)" where
  "Profile_GetPreferences x = (case x of None \<Rightarrow> None | Some v \<Rightarrow> p_Preferences v)"

subsection \<open>Getters of User\<close>

definition User_GetId :: "User option \<Rightarrow> uint32" where
  "User_GetId x = (case x of None \<Rightarrow> 0 | Some v \<Rightarrow> u_Id v)"

definition User_GetRole :: "User option \<Rightarrow> Role" where
  "User_GetRole x = (case x of None \<Rightarrow> Role_GUEST | Some v \<Rightarrow> u_Role v)"

definition User_GetCreateDate :: "User option \<Rightarrow> (Timestamp option)" where
  "User_GetCreateDate x = (case x of None \<Rightarrow> None | Some v \<Rightarrow> u_CreateDate v)"

definition User_GetUsername :: "User option \<Rightarrow> string" where
  "User_GetUsername x = (case x of None \<Rightarrow> '''' | Some v \<Rightarrow> u_Username v)"

definition User_GetEmail :: "User option \<Rightarrow> string" where
  "User_GetEmail x = (case x of None \<Rightarrow> '''' | Some v \<Rightarrow> u_Email v)"

definition User_GetPhone :: "User option \<Rightarrow> string" where
  "User_GetPhone x = (case x of None \<Rightarrow> '''' | Some v \<Rightarrow> u_Phone v)"

definition User_GetProfile :: "User option \<Rightarrow> (Profile option)" where
  "User_GetProfile x = (case x of None \<Rightarrow> None | Some v \<Rightarrow> u_Profile v)"

definition User_GetTags :: "User option \<Rightarrow> (string list option)" where
  "User_GetTags x = (case x of None \<Rightarrow> None | Some v \<Rightarrow> u_Tags v)"

definition User_GetMetadata :: "User option \<Rightarrow> ((string, string) fmap option)" where
  "User_GetMetadata x = (case x of None \<Rightarrow> None | Some v \<Rightarrow> u_Metadata v)"

definition User_GetStatus :: "User option \<Rightarrow> UserStatus" where
  "User_GetStatus x = (case x of None \<Rightarrow> UserStatus_INACTIVE | Some v \<Rightarrow> u_Status v)"

definition User_GetLastLogin :: "User option \<Rightarrow> (Timestamp option)" where
  "User_GetLastLogin x = (case x of None \<Rightarrow> None | Some v \<Rightarrow> u_LastLogin v)"

definition User_GetAddresses :: "User option \<Rightarrow> (Address option list option)" where
  "User_GetAddresses x = (case x of None \<Rightarrow> None | Some v \<Rightarrow> u_Addresses v)"

subsection \<open>Getters of UserRole\<close>

definition UserRole_GetRole :: "UserRole option \<Rightarrow> Role" where
  "UserRole_GetRole x = (case x of None \<Rightarrow> Role_GUEST | Some v \<Rightarrow> ur_Role v)"

subsection \<open>Getters of UpdateUserRequest\<close>

definition UpdateUserRequest_GetUser :: "UpdateUserRequest option \<Rightarrow> (User option)" where
  "UpdateUserRequest_GetUser x = (case x of None \<Rightarrow> None | Some v \<Rightarrow> uu_User v)"

definition UpdateUserRequest_GetUpdateMask :: "UpdateUserRequest option \<Rightarrow> (FieldMask option)" where
  "UpdateUserRequest_GetUpdateMask x = (case x of None \<Rightarrow> None | Some v \<Rightarrow> uu_UpdateMask v)"

subsection \<open>Getters of ListUsersRequest\<close>

definition ListUsersRequest_GetCreatedSince :: "ListUsersRequest option \<Rightarrow> (Timestamp option)" where
  "ListUsersRequest_GetCreatedSince x = (case x of None \<Rightarrow> None | Some v \<Rightarrow> lu_CreatedSince v)"

definition ListUsersRequest_GetOlderThan :: "ListUsersRequest option \<Rightarrow> (Duration option)" where
  "ListUsersRequest_GetOlderThan x = (case x of None \<Rightarrow> None | Some v \<Rightarrow> lu_OlderThan v)"

definition ListUsersRequest_GetStatus :: "ListUsersRequest option \<Rightarrow> UserStatus" where
  "ListUsersRequest_GetStatus x = (case x of None \<Rightarrow> UserStatus_INACTIVE | Some v \<Rightarrow> lu_Status v)"

definition ListUsersRequest_GetPageSize :: "ListUsersRequest option \<Rightarrow> int32" where
  "ListUsersRequest_GetPageSize x = (case x of None \<Rightarrow> 0 | Some v \<Rightarrow> lu_PageSize v)"

definition ListUsersRequest_GetPageToken :: "ListUsersRequest option \<Rightarrow> string" where
  "ListUsersRequest_GetPageToken x = (case x of None \<Rightarrow> '''' | Some v \<Rightarrow> lu_PageToken v)"

subsection \<open>Getters of GetUserRequest\<close>

definition GetUserRequest_GetId :: "GetUserRequest option \<Rightarrow> uint32" where
  "GetUserRequest_GetId x = (case x of None \<Rightarrow> 0 | Some v \<Rightarrow> gu_Id v)"

subsection \<open>Getters of DeleteUserRequest\<close>

definition DeleteUserRequest_GetId :: "DeleteUserRequest option \<Rightarrow> uint32" where
  "DeleteUserRequest_GetId x = (case x of None \<Rightarrow> 0 | Some v \<Rightarrow> du_Id v)"

subsection \<open>Getters of BatchAddUsersResponse\<close>

definition BatchAddUsersResponse_GetTotalReceived :: "BatchAddUsersResponse option \<Rightarrow> int32" where
  "BatchAddUsersResponse_GetTotalReceived x = (case x of None \<Rightarrow> 0 | Some v \<Rightarrow> ba_TotalReceived v)"

definition BatchAddUsersResponse_GetTotalAdded :: "BatchAddUsersResponse option \<Rightarrow> int32" where
  "BatchAddUsersResponse_GetTotalAdded x = (case x of None \<Rightarrow> 0 | Some v \<Rightarrow> ba_TotalAdded v)"

definition BatchAddUsersResponse_GetTotalFailed :: "BatchAddUsersResponse option \<Rightarrow> int32" where
  "BatchAddUsersResponse_GetTotalFailed x = (case x of None \<Rightarrow> 0 | Some v \<Rightarrow> ba_TotalFailed v)"

definition BatchAddUsersResponse_GetErrors :: "BatchAddUsersResponse option \<Rightarrow> (string list)" where
  "BatchAddUsersResponse_GetErrors x = (case x of None \<Rightarrow> [] | Some v \<Rightarrow> ba_Errors v)"

definition BatchAddUsersResponse_GetProcessedAt :: "BatchAddUsersResponse option \<Rightarrow> (Timestamp option)" where
  "BatchAddUsersResponse_GetProcessedAt x = (case x of None \<Rightarrow> None | Some v \<Rightarrow> ba_ProcessedAt v)"

subsection \<open>Getters of UserActivity\<close>

definition UserActivity_GetUserId :: "UserActivity option \<Rightarrow> uint32" where
  "UserActivity_GetUserId x = (case x of None \<Rightarrow> 0 | Some v \<Rightarrow> ac_UserId v)"

definition UserActivity_GetActivityType :: "UserActivity option \<Rightarrow> UserActivity_ActivityType" where
  "UserActivity_GetActivityType x = (case x of None \<Rightarrow> UserActivity_LOGIN | Some v \<Rightarrow> ac_ActivityType v)"

definition UserActivity_GetTimestamp :: "UserActivity option \<Rightarrow> (Timestamp option)" where
  "UserActivity_GetTimestamp x = (case x of None \<Rightarrow> None | Some v \<Rightarrow> ac_Timestamp v)"

definition UserActivity_GetDetails :: "UserActivity option \<Rightarrow> ((string, string) fmap option)" where
  "UserActivity_GetDetails x = (case x of None \<Rightarrow> None | Some v \<Rightarrow> ac_Details v)"

subsection \<open>Getters of UserActivityResponse\<close>

definition UserActivityResponse_GetUserId :: "UserActivityResponse option \<Rightarrow> uint32" where
  "UserActivityResponse_GetUserId x = (case x of None \<Rightarrow> 0 | Some v \<Rightarrow> ar_UserId v)"

definition UserActivityResponse_GetAcknowledged :: "UserActivityResponse option \<Rightarrow> bool" where
  "UserActivityResponse_GetAcknowledged x = (case x of None \<Rightarrow> False | Some v \<Rightarrow> ar_Acknowledged v)"

definition UserActivityResponse_GetMessage :: "UserActivityResponse option \<Rightarrow> string" where
  "UserActivityResponse_GetMessage x = (case x of None \<Rightarrow> '''' | Some v \<Rightarrow> ar_Message v)"

definition UserActivityResponse_GetProcessedAt :: "UserActivityResponse option \<Rightarrow> (Timestamp option)" where
  "UserActivityResponse_GetProcessedAt x = (case x of None \<Rightarrow> None | Some v \<Rightarrow> ar_ProcessedAt v)"

subsection \<open>Getters of SyncUserResponse\<close>

definition SyncUserResponse_GetUserId :: "SyncUserResponse option \<Rightarrow> uint32" where
  "SyncUserResponse_GetUserId x = (case x of None \<Rightarrow> 0 | Some v \<Rightarrow> sy_UserId v)"

definition SyncUserResponse_GetStatus :: "SyncUserResponse option \<Rightarrow> SyncUserResponse_SyncStatus" where
  "SyncUserResponse_GetStatus x = (case x of None \<Rightarrow> SyncUserResponse_SUCCESS | Some v \<Rightarrow> sy_Status v)"

definition SyncUserResponse_GetErrorMessage :: "SyncUserResponse option \<Rightarrow> string" where
  "SyncUserResponse_GetErrorMessage x = (case x of None \<Rightarrow> '''' | Some v \<Rightarrow> sy_ErrorMessage v)"

definition SyncUserResponse_GetUpdatedFields :: "SyncUserResponse option \<Rightarrow> (string list)" where
  "SyncUserResponse_GetUpdatedFields x = (case x of None \<Rightarrow> [] | Some v \<Rightarrow> sy_UpdatedFields v)"

section \<open>Facts about the tables and getters\<close>

lemmas User_getters =
  User_GetId_def User_GetRole_def User_GetCreateDate_def User_GetUsername_def
  User_GetEmail_def User_GetPhone_def User_GetProfile_def User_GetTags_def
  User_GetMetadata_def User_GetStatus_def User_GetLastLogin_def User_GetAddresses_def

lemmas Profile_getters =
  Profile_GetDisplayName_def Profile_GetBio_def Profile_GetAvatarUrl_def
  Profile_GetDateOfBirth_def Profile_GetPreferences_def

lemma Role_tables: "inverse_tables Role_name Role_value"
  by (auto simp: inverse_tables_def Role_name_def Role_value_def fmap_of_list.rep_eq)

lemma UserStatus_tables: "inverse_tables UserStatus_name UserStatus_value"
  by (auto simp: inverse_tables_def UserStatus_name_def UserStatus_value_def
      fmap_of_list.rep_eq)

lemma Address_AddressType_tables:
  "inverse_tables Address_AddressType_name Address_AddressType_value"
  by (auto simp: inverse_tables_def Address_AddressType_name_def
      Address_AddressType_value_def fmap_of_list.rep_eq)

lemma UserActivity_ActivityType_tables:
  "inverse_tables UserActivity_ActivityType_name UserActivity_ActivityType_value"
  by (auto simp: inverse_tables_def UserActivity_ActivityType_name_def
      UserActivity_ActivityType_value_def fmap_of_list.rep_eq)

lemma SyncUserResponse_SyncStatus_tables:
  "inverse_tables SyncUserResponse_SyncStatus_name SyncUserResponse_SyncStatus_value"
  by (auto simp: inverse_tables_def SyncUserResponse_SyncStatus_name_def
      SyncUserResponse_SyncStatus_value_def fmap_of_list.rep_eq)

end
