(* ===== verification/Storage.thy ===== *)
theory Storage
  imports ProtoTypes
begin

text \<open>
  The interface of \<open>server/storage.go\<close>. A Go interface value is a table of methods: the
  record \<open>Storage\<close> holds one function per method, over a state \<open>'s\<close> of the backend, and
  the handlers of the server are written against it. The locales below state what a backend
  promises: \<open>user_store\<close> is what every backend keeps (its calls may fail, and a write that
  fails has left the table as it was or has done what it would have done otherwise: the answer
  of a database can be lost after the statement was executed), \<open>strict_store\<close> is what a
  backend promises that reports every missing or duplicate user with a status error, has no
  other failure, and changes nothing when it fails.
\<close>

section \<open>The interface\<close>

record ListFilter =
  f_CreatedSince :: "int option"
  f_OlderThan :: "int option"
  f_Status :: "UserStatus option"
  f_PageSize :: int32
  f_PageToken :: string

text \<open>
  \<open>AddUser\<close> takes the reading of the clock it may use, and returns the user as it leaves it
  behind, because the method writes defaults through the pointer it is given. Methods that
  only read return no state.
\<close>

record 's Storage =
  AddUser :: "time \<Rightarrow> User \<Rightarrow> 's \<Rightarrow> error option \<times> User \<times> 's"
  GetUser :: "uint32 \<Rightarrow> 's \<Rightarrow> error + User"
  UpdateUser :: "User \<Rightarrow> 's \<Rightarrow> error option \<times> 's"
  DeleteUser :: "uint32 \<Rightarrow> 's \<Rightarrow> error option \<times> 's"
  ListUsers :: "ListFilter option \<Rightarrow> 's \<Rightarrow> error + User list"
  ListUsersByRole :: "Role \<Rightarrow> 's \<Rightarrow> error + User list"
  UserExists :: "uint32 \<Rightarrow> 's \<Rightarrow> error + bool"
  Count :: "'s \<Rightarrow> error + int"

section \<open>The contract every backend keeps\<close>

text \<open>
  \<open>look s\<close> is the table of users that state \<open>s\<close> stands for; \<open>fill now u\<close> is \<open>u\<close> with the
  defaults \<open>AddUser\<close> writes into it, and \<open>keep old u\<close> is what the backend records of \<open>u\<close>
  when \<open>old\<close> is its entry before.
\<close>

locale user_store =
  fixes S :: "'s Storage"
    and inv :: "'s \<Rightarrow> bool"
    and look :: "'s \<Rightarrow> (uint32, User) fmap"
    and fill :: "time \<Rightarrow> User \<Rightarrow> User"
    and keep :: "User option \<Rightarrow> User \<Rightarrow> User"
  assumes fill_Id: "u_Id (fill now u) = u_Id u"
    and keep_Id: "u_Id (keep old u) = u_Id u"
    and look_Id: "inv s \<Longrightarrow> fmlookup (look s) i = Some u \<Longrightarrow> u_Id u = i"
    and add_inv: "inv s \<Longrightarrow> AddUser S now u s = (r, u', s') \<Longrightarrow> inv s'"
    and add_ok: "inv s \<Longrightarrow> AddUser S now u s = (None, u', s') \<Longrightarrow>
      u' = fill now u \<and>
      look s' = fmupd (u_Id u) (keep (fmlookup (look s) (u_Id u)) (fill now u)) (look s)"
    and add_err: "inv s \<Longrightarrow> AddUser S now u s = (Some e, u', s') \<Longrightarrow>
      look s' = look s \<or>
      look s' = fmupd (u_Id u) (keep (fmlookup (look s) (u_Id u)) (fill now u)) (look s)"
    and get_ok: "inv s \<Longrightarrow> GetUser S i s = Inr u \<Longrightarrow> fmlookup (look s) i = Some u"
    and upd_inv: "inv s \<Longrightarrow> UpdateUser S u s = (r, s') \<Longrightarrow> inv s'"
    and upd_ok: "inv s \<Longrightarrow> UpdateUser S u s = (None, s') \<Longrightarrow>
      fmlookup (look s) (u_Id u) \<noteq> None \<and>
      look s' = fmupd (u_Id u) (keep (fmlookup (look s) (u_Id u)) u) (look s)"
    and upd_err: "inv s \<Longrightarrow> UpdateUser S u s = (Some e, s') \<Longrightarrow>
      look s' = look s \<or> fmlookup (look s) (u_Id u) \<noteq> None \<and>
      look s' = fmupd (u_Id u) (keep (fmlookup (look s) (u_Id u)) u) (look s)"
    and del_inv: "inv s \<Longrightarrow> DeleteUser S i s = (r, s') \<Longrightarrow> inv s'"
    and del_ok: "inv s \<Longrightarrow> DeleteUser S i s = (None, s') \<Longrightarrow>
      fmlookup (look s) i \<noteq> None \<and> look s' = fmdrop i (look s)"
    and del_err: "inv s \<Longrightarrow> DeleteUser S i s = (Some e, s') \<Longrightarrow>
      look s' = look s \<or> fmlookup (look s) i \<noteq> None \<and> look s' = fmdrop i (look s)"
    and list_ok: "inv s \<Longrightarrow> ListUsers S f s = Inr us \<Longrightarrow> u \<in> set us \<Longrightarrow>
      fmlookup (look s) (u_Id u) = Some u"
    and role_ok: "inv s \<Longrightarrow> ListUsersByRole S ro s = Inr us \<Longrightarrow> u \<in> set us \<Longrightarrow>
      fmlookup (look s) (u_Id u) = Some u \<and> u_Role u = ro"
    and exists_ok: "inv s \<Longrightarrow> UserExists S i s = Inr b \<Longrightarrow>
      b \<longleftrightarrow> fmlookup (look s) i \<noteq> None"
    and count_ok: "inv s \<Longrightarrow> Count S s = Inr n \<Longrightarrow> n = int (fcard (fmdom (look s)))"

text \<open>
  The empty table is the only one that counts no user: the test on which the rule that the
  first user must be an administrator rests.
\<close>

lemma fmdom_empty_iff: "fmdom m = {||} \<longleftrightarrow> m = fmempty"
proof
  assume "fmdom m = {||}"
  then have "fmlookup m i = None" for i by (simp add: fmdom_notD)
  then show "m = fmempty" by (intro fmap_ext) simp
qed simp

lemma fcard_fmupd:
  "fcard (finsert k (fmdom m)) =
     (if fmlookup m k = None then Suc (fcard (fmdom m)) else fcard (fmdom m))"
proof (cases "fmlookup m k")
  case None
  then have "k |\<notin>| fmdom m" by (simp add: fmdom_notI)
  then show ?thesis using None by (simp add: fcard_finsert_disjoint)
next
  case (Some w)
  then have "k |\<in>| fmdom m" by (simp add: fmdomI)
  then show ?thesis using Some by (simp add: finsert_absorb)
qed

section \<open>The contract of a backend without other failures\<close>

text \<open>\<open>lister f T\<close> and \<open>by_role r T\<close> are what the two listing calls answer from the table \<open>T\<close>.\<close>

locale strict_store = user_store +
  fixes lister :: "ListFilter option \<Rightarrow> (uint32, User) fmap \<Rightarrow> User list"
    and by_role :: "Role \<Rightarrow> (uint32, User) fmap \<Rightarrow> User list"
  assumes add_total: "inv s \<Longrightarrow> fst (AddUser S now u s) =
      (if fmlookup (look s) (u_Id u) = None then None
       else Some (Status AlreadyExists ''user already exists''))"
    and get_total: "inv s \<Longrightarrow> GetUser S i s =
      (case fmlookup (look s) i of
         None \<Rightarrow> Inl (Status NotFound ''user not found'')
       | Some u \<Rightarrow> Inr u)"
    and upd_total: "inv s \<Longrightarrow> fst (UpdateUser S u s) =
      (if fmlookup (look s) (u_Id u) = None
       then Some (Status NotFound ''user not found'') else None)"
    and del_total: "inv s \<Longrightarrow> fst (DeleteUser S i s) =
      (if fmlookup (look s) i = None
       then Some (Status NotFound ''user not found'') else None)"
    and exists_total: "inv s \<Longrightarrow> UserExists S i s = Inr (fmlookup (look s) i \<noteq> None)"
    and count_total: "inv s \<Longrightarrow> Count S s = Inr (int (fcard (fmdom (look s))))"
    and list_total: "inv s \<Longrightarrow> ListUsers S f s = Inr (lister f (look s))"
    and role_total: "inv s \<Longrightarrow> ListUsersByRole S ro s = Inr (by_role ro (look s))"
    and add_kept: "inv s \<Longrightarrow> AddUser S now u s = (Some e, u', s') \<Longrightarrow> look s' = look s"
    and upd_kept: "inv s \<Longrightarrow> UpdateUser S u s = (Some e, s') \<Longrightarrow> look s' = look s"
    and del_kept: "inv s \<Longrightarrow> DeleteUser S i s = (Some e, s') \<Longrightarrow> look s' = look s"
begin

lemma add_new:
  assumes "inv s" and "fmlookup (look s) (u_Id u) = None"
  obtains s' where "AddUser S now u s = (None, fill now u, s')" and "inv s'"
    and "look s' = fmupd (u_Id u) (keep None (fill now u)) (look s)"
proof -
  obtain r u' s' where eq: "AddUser S now u s = (r, u', s')" by (cases "AddUser S now u s")
  with assms add_total [of s now u] have "r = None" by simp
  with eq assms add_ok [of s now u u' s'] add_inv [of s now u r u' s'] that show thesis
    by auto
qed

lemma upd_present:
  assumes "inv s" and "fmlookup (look s) (u_Id u) = Some old"
  obtains s' where "UpdateUser S u s = (None, s')" and "inv s'"
    and "look s' = fmupd (u_Id u) (keep (Some old) u) (look s)"
proof -
  obtain r s' where eq: "UpdateUser S u s = (r, s')" by (cases "UpdateUser S u s")
  with assms upd_total [of s u] have "r = None" by simp
  with eq assms upd_ok [of s u s'] upd_inv [of s u r s'] that show thesis
    by auto
qed

lemma del_present:
  assumes "inv s" and "fmlookup (look s) i = Some old"
  obtains s' where "DeleteUser S i s = (None, s')" and "inv s'"
    and "look s' = fmdrop i (look s)"
proof -
  obtain r s' where eq: "DeleteUser S i s = (r, s')" by (cases "DeleteUser S i s")
  with assms del_total [of s i] have "r = None" by simp
  with eq assms del_ok [of s i s'] del_inv [of s i r s'] that show thesis
    by auto
qed

end

end
