(* ===== verification/Server.thy ===== *)
theory Server
  imports Storage
begin

text \<open>
  \<open>server/server.go\<close>: the nine handlers of \<open>UserService\<close>, written against the interface
  record \<open>Storage\<close>. A unary handler returns an error or a response and the new state of the
  backend. A streaming handler reads a finite sequence of events: a message together with the
  reading of the clock while it is handled, or the error \<open>Recv\<close> returned; the end of the
  sequence is \<open>io.EOF\<close>. What \<open>stream.Send\<close> returns is chosen by the transport and is part of
  the input too.
\<close>

section \<open>Streams\<close>

datatype 'm recv = Msg time 'm | RecvErr error

section \<open>Unary handlers\<close>

definition Server_AddUser ::
    "'s Storage \<Rightarrow> time \<Rightarrow> User \<Rightarrow> 's \<Rightarrow> (error + unit) \<times> 's" where
  "Server_AddUser S now user s =
     (case Count S s of
        Inl _ \<Rightarrow> (Inl (Status Internal ''failed to check user count''), s)
      | Inr count \<Rightarrow>
          if count = 0 \<and> u_Role user \<noteq> Role_ADMIN
          then (Inl (Status InvalidArgument ''first user created must be an admin''), s)
          else if u_Id user = 0
          then (Inl (Status InvalidArgument ''user ID must be greater than 0''), s)
          else if u_Username user = ''''
          then (Inl (Status InvalidArgument ''username is required''), s)
          else case AddUser S now user s of
                 (Some err, _, s') \<Rightarrow> (Inl err, s')
               | (None, _, s') \<Rightarrow> (Inr (), s'))"

definition Server_GetUser :: "'s Storage \<Rightarrow> GetUserRequest \<Rightarrow> 's \<Rightarrow> (error + User) \<times> 's" where
  "Server_GetUser S req s =
     (if gu_Id req = 0
      then (Inl (Status InvalidArgument ''user ID must be greater than 0''), s)
      else case GetUser S (gu_Id req) s of
             Inl err \<Rightarrow> (Inl err, s)
           | Inr user \<Rightarrow> (Inr user, s))"

text \<open>
  One turn of the field mask loop: the check of \<open>id\<close> and the switch. \<open>user\<close> is the user of
  the request, \<open>existing\<close> the local copy that is being changed.
\<close>

definition apply_path :: "User \<Rightarrow> string \<Rightarrow> User \<Rightarrow> error + User" where
  "apply_path user path existing =
     (if path = ''id'' then Inl (Status InvalidArgument ''cannot update id field'')
      else if path = ''role'' then Inr (existing\<lparr>u_Role := u_Role user\<rparr>)
      else if path = ''username'' then Inr (existing\<lparr>u_Username := u_Username user\<rparr>)
      else if path = ''email'' then Inr (existing\<lparr>u_Email := u_Email user\<rparr>)
      else if path = ''phone'' then Inr (existing\<lparr>u_Phone := u_Phone user\<rparr>)
      else if path = ''profile'' then Inr (existing\<lparr>u_Profile := u_Profile user\<rparr>)
      else if path = ''tags'' then Inr (existing\<lparr>u_Tags := u_Tags user\<rparr>)
      else if path = ''metadata'' then Inr (existing\<lparr>u_Metadata := u_Metadata user\<rparr>)
      else if path = ''status'' then Inr (existing\<lparr>u_Status := u_Status user\<rparr>)
      else if path = ''last_login'' then Inr (existing\<lparr>u_LastLogin := u_LastLogin user\<rparr>)
      else if path = ''addresses'' then Inr (existing\<lparr>u_Addresses := u_Addresses user\<rparr>)
      else Inl (Status InvalidArgument (''invalid field path: '' @ path)))"

fun apply_mask :: "User \<Rightarrow> string list \<Rightarrow> User \<Rightarrow> error + User" where
  "apply_mask user [] existing = Inr existing"
| "apply_mask user (path # paths) existing =
     (case apply_path user path existing of
        Inl err \<Rightarrow> Inl err
      | Inr existing' \<Rightarrow> apply_mask user paths existing')"

text \<open>Without a mask every field but \<open>Id\<close> and \<open>CreateDate\<close> is taken over.\<close>

definition replace_fields :: "User \<Rightarrow> User \<Rightarrow> User" where
  "replace_fields user existing = existing\<lparr>
     u_Role := u_Role user,
     u_Username := u_Username user,
     u_Email := u_Email user,
     u_Phone := u_Phone user,
     u_Profile := u_Profile user,
     u_Tags := u_Tags user,
     u_Metadata := u_Metadata user,
     u_Status := u_Status user,
     u_LastLogin := u_LastLogin user,
     u_Addresses := u_Addresses user\<rparr>"

definition apply_update :: "User \<Rightarrow> FieldMask option \<Rightarrow> User \<Rightarrow> error + User" where
  "apply_update user upd_mask existing =
     (case upd_mask of
        None \<Rightarrow> Inr (replace_fields user existing)
      | Some paths \<Rightarrow> if length paths > 0 then apply_mask user paths existing
                      else Inr (replace_fields user existing))"

definition Server_UpdateUser ::
    "'s Storage \<Rightarrow> UpdateUserRequest \<Rightarrow> 's \<Rightarrow> (error + User) \<times> 's" where
  "Server_UpdateUser S req s =
     (case uu_User req of
        None \<Rightarrow> (Inl (Status InvalidArgument ''user is required''), s)
      | Some user \<Rightarrow>
          if u_Id user = 0
          then (Inl (Status InvalidArgument ''user ID must be greater than 0''), s)
          else case GetUser S (u_Id user) s of
                 Inl err \<Rightarrow> (Inl err, s)
               | Inr existing \<Rightarrow>
                   case apply_update user (uu_UpdateMask req) existing of
                     Inl err \<Rightarrow> (Inl err, s)
                   | Inr existing' \<Rightarrow>
                       case UpdateUser S existing' s of
                         (Some err, s') \<Rightarrow> (Inl err, s')
                       | (None, s') \<Rightarrow> (Inr existing', s'))"

definition Server_DeleteUser ::
    "'s Storage \<Rightarrow> DeleteUserRequest \<Rightarrow> 's \<Rightarrow> (error + unit) \<times> 's" where
  "Server_DeleteUser S req s =
     (if du_Id req = 0
      then (Inl (Status InvalidArgument ''user ID must be greater than 0''), s)
      else case DeleteUser S (du_Id req) s of
             (Some err, s') \<Rightarrow> (Inl err, s')
           | (None, s') \<Rightarrow> (Inr (), s'))"

section \<open>Server streaming\<close>

text \<open>
  The send loop: \<open>sends\<close> says what the transport returns for each message, \<open>None\<close> being
  success. It yields the messages sent and the error the handler returns.
\<close>

fun send_loop :: "(nat \<Rightarrow> error option) \<Rightarrow> nat \<Rightarrow> 'm list \<Rightarrow> 'm list \<times> error option" where
  "send_loop sends n [] = ([], None)"
| "send_loop sends n (m # ms) =
     (case sends n of
        Some err \<Rightarrow> ([], Some err)
      | None \<Rightarrow> (case send_loop sends (Suc n) ms of (sent, r) \<Rightarrow> (m # sent, r)))"

text \<open>
  The filter the handler builds from the request. \<open>time.Now()\<close> is read only when \<open>OlderThan\<close>
  is given.
\<close>

definition request_filter :: "lib \<Rightarrow> time \<Rightarrow> ListUsersRequest \<Rightarrow> ListFilter" where
  "request_filter L now req =
     \<lparr>f_CreatedSince = (case lu_CreatedSince req of None \<Rightarrow> None
        | Some t \<Rightarrow> Some (time_unix_seconds (AsTime L (Some t)))),
      f_OlderThan = (case lu_OlderThan req of None \<Rightarrow> None
        | Some d \<Rightarrow> Some (time_unix_seconds (now + duration_neg (AsDuration L d)))),
      f_Status = (if lu_Status req \<noteq> UserStatus_INACTIVE
                     \<or> ListUsersRequest_GetStatus (Some req) \<noteq> 0
                  then Some (lu_Status req) else None),
      f_PageSize = lu_PageSize req,
      f_PageToken = lu_PageToken req\<rparr>"

definition Server_ListUsers ::
    "lib \<Rightarrow> 's Storage \<Rightarrow> time \<Rightarrow> (nat \<Rightarrow> error option) \<Rightarrow> ListUsersRequest \<Rightarrow> 's
     \<Rightarrow> User list \<times> error option" where
  "Server_ListUsers L S now sends req s =
     (case ListUsers S (Some (request_filter L now req)) s of
        Inl err \<Rightarrow> ([], Some err)
      | Inr users \<Rightarrow>
          if length users = 0 then ([], Some (Status NotFound ''no users found''))
          else send_loop sends 0 users)"

definition Server_ListUsersByRole ::
    "lib \<Rightarrow> 's Storage \<Rightarrow> (nat \<Rightarrow> error option) \<Rightarrow> UserRole \<Rightarrow> 's
     \<Rightarrow> User list \<times> error option" where
  "Server_ListUsersByRole L S sends req s =
     (case ListUsersByRole S (ur_Role req) s of
        Inl err \<Rightarrow> ([], Some err)
      | Inr users \<Rightarrow>
          if length users = 0
          then ([], Some (Status NotFound
                 (''no users found with role '' @ Role_String L (ur_Role req))))
          else send_loop sends 0 users)"

section \<open>Client streaming\<close>

text \<open>The local variables of \<open>BatchAddUsers\<close>; the counters are \<open>int32\<close> and wrap.\<close>

record batch =
  totalReceived :: int32
  totalAdded :: int32
  totalFailed :: int32
  errors :: "string list"

definition batch_init :: batch where
  "batch_init = \<lparr>totalReceived = 0, totalAdded = 0, totalFailed = 0, errors = []\<rparr>"

definition batch_fail :: "batch \<Rightarrow> string \<Rightarrow> batch" where
  "batch_fail b why = b\<lparr>totalFailed := totalFailed b + 1,
     errors := errors b @ [''user '' @ dec_int (sint (totalReceived b)) @ '': '' @ why]\<rparr>"

text \<open>One turn of the loop on a received user.\<close>

definition batch_step ::
    "lib \<Rightarrow> 's Storage \<Rightarrow> time \<Rightarrow> User \<Rightarrow> batch \<times> 's \<Rightarrow> batch \<times> 's" where
  "batch_step L S now user bs =
     (let b = (fst bs)\<lparr>totalReceived := totalReceived (fst bs) + 1\<rparr>; s = snd bs
      in if u_Id user = 0 then (batch_fail b ''ID must be greater than 0'', s)
         else if u_Username user = '''' then (batch_fail b ''username is required'', s)
         else case AddUser S now user s of
                (Some err, _, s') \<Rightarrow> (batch_fail b (error_Error L err), s')
              | (None, _, s') \<Rightarrow> (b\<lparr>totalAdded := totalAdded b + 1\<rparr>, s'))"

definition batch_response :: "lib \<Rightarrow> time \<Rightarrow> batch \<Rightarrow> BatchAddUsersResponse" where
  "batch_response L now b = \<lparr>
     ba_TotalReceived = totalReceived b,
     ba_TotalAdded = totalAdded b,
     ba_TotalFailed = totalFailed b,
     ba_Errors = errors b,
     ba_ProcessedAt = Some (timestamppb_New L now)\<rparr>"

text \<open>
  The whole handler: the response handed to \<open>SendAndClose\<close>, if the loop gets there, what the
  handler returns (\<open>close\<close> is the result of \<open>SendAndClose\<close>), and the state of the backend.
\<close>

fun batch_loop ::
    "lib \<Rightarrow> 's Storage \<Rightarrow> time \<Rightarrow> error option \<Rightarrow> User recv list \<Rightarrow> batch \<times> 's
     \<Rightarrow> BatchAddUsersResponse option \<times> error option \<times> 's" where
  "batch_loop L S now close [] bs = (Some (batch_response L now (fst bs)), close, snd bs)"
| "batch_loop L S now close (RecvErr err # evs) bs = (None, Some err, snd bs)"
| "batch_loop L S now close (Msg t user # evs) bs =
     batch_loop L S now close evs (batch_step L S t user bs)"

definition Server_BatchAddUsers ::
    "lib \<Rightarrow> 's Storage \<Rightarrow> time \<Rightarrow> error option \<Rightarrow> User recv list \<Rightarrow> 's
     \<Rightarrow> BatchAddUsersResponse option \<times> error option \<times> 's" where
  "Server_BatchAddUsers L S now close evs s = batch_loop L S now close evs (batch_init, s)"

section \<open>Bidirectional streaming\<close>

text \<open>
  One turn of \<open>UserActivityStream\<close> up to the send: the response, or the error that ends the
  handler. A failing update of the last login is only logged.
\<close>

definition activity_step ::
    "lib \<Rightarrow> 's Storage \<Rightarrow> time \<Rightarrow> UserActivity \<Rightarrow> 's \<Rightarrow> (error + UserActivityResponse) \<times> 's" where
  "activity_step L S now activity s =
     (case UserExists S (ac_UserId activity) s of
        Inl err \<Rightarrow> (Inl err, s)
      | Inr exists \<Rightarrow>
          let response = \<lparr>ar_UserId = ac_UserId activity, ar_Acknowledged = exists,
                ar_Message = [], ar_ProcessedAt = Some (timestamppb_New L now)\<rparr>;
              uid = dec (unat (ac_UserId activity))
          in if \<not> exists
             then (Inr (response\<lparr>ar_Message := ''User '' @ uid @ '' not found''\<rparr>), s)
             else
               (Inr (response\<lparr>ar_Message := ''Activity ''
                       @ UserActivity_ActivityType_String L (ac_ActivityType activity)
                       @ '' recorded for user '' @ uid\<rparr>),
                if ac_ActivityType activity = UserActivity_LOGIN
                then case GetUser S (ac_UserId activity) s of
                       Inl _ \<Rightarrow> s
                     | Inr user \<Rightarrow>
                         snd (UpdateUser S (user\<lparr>u_LastLogin := ac_Timestamp activity\<rparr>) s)
                else s))"

fun activity_loop ::
    "lib \<Rightarrow> 's Storage \<Rightarrow> (UserActivity recv \<times> error option) list \<Rightarrow> 's
     \<Rightarrow> UserActivityResponse list \<times> error option \<times> 's" where
  "activity_loop L S [] s = ([], None, s)"
| "activity_loop L S ((RecvErr err, _) # evs) s = ([], Some err, s)"
| "activity_loop L S ((Msg now activity, send) # evs) s =
     (case activity_step L S now activity s of
        (Inl err, s') \<Rightarrow> ([], Some err, s')
      | (Inr response, s') \<Rightarrow>
          (case send of
             Some err \<Rightarrow> ([], Some err, s')
           | None \<Rightarrow> (case activity_loop L S evs s' of
                        (sent, r, s'') \<Rightarrow> (response # sent, r, s''))))"

text \<open>One turn of \<open>SyncUsers\<close> up to the send: always a response.\<close>

definition sync_step ::
    "lib \<Rightarrow> 's Storage \<Rightarrow> time \<Rightarrow> User \<Rightarrow> 's \<Rightarrow> SyncUserResponse \<times> 's" where
  "sync_step L S now user s =
     (let response = SyncUserResponse_zero\<lparr>sy_UserId := u_Id user\<rparr>;
          failed = (\<lambda>msg. response\<lparr>sy_Status := SyncUserResponse_FAILED, sy_ErrorMessage := msg\<rparr>);
          success = (\<lambda>fields. response\<lparr>sy_Status := SyncUserResponse_SUCCESS,
                       sy_UpdatedFields := fields\<rparr>)
      in if u_Id user = 0 then (failed ''user ID must be greater than 0'', s)
         else case UserExists S (u_Id user) s of
                Inl err \<Rightarrow> (failed (error_Error L err), s)
              | Inr exists \<Rightarrow>
                  if exists
                  then (case UpdateUser S user s of
                          (Some err, s') \<Rightarrow> (failed (error_Error L err), s')
                        | (None, s') \<Rightarrow>
                            (success [''role'', ''username'', ''profile'', ''status''], s'))
                  else (case AddUser S now user s of
                          (Some err, _, s') \<Rightarrow> (failed (error_Error L err), s')
                        | (None, _, s') \<Rightarrow> (success [''created''], s')))"

fun sync_loop ::
    "lib \<Rightarrow> 's Storage \<Rightarrow> (User recv \<times> error option) list \<Rightarrow> 's
     \<Rightarrow> SyncUserResponse list \<times> error option \<times> 's" where
  "sync_loop L S [] s = ([], None, s)"
| "sync_loop L S ((RecvErr err, _) # evs) s = ([], Some err, s)"
| "sync_loop L S ((Msg now user, send) # evs) s =
     (case sync_step L S now user s of
        (response, s') \<Rightarrow>
          (case send of
             Some err \<Rightarrow> ([], Some err, s')
           | None \<Rightarrow> (case sync_loop L S evs s' of
                        (sent, r, s'') \<Rightarrow> (response # sent, r, s''))))"

section \<open>The field mask\<close>

text \<open>
  The paths the switch accepts, and what a mask is meant to do: every field it names is taken
  from the request, every other field stays, whatever the order and number of the paths.
\<close>

definition mask_paths :: "string list" where
  "mask_paths = [''role'', ''username'', ''email'', ''phone'', ''profile'', ''tags'',
     ''metadata'', ''status'', ''last_login'', ''addresses'']"

definition pick :: "string set \<Rightarrow> string \<Rightarrow> 'a \<Rightarrow> 'a \<Rightarrow> 'a" where
  "pick P name new old = (if name \<in> P then new else old)"

definition masked :: "string set \<Rightarrow> User \<Rightarrow> User \<Rightarrow> User" where
  "masked P user existing = existing\<lparr>
     u_Role := pick P ''role'' (u_Role user) (u_Role existing),
     u_Username := pick P ''username'' (u_Username user) (u_Username existing),
     u_Email := pick P ''email'' (u_Email user) (u_Email existing),
     u_Phone := pick P ''phone'' (u_Phone user) (u_Phone existing),
     u_Profile := pick P ''profile'' (u_Profile user) (u_Profile existing),
     u_Tags := pick P ''tags'' (u_Tags user) (u_Tags existing),
     u_Metadata := pick P ''metadata'' (u_Metadata user) (u_Metadata existing),
     u_Status := pick P ''status'' (u_Status user) (u_Status existing),
     u_LastLogin := pick P ''last_login'' (u_LastLogin user) (u_LastLogin existing),
     u_Addresses := pick P ''addresses'' (u_Addresses user) (u_Addresses existing)\<rparr>"

definition path_error :: "string \<Rightarrow> error" where
  "path_error path = Status InvalidArgument
     (if path = ''id'' then ''cannot update id field'' else ''invalid field path: '' @ path)"

lemma pick_insert: "pick (insert p P) n new old = (if n = p then new else pick P n new old)"
  by (simp add: pick_def)

lemma apply_path_bad: "path \<notin> set mask_paths \<Longrightarrow> apply_path user path ex = Inl (path_error path)"
  by (simp add: mask_paths_def apply_path_def path_error_def)

lemma apply_path_good: "path \<in> set mask_paths \<Longrightarrow> apply_path user path ex = Inr (masked {path} user ex)"
  by (auto simp: mask_paths_def apply_path_def masked_def pick_def)

lemma masked_empty [simp]: "masked {} user ex = ex"
  by (simp add: masked_def pick_def)

lemma masked_masked: "masked P user (masked Q user ex) = masked (P \<union> Q) user ex"
  by (simp add: masked_def pick_def)

lemma masked_keeps [simp]:
  "u_Id (masked P user ex) = u_Id ex"
  "u_CreateDate (masked P user ex) = u_CreateDate ex"
  by (simp_all add: masked_def)

lemma masked_all: "masked (set mask_paths) user ex = replace_fields user ex"
  by (simp add: masked_def replace_fields_def pick_def mask_paths_def)

lemma apply_mask_good:
  "set paths \<subseteq> set mask_paths \<Longrightarrow> apply_mask user paths ex = Inr (masked (set paths) user ex)"
  by (induction user paths ex rule: apply_mask.induct)
    (auto simp: apply_path_good masked_masked)

text \<open>The first path that is not accepted decides the error.\<close>

lemma apply_mask_bad:
  "\<not> set paths \<subseteq> set mask_paths \<Longrightarrow>
   apply_mask user paths ex = Inl (path_error (hd (dropWhile (\<lambda>p. p \<in> set mask_paths) paths)))"
proof (induction user paths ex rule: apply_mask.induct)
  case (2 user path paths ex)
  then show ?case
    by (cases "path \<in> set mask_paths") (auto simp: apply_path_good apply_path_bad)
qed simp

lemma apply_update_ok:
  "apply_update user upd ex = Inr ex' \<Longrightarrow>
   ex' = masked (case upd of None \<Rightarrow> set mask_paths
     | Some ps \<Rightarrow> if ps = [] then set mask_paths else set ps) user ex"
  by (cases "set (the upd) \<subseteq> set mask_paths")
    (auto simp: apply_update_def masked_all apply_mask_good apply_mask_bad
      split: option.splits if_splits)

section \<open>The send loop\<close>

lemma send_loop_prefix: "send_loop sends n ms = (sent, r) \<Longrightarrow> \<exists>rest. ms = sent @ rest"
  by (induction sends n ms arbitrary: sent r rule: send_loop.induct)
    (auto split: option.splits prod.splits)

lemma send_loop_ok: "send_loop sends n ms = (sent, None) \<Longrightarrow> sent = ms"
  by (induction sends n ms arbitrary: sent rule: send_loop.induct)
    (auto split: option.splits prod.splits)

lemma send_loop_all: "(\<And>i. sends i = None) \<Longrightarrow> send_loop sends n ms = (ms, None)"
  by (induction sends n ms rule: send_loop.induct) auto

lemma send_loop_cut:
  "send_loop sends n ms = (sent, r) \<Longrightarrow>
   \<exists>rest. ms = sent @ rest \<and> (\<forall>k < length sent. sends (n + k) = None) \<and>
     r = (if rest = [] then None else sends (n + length sent)) \<and> (rest \<noteq> [] \<longrightarrow> r \<noteq> None)"
proof (induction sends n ms arbitrary: sent r rule: send_loop.induct)
  case (2 sends n m ms)
  show ?case
  proof (cases "sends n")
    case None
    obtain sent' r' where eq: "send_loop sends (Suc n) ms = (sent', r')"
      by (cases "send_loop sends (Suc n) ms")
    from 2(1) [OF None eq] obtain rest where "ms = sent' @ rest"
      "\<forall>k < length sent'. sends (Suc n + k) = None"
      "r' = (if rest = [] then None else sends (Suc n + length sent'))" "rest \<noteq> [] \<longrightarrow> r' \<noteq> None"
      by blast
    then show ?thesis
      using 2(2) None eq by (intro exI [of _ rest]) (auto simp: less_Suc_eq_0_disj)
  next
    case (Some e)
    with 2(2) have "sent = []" "r = Some e" by auto
    with Some show ?thesis by simp
  qed
qed simp

section \<open>What the handlers do on any backend\<close>

text \<open>
  The counters of \<open>BatchAddUsers\<close> after \<open>n\<close> received users, of which \<open>a\<close> were added and
  \<open>f\<close> were refused.
\<close>

definition batch_counts :: "nat \<Rightarrow> nat \<Rightarrow> nat \<Rightarrow> batch \<Rightarrow> bool" where
  "batch_counts n a f b \<longleftrightarrow> totalReceived b = of_nat n \<and> totalAdded b = of_nat a \<and>
     totalFailed b = of_nat f \<and> length (errors b) = f \<and> a + f = n"

lemma batch_counts_init [simp]: "batch_counts 0 0 0 batch_init"
  by (simp add: batch_counts_def batch_init_def)

lemma batch_counts_fail:
  "batch_counts n a f b \<Longrightarrow>
   batch_counts (Suc n) a (Suc f) (batch_fail (b\<lparr>totalReceived := totalReceived b + 1\<rparr>) why)"
  by (simp add: batch_counts_def batch_fail_def add.commute)

lemma batch_counts_added:
  "batch_counts n a f b \<Longrightarrow>
   batch_counts (Suc n) (Suc a) f
     (b\<lparr>totalReceived := totalReceived b + 1, totalAdded := totalAdded b + 1\<rparr>)"
  by (simp add: batch_counts_def add.commute)

text \<open>A stream of users that ends with \<open>io.EOF\<close>, and what the loop does with it.\<close>

definition messages :: "(time \<times> 'm) list \<Rightarrow> 'm recv list" where
  "messages tus = map (\<lambda>(t, u). Msg t u) tus"

fun batch_run ::
    "lib \<Rightarrow> 's Storage \<Rightarrow> (time \<times> User) list \<Rightarrow> batch \<times> 's \<Rightarrow> batch \<times> 's" where
  "batch_run L S [] bs = bs"
| "batch_run L S ((t, u) # tus) bs = batch_run L S tus (batch_step L S t u bs)"

lemma messages_simps [simp]:
  "messages [] = []" "messages ((t, u) # tus) = Msg t u # messages tus"
  by (simp_all add: messages_def)

lemma batch_loop_messages:
  "batch_loop L S now close (messages tus) bs =
     (let bs' = batch_run L S tus bs
      in (Some (batch_response L now (fst bs')), close, snd bs'))"
  by (induction L S tus bs rule: batch_run.induct) (auto simp: Let_def)

section \<open>One call, any call\<close>

text \<open>
  The effect of one RPC on the backend, whatever it returns: the service as a state machine.
  The two listing calls only read.
\<close>

datatype rpc =
    CallAddUser time User
  | CallGetUser GetUserRequest
  | CallUpdateUser UpdateUserRequest
  | CallDeleteUser DeleteUserRequest
  | CallListUsers ListUsersRequest
  | CallListUsersByRole UserRole
  | CallBatchAddUsers time "error option" "User recv list"
  | CallUserActivityStream "(UserActivity recv \<times> error option) list"
  | CallSyncUsers "(User recv \<times> error option) list"

fun serve :: "lib \<Rightarrow> 's Storage \<Rightarrow> rpc \<Rightarrow> 's \<Rightarrow> 's" where
  "serve L S (CallAddUser now user) s = snd (Server_AddUser S now user s)"
| "serve L S (CallGetUser req) s = snd (Server_GetUser S req s)"
| "serve L S (CallUpdateUser req) s = snd (Server_UpdateUser S req s)"
| "serve L S (CallDeleteUser req) s = snd (Server_DeleteUser S req s)"
| "serve L S (CallListUsers req) s = s"
| "serve L S (CallListUsersByRole req) s = s"
| "serve L S (CallBatchAddUsers now close evs) s =
     snd (snd (Server_BatchAddUsers L S now close evs s))"
| "serve L S (CallUserActivityStream evs) s = snd (snd (activity_loop L S evs s))"
| "serve L S (CallSyncUsers evs) s = snd (snd (sync_loop L S evs s))"

inductive service_step :: "lib \<Rightarrow> 's Storage \<Rightarrow> 's \<Rightarrow> 's \<Rightarrow> bool" for L S where
  call: "s' = serve L S c s \<Longrightarrow> service_step L S s s'"

inductive service_reachable :: "lib \<Rightarrow> 's Storage \<Rightarrow> 's \<Rightarrow> 's \<Rightarrow> bool" for L S s0 where
  start: "service_reachable L S s0 s0"
| more: "service_reachable L S s0 s \<Longrightarrow> service_step L S s s' \<Longrightarrow> service_reachable L S s0 s'"

inductive_simps service_step_iff: "service_step L S s s'"

section \<open>The handlers over any backend that keeps the contract\<close>

context user_store begin

lemma serve_add_ok:
  assumes "inv s" and "Server_AddUser S now u s = (Inr (), s')"
  shows "inv s'" and "u_Id u \<noteq> 0" and "u_Username u \<noteq> []"
    and "look s = fmempty \<Longrightarrow> u_Role u = Role_ADMIN"
    and "look s' = fmupd (u_Id u) (keep (fmlookup (look s) (u_Id u)) (fill now u)) (look s)"
proof -
  obtain n where n: "Count S s = Inr n"
    using assms by (auto simp: Server_AddUser_def split: sum.splits)
  then have n_eq: "n = int (fcard (fmdom (look s)))"
    using assms(1) count_ok by blast
  obtain r u' s'' where eq: "AddUser S now u s = (r, u', s'')" by (cases "AddUser S now u s")
  have *: "\<not> (n = 0 \<and> u_Role u \<noteq> Role_ADMIN) \<and> u_Id u \<noteq> 0 \<and> u_Username u \<noteq> [] \<and> r = None \<and> s'' = s'"
    using assms(2) n eq by (auto simp: Server_AddUser_def split: if_splits option.splits)
  then show "u_Id u \<noteq> 0" "u_Username u \<noteq> []"
    "look s = fmempty \<Longrightarrow> u_Role u = Role_ADMIN"
    using n_eq by auto
  show "inv s'" using * eq assms(1) add_inv by blast
  show "look s' = fmupd (u_Id u) (keep (fmlookup (look s) (u_Id u)) (fill now u)) (look s)"
    using * eq assms(1) add_ok by blast
qed

lemma serve_add_err:
  assumes "inv s" and "Server_AddUser S now u s = (Inl e, s')"
  shows "inv s'" and "look s' = look s \<or> u_Id u \<noteq> 0 \<and> u_Username u \<noteq> [] \<and>
      (look s = fmempty \<longrightarrow> u_Role u = Role_ADMIN) \<and>
      look s' = fmupd (u_Id u) (keep (fmlookup (look s) (u_Id u)) (fill now u)) (look s)"
proof -
  obtain r u' s'' where eq: "AddUser S now u s = (r, u', s'')" by (cases "AddUser S now u s")
  have "s' = s \<or> s' = s'' \<and> r \<noteq> None \<and> u_Id u \<noteq> 0 \<and> u_Username u \<noteq> [] \<and>
      (\<exists>n. Count S s = Inr n \<and> \<not> (n = 0 \<and> u_Role u \<noteq> Role_ADMIN))"
    using assms(2) eq by (auto simp: Server_AddUser_def split: if_splits option.splits sum.splits)
  then consider "s' = s" | e' n where "s' = s''" "r = Some e'" "u_Id u \<noteq> 0" "u_Username u \<noteq> []"
      "Count S s = Inr n" "\<not> (n = 0 \<and> u_Role u \<noteq> Role_ADMIN)" by blast
  then have "inv s' \<and> (look s' = look s \<or> u_Id u \<noteq> 0 \<and> u_Username u \<noteq> [] \<and>
      (look s = fmempty \<longrightarrow> u_Role u = Role_ADMIN) \<and>
      look s' = fmupd (u_Id u) (keep (fmlookup (look s) (u_Id u)) (fill now u)) (look s))"
  proof cases
    case 2
    have "n = int (fcard (fmdom (look s)))" using count_ok [OF assms(1) 2(5)] .
    with 2(6) have "look s = fmempty \<longrightarrow> u_Role u = Role_ADMIN" by auto
    moreover have a: "AddUser S now u s = (Some e', u', s')" using eq 2 by simp
    ultimately show ?thesis using add_err [OF assms(1) a] add_inv [OF assms(1) a] 2 by blast
  qed (use assms(1) in simp)
  then show "inv s'" "look s' = look s \<or> u_Id u \<noteq> 0 \<and> u_Username u \<noteq> [] \<and>
      (look s = fmempty \<longrightarrow> u_Role u = Role_ADMIN) \<and>
      look s' = fmupd (u_Id u) (keep (fmlookup (look s) (u_Id u)) (fill now u)) (look s)" by blast+
qed

lemma serve_get_ok:
  assumes "inv s" and "Server_GetUser S req s = (Inr u, s')"
  shows "s' = s" and "gu_Id req \<noteq> 0" and "fmlookup (look s) (gu_Id req) = Some u"
  using assms get_ok by (auto simp: Server_GetUser_def split: if_splits sum.splits)

lemma serve_get_state: "snd (Server_GetUser S req s) = s"
  by (auto simp: Server_GetUser_def split: sum.splits)

lemma serve_update_ok:
  assumes "inv s" and "Server_UpdateUser S req s = (Inr u', s')"
  obtains user old where "uu_User req = Some user" and "u_Id user \<noteq> 0"
    and "fmlookup (look s) (u_Id user) = Some old"
    and "apply_update user (uu_UpdateMask req) old = Inr u'"
    and "u_Id u' = u_Id user" and "u_CreateDate u' = u_CreateDate old"
    and "inv s'" and "look s' = fmupd (u_Id user) (keep (Some old) u') (look s)"
proof -
  from assms(2) obtain user old where u: "uu_User req = Some user" "u_Id user \<noteq> 0"
    and g: "GetUser S (u_Id user) s = Inr old"
    and a: "apply_update user (uu_UpdateMask req) old = Inr u'"
    and w: "UpdateUser S u' s = (None, s')"
    by (auto simp: Server_UpdateUser_def split: option.splits if_splits sum.splits prod.splits)
  from g assms(1) have old: "fmlookup (look s) (u_Id user) = Some old" by (blast intro: get_ok)
  then have "u_Id old = u_Id user" using assms(1) by (blast intro: look_Id)
  with apply_update_ok [OF a] have id: "u_Id u' = u_Id user" "u_CreateDate u' = u_CreateDate old"
    by simp_all
  from upd_ok [OF assms(1) w] id old
  have "look s' = fmupd (u_Id user) (keep (Some old) u') (look s)" by simp
  with that u old a id upd_inv [OF assms(1) w] show thesis by blast
qed

lemma serve_update_err:
  assumes "inv s" and "Server_UpdateUser S req s = (Inl e, s')"
  shows "inv s'" and "look s' = look s \<or> (\<exists>user old u'. uu_User req = Some user \<and> u_Id user \<noteq> 0 \<and>
      fmlookup (look s) (u_Id user) = Some old \<and> apply_update user (uu_UpdateMask req) old = Inr u' \<and>
      look s' = fmupd (u_Id user) (keep (Some old) u') (look s))"
proof -
  have "s' = s \<or> (\<exists>user old u' e'. uu_User req = Some user \<and> u_Id user \<noteq> 0 \<and>
      GetUser S (u_Id user) s = Inr old \<and> apply_update user (uu_UpdateMask req) old = Inr u' \<and>
      UpdateUser S u' s = (Some e', s'))"
    using assms(2)
    by (auto simp: Server_UpdateUser_def split: option.splits if_splits sum.splits prod.splits)
  then consider "s' = s" | user old u' e' where "uu_User req = Some user" "u_Id user \<noteq> 0"
      "GetUser S (u_Id user) s = Inr old" "apply_update user (uu_UpdateMask req) old = Inr u'"
      "UpdateUser S u' s = (Some e', s')" by blast
  then have "inv s' \<and> (look s' = look s \<or> (\<exists>user old u'. uu_User req = Some user \<and> u_Id user \<noteq> 0 \<and>
      fmlookup (look s) (u_Id user) = Some old \<and> apply_update user (uu_UpdateMask req) old = Inr u' \<and>
      look s' = fmupd (u_Id user) (keep (Some old) u') (look s)))"
  proof cases
    case 2
    have old: "fmlookup (look s) (u_Id user) = Some old" by (rule get_ok [OF assms(1) 2(3)])
    then have "u_Id u' = u_Id user" using look_Id [OF assms(1)] apply_update_ok [OF 2(4)] by simp
    then have "look s' = look s \<or> look s' = fmupd (u_Id user) (keep (Some old) u') (look s)"
      using upd_err [OF assms(1) 2(5)] old by simp
    then show ?thesis using upd_inv [OF assms(1) 2(5)] 2(1,2,4) old by blast
  qed (use assms(1) in simp)
  then show "inv s'" "look s' = look s \<or> (\<exists>user old u'. uu_User req = Some user \<and> u_Id user \<noteq> 0 \<and>
      fmlookup (look s) (u_Id user) = Some old \<and> apply_update user (uu_UpdateMask req) old = Inr u' \<and>
      look s' = fmupd (u_Id user) (keep (Some old) u') (look s))" by blast+
qed

lemma serve_delete_ok:
  assumes "inv s" and "Server_DeleteUser S req s = (Inr (), s')"
  shows "inv s'" and "fmlookup (look s) (du_Id req) \<noteq> None" and "look s' = fmdrop (du_Id req) (look s)"
  using assms del_inv del_ok
  by (auto simp: Server_DeleteUser_def split: if_splits option.splits prod.splits)

lemma serve_delete_err:
  assumes "inv s" and "Server_DeleteUser S req s = (Inl e, s')"
  shows "inv s'" and "look s' = look s \<or>
      fmlookup (look s) (du_Id req) \<noteq> None \<and> look s' = fmdrop (du_Id req) (look s)"
  using assms del_inv del_err
  by (auto simp: Server_DeleteUser_def split: if_splits option.splits prod.splits)

lemma batch_step_state:
  assumes "inv s" and "batch_step L S t u (b, s) = (b', s')"
  shows "inv s'" and "look s' = look s \<or> u_Id u \<noteq> 0 \<and> u_Username u \<noteq> [] \<and>
      look s' = fmupd (u_Id u) (keep (fmlookup (look s) (u_Id u)) (fill t u)) (look s)"
proof -
  obtain r u' s'' where eq: "AddUser S t u s = (r, u', s'')" by (cases "AddUser S t u s")
  have "s' = s \<or> u_Id u \<noteq> 0 \<and> u_Username u \<noteq> [] \<and> s' = s''"
    using assms(2) eq by (auto simp: batch_step_def Let_def split: if_splits option.splits)
  moreover have "inv s''" using assms(1) eq by (blast intro: add_inv)
  moreover have "look s'' = look s \<or>
      look s'' = fmupd (u_Id u) (keep (fmlookup (look s) (u_Id u)) (fill t u)) (look s)"
    using eq assms(1) add_ok add_err by (cases r) blast+
  ultimately show "inv s'" "look s' = look s \<or> u_Id u \<noteq> 0 \<and> u_Username u \<noteq> [] \<and>
      look s' = fmupd (u_Id u) (keep (fmlookup (look s) (u_Id u)) (fill t u)) (look s)"
    using assms(1) by auto
qed

lemma activity_step_state:
  assumes "inv s" and "activity_step L S now a s = (r, s')"
  shows "inv s'" and "look s' = look s \<or> ac_ActivityType a = UserActivity_LOGIN \<and>
      (\<exists>u. fmlookup (look s) (ac_UserId a) = Some u \<and>
        look s' = fmupd (ac_UserId a) (keep (Some u) (u\<lparr>u_LastLogin := ac_Timestamp a\<rparr>)) (look s))"
proof -
  have "s' = s \<or> ac_ActivityType a = UserActivity_LOGIN \<and>
      (\<exists>u. GetUser S (ac_UserId a) s = Inr u \<and>
        s' = snd (UpdateUser S (u\<lparr>u_LastLogin := ac_Timestamp a\<rparr>) s))"
    using assms(2)
    by (auto simp: activity_step_def Let_def split: sum.splits if_splits)
  then consider "s' = s" | u where "ac_ActivityType a = UserActivity_LOGIN"
      "GetUser S (ac_UserId a) s = Inr u"
      "s' = snd (UpdateUser S (u\<lparr>u_LastLogin := ac_Timestamp a\<rparr>) s)" by blast
  then have "inv s' \<and> (look s' = look s \<or> ac_ActivityType a = UserActivity_LOGIN \<and>
      (\<exists>u. fmlookup (look s) (ac_UserId a) = Some u \<and>
        look s' = fmupd (ac_UserId a) (keep (Some u) (u\<lparr>u_LastLogin := ac_Timestamp a\<rparr>)) (look s)))"
  proof cases
    case 2
    let ?v = "u\<lparr>u_LastLogin := ac_Timestamp a\<rparr>"
    obtain q where q: "UpdateUser S ?v s = (q, s')"
      using 2 by (cases "UpdateUser S ?v s") auto
    have u: "fmlookup (look s) (ac_UserId a) = Some u" using 2 assms(1) by (blast intro: get_ok)
    then have id: "u_Id ?v = ac_UserId a" using look_Id [OF assms(1) u] by simp
    show ?thesis
    proof (cases q)
      case None
      with upd_ok [OF assms(1)] q id u
      have "look s' = fmupd (ac_UserId a) (keep (Some u) ?v) (look s)" by fastforce
      with 2 u upd_inv [OF assms(1) q] show ?thesis by blast
    next
      case (Some e)
      have "look s' = look s \<or> look s' = fmupd (ac_UserId a) (keep (Some u) ?v) (look s)"
        using upd_err [OF assms(1) q [unfolded Some]] u unfolding id by simp
      with 2(1) u upd_inv [OF assms(1) q] show ?thesis by blast
    qed
  qed (use assms(1) in simp)
  then show "inv s'" "look s' = look s \<or> ac_ActivityType a = UserActivity_LOGIN \<and>
      (\<exists>u. fmlookup (look s) (ac_UserId a) = Some u \<and>
        look s' = fmupd (ac_UserId a) (keep (Some u) (u\<lparr>u_LastLogin := ac_Timestamp a\<rparr>)) (look s))"
    by blast+
qed

lemma sync_step_state:
  assumes "inv s" and "sync_step L S now u s = (r, s')"
  shows "inv s'" and "look s' = look s \<or> u_Id u \<noteq> 0 \<and>
      (\<exists>v. u_Id v = u_Id u \<and> look s' = fmupd (u_Id u) v (look s))"
proof -
  obtain r1 u1 s1 where a: "AddUser S now u s = (r1, u1, s1)" by (cases "AddUser S now u s")
  obtain r2 s2 where b: "UpdateUser S u s = (r2, s2)" by (cases "UpdateUser S u s")
  have s': "s' = s \<or> u_Id u \<noteq> 0 \<and> (s' = s1 \<or> s' = s2)"
    using assms(2) a b
    by (auto simp: sync_step_def Let_def split: sum.splits if_splits option.splits)
  have "look s1 = look s \<or> (\<exists>v. u_Id v = u_Id u \<and> look s1 = fmupd (u_Id u) v (look s))"
    using add_ok [OF assms(1)] add_err [OF assms(1)] a keep_Id fill_Id by (cases r1) metis+
  moreover have "look s2 = look s \<or> (\<exists>v. u_Id v = u_Id u \<and> look s2 = fmupd (u_Id u) v (look s))"
    using upd_ok [OF assms(1)] upd_err [OF assms(1)] b keep_Id by (cases r2) metis+
  moreover have "inv s1" "inv s2"
    using add_inv [OF assms(1) a] upd_inv [OF assms(1) b] by blast+
  ultimately show "inv s'" "look s' = look s \<or> u_Id u \<noteq> 0 \<and>
      (\<exists>v. u_Id v = u_Id u \<and> look s' = fmupd (u_Id u) v (look s))"
    using s' assms(1) by auto
qed

lemma batch_loop_state:
  "inv (snd bs) \<Longrightarrow> fmlookup (look (snd bs)) 0 = None \<Longrightarrow>
   batch_loop L S now close evs bs = (resp, r, s') \<Longrightarrow> inv s' \<and> fmlookup (look s') 0 = None"
proof (induction evs arbitrary: bs)
  case (Cons ev evs)
  show ?case
  proof (cases ev)
    case (Msg t user)
    obtain b' s1 where eq: "batch_step L S t user bs = (b', s1)"
      by (cases "batch_step L S t user bs")
    then have "inv s1" "fmlookup (look s1) 0 = None"
      using Cons.prems batch_step_state [of "snd bs" L t user "fst bs" b' s1] by auto
    with Cons.IH [of "(b', s1)"] Cons.prems eq Msg show ?thesis by simp
  qed (use Cons.prems in auto)
qed auto

lemma activity_loop_state:
  "inv s \<Longrightarrow> fmlookup (look s) 0 = None \<Longrightarrow>
   activity_loop L S evs s = (sent, r, s') \<Longrightarrow> inv s' \<and> fmlookup (look s') 0 = None"
proof (induction evs arbitrary: s sent r)
  case (Cons e evs)
  obtain ev send where e: "e = (ev, send)" by (cases e)
  show ?case
  proof (cases ev)
    case (Msg now a)
    obtain q s1 where eq: "activity_step L S now a s = (q, s1)"
      by (cases "activity_step L S now a s")
    then have "inv s1" "fmlookup (look s1) 0 = None"
      using Cons.prems activity_step_state [of s L now a q s1] look_Id by auto
    with Cons eq e Msg show ?thesis by (auto split: sum.splits option.splits prod.splits)
  qed (use Cons.prems e in auto)
qed auto

lemma sync_loop_state:
  "inv s \<Longrightarrow> fmlookup (look s) 0 = None \<Longrightarrow>
   sync_loop L S evs s = (sent, r, s') \<Longrightarrow> inv s' \<and> fmlookup (look s') 0 = None"
proof (induction evs arbitrary: s sent r)
  case (Cons e evs)
  obtain ev send where e: "e = (ev, send)" by (cases e)
  show ?case
  proof (cases ev)
    case (Msg now u)
    obtain q s1 where eq: "sync_step L S now u s = (q, s1)" by (cases "sync_step L S now u s")
    then have "inv s1" "fmlookup (look s1) 0 = None"
      using Cons.prems sync_step_state [of s L now u q s1] by auto
    with Cons eq e Msg show ?thesis by (auto split: option.splits prod.splits)
  qed (use Cons.prems e in auto)
qed auto

text \<open>No call of the service ever files a user under the id 0.\<close>

lemma serve_no_zero:
  assumes "inv s" and "fmlookup (look s) 0 = None"
  shows "inv (serve L S c s) \<and> fmlookup (look (serve L S c s)) 0 = None"
proof (cases c)
  case (CallAddUser now u)
  obtain r s' where eq: "Server_AddUser S now u s = (r, s')" by (cases "Server_AddUser S now u s")
  then show ?thesis
    using CallAddUser assms serve_add_err [of s now u _ s'] serve_add_ok [of s now u s']
    by (cases r) auto
next
  case (CallGetUser req)
  then show ?thesis using assms by (simp add: serve_get_state)
next
  case (CallUpdateUser req)
  obtain r s' where eq: "Server_UpdateUser S req s = (r, s')" by (cases "Server_UpdateUser S req s")
  show ?thesis
  proof (cases r)
    case (Inl e)
    from serve_update_err [OF assms(1) eq [unfolded Inl]] show ?thesis
      using assms(2) eq CallUpdateUser by auto
  next
    case (Inr u')
    with eq have "Server_UpdateUser S req s = (Inr u', s')" by simp
    then show ?thesis
      by (rule serve_update_ok [OF assms(1)]) (use assms eq CallUpdateUser in auto)
  qed
next
  case (CallDeleteUser req)
  obtain r s' where eq: "Server_DeleteUser S req s = (r, s')" by (cases "Server_DeleteUser S req s")
  then show ?thesis
    using CallDeleteUser assms serve_delete_err [of s req _ s'] serve_delete_ok [of s req s']
    by (cases r) auto
next
  case (CallBatchAddUsers now close evs)
  then show ?thesis
    using assms batch_loop_state [of "(batch_init, s)" L now close evs]
    by (cases "batch_loop L S now close evs (batch_init, s)") (auto simp: Server_BatchAddUsers_def)
next
  case (CallUserActivityStream evs)
  then show ?thesis
    using assms activity_loop_state [of s L evs] by (cases "activity_loop L S evs s") auto
next
  case (CallSyncUsers evs)
  then show ?thesis
    using assms sync_loop_state [of s L evs] by (cases "sync_loop L S evs s") auto
qed (use assms in auto)

lemma reachable_no_zero:
  assumes "service_reachable L S s0 s" and "inv s0" and "fmlookup (look s0) 0 = None"
  shows "inv s \<and> fmlookup (look s) 0 = None"
  using assms by (induction rule: service_reachable.induct) (auto simp: service_step_iff serve_no_zero)

end

section \<open>Lemmas for backends without other failures\<close>

definition batch_valid :: "User \<Rightarrow> bool" where
  "batch_valid u \<longleftrightarrow> u_Id u \<noteq> 0 \<and> u_Username u \<noteq> []"

context strict_store begin

lemma serve_delete_kept:
  assumes "inv s" and "Server_DeleteUser S req s = (Inl e, s')"
  shows "inv s'" and "look s' = look s"
  using assms del_inv del_kept
  by (auto simp: Server_DeleteUser_def split: if_splits option.splits prod.splits)

text \<open>One turn of \<open>BatchAddUsers\<close>: an addition of a new user, or a refusal.\<close>

lemma batch_step_cases:
  assumes "inv s"
  obtains (added) s' where "batch_valid u" and "fmlookup (look s) (u_Id u) = None"
      and "batch_step L S t u (b, s) = (b\<lparr>totalReceived := totalReceived b + 1,
             totalAdded := totalAdded b + 1\<rparr>, s')"
      and "inv s'" and "look s' = fmupd (u_Id u) (keep None (fill t u)) (look s)"
    | (refused) why s' where "\<not> batch_valid u \<or> fmlookup (look s) (u_Id u) \<noteq> None"
      and "batch_step L S t u (b, s) =
             (batch_fail (b\<lparr>totalReceived := totalReceived b + 1\<rparr>) why, s')"
      and "inv s'" and "look s' = look s"
proof (cases "batch_valid u")
  case False
  then have "batch_step L S t u (b, s) =
      (batch_fail (b\<lparr>totalReceived := totalReceived b + 1\<rparr>)
         (if u_Id u = 0 then ''ID must be greater than 0'' else ''username is required''), s)"
    by (auto simp: batch_step_def batch_valid_def Let_def)
  then show thesis using refused [OF disjI1] False assms by blast
next
  case True
  obtain r u' s' where eq: "AddUser S t u s = (r, u', s')" by (cases "AddUser S t u s")
  have i: "inv s'" using add_inv [OF assms eq] .
  show thesis
  proof (cases "fmlookup (look s) (u_Id u)")
    case None
    with add_total [OF assms, of t u] eq have "r = None" by simp
    with True None eq i add_ok [OF assms] show thesis
      by (intro added [of s']) (auto simp: batch_step_def batch_valid_def Let_def)
  next
    case (Some w)
    with add_total [OF assms, of t u] eq
    have r: "r = Some (Status AlreadyExists ''user already exists'')" by simp
    with True Some eq i add_kept [OF assms] show thesis
      by (intro refused [of "error_Error L (Status AlreadyExists ''user already exists'')" s'])
        (auto simp: batch_step_def batch_valid_def Let_def)
  qed
qed

lemma batch_run_counts:
  assumes "inv s" and "batch_counts n a f b" and "fcard (fmdom (look s)) = c + a"
    and "batch_run L S tus (b, s) = (b', s')"
  shows "\<exists>a' f'. batch_counts (n + length tus) a' f' b' \<and> inv s' \<and> fcard (fmdom (look s')) = c + a'"
  using assms
proof (induction tus arbitrary: n a f b s)
  case Nil
  then show ?case by auto
next
  case (Cons tu tus)
  obtain t u where tu: "tu = (t, u)" by (cases tu)
  from Cons.prems(1) show ?case
  proof (cases rule: batch_step_cases [of s u L t b])
    case (added s1)
    have "fcard (fmdom (look s1)) = c + Suc a"
      using added Cons.prems(3) by (simp add: fcard_fmupd)
    from Cons.IH [OF added(4) batch_counts_added [OF Cons.prems(2)] this]
    show ?thesis using Cons.prems(4) tu added(3) by simp
  next
    case (refused why s1)
    have "fcard (fmdom (look s1)) = c + a" using refused Cons.prems(3) by simp
    from Cons.IH [OF refused(3) batch_counts_fail [OF Cons.prems(2)] this]
    show ?thesis using Cons.prems(4) tu refused(2) by simp
  qed
qed

text \<open>Which entry an id ends up with: the one it had, else the first valid user sent for it.\<close>

lemma batch_run_entry:
  assumes "inv s"
  shows "fmlookup (look (snd (batch_run L S tus (b, s)))) i =
    (case fmlookup (look s) i of
       Some w \<Rightarrow> Some w
     | None \<Rightarrow> map_option (\<lambda>(t, u). keep None (fill t u))
         (find (\<lambda>(t, u). u_Id u = i \<and> batch_valid u) tus))"
  using assms
proof (induction tus arbitrary: b s)
  case (Cons tu tus)
  obtain t u where tu: "tu = (t, u)" by (cases tu)
  from Cons.prems show ?case
  proof (cases rule: batch_step_cases [of s u L t b])
    case (added s1)
    with Cons.IH [OF added(4)] tu show ?thesis by (auto split: option.splits)
  next
    case (refused why s1)
    with Cons.IH [OF refused(3)] tu show ?thesis by (auto split: option.splits)
  qed
qed (simp split: option.splits)

end

end
