(* ===== verification/TableSpec.thy ===== *)
theory TableSpec
  imports Storage
begin

text \<open>
  The abstract specification of a storage backend: one table from ids to users, and what each
  call answers and does to it. There is one operation for each of the eight methods of the
  interface. A backend that keeps the contract \<open>strict_store\<close> implements the table: every
  sequence of calls gets the same answers from the backend as from the table.
\<close>

datatype store_op =
    OpAdd time User | OpGet uint32 | OpUpdate User | OpDelete uint32 | OpExists uint32 | OpCount
  | OpList "ListFilter option" | OpByRole Role

datatype reply =
    Done | Failed error | Found User | Flag bool | Number int | Listed "User list"

definition reply_of :: "error option \<Rightarrow> reply" where
  "reply_of r = (case r of None \<Rightarrow> Done | Some e \<Rightarrow> Failed e)"

text \<open>
  The table. \<open>fill\<close> writes the defaults of a new user, \<open>keep\<close> is what is recorded; \<open>lister\<close> and
  \<open>by_role\<close> are what a listing answers.
\<close>

fun spec_op ::
    "(time \<Rightarrow> User \<Rightarrow> User) \<Rightarrow> (User option \<Rightarrow> User \<Rightarrow> User)
     \<Rightarrow> (ListFilter option \<Rightarrow> (uint32, User) fmap \<Rightarrow> User list)
     \<Rightarrow> (Role \<Rightarrow> (uint32, User) fmap \<Rightarrow> User list) \<Rightarrow> store_op
     \<Rightarrow> (uint32, User) fmap \<Rightarrow> reply \<times> (uint32, User) fmap" where
  "spec_op fill keep lister by_role (OpAdd now u) T =
     (if fmlookup T (u_Id u) = None then (Done, fmupd (u_Id u) (keep None (fill now u)) T)
      else (Failed (Status AlreadyExists ''user already exists''), T))"
| "spec_op fill keep lister by_role (OpGet i) T =
     (case fmlookup T i of None \<Rightarrow> Failed (Status NotFound ''user not found'')
      | Some u \<Rightarrow> Found u, T)"
| "spec_op fill keep lister by_role (OpUpdate u) T =
     (case fmlookup T (u_Id u) of None \<Rightarrow> (Failed (Status NotFound ''user not found''), T)
      | Some old \<Rightarrow> (Done, fmupd (u_Id u) (keep (Some old) u) T))"
| "spec_op fill keep lister by_role (OpDelete i) T =
     (if fmlookup T i = None then (Failed (Status NotFound ''user not found''), T)
      else (Done, fmdrop i T))"
| "spec_op fill keep lister by_role (OpExists i) T = (Flag (fmlookup T i \<noteq> None), T)"
| "spec_op fill keep lister by_role OpCount T = (Number (int (fcard (fmdom T))), T)"

| "spec_op fill keep lister by_role (OpList f) T = (Listed (lister f T), T)"
| "spec_op fill keep lister by_role (OpByRole ro) T = (Listed (by_role ro T), T)"

text \<open>
  A sequence of calls. What a listing answers can differ from call to call (the order in which a
  map is visited, the readings of the clock): each call comes with the parameter \<open>p\<close> that fixes it.
\<close>

fun spec_run ::
    "(time \<Rightarrow> User \<Rightarrow> User) \<Rightarrow> (User option \<Rightarrow> User \<Rightarrow> User)
     \<Rightarrow> ('p \<Rightarrow> ListFilter option \<Rightarrow> (uint32, User) fmap \<Rightarrow> User list)
     \<Rightarrow> ('p \<Rightarrow> Role \<Rightarrow> (uint32, User) fmap \<Rightarrow> User list) \<Rightarrow> ('p \<times> store_op) list
     \<Rightarrow> (uint32, User) fmap \<Rightarrow> reply list \<times> (uint32, User) fmap" where
  "spec_run fill keep lister by_role [] T = ([], T)"
| "spec_run fill keep lister by_role ((p, c) # cs) T =
     (case spec_op fill keep (lister p) (by_role p) c T of (r, T') \<Rightarrow>
        (case spec_run fill keep lister by_role cs T' of (rs, T'') \<Rightarrow> (r # rs, T'')))"

text \<open>The same calls on a backend.\<close>

fun backend_op :: "'s Storage \<Rightarrow> store_op \<Rightarrow> 's \<Rightarrow> reply \<times> 's" where
  "backend_op S (OpAdd now u) s = (case AddUser S now u s of (r, _, s') \<Rightarrow> (reply_of r, s'))"
| "backend_op S (OpGet i) s = (case GetUser S i s of Inl e \<Rightarrow> Failed e | Inr u \<Rightarrow> Found u, s)"
| "backend_op S (OpUpdate u) s = (case UpdateUser S u s of (r, s') \<Rightarrow> (reply_of r, s'))"
| "backend_op S (OpDelete i) s = (case DeleteUser S i s of (r, s') \<Rightarrow> (reply_of r, s'))"
| "backend_op S (OpExists i) s = (case UserExists S i s of Inl e \<Rightarrow> Failed e | Inr b \<Rightarrow> Flag b, s)"
| "backend_op S OpCount s = (case Count S s of Inl e \<Rightarrow> Failed e | Inr n \<Rightarrow> Number n, s)"
| "backend_op S (OpList f) s = (case ListUsers S f s of Inl e \<Rightarrow> Failed e | Inr us \<Rightarrow> Listed us, s)"
| "backend_op S (OpByRole ro) s =
     (case ListUsersByRole S ro s of Inl e \<Rightarrow> Failed e | Inr us \<Rightarrow> Listed us, s)"

fun backend_run :: "('p \<Rightarrow> 's Storage) \<Rightarrow> ('p \<times> store_op) list \<Rightarrow> 's \<Rightarrow> reply list \<times> 's" where
  "backend_run S [] s = ([], s)"
| "backend_run S ((p, c) # cs) s =
     (case backend_op (S p) c s of (r, s') \<Rightarrow>
        (case backend_run S cs s' of (rs, s'') \<Rightarrow> (r # rs, s'')))"

context strict_store begin

lemma store_op_refines:
  assumes "inv s" and "backend_op S c s = (r, s')"
  shows "inv s' \<and> spec_op fill keep lister by_role c (look s) = (r, look s')"
proof (cases c)
  case (OpAdd now u)
  obtain q u' s1 where eq: "AddUser S now u s = (q, u', s1)" by (cases "AddUser S now u s")
  show ?thesis
  proof (cases q)
    case None
    with add_total [OF assms(1), of now u] eq have "fmlookup (look s) (u_Id u) = None"
      by (auto split: if_splits)
    with None OpAdd assms eq add_ok [OF assms(1)] add_inv [OF assms(1) eq] show ?thesis
      by (auto simp: reply_of_def)
  next
    case (Some e)
    with add_total [OF assms(1), of now u] eq
    have "fmlookup (look s) (u_Id u) \<noteq> None" "e = Status AlreadyExists ''user already exists''"
      by (auto split: if_splits)
    with Some OpAdd assms eq add_kept [OF assms(1)] add_inv [OF assms(1) eq] show ?thesis
      by (auto simp: reply_of_def)
  qed
next
  case (OpUpdate u)
  obtain q s1 where eq: "UpdateUser S u s = (q, s1)" by (cases "UpdateUser S u s")
  show ?thesis
  proof (cases q)
    case None
    with OpUpdate assms eq upd_ok [OF assms(1)] upd_inv [OF assms(1) eq] show ?thesis
      by (fastforce simp: reply_of_def)
  next
    case (Some e)
    with upd_total [OF assms(1), of u] eq
    have "fmlookup (look s) (u_Id u) = None" "e = Status NotFound ''user not found''"
      by (auto split: if_splits)
    with Some OpUpdate assms eq upd_kept [OF assms(1)] upd_inv [OF assms(1) eq] show ?thesis
      by (auto simp: reply_of_def)
  qed
next
  case (OpDelete i)
  obtain q s1 where eq: "DeleteUser S i s = (q, s1)" by (cases "DeleteUser S i s")
  show ?thesis
  proof (cases q)
    case None
    with OpDelete assms eq del_ok [OF assms(1)] del_inv [OF assms(1) eq] show ?thesis
      by (fastforce simp: reply_of_def)
  next
    case (Some e)
    with del_total [OF assms(1), of i] eq
    have "fmlookup (look s) i = None" "e = Status NotFound ''user not found''"
      by (auto split: if_splits)
    with Some OpDelete assms eq del_kept [OF assms(1)] del_inv [OF assms(1) eq] show ?thesis
      by (auto simp: reply_of_def)
  qed
qed (use assms get_total exists_total count_total list_total role_total in \<open>auto split: option.splits\<close>)

end

lemma store_run_refines:
  assumes "\<And>p. strict_store (S p) ok look fill keep (lister p) (by_role p)"
  shows "ok s \<Longrightarrow> backend_run S cs s = (rs, s') \<Longrightarrow>
    ok s' \<and> spec_run fill keep lister by_role cs (look s) = (rs, look s')"
proof (induction cs arbitrary: s rs s')
  case (Cons pc cs)
  obtain p c where pc: "pc = (p, c)" by (cases pc)
  obtain r s1 where a: "backend_op (S p) c s = (r, s1)" by (cases "backend_op (S p) c s")
  obtain rs1 s2 where b: "backend_run S cs s1 = (rs1, s2)" by (cases "backend_run S cs s1")
  note step = strict_store.store_op_refines [OF assms Cons.prems(1) a]
  from step have "ok s1" by simp
  from Cons.IH [OF this b] step a b Cons.prems(2) show ?case by (simp add: pc)
qed simp

end
