(* ===== verification/MemoryStorage.thy ===== *)
theory MemoryStorage
  imports Server TableSpec
begin

text \<open>
  \<open>server/memory_storage.go\<close>: the in-memory backend. The state is the map from user ids to
  users; every method holds the mutex for its whole body, so a method is one atomic step on
  that state. The copies made by \<open>cloneUser\<close> and its helpers are modelled field by field and
  loop by loop; the order in which \<open>range\<close> visits the map is a parameter \<open>ks\<close>.
\<close>

section \<open>Copies\<close>

text \<open>
  The loops copy entry by entry into a fresh map. The order of the visit does not matter
  (lemma \<open>range_copy_enumerates\<close>), so the model visits the keys in ascending order.
\<close>

definition cloneMap :: "(string, string) fmap option \<Rightarrow> (string, string) fmap option" where
  "cloneMap m = (case m of None \<Rightarrow> None
     | Some mm \<Rightarrow> Some (range_copy (sorted_keys mm) mm fmempty))"

definition cloneIntMap :: "(string, int32) fmap option \<Rightarrow> (string, int32) fmap option" where
  "cloneIntMap m = (case m of None \<Rightarrow> None
     | Some mm \<Rightarrow> Some (range_copy (sorted_keys mm) mm fmempty))"

definition cloneProfile :: "Profile option \<Rightarrow> Profile option" where
  "cloneProfile profile = (case profile of None \<Rightarrow> None
     | Some p \<Rightarrow> Some \<lparr>
         p_DisplayName = p_DisplayName p,
         p_Bio = p_Bio p,
         p_AvatarUrl = p_AvatarUrl p,
         p_DateOfBirth = p_DateOfBirth p,
         p_Preferences = cloneIntMap (p_Preferences p)\<rparr>)"

definition cloneAddresses :: "Address option list option \<Rightarrow> Address option list option" where
  "cloneAddresses addresses = (case addresses of None \<Rightarrow> None
     | Some as \<Rightarrow> Some (map (\<lambda>addr. case addr of None \<Rightarrow> None
         | Some a \<Rightarrow> Some \<lparr>
             a_Type = a_Type a,
             a_Street = a_Street a,
             a_City = a_City a,
             a_State = a_State a,
             a_PostalCode = a_PostalCode a,
             a_Country = a_Country a,
             a_IsPrimary = a_IsPrimary a\<rparr>) as))"

text \<open>
  The literal in \<open>cloneUser\<close> names ten of the twelve fields; \<open>Email\<close> and \<open>Phone\<close> are not
  among them and get their zero value.
\<close>

definition clone_fields :: "User \<Rightarrow> User" where
  "clone_fields user = User_zero\<lparr>
     u_Id := u_Id user,
     u_Role := u_Role user,
     u_CreateDate := u_CreateDate user,
     u_Username := u_Username user,
     u_Profile := cloneProfile (u_Profile user),
     u_Tags := Some ([] @ (case u_Tags user of None \<Rightarrow> [] | Some ts \<Rightarrow> ts)),
     u_Metadata := cloneMap (u_Metadata user),
     u_Status := u_Status user,
     u_LastLogin := u_LastLogin user,
     u_Addresses := cloneAddresses (u_Addresses user)\<rparr>"

definition cloneUser :: "User option \<Rightarrow> User option" where
  "cloneUser user = (case user of None \<Rightarrow> None | Some u \<Rightarrow> Some (clone_fields u))"

section \<open>State and methods\<close>

record MemoryStorage =
  users :: "(uint32, User) fmap"

definition NewMemoryStorage :: MemoryStorage where
  "NewMemoryStorage = \<lparr>users = fmempty\<rparr>"

text \<open>The defaults \<open>AddUser\<close> writes into the user it is given, through the pointer.\<close>

definition mem_fill :: "lib \<Rightarrow> time \<Rightarrow> User \<Rightarrow> User" where
  "mem_fill L now user =
     (let u1 = (if u_CreateDate user = None
                then user\<lparr>u_CreateDate := Some (timestamppb_New L now)\<rparr> else user)
      in if u_Status u1 = UserStatus_INACTIVE
         then u1\<lparr>u_Status := UserStatus_ACTIVE\<rparr> else u1)"

definition MemoryStorage_AddUser ::
    "lib \<Rightarrow> time \<Rightarrow> User \<Rightarrow> MemoryStorage \<Rightarrow> error option \<times> User \<times> MemoryStorage" where
  "MemoryStorage_AddUser L now user m =
     (case fmlookup (users m) (u_Id user) of
        Some _ \<Rightarrow> (Some (Status AlreadyExists ''user already exists''), user, m)
      | None \<Rightarrow>
          let user' = mem_fill L now user
          in (None, user', m\<lparr>users := fmupd (u_Id user') (clone_fields user') (users m)\<rparr>))"

definition MemoryStorage_GetUser :: "uint32 \<Rightarrow> MemoryStorage \<Rightarrow> error + User" where
  "MemoryStorage_GetUser i m =
     (case fmlookup (users m) i of
        None \<Rightarrow> Inl (Status NotFound ''user not found'')
      | Some user \<Rightarrow> Inr (clone_fields user))"

definition MemoryStorage_UpdateUser ::
    "User \<Rightarrow> MemoryStorage \<Rightarrow> error option \<times> MemoryStorage" where
  "MemoryStorage_UpdateUser user m =
     (case fmlookup (users m) (u_Id user) of
        None \<Rightarrow> (Some (Status NotFound ''user not found''), m)
      | Some _ \<Rightarrow> (None, m\<lparr>users := fmupd (u_Id user) (clone_fields user) (users m)\<rparr>))"

definition MemoryStorage_DeleteUser ::
    "uint32 \<Rightarrow> MemoryStorage \<Rightarrow> error option \<times> MemoryStorage" where
  "MemoryStorage_DeleteUser i m =
     (case fmlookup (users m) i of
        None \<Rightarrow> (Some (Status NotFound ''user not found''), m)
      | Some _ \<Rightarrow> (None, m\<lparr>users := fmdrop i (users m)\<rparr>))"

text \<open>
  The filters of \<open>ListUsers\<close>, as the three \<open>continue\<close> statements of its loop. \<open>(now1, now2)\<close>
  are the two readings of the clock that the two calls of \<open>time.Since\<close> make, in this order.
\<close>

definition skip_created :: "lib \<Rightarrow> ListFilter \<Rightarrow> User \<Rightarrow> bool" where
  "skip_created L f user = (case f_CreatedSince f of None \<Rightarrow> False
     | Some c \<Rightarrow> AsTime L (u_CreateDate user) < time_Unix c)"

definition skip_older :: "lib \<Rightarrow> time \<times> time \<Rightarrow> ListFilter \<Rightarrow> User \<Rightarrow> bool" where
  "skip_older L nows f user = (case f_OlderThan f of None \<Rightarrow> False
     | Some o' \<Rightarrow> time_Sub (fst nows) (AsTime L (u_CreateDate user))
                 \<le> time_Sub (snd nows) (time_Unix o'))"

definition skip_status :: "ListFilter \<Rightarrow> User \<Rightarrow> bool" where
  "skip_status f user = (case f_Status f of None \<Rightarrow> False | Some st \<Rightarrow> u_Status user \<noteq> st)"

definition list_keeps :: "lib \<Rightarrow> time \<times> time \<Rightarrow> ListFilter option \<Rightarrow> User \<Rightarrow> bool" where
  "list_keeps L nows flt user = (case flt of None \<Rightarrow> True
     | Some f \<Rightarrow> \<not> skip_created L f user \<and> \<not> skip_older L nows f user \<and> \<not> skip_status f user)"

fun list_loop ::
    "lib \<Rightarrow> (uint32 \<Rightarrow> time \<times> time) \<Rightarrow> ListFilter option \<Rightarrow> uint32 list \<Rightarrow> MemoryStorage
     \<Rightarrow> User list \<Rightarrow> User list" where
  "list_loop L clk flt [] m result = result"
| "list_loop L clk flt (k # ks) m result =
     (case fmlookup (users m) k of
        None \<Rightarrow> list_loop L clk flt ks m result
      | Some user \<Rightarrow>
          if list_keeps L (clk k) flt user
          then list_loop L clk flt ks m (result @ [clone_fields user])
          else list_loop L clk flt ks m result)"

definition MemoryStorage_ListUsers ::
    "lib \<Rightarrow> (uint32 \<Rightarrow> time \<times> time) \<Rightarrow> uint32 list \<Rightarrow> ListFilter option \<Rightarrow> MemoryStorage
     \<Rightarrow> error + User list" where
  "MemoryStorage_ListUsers L clk ks flt m = Inr (list_loop L clk flt ks m [])"

fun role_loop :: "Role \<Rightarrow> uint32 list \<Rightarrow> MemoryStorage \<Rightarrow> User list \<Rightarrow> User list" where
  "role_loop role [] m result = result"
| "role_loop role (k # ks) m result =
     (case fmlookup (users m) k of
        None \<Rightarrow> role_loop role ks m result
      | Some user \<Rightarrow>
          if u_Role user = role then role_loop role ks m (result @ [clone_fields user])
          else role_loop role ks m result)"

definition MemoryStorage_ListUsersByRole ::
    "uint32 list \<Rightarrow> Role \<Rightarrow> MemoryStorage \<Rightarrow> error + User list" where
  "MemoryStorage_ListUsersByRole ks role m = Inr (role_loop role ks m [])"

definition MemoryStorage_UserExists :: "uint32 \<Rightarrow> MemoryStorage \<Rightarrow> error + bool" where
  "MemoryStorage_UserExists i m = Inr (case fmlookup (users m) i of None \<Rightarrow> False | Some _ \<Rightarrow> True)"

definition MemoryStorage_Count :: "MemoryStorage \<Rightarrow> error + int" where
  "MemoryStorage_Count m = Inr (int (fcard (fmdom (users m))))"

definition MemoryStorage_String :: "MemoryStorage \<Rightarrow> string" where
  "MemoryStorage_String m =
     ''MemoryStorage{users: '' @ dec_int (int (fcard (fmdom (users m)))) @ ''}''"

text \<open>
  \<open>MemoryStorage\<close> as a value of the interface: \<open>ord m\<close> is the order in which \<open>range\<close> visits
  the map of \<open>m\<close>, \<open>clk\<close> the clock readings of the list loop.
\<close>

definition memory_Storage ::
    "lib \<Rightarrow> (MemoryStorage \<Rightarrow> uint32 list) \<Rightarrow> (uint32 \<Rightarrow> time \<times> time) \<Rightarrow> MemoryStorage Storage" where
  "memory_Storage L ord clk = \<lparr>
     AddUser = MemoryStorage_AddUser L,
     GetUser = MemoryStorage_GetUser,
     UpdateUser = MemoryStorage_UpdateUser,
     DeleteUser = MemoryStorage_DeleteUser,
     ListUsers = (\<lambda>f m. MemoryStorage_ListUsers L clk (ord m) f m),
     ListUsersByRole = (\<lambda>r m. MemoryStorage_ListUsersByRole (ord m) r m),
     UserExists = MemoryStorage_UserExists,
     Count = MemoryStorage_Count\<rparr>"

lemma memory_Storage_simps [simp]:
  "AddUser (memory_Storage L ord clk) = MemoryStorage_AddUser L"
  "GetUser (memory_Storage L ord clk) = MemoryStorage_GetUser"
  "UpdateUser (memory_Storage L ord clk) = MemoryStorage_UpdateUser"
  "DeleteUser (memory_Storage L ord clk) = MemoryStorage_DeleteUser"
  "ListUsers (memory_Storage L ord clk) = (\<lambda>f m. MemoryStorage_ListUsers L clk (ord m) f m)"
  "ListUsersByRole (memory_Storage L ord clk) = (\<lambda>r m. MemoryStorage_ListUsersByRole (ord m) r m)"
  "UserExists (memory_Storage L ord clk) = MemoryStorage_UserExists"
  "Count (memory_Storage L ord clk) = MemoryStorage_Count"
  by (simp_all add: memory_Storage_def)

section \<open>What a copy keeps\<close>

lemma cloneMap_id [simp]: "cloneMap m = m"
  by (simp add: cloneMap_def range_copy_enumerates enumerates_sorted_keys split: option.splits)

lemma cloneIntMap_id [simp]: "cloneIntMap m = m"
  by (simp add: cloneIntMap_def range_copy_enumerates enumerates_sorted_keys split: option.splits)

lemma cloneProfile_id [simp]: "cloneProfile p = p"
  by (simp add: cloneProfile_def split: option.splits)

lemma cloneAddresses_id [simp]: "cloneAddresses as = as"
proof -
  have *: "(case a of None \<Rightarrow> None | Some a \<Rightarrow> Some
      \<lparr>a_Type = a_Type a, a_Street = a_Street a, a_City = a_City a, a_State = a_State a,
       a_PostalCode = a_PostalCode a, a_Country = a_Country a, a_IsPrimary = a_IsPrimary a\<rparr>) = a"
    for a :: "Address option"
    by (simp split: option.splits)
  show ?thesis by (simp add: cloneAddresses_def * split: option.splits)
qed

text \<open>\<open>tag_list\<close> reads a slice, nil as the empty one.\<close>

definition tag_list :: "string list option \<Rightarrow> string list" where
  "tag_list ts = (case ts of None \<Rightarrow> [] | Some l \<Rightarrow> l)"

lemma tag_list_simps [simp]: "tag_list None = []" "tag_list (Some l) = l"
  by (simp_all add: tag_list_def)

lemma clone_fields_eq:
  "clone_fields u = u\<lparr>u_Email := [], u_Phone := [], u_Tags := Some (tag_list (u_Tags u))\<rparr>"
  by (simp add: clone_fields_def User_zero_def tag_list_def)

lemma clone_fields_simps [simp]:
  "u_Id (clone_fields u) = u_Id u"
  "u_Role (clone_fields u) = u_Role u"
  "u_CreateDate (clone_fields u) = u_CreateDate u"
  "u_Username (clone_fields u) = u_Username u"
  "u_Email (clone_fields u) = []"
  "u_Phone (clone_fields u) = []"
  "u_Profile (clone_fields u) = u_Profile u"
  "u_Tags (clone_fields u) = Some (tag_list (u_Tags u))"
  "u_Metadata (clone_fields u) = u_Metadata u"
  "u_Status (clone_fields u) = u_Status u"
  "u_LastLogin (clone_fields u) = u_LastLogin u"
  "u_Addresses (clone_fields u) = u_Addresses u"
  by (simp_all add: clone_fields_eq)

lemma clone_fields_idem [simp]: "clone_fields (clone_fields u) = clone_fields u"
  by (simp add: clone_fields_eq)

lemma mem_fill_simps [simp]:
  "u_Id (mem_fill L now u) = u_Id u"
  "u_Role (mem_fill L now u) = u_Role u"
  "u_Username (mem_fill L now u) = u_Username u"
  "u_Email (mem_fill L now u) = u_Email u"
  "u_Phone (mem_fill L now u) = u_Phone u"
  "u_Profile (mem_fill L now u) = u_Profile u"
  "u_Tags (mem_fill L now u) = u_Tags u"
  "u_Metadata (mem_fill L now u) = u_Metadata u"
  "u_LastLogin (mem_fill L now u) = u_LastLogin u"
  "u_Addresses (mem_fill L now u) = u_Addresses u"
  by (simp_all add: mem_fill_def Let_def)

lemma mem_fill_CreateDate:
  "u_CreateDate (mem_fill L now u) =
     (case u_CreateDate u of None \<Rightarrow> Some (timestamppb_New L now) | Some t \<Rightarrow> Some t)"
  by (simp add: mem_fill_def Let_def split: option.splits)

lemma mem_fill_Status:
  "u_Status (mem_fill L now u) =
     (if u_Status u = UserStatus_INACTIVE then UserStatus_ACTIVE else u_Status u)"
  by (simp add: mem_fill_def Let_def)

section \<open>The invariant, and the contract\<close>

text \<open>
  Every user is filed under its own id, and what is filed is a copy (a fixed point of
  \<open>cloneUser\<close>).
\<close>

definition mem_inv :: "MemoryStorage \<Rightarrow> bool" where
  "mem_inv m = fmpred (\<lambda>i u. u_Id u = i \<and> clone_fields u = u) (users m)"

lemma mem_invD:
  assumes "mem_inv m" and "fmlookup (users m) i = Some u"
  shows "u_Id u = i" and "clone_fields u = u"
  using assms by (auto simp: mem_inv_def)

lemma mem_inv_New [simp]: "mem_inv NewMemoryStorage"
  by (simp add: mem_inv_def NewMemoryStorage_def)

lemma mem_inv_upd: "mem_inv m \<Longrightarrow> u_Id u = i \<Longrightarrow> clone_fields u = u \<Longrightarrow>
    mem_inv (m\<lparr>users := fmupd i u (users m)\<rparr>)"
  by (auto simp: mem_inv_def fmpred_upd)

lemma mem_inv_drop: "mem_inv m \<Longrightarrow> mem_inv (m\<lparr>users := fmdrop i (users m)\<rparr>)"
  by (auto simp: mem_inv_def)

lemmas memory_write_defs =
  MemoryStorage_AddUser_def MemoryStorage_UpdateUser_def MemoryStorage_DeleteUser_def

lemmas memory_read_defs =
  MemoryStorage_GetUser_def MemoryStorage_UserExists_def MemoryStorage_Count_def
  MemoryStorage_ListUsers_def MemoryStorage_ListUsersByRole_def

lemma list_loop_eq:
  "list_loop L clk flt ks m res = res @ concat (map (\<lambda>k. case fmlookup (users m) k of
       None \<Rightarrow> [] | Some u \<Rightarrow> if list_keeps L (clk k) flt u then [clone_fields u] else []) ks)"
  by (induction L clk flt ks m res rule: list_loop.induct) (auto split: option.splits)

lemma role_loop_eq:
  "role_loop role ks m res = res @ concat (map (\<lambda>k. case fmlookup (users m) k of
       None \<Rightarrow> [] | Some u \<Rightarrow> if u_Role u = role then [clone_fields u] else []) ks)"
  by (induction role ks m res rule: role_loop.induct) (auto split: option.splits)

lemma set_emit:
  assumes "mem_inv m"
  shows "u \<in> set (concat (map (\<lambda>k. case fmlookup (users m) k of
       None \<Rightarrow> [] | Some v \<Rightarrow> if P k v then [clone_fields v] else []) ks)) \<longleftrightarrow>
     u_Id u \<in> set ks \<and> fmlookup (users m) (u_Id u) = Some u \<and> P (u_Id u) u"
proof (induction ks)
  case (Cons k ks)
  have "u \<in> set (case fmlookup (users m) k of
       None \<Rightarrow> [] | Some v \<Rightarrow> if P k v then [clone_fields v] else []) \<longleftrightarrow>
     u_Id u = k \<and> fmlookup (users m) k = Some u \<and> P k u"
    using mem_invD [OF assms, of k] by (cases "fmlookup (users m) k") auto
  with Cons.IH show ?case by auto
qed simp

lemma set_list_loop:
  "mem_inv m \<Longrightarrow> u \<in> set (list_loop L clk flt ks m []) \<longleftrightarrow>
     u_Id u \<in> set ks \<and> fmlookup (users m) (u_Id u) = Some u \<and> list_keeps L (clk (u_Id u)) flt u"
  by (simp only: list_loop_eq append_Nil set_emit)

lemma set_role_loop:
  "mem_inv m \<Longrightarrow> u \<in> set (role_loop role ks m []) \<longleftrightarrow>
     u_Id u \<in> set ks \<and> fmlookup (users m) (u_Id u) = Some u \<and> u_Role u = role"
  using set_emit [of m u "\<lambda>_ v. u_Role v = role" ks] by (simp only: role_loop_eq append_Nil)

text \<open>
  What the two listings answer from a table of users whose keys are visited in the order \<open>ks\<close>:
  its entries that pass, as they are.
\<close>

definition table_entries :: "uint32 list \<Rightarrow> (uint32, User) fmap \<Rightarrow> User list" where
  "table_entries ks T = List.map_filter (fmlookup T) ks"

definition table_list :: "lib \<Rightarrow> (uint32 \<Rightarrow> time \<times> time) \<Rightarrow> uint32 list \<Rightarrow> ListFilter option
     \<Rightarrow> (uint32, User) fmap \<Rightarrow> User list" where
  "table_list L clk ks f T = filter (\<lambda>u. list_keeps L (clk (u_Id u)) f u) (table_entries ks T)"

definition table_by_role :: "uint32 list \<Rightarrow> Role \<Rightarrow> (uint32, User) fmap \<Rightarrow> User list" where
  "table_by_role ks ro T = filter (\<lambda>u. u_Role u = ro) (table_entries ks T)"

lemma emit_entries:
  assumes "mem_inv m"
  shows "concat (map (\<lambda>k. case fmlookup (users m) k of
      None \<Rightarrow> [] | Some v \<Rightarrow> if P k v then [clone_fields v] else []) ks) =
    filter (\<lambda>u. P (u_Id u) u) (table_entries ks (users m))"
proof (induction ks)
  case (Cons k ks)
  then show ?case using mem_invD [OF assms, of k]
    by (auto simp: table_entries_def List.map_filter_def split: option.splits)
qed (simp add: table_entries_def List.map_filter_def)

lemma list_loop_table:
  "mem_inv m \<Longrightarrow> list_loop L clk f ks m [] = table_list L clk ks f (users m)"
  by (simp only: list_loop_eq append_Nil emit_entries table_list_def)

lemma role_loop_table: "mem_inv m \<Longrightarrow> role_loop ro ks m [] = table_by_role ks ro (users m)"
  using emit_entries [of m "\<lambda>_ v. u_Role v = ro" ks]
  by (simp only: role_loop_eq append_Nil table_by_role_def)

lemma users_eta [simp]: "\<lparr>users = users m\<rparr> = (m :: MemoryStorage)"
  by (cases m) simp

interpretation mem: strict_store "memory_Storage L ord clk" mem_inv users "mem_fill L"
    "\<lambda>old. clone_fields" "\<lambda>f T. table_list L clk (ord \<lparr>users = T\<rparr>) f T"
    "\<lambda>ro T. table_by_role (ord \<lparr>users = T\<rparr>) ro T" for L ord clk
proof (unfold_locales, goal_cases)
  case (4 s now u r u' s')
  then show ?case
    by (auto simp: memory_write_defs Let_def intro!: mem_inv_upd split: option.splits)
next
  case (8 s u r s')
  then show ?case
    by (auto simp: memory_write_defs intro!: mem_inv_upd split: option.splits)
next
  case (11 s i r s')
  then show ?case
    by (auto simp: memory_write_defs intro!: mem_inv_drop split: option.splits)
next
  case (14 s f us u)
  then show ?case by (auto simp: memory_read_defs set_list_loop)
next
  case (15 s ro us u)
  then show ?case by (auto simp: memory_read_defs set_role_loop)
qed (auto simp: memory_write_defs memory_read_defs Let_def mem_invD list_loop_table role_loop_table
      split: option.splits)

end
