(* ===== verification/Samples.thy ===== *)
theory Samples
  imports ProtoTypes
begin

text \<open>
  Concrete inputs on which the properties are exercised: third-party functions that compute,
  and a few users.
\<close>

definition sample_lib :: lib where
  "sample_lib = \<lparr>
     status_text = (\<lambda>c m. ''rpc error: '' @ m),
     EnumStringOf = (\<lambda>names i. case fmlookup names i of
        None \<Rightarrow> dec_int (sint i) | Some n \<Rightarrow> n),
     AsTime = (\<lambda>t. case t of None \<Rightarrow> 0 | Some ts \<Rightarrow> seconds ts * 10 ^ 9 + nanos ts),
     timestamppb_New = (\<lambda>t. \<lparr>seconds = t div 10 ^ 9, nanos = t mod 10 ^ 9\<rparr>),
     AsDuration = (\<lambda>d. d_seconds d * 10 ^ 9 + d_nanos d)\<rparr>"

definition sample_user :: "uint32 \<Rightarrow> Role \<Rightarrow> string \<Rightarrow> User" where
  "sample_user i role name = User_zero\<lparr>
     u_Id := i, u_Role := role, u_Username := name, u_Email := ''a@b'',
     u_CreateDate := Some \<lparr>seconds = 100, nanos = 0\<rparr>, u_Tags := Some [''x''],
     u_Status := UserStatus_ACTIVE\<rparr>"

definition admin :: User where
  "admin = sample_user 1 Role_ADMIN ''admin''"

definition guest :: User where
  "guest = sample_user 2 Role_GUEST ''guest''"

lemma sample_user_simps [simp]:
  "u_Id (sample_user i r n) = i"
  "u_Role (sample_user i r n) = r"
  "u_Username (sample_user i r n) = n"
  "u_Email (sample_user i r n) = ''a@b''"
  "u_Phone (sample_user i r n) = []"
  "u_CreateDate (sample_user i r n) = Some \<lparr>seconds = 100, nanos = 0\<rparr>"
  "u_Tags (sample_user i r n) = Some [''x'']"
  "u_Status (sample_user i r n) = UserStatus_ACTIVE"
  by (simp_all add: sample_user_def User_zero_def)

lemma admin_simps [simp]:
  "u_Id admin = 1" "u_Role admin = Role_ADMIN" "u_Username admin = ''admin''"
  "u_CreateDate admin = Some \<lparr>seconds = 100, nanos = 0\<rparr>" "u_Status admin = UserStatus_ACTIVE"
  by (simp_all add: admin_def)

lemma guest_simps [simp]:
  "u_Id guest = 2" "u_Role guest = Role_GUEST" "u_Username guest = ''guest''"
  "u_CreateDate guest = Some \<lparr>seconds = 100, nanos = 0\<rparr>" "u_Status guest = UserStatus_ACTIVE"
  by (simp_all add: guest_def)

lemma sample_lib_simps [simp]:
  "AsTime sample_lib None = 0"
  "AsTime sample_lib (Some ts) = seconds ts * 10 ^ 9 + nanos ts"
  "AsDuration sample_lib d = d_seconds d * 10 ^ 9 + d_nanos d"
  by (simp_all add: sample_lib_def)

end
