(* ===== verification/UserService.thy ===== *)
theory UserService
  imports MemoryStorage Samples
begin

text \<open>
  The service as \<open>main.go\<close> assembles it without a database: the handlers of \<open>Server\<close> over
  \<open>MemoryStorage\<close>. Each property is about this composition; the general facts come from the
  locales \<open>user_store\<close> and \<open>strict_store\<close>, through their interpretation \<open>mem\<close>.
\<close>

section \<open>The backend against its specification\<close>

text \<open>C1. The in-memory backend implements the table of users: every sequence of calls of the eight
  methods of the interface, started on a new storage, gets from it the answers the abstract table
  gives, and leaves it holding that table. What the table records of a user is the user with an
  empty e-mail address and an empty phone number, because \<open>cloneUser\<close> copies neither; a listing
  answers the entries that pass its filter. Each call comes with the order \<open>ks\<close> in which its
  \<open>range\<close> would visit the map and the clock readings \<open>clk\<close> of its loop.\<close>

theorem memory_simulates_table:
  "map_prod id users (backend_run (\<lambda>(ks, clk). memory_Storage L (\<lambda>_. ks) clk) ops NewMemoryStorage) =
   spec_run (mem_fill L)
     (\<lambda>old u. u\<lparr>u_Email := [], u_Phone := [], u_Tags := Some (tag_list (u_Tags u))\<rparr>)
     (\<lambda>(ks, clk) f T. filter (\<lambda>u. list_keeps L (clk (u_Id u)) f u) (table_entries ks T))
     (\<lambda>(ks, clk) ro T. filter (\<lambda>u. u_Role u = ro) (table_entries ks T)) ops fmempty"
proof -
  let ?S = "\<lambda>(ks, clk). memory_Storage L (\<lambda>_. ks) clk"
  let ?l = "\<lambda>(ks, clk) f T. filter (\<lambda>u. list_keeps L (clk (u_Id u)) f u) (table_entries ks T)"
  let ?r = "\<lambda>(ks, clk) ro T. filter (\<lambda>u. u_Role u = ro) (table_entries ks T)"
  obtain rs m where eq: "backend_run ?S ops NewMemoryStorage = (rs, m)"
    by (cases "backend_run ?S ops NewMemoryStorage")
  have store: "strict_store (?S p) mem_inv users (mem_fill L) (\<lambda>old. clone_fields) (?l p) (?r p)" for p
    using mem.strict_store_axioms [of L "\<lambda>_. fst p" "snd p"]
    by (cases p) (simp add: table_list_def table_by_role_def)
  from store_run_refines [OF store _ eq]
  have "spec_run (mem_fill L) (\<lambda>old. clone_fields) ?l ?r ops (users NewMemoryStorage) = (rs, users m)"
    by simp
  moreover have "(\<lambda>old :: User option. clone_fields) =
      (\<lambda>old u. u\<lparr>u_Email := [], u_Phone := [], u_Tags := Some (tag_list (u_Tags u))\<rparr>)"
    by (simp add: clone_fields_eq fun_eq_iff)
  ultimately show ?thesis using eq by (simp add: NewMemoryStorage_def)
qed

section \<open>Adding, getting, deleting\<close>

text \<open>C12. What \<open>GetUser\<close> returns after a successful \<open>AddUser\<close>: the user that was sent, with the
  creation date and the status filled in where they were missing, and without its e-mail
  address and phone number, which the storage never keeps.\<close>

theorem add_then_get:
  assumes "mem_inv m"
    and "Server_AddUser (memory_Storage L ord clk) now u m = (Inr (), m')"
  shows "Server_GetUser (memory_Storage L ord clk) \<lparr>gu_Id = u_Id u\<rparr> m' =
    (Inr (u\<lparr>u_CreateDate := Some (case u_CreateDate u of
               None \<Rightarrow> timestamppb_New L now | Some t \<Rightarrow> t),
            u_Status := (if u_Status u = UserStatus_INACTIVE then UserStatus_ACTIVE
                         else u_Status u),
            u_Email := [], u_Phone := [],
            u_Tags := Some (tag_list (u_Tags u))\<rparr>), m')"
proof -
  note ok = mem.serve_add_ok [OF assms]
  have "clone_fields (mem_fill L now u) =
      u\<lparr>u_CreateDate := Some (case u_CreateDate u of None \<Rightarrow> timestamppb_New L now | Some t \<Rightarrow> t),
        u_Status := (if u_Status u = UserStatus_INACTIVE then UserStatus_ACTIVE else u_Status u),
        u_Email := [], u_Phone := [], u_Tags := Some (tag_list (u_Tags u))\<rparr>"
    by (rule User.equality) (simp_all add: mem_fill_CreateDate mem_fill_Status split: option.splits)
  then show ?thesis
    using ok by (simp add: Server_GetUser_def MemoryStorage_GetUser_def)
qed

theorem add_then_get_witness:
  "Server_GetUser (memory_Storage sample_lib (\<lambda>_. []) (\<lambda>_. (0, 0))) \<lparr>gu_Id = 1\<rparr>
     (NewMemoryStorage\<lparr>users := fmupd 1 (clone_fields admin) fmempty\<rparr>) =
   (Inr (admin\<lparr>u_Email := []\<rparr>), NewMemoryStorage\<lparr>users := fmupd 1 (clone_fields admin) fmempty\<rparr>)"
proof -
  have *: "mem_fill sample_lib 0 admin = admin"
    by (simp add: mem_fill_def admin_def enum_defs)
  have "Server_AddUser (memory_Storage sample_lib (\<lambda>_. []) (\<lambda>_. (0, 0))) 0 admin NewMemoryStorage =
    (Inr (), NewMemoryStorage\<lparr>users := fmupd 1 (clone_fields admin) fmempty\<rparr>)"
    by (simp add: Server_AddUser_def memory_read_defs memory_write_defs NewMemoryStorage_def Let_def *)
  from add_then_get [OF mem_inv_New this] show ?thesis
    by (simp add: admin_def sample_user_def User_zero_def enum_defs)
qed

text \<open>Every answer of \<open>AddUser\<close> over the in-memory storage, in the order of its checks: an
  empty storage takes an administrator only, the id must not be 0, the name must not be empty,
  the id must be new. In all but the last case the storage stays as it was.\<close>

lemma add_user_decision:
  "Server_AddUser (memory_Storage L ord clk) now u m =
    (if users m = fmempty \<and> u_Role u \<noteq> Role_ADMIN
     then (Inl (Status InvalidArgument ''first user created must be an admin''), m)
     else if u_Id u = 0
     then (Inl (Status InvalidArgument ''user ID must be greater than 0''), m)
     else if u_Username u = []
     then (Inl (Status InvalidArgument ''username is required''), m)
     else if fmlookup (users m) (u_Id u) \<noteq> None
     then (Inl (Status AlreadyExists ''user already exists''), m)
     else (Inr (), m\<lparr>users := fmupd (u_Id u) (clone_fields (mem_fill L now u)) (users m)\<rparr>))"
  by (auto simp: Server_AddUser_def memory_read_defs memory_write_defs fmdom_empty_iff Let_def
      split: option.splits)

text \<open>C18. A successful \<open>DeleteUser\<close> removes exactly the user it names: afterwards \<open>GetUser\<close> and a
  second \<open>DeleteUser\<close> answer \<open>NotFound\<close>, and every other user is untouched.\<close>

theorem delete_then_get:
  assumes "mem_inv m"
    and "Server_DeleteUser (memory_Storage L ord clk) \<lparr>du_Id = i\<rparr> m = (Inr (), m')"
  shows "Server_GetUser (memory_Storage L ord clk) \<lparr>gu_Id = i\<rparr> m' =
           (Inl (Status NotFound ''user not found''), m') \<and>
         Server_DeleteUser (memory_Storage L ord clk) \<lparr>du_Id = i\<rparr> m' =
           (Inl (Status NotFound ''user not found''), m') \<and>
         (\<forall>j. j \<noteq> i \<longrightarrow> fmlookup (users m') j = fmlookup (users m) j)"
proof -
  have u: "users m' = fmdrop i (users m)"
    using mem.serve_delete_ok [OF assms] by simp
  have i: "i \<noteq> 0"
    using assms(2) by (auto simp: Server_DeleteUser_def split: if_splits)
  show ?thesis
    using u i
    by (simp add: Server_GetUser_def Server_DeleteUser_def memory_read_defs memory_write_defs)
qed

text \<open>Two stored users, for the witnesses.\<close>

definition sample_mem :: MemoryStorage where
  "sample_mem = \<lparr>users = fmupd 2 (clone_fields guest) (fmupd 1 (clone_fields admin) fmempty)\<rparr>"

lemma sample_mem_inv [simp]: "mem_inv sample_mem"
  by (simp add: sample_mem_def mem_inv_def fmpred_upd admin_def guest_def)

lemma sample_mem_lookup [simp]:
  "fmlookup (users sample_mem) 1 = Some (clone_fields admin)"
  "fmlookup (users sample_mem) 2 = Some (clone_fields guest)"
  by (simp_all add: sample_mem_def)

abbreviation sample_store :: "MemoryStorage Storage" where
  "sample_store \<equiv> memory_Storage sample_lib (\<lambda>_. [1, 2]) (\<lambda>_. (0, 0))"

theorem delete_then_get_witness:
  "Server_GetUser sample_store \<lparr>gu_Id = 2\<rparr> (sample_mem\<lparr>users := fmdrop 2 (users sample_mem)\<rparr>) =
     (Inl (Status NotFound ''user not found''),
      sample_mem\<lparr>users := fmdrop 2 (users sample_mem)\<rparr>)"
proof -
  have "Server_DeleteUser sample_store \<lparr>du_Id = 2\<rparr> sample_mem =
      (Inr (), sample_mem\<lparr>users := fmdrop 2 (users sample_mem)\<rparr>)"
    by (simp add: Server_DeleteUser_def memory_write_defs)
  from delete_then_get [OF sample_mem_inv this] show ?thesis by blast
qed

section \<open>Updating\<close>

text \<open>C16. The field mask: a mask that names only fields that may be updated takes exactly those
  from the request, whatever the order of its paths and however often they are repeated; an
  empty or missing mask takes all of them; the first path that is not accepted makes the call
  fail with its error.\<close>

theorem update_mask_semantics:
  "apply_update user upd existing =
    (let paths = (case upd of None \<Rightarrow> [] | Some ps \<Rightarrow> ps)
     in if paths = [] then Inr (masked (set mask_paths) user existing)
        else if set paths \<subseteq> set mask_paths then Inr (masked (set paths) user existing)
        else Inl (path_error (hd (dropWhile (\<lambda>p. p \<in> set mask_paths) paths))))"
  by (auto simp: apply_update_def Let_def masked_all apply_mask_good apply_mask_bad
      split: option.splits)

text \<open>C17. A successful \<open>UpdateUser\<close>: the answer keeps the id and the creation date of the user
  before, and has from the request exactly the fields the mask names; the storage then holds
  that answer without e-mail address and phone number, and every other user as before.\<close>

theorem update_user_effect:
  assumes "mem_inv m"
    and "Server_UpdateUser (memory_Storage L ord clk)
           \<lparr>uu_User = Some user, uu_UpdateMask = upd\<rparr> m = (Inr u', m')"
  shows "\<exists>old. fmlookup (users m) (u_Id user) = Some old \<and>
      u' = masked (case upd of None \<Rightarrow> set mask_paths
             | Some ps \<Rightarrow> if ps = [] then set mask_paths else set ps) user old \<and>
      u_Id u' = u_Id old \<and> u_CreateDate u' = u_CreateDate old \<and>
      m' = m\<lparr>users := fmupd (u_Id user)
        (u'\<lparr>u_Email := [], u_Phone := [], u_Tags := Some (tag_list (u_Tags u'))\<rparr>) (users m)\<rparr>"
proof -
  obtain old where old: "fmlookup (users m) (u_Id user) = Some old"
    and a: "apply_update user upd old = Inr u'"
    and id: "u_Id u' = u_Id user" "u_CreateDate u' = u_CreateDate old"
    and t: "users m' = fmupd (u_Id user) (clone_fields u') (users m)"
    using mem.serve_update_ok [OF assms] by (metis option.inject UpdateUserRequest.select_convs)
  have "m' = m\<lparr>users := fmupd (u_Id user) (clone_fields u') (users m)\<rparr>"
    using t by (simp add: MemoryStorage.equality)
  then show ?thesis
    using old apply_update_ok [OF a] id mem_invD(1) [OF assms(1) old]
    by (simp add: clone_fields_eq)
qed

theorem update_user_effect_witness:
  "\<exists>old. fmlookup (users sample_mem) 2 = Some old \<and>
     u_Role (masked {''role''} (guest\<lparr>u_Role := Role_MEMBER\<rparr>) old) = Role_MEMBER"
proof -
  let ?u' = "(clone_fields guest)\<lparr>u_Role := Role_MEMBER\<rparr>"
  have "Server_UpdateUser sample_store
      \<lparr>uu_User = Some (guest\<lparr>u_Role := Role_MEMBER\<rparr>), uu_UpdateMask = Some [''role'']\<rparr> sample_mem =
    (Inr ?u', sample_mem\<lparr>users := fmupd 2 ?u' (users sample_mem)\<rparr>)"
    by (simp add: Server_UpdateUser_def memory_read_defs memory_write_defs apply_update_def
        apply_path_def guest_def clone_fields_eq sample_user_def User_zero_def)
  from update_user_effect [OF sample_mem_inv this] show ?thesis
    by (auto simp: guest_def masked_def pick_def)
qed

text \<open>An \<open>UpdateUser\<close> that fails, for a bad request, a missing user, or a mask with a bad
  path after good ones, leaves the storage as it was.\<close>

lemma update_error_keeps:
  assumes "Server_UpdateUser (memory_Storage L ord clk) req m = (Inl e, m')"
  shows "m' = m"
  using assms
  by (auto simp: Server_UpdateUser_def memory_write_defs split: option.splits sum.splits if_splits)

lemma update_error_keeps_witness:
  "Server_UpdateUser sample_store
     \<lparr>uu_User = Some guest, uu_UpdateMask = Some [''role'', ''id'']\<rparr> sample_mem =
   (Inl (Status InvalidArgument ''cannot update id field''), sample_mem)"
proof -
  obtain r m' where eq: "Server_UpdateUser sample_store
      \<lparr>uu_User = Some guest, uu_UpdateMask = Some [''role'', ''id'']\<rparr> sample_mem = (r, m')"
    by (cases "Server_UpdateUser sample_store
      \<lparr>uu_User = Some guest, uu_UpdateMask = Some [''role'', ''id'']\<rparr> sample_mem")
  then have r: "r = Inl (Status InvalidArgument ''cannot update id field'')"
    by (simp add: Server_UpdateUser_def memory_read_defs apply_update_def apply_path_def guest_def)
  with eq update_error_keeps [of sample_lib "\<lambda>_. [1, 2]" "\<lambda>_. (0, 0)"] show ?thesis by simp
qed

text \<open>An update of the e-mail address or the phone number is acknowledged with the new value
  in the answer, but the storage does not change at all: \<open>cloneUser\<close> drops both fields.\<close>

lemma contact_update_is_lost:
  assumes "mem_inv m" and "fmlookup (users m) (u_Id user) = Some old" and "u_Id user \<noteq> 0"
  shows "Server_UpdateUser (memory_Storage L ord clk)
      \<lparr>uu_User = Some user, uu_UpdateMask = Some [''email'', ''phone'']\<rparr> m =
    (Inr (old\<lparr>u_Email := u_Email user, u_Phone := u_Phone user\<rparr>), m)"
proof -
  note old = mem_invD [OF assms(1,2)]
  have "clone_fields (old\<lparr>u_Email := u_Email user, u_Phone := u_Phone user\<rparr>) = clone_fields old"
    by (simp add: clone_fields_eq)
  moreover have "fmupd (u_Id user) old (users m) = users m"
    using assms(2) by (intro fmap_ext) auto
  ultimately show ?thesis
    using assms(2,3) old
    by (simp add: Server_UpdateUser_def memory_read_defs memory_write_defs apply_update_def
        apply_path_def)
qed

lemma contact_update_is_lost_witness:
  "snd (Server_UpdateUser sample_store
     \<lparr>uu_User = Some (guest\<lparr>u_Email := ''new''\<rparr>), uu_UpdateMask = Some [''email'', ''phone'']\<rparr>
     sample_mem) = sample_mem"
  using contact_update_is_lost [OF sample_mem_inv, of "guest\<lparr>u_Email := ''new''\<rparr>" "clone_fields guest"]
  by (simp add: guest_def)

section \<open>The service as a state machine\<close>

text \<open>C5. Whatever calls the service has handled since it started on a new in-memory storage,
  every user is filed under its own id, no user has the id 0, and every stored user is a copy.\<close>

theorem service_invariant:
  assumes "service_reachable L (memory_Storage L ord clk) NewMemoryStorage m"
  shows "mem_inv m \<and> fmlookup (users m) 0 = None"
  using mem.reachable_no_zero [OF assms] by (simp_all add: NewMemoryStorage_def mem_inv_def)

theorem service_invariant_witness:
  "mem_inv (serve sample_lib sample_store (CallAddUser 0 admin) NewMemoryStorage)"
proof -
  have "service_reachable sample_lib sample_store NewMemoryStorage
      (serve sample_lib sample_store (CallAddUser 0 admin) NewMemoryStorage)"
    by (rule service_reachable.more [OF service_reachable.start]) (rule service_step.call, rule refl)
  then show ?thesis using service_invariant by blast
qed

end
