(* ===== verification/UserStreams.thy ===== *)
theory UserStreams
  imports UserService
begin

text \<open>
  The streaming calls over the in-memory storage: the accounting of \<open>BatchAddUsers\<close>, what a
  stream of activities or of users to synchronise leaves behind, and what the two listing calls
  send.
\<close>

section \<open>BatchAddUsers\<close>

text \<open>C20. The accounting of \<open>BatchAddUsers\<close> for a stream of fewer than \<open>2^32\<close> users that ends
  normally: the response counts every user as received, and as either added or failed; there is
  one error text per failure; and the storage has grown by exactly the users added.\<close>

theorem batch_accounting:
  assumes "mem_inv m" and "length tus < 2 ^ 32"
    and "Server_BatchAddUsers L (memory_Storage L ord clk) now close (messages tus) m = (resp, r, m')"
  shows "\<exists>rs. resp = Some rs \<and> r = close \<and>
    unat (ba_TotalReceived rs) = length tus \<and>
    unat (ba_TotalAdded rs) + unat (ba_TotalFailed rs) = length tus \<and>
    length (ba_Errors rs) = unat (ba_TotalFailed rs) \<and>
    fcard (fmdom (users m')) = fcard (fmdom (users m)) + unat (ba_TotalAdded rs)"
proof -
  obtain b s where eq: "batch_run L (memory_Storage L ord clk) tus (batch_init, m) = (b, s)"
    by (cases "batch_run L (memory_Storage L ord clk) tus (batch_init, m)")
  from mem.batch_run_counts [OF assms(1) batch_counts_init _ eq]
  obtain a f where c: "batch_counts (length tus) a f b"
    and card: "fcard (fmdom (users s)) = fcard (fmdom (users m)) + a" by auto
  have "unat (of_nat n :: int32) = n" if "n \<le> length tus" for n
    using that assms(2) by (simp add: unat_of_nat take_bit_nat_eq_self)
  with c card assms(3) eq show ?thesis
    by (auto simp: Server_BatchAddUsers_def batch_loop_messages batch_response_def
        batch_counts_def)
qed

theorem batch_accounting_witness:
  "\<exists>rs r m'. Server_BatchAddUsers sample_lib sample_store 0 None
      (messages [(0, admin), (0, admin\<lparr>u_Id := 0\<rparr>)]) NewMemoryStorage = (Some rs, r, m') \<and>
    unat (ba_TotalAdded rs) + unat (ba_TotalFailed rs) = 2"
proof -
  let ?run = "Server_BatchAddUsers sample_lib sample_store 0 None
      (messages [(0, admin), (0, admin\<lparr>u_Id := 0\<rparr>)]) NewMemoryStorage"
  obtain resp r m' where eq: "?run = (resp, r, m')" by (cases ?run)
  have "length [(0 :: time, admin), (0, admin\<lparr>u_Id := 0\<rparr>)] < 2 ^ 32" by simp
  from batch_accounting [OF mem_inv_New this eq] eq show ?thesis by auto
qed

text \<open>C30. Who is added by \<open>BatchAddUsers\<close>: a user that is already stored is never overwritten, and
  for a new id the first user of the stream with that id, a nonzero id and a name is stored,
  later ones are refused.\<close>

theorem batch_first_write_wins:
  assumes "mem_inv m"
    and "Server_BatchAddUsers L (memory_Storage L ord clk) now close (messages tus) m = (resp, r, m')"
  shows "fmlookup (users m') i = (case fmlookup (users m) i of
      Some v \<Rightarrow> Some v
    | None \<Rightarrow> map_option (\<lambda>(t, u). clone_fields (mem_fill L t u))
        (find (\<lambda>(t, u). u_Id u = i \<and> u_Id u \<noteq> 0 \<and> u_Username u \<noteq> []) tus))"
  using assms(2) mem.batch_run_entry [OF assms(1)]
  by (cases "fmlookup (users m) i")
    (auto simp: Server_BatchAddUsers_def batch_loop_messages Let_def batch_valid_def)

theorem batch_first_write_wins_witness:
  "\<exists>m'. snd (snd (Server_BatchAddUsers sample_lib sample_store 0 None
      (messages [(0, guest), (0, guest\<lparr>u_Role := Role_ADMIN\<rparr>)]) NewMemoryStorage)) = m' \<and>
    map_option u_Role (fmlookup (users m') 2) = Some Role_GUEST"
proof -
  let ?run = "Server_BatchAddUsers sample_lib sample_store 0 None
      (messages [(0, guest), (0, guest\<lparr>u_Role := Role_ADMIN\<rparr>)]) NewMemoryStorage"
  obtain resp r m' where eq: "?run = (resp, r, m')" by (cases ?run)
  from batch_first_write_wins [OF mem_inv_New eq, of 2] eq show ?thesis
    by (simp add: NewMemoryStorage_def guest_def)
qed

text \<open>The rule that the first user must be an administrator binds \<open>AddUser\<close> only: on an empty
  storage, where \<open>AddUser\<close> refuses a user that is not an administrator, a batch of that one user
  and a synchronisation of it both store it.\<close>

lemma first_admin_bypassed:
  assumes "u_Id u \<noteq> 0" and "u_Username u \<noteq> []" and "u_Role u \<noteq> Role_ADMIN"
  shows "fst (Server_AddUser (memory_Storage L ord clk) now u NewMemoryStorage) =
      Inl (Status InvalidArgument ''first user created must be an admin'') \<and>
    fmlookup (users (serve L (memory_Storage L ord clk)
      (CallBatchAddUsers now None [Msg now u]) NewMemoryStorage)) (u_Id u) =
      Some (clone_fields (mem_fill L now u)) \<and>
    fmlookup (users (serve L (memory_Storage L ord clk)
      (CallSyncUsers [(Msg now u, None)]) NewMemoryStorage)) (u_Id u) =
      Some (clone_fields (mem_fill L now u))"
  using assms
  by (simp add: Server_AddUser_def memory_read_defs memory_write_defs NewMemoryStorage_def
      Server_BatchAddUsers_def batch_step_def sync_step_def Let_def)

section \<open>UserActivityStream\<close>

text \<open>A stream all of whose messages arrive and all of whose answers are sent.\<close>

definition quiet :: "(time \<times> 'm) list \<Rightarrow> ('m recv \<times> error option) list" where
  "quiet tms = map (\<lambda>(t, x). (Msg t x, None)) tms"

lemma quiet_simps [simp]:
  "quiet [] = []" "quiet ((t, x) # tms) = (Msg t x, None) # quiet tms"
  by (simp_all add: quiet_def)

definition login_time ::
    "UserActivity list \<Rightarrow> uint32 \<Rightarrow> Timestamp option \<Rightarrow> Timestamp option" where
  "login_time acts i l = foldl (\<lambda>l a. if ac_UserId a = i \<and> ac_ActivityType a = UserActivity_LOGIN
     then ac_Timestamp a else l) l acts"

lemma mem_activity_step:
  assumes "mem_inv m"
  shows "\<exists>rs m'. activity_step L (memory_Storage L ord clk) now a m = (Inr rs, m') \<and> mem_inv m' \<and>
    ar_UserId rs = ac_UserId a \<and>
    ar_Acknowledged rs = (fmlookup (users m) (ac_UserId a) \<noteq> None) \<and>
    (\<forall>i. fmlookup (users m') i = map_option
       (\<lambda>u. u\<lparr>u_LastLogin := login_time [a] i (u_LastLogin u)\<rparr>) (fmlookup (users m) i))"
proof (cases "fmlookup (users m) (ac_UserId a)")
  case None
  then show ?thesis using assms
    by (auto simp: activity_step_def memory_read_defs login_time_def map_option_case
        split: option.splits)
next
  case (Some u)
  note u = mem_invD [OF assms Some]
  have c: "clone_fields (u\<lparr>u_LastLogin := ac_Timestamp a\<rparr>) = u\<lparr>u_LastLogin := ac_Timestamp a\<rparr>"
    using u(2) by (auto simp: clone_fields_eq intro!: User.equality
        dest: arg_cong [where f = u_Email] arg_cong [where f = u_Phone] arg_cong [where f = u_Tags])
  show ?thesis
  proof (cases "ac_ActivityType a = UserActivity_LOGIN")
    case True
    then show ?thesis using Some u c assms
      by (auto simp: activity_step_def memory_read_defs memory_write_defs login_time_def Let_def
          map_option_case intro!: mem_inv_upd split: option.splits)
  next
    case False
    then show ?thesis using Some assms
      by (auto simp: activity_step_def memory_read_defs login_time_def Let_def map_option_case
          split: option.splits)
  qed
qed

lemma login_time_Cons: "login_time (a # acts) i l = login_time acts i (login_time [a] i l)"
  by (simp add: login_time_def)

text \<open>C31. A stream of activities over the in-memory storage that is not cut short: one answer per
  activity, in order, for the same user, acknowledged exactly if that user is stored; afterwards
  the same users are stored and differ at most in their last login, which is the time of the
  last \<open>LOGIN\<close> sent for the user, if any.\<close>

theorem activity_stream_effect:
  assumes "mem_inv m"
    and "activity_loop L (memory_Storage L ord clk) (quiet tas) m = (sent, r, m')"
  shows "r = None \<and>
    map ar_UserId sent = map (ac_UserId \<circ> snd) tas \<and>
    map ar_Acknowledged sent = map (\<lambda>(t, a). fmlookup (users m) (ac_UserId a) \<noteq> None) tas \<and>
    (\<forall>i. fmlookup (users m') i = map_option
       (\<lambda>u. u\<lparr>u_LastLogin := login_time (map snd tas) i (u_LastLogin u)\<rparr>) (fmlookup (users m) i))"
  using assms
proof (induction tas arbitrary: m sent r)
  case Nil
  then show ?case by (auto simp: login_time_def option.map_ident)
next
  case (Cons ta tas)
  obtain t a where ta: "ta = (t, a)" by (cases ta)
  obtain rs m1 where step: "activity_step L (memory_Storage L ord clk) t a m = (Inr rs, m1)"
      "mem_inv m1" "ar_UserId rs = ac_UserId a"
      "ar_Acknowledged rs = (fmlookup (users m) (ac_UserId a) \<noteq> None)"
    and look: "\<And>i. fmlookup (users m1) i = map_option
       (\<lambda>u. u\<lparr>u_LastLogin := login_time [a] i (u_LastLogin u)\<rparr>) (fmlookup (users m) i)"
    using mem_activity_step [OF Cons.prems(1), of L ord clk t a] by blast
  obtain sent1 r1 where rest: "activity_loop L (memory_Storage L ord clk) (quiet tas) m1 = (sent1, r1, m')"
      and out: "sent = rs # sent1" "r = r1"
    using Cons.prems(2) ta step(1) by (auto split: prod.splits)
  note ih = Cons.IH [OF step(2) rest]
  have "fmlookup (users m') i = map_option
       (\<lambda>u. u\<lparr>u_LastLogin := login_time (a # map snd tas) i (u_LastLogin u)\<rparr>) (fmlookup (users m) i)" for i
    using ih by (simp add: look login_time_Cons [of a "map snd tas"] option.map_comp comp_def)
  then show ?case using ih out step(3,4) ta by (auto simp: look)
qed

theorem activity_stream_effect_witness:
  "\<exists>sent r m'. activity_loop sample_lib sample_store (quiet [(0, \<lparr>ac_UserId = 2,
      ac_ActivityType = UserActivity_LOGIN, ac_Timestamp = Some \<lparr>seconds = 7, nanos = 0\<rparr>,
      ac_Details = None\<rparr>)]) sample_mem = (sent, r, m') \<and>
    map_option u_LastLogin (fmlookup (users m') 2) = Some (Some \<lparr>seconds = 7, nanos = 0\<rparr>)"
proof -
  let ?run = "activity_loop sample_lib sample_store (quiet [(0, \<lparr>ac_UserId = 2,
      ac_ActivityType = UserActivity_LOGIN, ac_Timestamp = Some \<lparr>seconds = 7, nanos = 0\<rparr>,
      ac_Details = None\<rparr>)]) sample_mem"
  obtain sent r m' where eq: "?run = (sent, r, m')" by (cases ?run)
  from activity_stream_effect [OF sample_mem_inv eq] eq show ?thesis
    by (simp add: login_time_def)
qed

section \<open>SyncUsers\<close>

text \<open>What one entry of the storage becomes when a stream of users is synchronised.\<close>

definition sync_entry ::
    "lib \<Rightarrow> User option \<Rightarrow> (time \<times> User) list \<Rightarrow> uint32 \<Rightarrow> User option" where
  "sync_entry L old tus i = foldl (\<lambda>o' (t, u). if u_Id u = i \<and> i \<noteq> 0
     then Some (if o' = None then clone_fields (mem_fill L t u) else clone_fields u) else o') old tus"

lemma sync_entry_Cons: "sync_entry L old (tu # tus) i = sync_entry L (sync_entry L old [tu] i) tus i"
  by (simp add: sync_entry_def)

lemma sync_entry_last:
  "sync_entry L old tus i = (let own = filter (\<lambda>(t, u). u_Id u = i \<and> i \<noteq> 0) tus
     in if own = [] then old
        else Some (case last own of (t, u) \<Rightarrow>
          if old = None \<and> length own = 1 then clone_fields (mem_fill L t u) else clone_fields u))"
proof (induction tus rule: rev_induct)
  case (snoc tu tus)
  then show ?case by (cases tu) (auto simp: sync_entry_def Let_def)
qed (simp add: sync_entry_def)

lemma mem_sync_step:
  assumes "mem_inv m"
  shows "\<exists>rs m'. sync_step L (memory_Storage L ord clk) now u m = (rs, m') \<and> mem_inv m' \<and>
    sy_UserId rs = u_Id u \<and>
    sy_Status rs = (if u_Id u = 0 then SyncUserResponse_FAILED else SyncUserResponse_SUCCESS) \<and>
    (\<forall>i. fmlookup (users m') i = sync_entry L (fmlookup (users m) i) [(now, u)] i)"
  using assms
  by (auto simp: sync_step_def memory_read_defs memory_write_defs sync_entry_def Let_def
      SyncUserResponse_zero_def intro!: mem_inv_upd split: option.splits)

text \<open>C32. A stream of users to synchronise over the in-memory storage that is not cut short: one
  answer per user, in order, a failure exactly for the id 0; afterwards the last user sent with
  an id is what is stored under it, with the defaults of \<open>AddUser\<close> only if it was the only one
  and new, and what was not sent is untouched.\<close>

theorem sync_stream_effect:
  assumes "mem_inv m"
    and "sync_loop L (memory_Storage L ord clk) (quiet tus) m = (sent, r, m')"
  shows "r = None \<and>
    map sy_UserId sent = map (u_Id \<circ> snd) tus \<and>
    map sy_Status sent = map (\<lambda>(t, u). if u_Id u = 0 then SyncUserResponse_FAILED
      else SyncUserResponse_SUCCESS) tus \<and>
    (\<forall>i. fmlookup (users m') i = (let own = filter (\<lambda>(t, u). u_Id u = i \<and> i \<noteq> 0) tus
     in if own = [] then fmlookup (users m) i
        else Some (case last own of (t, u) \<Rightarrow>
          if fmlookup (users m) i = None \<and> length own = 1
          then clone_fields (mem_fill L t u) else clone_fields u)))"
  unfolding sync_entry_last [symmetric]
  using assms
proof (induction tus arbitrary: m sent r)
  case Nil
  then show ?case by (auto simp: sync_entry_def)
next
  case (Cons tu tus)
  obtain t u where tu: "tu = (t, u)" by (cases tu)
  obtain rs m1 where step: "sync_step L (memory_Storage L ord clk) t u m = (rs, m1)"
      "mem_inv m1" "sy_UserId rs = u_Id u"
      "sy_Status rs = (if u_Id u = 0 then SyncUserResponse_FAILED else SyncUserResponse_SUCCESS)"
    and look: "\<And>i. fmlookup (users m1) i = sync_entry L (fmlookup (users m) i) [(t, u)] i"
    using mem_sync_step [OF Cons.prems(1), of L ord clk t u] by blast
  obtain sent1 r1 where rest: "sync_loop L (memory_Storage L ord clk) (quiet tus) m1 = (sent1, r1, m')"
      and out: "sent = rs # sent1" "r = r1"
    using Cons.prems(2) tu step(1) by (auto split: prod.splits)
  show ?case using Cons.IH [OF step(2) rest] out step(3,4) tu
    by (simp add: look sync_entry_Cons [of L _ "(t, u)" tus])
qed

theorem sync_stream_effect_witness:
  "\<exists>sent r m'. sync_loop sample_lib sample_store
      (quiet [(0, guest), (0, guest\<lparr>u_Role := Role_MEMBER\<rparr>)]) sample_mem = (sent, r, m') \<and>
    map_option u_Role (fmlookup (users m') 2) = Some Role_MEMBER"
proof -
  let ?run = "sync_loop sample_lib sample_store
      (quiet [(0, guest), (0, guest\<lparr>u_Role := Role_MEMBER\<rparr>)]) sample_mem"
  obtain sent r m' where eq: "?run = (sent, r, m')" by (cases ?run)
  from sync_stream_effect [OF sample_mem_inv eq] eq show ?thesis
    by (simp add: guest_def)
qed

text \<open>Synchronising a stored user without its creation date erases the date that was stored,
  and an empty name is accepted, although the answer reports that role, username, profile and
  status are what was updated.\<close>

lemma sync_erases_create_date:
  assumes "fmlookup (users m) (u_Id u) = Some old" and "u_Id u \<noteq> 0"
    and "u_CreateDate u = None" and "u_Username u = []"
  shows "\<exists>rs m'. sync_loop L (memory_Storage L ord clk) [(Msg now u, None)] m = ([rs], None, m') \<and>
    sy_Status rs = SyncUserResponse_SUCCESS \<and>
    sy_UpdatedFields rs = [''role'', ''username'', ''profile'', ''status''] \<and>
    map_option u_CreateDate (fmlookup (users m') (u_Id u)) = Some None \<and>
    map_option u_Username (fmlookup (users m') (u_Id u)) = Some []"
  using assms by (simp add: sync_step_def memory_read_defs memory_write_defs Let_def)

end
