(* ===== verification/UserListing.thy ===== *)
theory UserListing
  imports UserStreams
begin

text \<open>
  What the two listing calls send over the in-memory storage, whatever the order in which the
  map is visited: the filters of the request, the reading of the clock, and what is ignored.
\<close>

section \<open>The lists of the storage\<close>

lemma ids_emit:
  assumes "mem_inv m"
  shows "map u_Id (concat (map (\<lambda>k. case fmlookup (users m) k of
       None \<Rightarrow> [] | Some v \<Rightarrow> if P k v then [clone_fields v] else []) ks)) =
    filter (\<lambda>k. \<exists>v. fmlookup (users m) k = Some v \<and> P k v) ks"
  by (induction ks) (auto dest: mem_invD(1) [OF assms] split: option.splits)

lemma distinct_emit:
  "mem_inv m \<Longrightarrow> distinct ks \<Longrightarrow> distinct (map u_Id (concat (map (\<lambda>k. case fmlookup (users m) k of
       None \<Rightarrow> [] | Some v \<Rightarrow> if P k v then [clone_fields v] else []) ks)))"
  by (simp only: ids_emit distinct_filter)

lemma distinct_list_loop:
  "mem_inv m \<Longrightarrow> distinct ks \<Longrightarrow> distinct (map u_Id (list_loop L clk flt ks m []))"
  by (simp only: list_loop_eq append_Nil distinct_emit)

lemma distinct_role_loop:
  "mem_inv m \<Longrightarrow> distinct ks \<Longrightarrow> distinct (map u_Id (role_loop role ks m []))"
  using distinct_emit [of m ks "\<lambda>_ v. u_Role v = role"] by (simp only: role_loop_eq append_Nil)

lemma stored_iff:
  "mem_inv m \<Longrightarrow> enumerates ks (users m) \<Longrightarrow>
   u \<in> fmran' (users m) \<longleftrightarrow> u_Id u \<in> set ks \<and> fmlookup (users m) (u_Id u) = Some u"
  by (auto simp: enumerates_iff dest: mem_invD(1) intro: fmran'I elim!: fmran'E)

text \<open>What is sent is a beginning of the list, up to the first message the transport refuses.\<close>

lemma sent_prefix:
  assumes "(if all = [] then ([], Some none) else send_loop sends 0 all) = (sent, r)"
  shows "\<exists>rest. all = sent @ rest \<and> (\<forall>k < length sent. sends k = None) \<and>
    r = (if sent @ rest = [] then Some none else if rest = [] then None else sends (length sent)) \<and>
    (rest \<noteq> [] \<longrightarrow> r \<noteq> None)"
proof (cases "all = []")
  case False
  with assms have "send_loop sends 0 all = (sent, r)" by simp
  from send_loop_cut [OF this] obtain rest where "all = sent @ rest"
      "\<forall>k < length sent. sends k = None"
      "r = (if rest = [] then None else sends (length sent))" "rest \<noteq> [] \<longrightarrow> r \<noteq> None"
    by (simp only: add_0) blast
  then show ?thesis using False by (intro exI [of _ rest]) auto
qed (use assms in auto)

section \<open>ListUsers\<close>

text \<open>C22. \<open>ListUsers\<close> without an age limit sends, each once, exactly the stored users created at
  or after the whole second in which \<open>created_since\<close> lies and, when a status other than \<open>INACTIVE\<close>
  is asked for, of that status; if there is none it answers \<open>NotFound\<close>. When a message cannot be
  sent it stops there and returns the error of the transport: \<open>rest\<close> is what it has not sent. The
  protocol's comment promises only users created after \<open>created_since\<close>: the bound is inclusive, and
  a user created earlier within that second is sent too.\<close>

theorem list_users_exact:
  assumes "mem_inv m" and "enumerates (ord m) (users m)" and "lu_OlderThan req = None"
    and "Server_ListUsers L (memory_Storage L ord clk) now sends req m = (sent, r)"
  shows "\<exists>rest. distinct (map u_Id (sent @ rest)) \<and>
    set (sent @ rest) = {u \<in> fmran' (users m).
      (case lu_CreatedSince req of None \<Rightarrow> True
       | Some c \<Rightarrow> time_unix_seconds (AsTime L (Some c)) * 10 ^ 9 \<le> AsTime L (u_CreateDate u)) \<and>
      (lu_Status req = UserStatus_INACTIVE \<or> u_Status u = lu_Status req)} \<and>
    (\<forall>k < length sent. sends k = None) \<and>
    r = (if sent @ rest = [] then Some (Status NotFound ''no users found'')
         else if rest = [] then None else sends (length sent)) \<and>
    (rest \<noteq> [] \<longrightarrow> r \<noteq> None)"
proof -
  define all where "all = list_loop L clk (Some (request_filter L now req)) (ord m) m []"
  have "distinct (map u_Id all)"
    using assms(1,2) by (simp add: all_def distinct_list_loop enumerates_def)
  moreover have "set all = {u \<in> fmran' (users m).
      (case lu_CreatedSince req of None \<Rightarrow> True
       | Some c \<Rightarrow> time_unix_seconds (AsTime L (Some c)) * 10 ^ 9 \<le> AsTime L (u_CreateDate u)) \<and>
      (lu_Status req = UserStatus_INACTIVE \<or> u_Status u = lu_Status req)}"
    using assms(3)
    by (auto simp: all_def set_list_loop [OF assms(1)] stored_iff [OF assms(1,2)] list_keeps_def
        request_filter_def skip_created_def skip_older_def skip_status_def time_Unix_def
        ListUsersRequest_GetStatus_def enum_defs not_less split: option.splits)
  moreover have "(if all = [] then ([], Some (Status NotFound ''no users found'')) else send_loop sends 0 all) = (sent, r)"
    using assms(4) by (simp add: Server_ListUsers_def memory_read_defs all_def split: if_splits)
  from sent_prefix [OF this] obtain rest where "all = sent @ rest" "\<forall>k < length sent. sends k = None"
      "r = (if sent @ rest = [] then Some (Status NotFound ''no users found'')
         else if rest = [] then None else sends (length sent))" "rest \<noteq> [] \<longrightarrow> r \<noteq> None" by blast
  ultimately show ?thesis by (intro exI [of _ rest]) simp
qed

lemma sample_mem_users: "fmdom' (users sample_mem) = {1, 2}"
  by (auto simp: sample_mem_def)

lemma sample_mem_ran [simp]: "clone_fields guest \<in> fmran' (users sample_mem)"
  by (rule fmran'I [of _ 2]) simp

lemma sample_mem_enumerates [simp]: "enumerates [1, 2] (users sample_mem)"
  by (simp add: enumerates_def sample_mem_users)

theorem list_users_exact_witness:
  "\<exists>sent r. Server_ListUsers sample_lib sample_store 0 (\<lambda>_. None)
      (ListUsersRequest_zero\<lparr>lu_CreatedSince := Some \<lparr>seconds = 100, nanos = 7\<rparr>\<rparr>) sample_mem =
      (sent, r) \<and> clone_fields guest \<in> set sent \<and>
      AsTime sample_lib (u_CreateDate guest) < AsTime sample_lib (Some \<lparr>seconds = 100, nanos = 7\<rparr>)"
proof -
  let ?req = "ListUsersRequest_zero\<lparr>lu_CreatedSince := Some \<lparr>seconds = 100, nanos = 7\<rparr>\<rparr>"
  obtain sent r where eq: "Server_ListUsers sample_lib sample_store 0 (\<lambda>_. None) ?req sample_mem =
      (sent, r)"
    by (cases "Server_ListUsers sample_lib sample_store 0 (\<lambda>_. None) ?req sample_mem")
  have date: "AsTime sample_lib (u_CreateDate guest) = 10 ^ 11" by (simp add: guest_def)
  have c: "(case lu_CreatedSince ?req of None \<Rightarrow> True
       | Some c \<Rightarrow> time_unix_seconds (AsTime sample_lib (Some c)) * 10 ^ 9 \<le> AsTime sample_lib (u_CreateDate u)) \<longleftrightarrow>
      10 ^ 11 \<le> AsTime sample_lib (u_CreateDate u)" for u
    by (simp add: time_unix_seconds_def)
  have s: "lu_Status ?req = UserStatus_INACTIVE" and o: "lu_OlderThan ?req = None"
    by (simp_all add: ListUsersRequest_zero_def enum_defs)
  note ex = list_users_exact [OF sample_mem_inv _ o eq, unfolded c s, simplified]
  obtain rest where all: "set sent \<union> set rest = {u \<in> fmran' (users sample_mem). 10 ^ 11 \<le> AsTime sample_lib (u_CreateDate u)}"
      and rest: "rest \<noteq> [] \<longrightarrow> r \<noteq> None" "sent \<noteq> [] \<or> rest \<noteq> [] \<longrightarrow> r = None"
    using ex by (auto split: if_splits)
  have "clone_fields guest \<in> set sent \<union> set rest" unfolding all by (simp add: date)
  with rest have "clone_fields guest \<in> set sent" by auto
  moreover have "AsTime sample_lib (u_CreateDate guest) < AsTime sample_lib (Some \<lparr>seconds = 100, nanos = 7\<rparr>)"
    by (simp add: guest_def)
  ultimately show ?thesis using eq by blast
qed

text \<open>C33. The age limit of \<open>ListUsers\<close> compares two ages read from a clock that moves: when the
  readings \<open>n1 \<le> n2\<close> are not before the arrival of the request, no user younger than the limit
  is sent, and every user is sent that is older than the limit by more than one second and the
  time between the two readings (all times within the range of \<open>time.Duration\<close>).\<close>

theorem list_users_age:
  assumes "mem_inv m" and "fmlookup (users m) (u_Id u) = Some u" and "u_Id u \<in> set (ord m)"
    and "lu_OlderThan req = Some d" and "lu_CreatedSince req = None" and "lu_Status req = 0"
    and "clk (u_Id u) = (n1, n2)" and "now \<le> n1" and "n1 \<le> n2"
    and "0 \<le> AsDuration L d" and "AsDuration L d \<le> maxDuration"
    and "\<bar>n1 - AsTime L (u_CreateDate u)\<bar> \<le> maxDuration" and "n2 - now + AsDuration L d + 10 ^ 9 \<le> maxDuration"
    and "Server_ListUsers L (memory_Storage L ord clk) now (\<lambda>_. None) req m = (sent, r)"
  shows "(u \<in> set sent \<longrightarrow> AsDuration L d < now - AsTime L (u_CreateDate u)) \<and>
    (AsDuration L d + 10 ^ 9 + (n2 - n1) \<le> now - AsTime L (u_CreateDate u) \<longrightarrow> u \<in> set sent)"
proof -
  let ?c = "AsTime L (u_CreateDate u)" and ?cut = "now - AsDuration L d"
  have "u \<in> set sent \<longleftrightarrow>
      u \<in> set (list_loop L clk (Some (request_filter L now req)) (ord m) m [])"
    using assms(14)
    by (auto simp: Server_ListUsers_def memory_read_defs send_loop_all split: if_splits)
  also have "\<dots> \<longleftrightarrow> list_keeps L (n1, n2) (Some (request_filter L now req)) u"
    using assms(2,3,7) by (simp add: set_list_loop [OF assms(1)])
  also have "\<dots> \<longleftrightarrow> time_Sub n2 (time_Unix (time_unix_seconds ?cut)) < time_Sub n1 ?c"
    using assms(4,5,6,10)
    by (auto simp: list_keeps_def request_filter_def skip_created_def skip_older_def
        skip_status_def ListUsersRequest_GetStatus_def enum_defs duration_neg_def minDuration_def)
  also have "time_Sub n1 ?c = n1 - ?c"
    using assms(12) by (intro time_Sub_exact) (auto simp: minDuration_def maxDuration_def)
  also have "time_Sub n2 (time_Unix (time_unix_seconds ?cut)) =
      n2 - time_Unix (time_unix_seconds ?cut)"
    using assms(8,9,10,13) time_Unix_floor [of ?cut]
    by (intro time_Sub_exact) (auto simp: minDuration_def maxDuration_def)
  finally have "u \<in> set sent \<longleftrightarrow> n2 - time_Unix (time_unix_seconds ?cut) < n1 - ?c" .
  then show ?thesis using time_Unix_floor [of ?cut] assms(9) by auto
qed

theorem list_users_age_witness:
  "\<exists>sent r. Server_ListUsers sample_lib (memory_Storage sample_lib (\<lambda>_. [1, 2])
      (\<lambda>_. (200 * 10 ^ 9, 200 * 10 ^ 9 + 5))) (200 * 10 ^ 9) (\<lambda>_. None)
      (ListUsersRequest_zero\<lparr>lu_OlderThan := Some \<lparr>d_seconds = 90, d_nanos = 0\<rparr>\<rparr>) sample_mem =
      (sent, r) \<and> clone_fields guest \<in> set sent"
proof -
  let ?run = "Server_ListUsers sample_lib (memory_Storage sample_lib (\<lambda>_. [1, 2])
      (\<lambda>_. (200 * 10 ^ 9, 200 * 10 ^ 9 + 5))) (200 * 10 ^ 9) (\<lambda>_. None)
      (ListUsersRequest_zero\<lparr>lu_OlderThan := Some \<lparr>d_seconds = 90, d_nanos = 0\<rparr>\<rparr>) sample_mem"
  obtain sent r where eq: "?run = (sent, r)" by (cases ?run)
  have "clone_fields guest \<in> set sent"
    using list_users_age [OF sample_mem_inv _ _ _ _ _ _ _ _ _ _ _ _ eq, of "clone_fields guest"]
    by (simp add: guest_def ListUsersRequest_zero_def enum_defs maxDuration_def)
  with eq show ?thesis by blast
qed

text \<open>What a listing over the in-memory storage ignores: the page size and the page token,
  and the status \<open>INACTIVE\<close>, which lists users of every status.\<close>

lemma list_users_ignores:
  "Server_ListUsers L (memory_Storage L ord clk) now sends
      (req\<lparr>lu_PageSize := n, lu_PageToken := token\<rparr>) m =
    Server_ListUsers L (memory_Storage L ord clk) now sends req m \<and>
   f_Status (request_filter L now (req\<lparr>lu_Status := UserStatus_INACTIVE\<rparr>)) = None"
proof -
  have "list_keeps L nows (Some (request_filter L now (req\<lparr>lu_PageSize := n, lu_PageToken := token\<rparr>))) =
      list_keeps L nows (Some (request_filter L now req))" for nows
    by (rule ext) (simp add: list_keeps_def request_filter_def skip_created_def skip_older_def
        skip_status_def ListUsersRequest_GetStatus_def)
  then have "list_loop L clk (Some (request_filter L now (req\<lparr>lu_PageSize := n, lu_PageToken := token\<rparr>)))
      (ord m) m [] = list_loop L clk (Some (request_filter L now req)) (ord m) m []"
    by (simp only: list_loop_eq)
  then show ?thesis
    by (auto simp: Server_ListUsers_def memory_read_defs request_filter_def
        ListUsersRequest_GetStatus_def enum_defs)
qed

section \<open>ListUsersByRole\<close>

text \<open>\<open>ListUsersByRole\<close> sends the stored users of the role, each once, up to the first send
  that fails, whose error it returns; if there is no such user it answers \<open>NotFound\<close>.\<close>

lemma list_by_role_exact:
  assumes "mem_inv m" and "enumerates (ord m) (users m)"
    and "Server_ListUsersByRole L (memory_Storage L ord clk) sends \<lparr>ur_Role = role\<rparr> m = (sent, r)"
  shows "\<exists>rest. distinct (map u_Id (sent @ rest)) \<and>
    set (sent @ rest) = {u \<in> fmran' (users m). u_Role u = role} \<and>
    (\<forall>k < length sent. sends k = None) \<and>
    r = (if sent @ rest = [] then Some (Status NotFound (''no users found with role '' @ Role_String L role))
         else if rest = [] then None else sends (length sent)) \<and>
    (rest \<noteq> [] \<longrightarrow> r \<noteq> None)"
proof -
  define all where "all = role_loop role (ord m) m []"
  have "distinct (map u_Id all)"
    using assms(1,2) by (simp add: all_def distinct_role_loop enumerates_def)
  moreover have "set all = {u \<in> fmran' (users m). u_Role u = role}"
    by (auto simp: all_def set_role_loop [OF assms(1)] stored_iff [OF assms(1,2)])
  ultimately have spec: "distinct (map u_Id all)" "set all = {u \<in> fmran' (users m). u_Role u = role}"
    by blast+
  have run: "(if all = [] then ([], Some (Status NotFound
      (''no users found with role '' @ Role_String L role))) else send_loop sends 0 all) = (sent, r)"
    using assms(3) by (simp add: Server_ListUsersByRole_def memory_read_defs all_def split: if_splits)
  from sent_prefix [OF run] obtain rest where "all = sent @ rest" "\<forall>k < length sent. sends k = None"
      "r = (if sent @ rest = [] then Some (Status NotFound (''no users found with role '' @ Role_String L role))
         else if rest = [] then None else sends (length sent))" "rest \<noteq> [] \<longrightarrow> r \<noteq> None" by blast
  with spec show ?thesis by (intro exI [of _ rest]) simp
qed

end
