(* ===== verification/Auth.thy ===== *)
theory Auth
  imports ProtoTypes
begin

text \<open>
  Tokens (\<open>auth/jwt.go\<close>): the claims, the manager that generates, validates and refreshes
  tokens, and the role checks. The JWT library is not under \<open>src/\<close>: what the code calls of it
  is the record \<open>jwt\<close>, and \<open>jwt_laws\<close> states its documented behaviour.
\<close>

section \<open>Claims\<close>

text \<open>
  \<open>jwt.RegisteredClaims\<close>, embedded in \<open>Claims\<close>. A \<open>*jwt.NumericDate\<close> is an optional time.
  The type of the roles is left open: a list, or a slice of the heap when the aliasing of
  \<open>GetInfo\<close> is at stake.
\<close>

record RegisteredClaims =
  Issuer :: string
  Subject :: string
  ExpiresAt :: "time option"
  NotBefore :: "time option"
  IssuedAt :: "time option"

record 'r claims =
  c_UserID :: string
  c_Username :: string
  c_Email :: string
  c_Roles :: 'r
  c_Registered :: RegisteredClaims

type_synonym Claims = "string list claims"

record 'r ClaimInfo =
  i_UserID :: string
  i_Username :: string
  i_Email :: string
  i_Roles :: 'r

definition ErrInvalidToken :: error where
  "ErrInvalidToken = Errorf ''invalid token'' None"

definition ErrExpiredToken :: error where
  "ErrExpiredToken = Errorf ''token has expired'' None"

definition ErrInvalidClaims :: error where
  "ErrInvalidClaims = Errorf ''invalid token claims'' None"

definition ErrNoPermission :: error where
  "ErrNoPermission = Errorf ''no permission for you'' None"

lemma auth_errors_distinct [simp]:
  "ErrInvalidToken \<noteq> ErrExpiredToken" "ErrExpiredToken \<noteq> ErrInvalidToken"
  "ErrInvalidToken \<noteq> ErrInvalidClaims" "ErrInvalidClaims \<noteq> ErrInvalidToken"
  "ErrExpiredToken \<noteq> ErrInvalidClaims" "ErrInvalidClaims \<noteq> ErrExpiredToken"
  by (simp_all add: ErrInvalidToken_def ErrExpiredToken_def ErrInvalidClaims_def)

definition GetInfo :: "'r claims \<Rightarrow> 'r ClaimInfo" where
  "GetInfo c = \<lparr>
     i_UserID = c_UserID c,
     i_Username = c_Username c,
     i_Email = c_Email c,
     i_Roles = c_Roles c\<rparr>"

text \<open>\<open>slices.Contains\<close>.\<close>

definition slices_Contains :: "'a list \<Rightarrow> 'a \<Rightarrow> bool" where
  "slices_Contains xs x = list_ex (\<lambda>y. y = x) xs"

lemma slices_Contains_iff [simp]: "slices_Contains xs x \<longleftrightarrow> x \<in> set xs"
  by (auto simp: slices_Contains_def list_ex_iff)

definition HasRole :: "Claims \<Rightarrow> string \<Rightarrow> bool" where
  "HasRole c role = slices_Contains (c_Roles c) role"

definition HasAnyRole :: "Claims \<Rightarrow> string list \<Rightarrow> bool" where
  "HasAnyRole c roles = list_ex (\<lambda>r. slices_Contains (c_Roles c) r) roles"

section \<open>The JWT library\<close>

text \<open>
  A signing method is one of the HMAC family (\<open>*jwt.SigningMethodHMAC\<close>, with its name) or
  another one. \<open>t_Claims\<close> is \<open>None\<close> when the claims of the token are not a \<open>*Claims\<close>.
  \<open>ParseWithClaims\<close> reads the clock, \<open>ParseNoValidation\<close> is \<open>ParseWithClaims\<close> of a parser made
  with \<open>WithoutClaimsValidation\<close>; \<open>is_ErrTokenExpired\<close> is \<open>errors.Is\<close> with \<open>ErrTokenExpired\<close>
  on an error of the library.
\<close>

datatype signing_method = HMAC string | OtherMethod string

record Token =
  t_Method :: signing_method
  t_alg :: string
  t_Claims :: "Claims option"
  t_Valid :: bool

type_synonym keyfunc = "Token \<Rightarrow> error + string"

record jwt =
  NewNumericDate :: "time \<Rightarrow> time"
  SignedString :: "signing_method \<Rightarrow> Claims \<Rightarrow> string \<Rightarrow> error + string"
  ParseWithClaims :: "time \<Rightarrow> string \<Rightarrow> keyfunc \<Rightarrow> error + Token"
  ParseNoValidation :: "string \<Rightarrow> keyfunc \<Rightarrow> error + Token"
  is_ErrTokenExpired :: "error \<Rightarrow> bool"

definition SigningMethodHS256 :: signing_method where
  "SigningMethodHS256 = HMAC ''HS256''"

section \<open>The manager\<close>

record JWTManager =
  secretKey :: string
  tokenDuration :: duration
  issuer :: string

definition NewJWTManager :: "string \<Rightarrow> duration \<Rightarrow> string \<Rightarrow> JWTManager" where
  "NewJWTManager key dur iss = \<lparr>secretKey = key, tokenDuration = dur, issuer = iss\<rparr>"

definition new_claims ::
    "jwt \<Rightarrow> JWTManager \<Rightarrow> time \<Rightarrow> string \<Rightarrow> string \<Rightarrow> string \<Rightarrow> string list \<Rightarrow> Claims" where
  "new_claims J m now userID username email roles = \<lparr>
     c_UserID = userID,
     c_Username = username,
     c_Email = email,
     c_Roles = roles,
     c_Registered = \<lparr>
       Issuer = issuer m,
       Subject = userID,
       ExpiresAt = Some (NewNumericDate J (now + tokenDuration m)),
       NotBefore = Some (NewNumericDate J now),
       IssuedAt = Some (NewNumericDate J now)\<rparr>\<rparr>"

definition JWTManager_GenerateToken ::
    "jwt \<Rightarrow> lib \<Rightarrow> JWTManager \<Rightarrow> time \<Rightarrow> string \<Rightarrow> string \<Rightarrow> string \<Rightarrow> string list
     \<Rightarrow> error + string" where
  "JWTManager_GenerateToken J L m now userID username email roles =
     (case SignedString J SigningMethodHS256 (new_claims J m now userID username email roles)
             (secretKey m) of
        Inl err \<Rightarrow> Inl (Errorf (''failed to sign token: '' @ error_Error L err) (Some err))
      | Inr tokenString \<Rightarrow> Inr tokenString)"

text \<open>The key functions the two parses are given: only the HMAC family gets the key.\<close>

definition validate_keyfunc :: "JWTManager \<Rightarrow> string \<Rightarrow> keyfunc" where
  "validate_keyfunc m tokenString token = (case t_Method token of
     HMAC _ \<Rightarrow> Inr (secretKey m)
   | OtherMethod _ \<Rightarrow> Inl (Errorf (''unexpected signing method: '' @ t_alg token @ '' ('' @
       tokenString @ '')'') None))"

definition refresh_keyfunc :: "JWTManager \<Rightarrow> keyfunc" where
  "refresh_keyfunc m token = (case t_Method token of
     HMAC _ \<Rightarrow> Inr (secretKey m)
   | OtherMethod _ \<Rightarrow> Inl (Errorf (''unexpected signing method: '' @ t_alg token) None))"

text \<open>\<open>fmt.Errorf("%w: %v token: %q", ErrInvalidToken, err, tokenString)\<close>.\<close>

definition invalid_token :: "lib \<Rightarrow> error \<Rightarrow> string \<Rightarrow> error" where
  "invalid_token L err tokenString = Errorf (error_Error L ErrInvalidToken @ '': '' @
     error_Error L err @ '' token: '' @ Quote tokenString) (Some ErrInvalidToken)"

definition JWTManager_ValidateToken ::
    "jwt \<Rightarrow> lib \<Rightarrow> JWTManager \<Rightarrow> time \<Rightarrow> string \<Rightarrow> error + Claims" where
  "JWTManager_ValidateToken J L m now tokenString =
     (case ParseWithClaims J now tokenString (validate_keyfunc m tokenString) of
        Inl err \<Rightarrow>
          if is_ErrTokenExpired J err then Inl ErrExpiredToken
          else Inl (invalid_token L err tokenString)
      | Inr token \<Rightarrow>
          (case t_Claims token of
             None \<Rightarrow> Inl ErrInvalidClaims
           | Some claims \<Rightarrow> if \<not> t_Valid token then Inl ErrInvalidClaims else Inr claims))"

definition JWTManager_RefreshToken ::
    "jwt \<Rightarrow> lib \<Rightarrow> JWTManager \<Rightarrow> time \<Rightarrow> string \<Rightarrow> error + string" where
  "JWTManager_RefreshToken J L m now tokenString =
     (case ParseNoValidation J tokenString (refresh_keyfunc m) of
        Inl err \<Rightarrow> Inl (invalid_token L err tokenString)
      | Inr token \<Rightarrow>
          (case t_Claims token of
             None \<Rightarrow> Inl ErrInvalidClaims
           | Some claims \<Rightarrow> JWTManager_GenerateToken J L m now
               (c_UserID claims) (c_Username claims) (c_Email claims) (c_Roles claims)))"

end
