(* ===== verification/Rpc.thy ===== *)
theory Rpc
  imports Auth
begin

text \<open>
  What the interceptors work on: contexts, the information gRPC hands over about a call, server
  streams, and the part of the process they read and write: the clock, the log, the global
  metrics, the calls made to OpenTelemetry. The last component, \<open>backend\<close>, is whatever the
  handlers themselves keep.
\<close>

section \<open>Contexts\<close>

text \<open>
  \<open>incoming\<close> is what \<open>metadata.FromIncomingContext\<close> answers: the metadata of the call under
  lower-case keys, if there are any. \<open>ctx_values\<close> are the values put in with
  \<open>context.WithValue\<close>, the last one first.
\<close>

datatype ctx_value = ClaimsPtr "Claims option" | OtherValue string

record ctx =
  incoming :: "(string, string list) fmap option"
  ctx_values :: "(string \<times> ctx_value) list"

definition WithValue :: "ctx \<Rightarrow> string \<Rightarrow> ctx_value \<Rightarrow> ctx" where
  "WithValue c k v = c\<lparr>ctx_values := (k, v) # ctx_values c\<rparr>"

definition ctx_Value :: "ctx \<Rightarrow> string \<Rightarrow> ctx_value option" where
  "ctx_Value c k = map_of (ctx_values c) k"

lemma ctx_Value_WithValue [simp]:
  "ctx_Value (WithValue c k v) k' = (if k' = k then Some v else ctx_Value c k')"
  "incoming (WithValue c k v) = incoming c"
  by (simp_all add: ctx_Value_def WithValue_def)

definition md_Get :: "(string, string list) fmap \<Rightarrow> string \<Rightarrow> string list" where
  "md_Get md k = (case fmlookup md k of None \<Rightarrow> [] | Some vs \<Rightarrow> vs)"

section \<open>Calls\<close>

record UnaryServerInfo =
  FullMethod :: string

record StreamServerInfo =
  s_FullMethod :: string
  IsClientStream :: bool
  IsServerStream :: bool

text \<open>A server stream: its context and the transport under it.\<close>

record 'st ServerStream =
  ss_Context :: ctx
  transport :: 'st

section \<open>Metrics\<close>

record MetricsCollector =
  totalRequests :: int64
  totalErrors :: int64
  requestDurations :: "(string, duration list) fmap"
  methodCounts :: "(string, int64) fmap"

section \<open>OpenTelemetry\<close>

text \<open>The calls made to the OpenTelemetry API, which is not under \<open>src/\<close>, in their order.\<close>

datatype attr_value = AString string | ABool bool | AInt int | AStrings "string list"

type_synonym attrs = "(string \<times> attr_value) list"

datatype otel_call =
    SpanStart nat string attrs
  | SpanSetStatus nat bool string
  | SpanRecordError nat error
  | SpanSetAttributes nat attrs
  | SpanEnd nat
  | ActiveRequestsAdd int attrs
  | RequestCounterAdd int attrs
  | RequestDurationRecord int attrs
  | ErrorCounterAdd int attrs

section \<open>The process\<close>

text \<open>The lines of the log: what is said, without the formatting.\<close>

datatype log_event =
    LogStarted string string
  | LogCompleted string string "error option" duration
  | LogUnauthorized string "error option"
  | LogForbidden string string error
  | LogAuthorized string string "string list"
  | LogApproved string string

record 's world =
  backend :: 's
  clock :: "nat \<Rightarrow> time"
  ticks :: nat
  logs :: "log_event list"
  globalMetrics :: MetricsCollector
  globalOtelMetrics :: bool
  otel :: "otel_call list"

text \<open>
  \<open>time.Now()\<close> takes the next reading of the clock; \<open>log_Printf\<close> adds a line;
  \<open>globalOtelMetrics\<close> says whether the instruments have been initialised.
\<close>

definition time_Now :: "'s world \<Rightarrow> time \<times> 's world" where
  "time_Now w = (clock w (ticks w), w\<lparr>ticks := Suc (ticks w)\<rparr>)"

definition time_Since :: "time \<Rightarrow> 's world \<Rightarrow> duration \<times> 's world" where
  "time_Since start w = (let (t, w') = time_Now w in (time_Sub t start, w'))"

definition log_Printf :: "log_event \<Rightarrow> 's world \<Rightarrow> 's world" where
  "log_Printf e w = w\<lparr>logs := logs w @ [e]\<rparr>"

definition otel_do :: "otel_call \<Rightarrow> 's world \<Rightarrow> 's world" where
  "otel_do e w = w\<lparr>otel := otel w @ [e]\<rparr>"

lemmas world_defs = time_Now_def time_Since_def log_Printf_def otel_do_def

text \<open>
  Handlers and interceptors. A unary handler answers a response or an error (both \<open>None\<close> is
  Go's \<open>nil, nil\<close>); a stream handler answers an error or \<open>nil\<close>.
\<close>

type_synonym ('i, 'o, 's) call = "'i \<Rightarrow> 's world \<Rightarrow> 'o \<times> 's world"
type_synonym ('q, 'p, 's) UnaryHandler = "(ctx \<times> 'q, 'p option \<times> error option, 's) call"
type_synonym ('st, 's) StreamHandler = "('st ServerStream, error option, 's) call"
type_synonym ('q, 'p, 's) UnaryInterceptor =
  "UnaryServerInfo \<Rightarrow> ('q, 'p, 's) UnaryHandler \<Rightarrow> ('q, 'p, 's) UnaryHandler"
type_synonym ('st, 's) StreamInterceptor =
  "StreamServerInfo \<Rightarrow> ('st, 's) StreamHandler \<Rightarrow> ('st, 's) StreamHandler"

section \<open>What an interceptor may do\<close>

text \<open>
  The contract every interceptor of the program keeps: it refuses a call with an answer of its
  own, or admits it, once, with a context of its choice, and hands the answer of the handler on
  unchanged. In both cases it does not touch the backend.
\<close>

locale gate =
  fixes I :: "('i, 'o, 's) call \<Rightarrow> ('i, 'o, 's) call"
    and admit :: "'i \<Rightarrow> 's world \<Rightarrow> ('o \<times> 's world) + ('i \<times> 's world)"
    and leave :: "'i \<Rightarrow> 's world \<Rightarrow> 'o \<times> 's world \<Rightarrow> 'o \<times> 's world"
  assumes run: "I h i w = (case admit i w of Inl r \<Rightarrow> r | Inr (i', w') \<Rightarrow> leave i w (h i' w'))"
    and refuse_backend: "admit i w = Inl (r, w1) \<Longrightarrow> backend w1 = backend w"
    and admit_backend: "admit i w = Inr (i', w1) \<Longrightarrow> backend w1 = backend w"
    and leave_answer: "fst (leave i w (r, w1)) = r"
    and leave_backend: "backend (snd (leave i w (r, w1))) = backend w1"
begin

lemma refused:
  assumes "admit i w = Inl (r, w1)"
  shows "I h i w = (r, w1)" and "backend (snd (I h i w)) = backend w"
  using run [of h i w] refuse_backend assms by simp_all

lemma admitted:
  assumes "admit i w = Inr (i', w1)"
  shows "fst (I h i w) = fst (h i' w1)" and "backend (snd (I h i w)) = backend (snd (h i' w1))"
    and "backend w1 = backend w"
  using run [of h i w] admit_backend leave_answer leave_backend assms
  by (cases "h i' w1"; simp)+

text \<open>Whatever is called, the backend changes only as the handler changes it.\<close>

lemma outcome:
  obtains (no) r w1 where "admit i w = Inl (r, w1)" "\<And>h. I h i w = (r, w1)" "backend w1 = backend w"
  | (yes) i' w1 where "admit i w = Inr (i', w1)" "backend w1 = backend w"
      "\<And>h. fst (I h i w) = fst (h i' w1)" "\<And>h. backend (snd (I h i w)) = backend (snd (h i' w1))"
proof (cases "admit i w")
  case (Inl a)
  then show ?thesis using no refused refuse_backend by (cases a) metis
next
  case (Inr b)
  then show ?thesis using yes admitted by (cases b) metis
qed

end

text \<open>Two interceptors of which the first runs around the second are one again.\<close>

locale gate_pair = outer: gate I1 admit1 leave1 + inner: gate I2 admit2 leave2
  for I1 :: "('i, 'o, 's) call \<Rightarrow> ('i, 'o, 's) call" and admit1 leave1
    and I2 :: "('i, 'o, 's) call \<Rightarrow> ('i, 'o, 's) call" and admit2 leave2

sublocale gate_pair \<subseteq> both: gate "\<lambda>h. I1 (I2 h)"
    "\<lambda>i w. case admit1 i w of Inl r \<Rightarrow> Inl r
      | Inr (i1, w1) \<Rightarrow> (case admit2 i1 w1 of Inl r \<Rightarrow> Inl (leave1 i w r) | Inr b \<Rightarrow> Inr b)"
    "\<lambda>i w r. case admit1 i w of Inl _ \<Rightarrow> r | Inr (i1, w1) \<Rightarrow> leave1 i w (leave2 i1 w1 r)"
proof (unfold_locales, goal_cases)
  case (1 h i w)
  then show ?case
    by (auto simp: outer.run [of "I2 h"] inner.run [of h] split: sum.splits prod.splits)
next
  case (2 i w r w1)
  then show ?case
    using outer.refuse_backend outer.admit_backend outer.leave_backend inner.refuse_backend
    by (auto split: sum.splits prod.splits) (metis prod.collapse snd_conv)
next
  case (3 i w i' w1)
  then show ?case
    using outer.admit_backend inner.admit_backend by (auto split: sum.splits prod.splits)
next
  case (4 i w r w1)
  then show ?case
    using outer.leave_answer inner.leave_answer
    by (auto split: sum.splits prod.splits) (metis prod.collapse)
next
  case (5 i w r w1)
  then show ?case
    using outer.leave_backend inner.leave_backend
    by (auto split: sum.splits prod.splits) (metis prod.collapse)
qed

end
