(* ===== verification/Interceptors.thy ===== *)
theory Interceptors
  imports Rpc "HOL-Library.Signed_Division"
begin

text \<open>
  The interceptors that log, count and authenticate: \<open>interceptors/logging.go\<close>,
  \<open>interceptors/metrics.go\<close>, \<open>interceptors/auth.go\<close> and \<open>interceptors/jwt_auth.go\<close>.
\<close>

section \<open>Logging (\<open>logging.go\<close>)\<close>

definition LoggingUnaryInterceptor :: "('q, 'p, 's) UnaryInterceptor" where
  "LoggingUnaryInterceptor info handler = (\<lambda>(ctx, req) w0.
     let (start, w1) = time_Now w0;
         w2 = log_Printf (LogStarted ''Unary'' (FullMethod info)) w1;
         ((resp, err), w3) = handler (ctx, req) w2;
         (dur, w4) = time_Since start w3;
         w5 = log_Printf (LogCompleted ''Unary'' (FullMethod info) err dur) w4
     in ((resp, err), w5))"

definition log_stream_type :: "StreamServerInfo \<Rightarrow> string" where
  "log_stream_type info =
     (if IsClientStream info \<and> IsServerStream info then ''Bidirectional''
      else if IsClientStream info then ''ClientStream''
      else if IsServerStream info then ''ServerStream''
      else ''Unknown'')"

definition LoggingStreamInterceptor :: "('st, 's) StreamInterceptor" where
  "LoggingStreamInterceptor info handler = (\<lambda>ss w0.
     let (start, w1) = time_Now w0;
         streamType = log_stream_type info;
         w2 = log_Printf (LogStarted streamType (s_FullMethod info)) w1;
         (err, w3) = handler ss w2;
         (dur, w4) = time_Since start w3;
         w5 = log_Printf (LogCompleted streamType (s_FullMethod info) err dur) w4
     in (err, w5))"

section \<open>Metrics (\<open>metrics.go\<close>)\<close>

definition NewMetricsCollector :: MetricsCollector where
  "NewMetricsCollector = \<lparr>totalRequests = 0, totalErrors = 0, requestDurations = fmempty,
     methodCounts = fmempty\<rparr>"

text \<open>Reading a Go map at a missing key gives the zero value.\<close>

definition map_get :: "'v \<Rightarrow> ('k, 'v) fmap \<Rightarrow> 'k \<Rightarrow> 'v" where
  "map_get z m k = (case fmlookup m k of None \<Rightarrow> z | Some v \<Rightarrow> v)"

lemma map_get_simps [simp]:
  "map_get z fmempty k = z"
  "map_get z (fmupd k' v m) k = (if k = k' then v else map_get z m k)"
  by (auto simp: map_get_def)

definition recordRequest ::
    "string \<Rightarrow> duration \<Rightarrow> bool \<Rightarrow> MetricsCollector \<Rightarrow> MetricsCollector" where
  "recordRequest method dur isError m =
     (let m1 = m\<lparr>totalRequests := totalRequests m + 1\<rparr>;
          m2 = m1\<lparr>methodCounts := fmupd method (map_get 0 (methodCounts m1) method + 1) (methodCounts m1)\<rparr>;
          m3 = m2\<lparr>requestDurations := fmupd method
                 (map_get [] (requestDurations m2) method @ [dur]) (requestDurations m2)\<rparr>
      in if isError then m3\<lparr>totalErrors := totalErrors m3 + 1\<rparr> else m3)"

definition MetricsUnaryInterceptor :: "('q, 'p, 's) UnaryInterceptor" where
  "MetricsUnaryInterceptor info handler = (\<lambda>(ctx, req) w0.
     let (start, w1) = time_Now w0;
         ((resp, err), w2) = handler (ctx, req) w1;
         (dur, w3) = time_Since start w2;
         w4 = w3\<lparr>globalMetrics := recordRequest (FullMethod info) dur (err \<noteq> None) (globalMetrics w3)\<rparr>
     in ((resp, err), w4))"

definition MetricsStreamInterceptor :: "('st, 's) StreamInterceptor" where
  "MetricsStreamInterceptor info handler = (\<lambda>ss w0.
     let (start, w1) = time_Now w0;
         (err, w2) = handler ss w1;
         (dur, w3) = time_Since start w2;
         w4 = w3\<lparr>globalMetrics := recordRequest (s_FullMethod info) dur (err \<noteq> None) (globalMetrics w3)\<rparr>
     in (err, w4))"

text \<open>
  \<open>GetStats\<close>. The arithmetic on \<open>float64\<close> is a parameter; the sum of the durations is one of
  \<open>int64\<close> values and wraps, the division of the average truncates; an average is kept as a
  duration (the code renders it with \<open>Duration.String\<close>). \<open>ks\<close> is the order in which \<open>range\<close>
  visits \<open>methodCounts\<close>.
\<close>

record 'f float64 =
  f_of_int64 :: "int64 \<Rightarrow> 'f"
  f_div :: "'f \<Rightarrow> 'f \<Rightarrow> 'f"
  f_mul :: "'f \<Rightarrow> 'f \<Rightarrow> 'f"

record method_stats =
  ms_count :: int64
  avg_duration :: duration

record 'f stats =
  total_requests :: int64
  total_errors :: int64
  error_rate :: 'f
  st_methods :: "(string, method_stats) fmap"

definition sum_durations :: "duration list \<Rightarrow> int64" where
  "sum_durations ds = foldl (\<lambda>total d. total + word_of_int d) 0 ds"

definition average :: "duration list \<Rightarrow> duration" where
  "average ds = sint (sum_durations ds) sdiv int (length ds)"

fun stats_loop ::
    "MetricsCollector \<Rightarrow> string list \<Rightarrow> (string, method_stats) fmap \<Rightarrow> (string, method_stats) fmap" where
  "stats_loop m [] r = r"
| "stats_loop m (method # ks) r =
     (case fmlookup (methodCounts m) method of
        None \<Rightarrow> stats_loop m ks r
      | Some count \<Rightarrow>
          let durations = map_get [] (requestDurations m) method
          in if length durations > 0
             then stats_loop m ks (fmupd method
                    \<lparr>ms_count = count, avg_duration = average durations\<rparr> r)
             else stats_loop m ks r)"

definition GetStats :: "'f float64 \<Rightarrow> string list \<Rightarrow> MetricsCollector \<Rightarrow> 'f stats" where
  "GetStats F ks m = \<lparr>
     total_requests = totalRequests m,
     total_errors = totalErrors m,
     error_rate = (if 0 <s totalRequests m
       then f_mul F (f_div F (f_of_int64 F (totalErrors m)) (f_of_int64 F (totalRequests m)))
              (f_of_int64 F 100)
       else f_of_int64 F 0),
     st_methods = stats_loop m ks fmempty\<rparr>"

text \<open>\<open>PrintStats\<close>: its log lines, \<open>ks'\<close> being the order in which it visits the statistics.\<close>

datatype 'f stat_line =
    StatRequests int64
  | StatErrors int64
  | StatRate 'f
  | StatMethod string method_stats

definition PrintStats :: "'f float64 \<Rightarrow> string list \<Rightarrow> string list \<Rightarrow> MetricsCollector \<Rightarrow> 'f stat_line list" where
  "PrintStats F ks ks' m =
     (let stats = GetStats F ks m
      in [StatRequests (total_requests stats), StatErrors (total_errors stats), StatRate (error_rate stats)] @
         List.map_filter (\<lambda>k. map_option (StatMethod k) (fmlookup (st_methods stats) k)) ks')"

definition Metrics_Reset :: "MetricsCollector \<Rightarrow> MetricsCollector" where
  "Metrics_Reset m = m\<lparr>totalRequests := 0, totalErrors := 0, requestDurations := fmempty,
     methodCounts := fmempty\<rparr>"

section \<open>API keys (\<open>auth.go\<close>)\<close>

definition isPublicMethod :: "string \<Rightarrow> bool" where
  "isPublicMethod method = False"

definition validAPIKey :: string where
  "validAPIKey = ''demo-api-key-12345''"

definition authorize :: "ctx \<Rightarrow> error option" where
  "authorize ctx = (case incoming ctx of
     None \<Rightarrow> Some (Status Unauthenticated ''missing metadata'')
   | Some md \<Rightarrow> (case md_Get md ''authorization'' of
       [] \<Rightarrow> Some (Status Unauthenticated ''missing authorization header'')
     | v # _ \<Rightarrow>
         let token = TrimPrefix v ''Bearer ''
         in if token \<noteq> validAPIKey
            then Some (Status Unauthenticated ''invalid authorization token'') else None))"

definition AuthUnaryInterceptor :: "('q, 'p, 's) UnaryInterceptor" where
  "AuthUnaryInterceptor info handler = (\<lambda>(ctx, req) w.
     if isPublicMethod (FullMethod info) then handler (ctx, req) w
     else case authorize ctx of
       Some err \<Rightarrow> ((None, Some err), log_Printf (LogUnauthorized (FullMethod info) None) w)
     | None \<Rightarrow> handler (ctx, req) (log_Printf (LogAuthorized (FullMethod info) [] []) w))"

definition AuthStreamInterceptor :: "('st, 's) StreamInterceptor" where
  "AuthStreamInterceptor info handler = (\<lambda>ss w.
     if isPublicMethod (s_FullMethod info) then handler ss w
     else case authorize (ss_Context ss) of
       Some err \<Rightarrow> (Some err, log_Printf (LogUnauthorized (s_FullMethod info) None) w)
     | None \<Rightarrow> handler ss (log_Printf (LogAuthorized (s_FullMethod info) [] []) w))"

section \<open>JWT (\<open>jwt_auth.go\<close>)\<close>

text \<open>
  \<open>auth.Approver\<close>, an interface: its methods, run on the process. \<open>NewApprover\<close> puts the
  token manager and an approver of claims together.
\<close>

record 's Approver =
  ValidMethod :: "string \<Rightarrow> Claims \<Rightarrow> 's world \<Rightarrow> error option \<times> 's world"
  ValidateToken :: "string \<Rightarrow> 's world \<Rightarrow> (error + Claims) \<times> 's world"
  GenerateToken :: "string \<Rightarrow> string \<Rightarrow> string \<Rightarrow> string list \<Rightarrow> 's world \<Rightarrow> (error + string) \<times> 's world"

definition NewApprover ::
    "jwt \<Rightarrow> lib \<Rightarrow> JWTManager \<Rightarrow> (string \<Rightarrow> Claims \<Rightarrow> 's world \<Rightarrow> error option \<times> 's world) \<Rightarrow> 's Approver" where
  "NewApprover J L jwtManager appr = \<lparr>
     ValidMethod = appr,
     ValidateToken = (\<lambda>tokenString w. let (now, w') = time_Now w
        in (JWTManager_ValidateToken J L jwtManager now tokenString, w')),
     GenerateToken = (\<lambda>userID username email roles w. let (now, w') = time_Now w
        in (JWTManager_GenerateToken J L jwtManager now userID username email roles, w'))\<rparr>"

definition FakeClaimsApprover_ValidMethod ::
    "string \<Rightarrow> Claims \<Rightarrow> 's world \<Rightarrow> error option \<times> 's world" where
  "FakeClaimsApprover_ValidMethod fullMethod claim w =
     (if fullMethod = ''/proto.UserService/ListUsers'' \<and> c_Email claim = ''hello@example.com''
      then (Some ErrInvalidClaims, w)
      else if fullMethod = ''/proto.UserService/ListUsers'' \<and> c_Username claim = ''mynameismud''
      then (Some ErrNoPermission, w)
      else (None, log_Printf (LogApproved fullMethod (c_Username claim)) w))"

definition ClaimsContextKey :: string where
  "ClaimsContextKey = ''jwt_claims''"

definition interceptors_NewJWTManager :: "string \<Rightarrow> duration \<Rightarrow> string \<Rightarrow> JWTManager" where
  "interceptors_NewJWTManager key dur iss =
     NewJWTManager key (if dur = 0 then 3600 * 10 ^ 9 else dur) iss"

definition validateJWT :: "lib \<Rightarrow> ctx \<Rightarrow> 's Approver \<Rightarrow> 's world \<Rightarrow> (error + Claims) \<times> 's world" where
  "validateJWT L ctx jwtManager w = (case incoming ctx of
     None \<Rightarrow> (Inl (Status Unauthenticated ''missing metadata''), w)
   | Some md \<Rightarrow> (case md_Get md ''authorization'' of
       [] \<Rightarrow> (Inl (Status Unauthenticated ''missing authorization header''), w)
     | authHeader # _ \<Rightarrow>
         if \<not> HasPrefix authHeader ''Bearer ''
         then (Inl (Status Unauthenticated
                (''invalid authorization format, expected '' @ [char_of (39 :: nat)] @
                 ''Bearer <token>'' @ [char_of (39 :: nat)])), w)
         else let token = TrimPrefix authHeader ''Bearer ''
              in if token = [] then (Inl (Status Unauthenticated ''empty token''), w)
                 else case ValidateToken jwtManager token w of
                   (Inl err, w') \<Rightarrow> (Inl (Status Unauthenticated (error_Error L err)), w')
                 | (Inr claims, w') \<Rightarrow> (Inr claims, w')))"

definition JWTAuthUnaryInterceptor :: "lib \<Rightarrow> 's Approver \<Rightarrow> ('q, 'p, 's) UnaryInterceptor" where
  "JWTAuthUnaryInterceptor L vapid info handler = (\<lambda>(ctx, req) w.
     if isPublicMethod (FullMethod info) then handler (ctx, req) w
     else case validateJWT L ctx vapid w of
       (Inl err, w1) \<Rightarrow>
         ((None, Some err), log_Printf (LogUnauthorized (FullMethod info) (Some err)) w1)
     | (Inr claims, w1) \<Rightarrow>
         (case ValidMethod vapid (FullMethod info) claims w1 of
            (Some err, w2) \<Rightarrow>
              ((None, Some (Status PermissionDenied ''insufficient permissions for method'')),
               log_Printf (LogForbidden (FullMethod info) (c_Username claims) err) w2)
          | (None, w2) \<Rightarrow>
              handler (WithValue ctx ClaimsContextKey (ClaimsPtr (Some claims)), req)
                (log_Printf (LogAuthorized (FullMethod info) (c_Username claims) (c_Roles claims)) w2)))"

definition JWTAuthStreamInterceptor :: "lib \<Rightarrow> 's Approver \<Rightarrow> ('st, 's) StreamInterceptor" where
  "JWTAuthStreamInterceptor L jwtManager info handler = (\<lambda>ss w.
     if isPublicMethod (s_FullMethod info) then handler ss w
     else case validateJWT L (ss_Context ss) jwtManager w of
       (Inl err, w1) \<Rightarrow>
         (Some err, log_Printf (LogUnauthorized (s_FullMethod info) (Some err)) w1)
     | (Inr claims, w1) \<Rightarrow>
         (case ValidMethod jwtManager (s_FullMethod info) claims w1 of
            (Some err, w2) \<Rightarrow>
              (Some (Status PermissionDenied ''insufficient permissions for method''),
               log_Printf (LogForbidden (s_FullMethod info) (c_Username claims) err) w2)
          | (None, w2) \<Rightarrow>
              handler (ss\<lparr>ss_Context :=
                  WithValue (ss_Context ss) ClaimsContextKey (ClaimsPtr (Some claims))\<rparr>)
                (log_Printf (LogAuthorized (s_FullMethod info) (c_Username claims) (c_Roles claims)) w2)))"

definition GetClaimsFromContext :: "ctx \<Rightarrow> Claims option" where
  "GetClaimsFromContext ctx = (case ctx_Value ctx ClaimsContextKey of
     Some (ClaimsPtr claims) \<Rightarrow> claims
   | _ \<Rightarrow> None)"

text \<open>\<open>%v\<close> of a slice of strings.\<close>

fun join_space :: "string list \<Rightarrow> string" where
  "join_space [] = []"
| "join_space [s] = s"
| "join_space (s # t # ss) = s @ '' '' @ join_space (t # ss)"

definition RequireRole :: "string list \<Rightarrow> ctx \<Rightarrow> error option" where
  "RequireRole roles ctx = (case GetClaimsFromContext ctx of
     None \<Rightarrow> Some (Status Unauthenticated ''no authentication claims found'')
   | Some claims \<Rightarrow>
       if \<not> HasAnyRole claims roles
       then Some (Status PermissionDenied
              (''insufficient permissions, required roles: ['' @ join_space roles @ '']''))
       else None)"

lemma GetClaims_WithValue [simp]:
  "GetClaimsFromContext (WithValue ctx ClaimsContextKey (ClaimsPtr (Some c))) = Some c"
  by (simp add: GetClaimsFromContext_def)

end
