(* ===== verification/Gates.thy ===== *)
theory Gates
  imports Interceptors
begin

text \<open>
  Every interceptor of \<open>interceptors/\<close> keeps the contract \<open>gate\<close>: what it admits, what it does
  when the handler has returned, and the interpretation. The two JWT interceptors rest on the
  interface \<open>approver\<close>, which the approver the server is started with implements.
\<close>

section \<open>Logging and metrics\<close>

definition started_at :: "'s world \<Rightarrow> time" where
  "started_at w = clock w (ticks w)"

definition log_admit :: "string \<Rightarrow> string \<Rightarrow> 'i \<Rightarrow> 's world \<Rightarrow> ('o \<times> 's world) + ('i \<times> 's world)" where
  "log_admit kind meth i w = Inr (i, log_Printf (LogStarted kind meth) (snd (time_Now w)))"

definition log_leave ::
    "('o \<Rightarrow> error option) \<Rightarrow> string \<Rightarrow> string \<Rightarrow> 'i \<Rightarrow> 's world \<Rightarrow> 'o \<times> 's world \<Rightarrow> 'o \<times> 's world" where
  "log_leave err kind meth i w r = (let (dur, w') = time_Since (started_at w) (snd r)
     in (fst r, log_Printf (LogCompleted kind meth (err (fst r)) dur) w'))"

definition metrics_admit :: "'i \<Rightarrow> 's world \<Rightarrow> ('o \<times> 's world) + ('i \<times> 's world)" where
  "metrics_admit i w = Inr (i, snd (time_Now w))"

definition metrics_leave ::
    "('o \<Rightarrow> error option) \<Rightarrow> string \<Rightarrow> 'i \<Rightarrow> 's world \<Rightarrow> 'o \<times> 's world \<Rightarrow> 'o \<times> 's world" where
  "metrics_leave err meth i w r = (let (dur, w') = time_Since (started_at w) (snd r)
     in (fst r, w'\<lparr>globalMetrics := recordRequest meth dur (err (fst r) \<noteq> None) (globalMetrics w')\<rparr>))"

lemma world_backend [simp]:
  "backend (snd (time_Now w)) = backend w" "backend (log_Printf e w) = backend w"
  "backend (snd (time_Since t w)) = backend w" "backend (otel_do c w) = backend w"
  by (simp_all add: world_defs Let_def)

interpretation logging_unary: gate "LoggingUnaryInterceptor info"
    "log_admit ''Unary'' (FullMethod info)" "log_leave snd ''Unary'' (FullMethod info)" for info
  by unfold_locales (auto simp: LoggingUnaryInterceptor_def log_admit_def log_leave_def started_at_def
      world_defs Let_def split: prod.splits)

interpretation logging_stream: gate "LoggingStreamInterceptor info"
    "log_admit (log_stream_type info) (s_FullMethod info)"
    "log_leave id (log_stream_type info) (s_FullMethod info)" for info
  by unfold_locales (auto simp: LoggingStreamInterceptor_def log_admit_def log_leave_def started_at_def
      world_defs Let_def split: prod.splits)

interpretation metrics_unary: gate "MetricsUnaryInterceptor info"
    metrics_admit "metrics_leave snd (FullMethod info)" for info
  by unfold_locales (auto simp: MetricsUnaryInterceptor_def metrics_admit_def metrics_leave_def
      started_at_def world_defs Let_def split: prod.splits)

interpretation metrics_stream: gate "MetricsStreamInterceptor info"
    metrics_admit "metrics_leave id (s_FullMethod info)" for info
  by unfold_locales (auto simp: MetricsStreamInterceptor_def metrics_admit_def metrics_leave_def
      started_at_def world_defs Let_def split: prod.splits)

section \<open>API keys\<close>

definition key_admit ::
    "string \<Rightarrow> ('i \<Rightarrow> ctx) \<Rightarrow> (error \<Rightarrow> 'o) \<Rightarrow> 'i \<Rightarrow> 's world \<Rightarrow> ('o \<times> 's world) + ('i \<times> 's world)" where
  "key_admit meth context refuse i w = (case authorize (context i) of
     Some err \<Rightarrow> Inl (refuse err, log_Printf (LogUnauthorized meth None) w)
   | None \<Rightarrow> Inr (i, log_Printf (LogAuthorized meth [] []) w))"

definition no_leave :: "'i \<Rightarrow> 's world \<Rightarrow> 'o \<times> 's world \<Rightarrow> 'o \<times> 's world" where
  "no_leave i w r = r"

interpretation key_unary: gate "AuthUnaryInterceptor info"
    "key_admit (FullMethod info) fst (\<lambda>e. (None, Some e))" no_leave for info
  by unfold_locales (auto simp: AuthUnaryInterceptor_def key_admit_def no_leave_def isPublicMethod_def
      split: option.splits)

interpretation key_stream: gate "AuthStreamInterceptor info"
    "key_admit (s_FullMethod info) ss_Context Some" no_leave for info
  by unfold_locales (auto simp: AuthStreamInterceptor_def key_admit_def no_leave_def isPublicMethod_def
      split: option.splits)

section \<open>JWT\<close>

text \<open>The decision of the two JWT interceptors: the claims, or the error the call is refused with.\<close>

definition jwt_check ::
    "lib \<Rightarrow> 's Approver \<Rightarrow> string \<Rightarrow> ctx \<Rightarrow> 's world \<Rightarrow> (error + Claims) \<times> 's world" where
  "jwt_check L A meth ctx w = (case validateJWT L ctx A w of
     (Inl err, w1) \<Rightarrow> (Inl err, log_Printf (LogUnauthorized meth (Some err)) w1)
   | (Inr claims, w1) \<Rightarrow> (case ValidMethod A meth claims w1 of
       (Some err, w2) \<Rightarrow> (Inl (Status PermissionDenied ''insufficient permissions for method''),
          log_Printf (LogForbidden meth (c_Username claims) err) w2)
     | (None, w2) \<Rightarrow> (Inr claims,
          log_Printf (LogAuthorized meth (c_Username claims) (c_Roles claims)) w2)))"

definition with_claims :: "Claims \<Rightarrow> ctx \<Rightarrow> ctx" where
  "with_claims claims ctx = WithValue ctx ClaimsContextKey (ClaimsPtr (Some claims))"

definition jwt_unary_admit ::
    "lib \<Rightarrow> 's Approver \<Rightarrow> string \<Rightarrow> ctx \<times> 'q \<Rightarrow> 's world
     \<Rightarrow> (('p option \<times> error option) \<times> 's world) + ((ctx \<times> 'q) \<times> 's world)" where
  "jwt_unary_admit L A meth i w = (case jwt_check L A meth (fst i) w of
     (Inl err, w') \<Rightarrow> Inl ((None, Some err), w')
   | (Inr claims, w') \<Rightarrow> Inr ((with_claims claims (fst i), snd i), w'))"

definition jwt_stream_admit ::
    "lib \<Rightarrow> 's Approver \<Rightarrow> string \<Rightarrow> 'st ServerStream \<Rightarrow> 's world
     \<Rightarrow> (error option \<times> 's world) + ('st ServerStream \<times> 's world)" where
  "jwt_stream_admit L A meth ss w = (case jwt_check L A meth (ss_Context ss) w of
     (Inl err, w') \<Rightarrow> Inl (Some err, w')
   | (Inr claims, w') \<Rightarrow> Inr (ss\<lparr>ss_Context := with_claims claims (ss_Context ss)\<rparr>, w'))"

text \<open>What the interceptors rely on: an approver does not touch the backend.\<close>

locale approver =
  fixes A :: "'s Approver"
  assumes valid_method_backend: "backend (snd (ValidMethod A meth c w)) = backend w"
    and validate_backend: "backend (snd (ValidateToken A tok w)) = backend w"
begin

lemma validateJWT_backend: "backend (snd (validateJWT L ctx A w)) = backend w"
  using validate_backend
  by (auto simp: validateJWT_def Let_def split: option.splits list.splits prod.splits sum.splits)
    (metis snd_conv)+

lemma jwt_check_backend: "backend (snd (jwt_check L A meth ctx w)) = backend w"
  using validateJWT_backend [of L ctx w] valid_method_backend [of meth]
  by (auto simp: jwt_check_def split: prod.splits sum.splits option.splits) (metis snd_conv)+

end

sublocale approver \<subseteq> unary: gate "JWTAuthUnaryInterceptor L A info"
    "jwt_unary_admit L A (FullMethod info)" no_leave for L info
proof (unfold_locales, goal_cases)
  case (1 h i w)
  show ?case
    by (cases i) (auto simp: JWTAuthUnaryInterceptor_def jwt_unary_admit_def jwt_check_def no_leave_def
      with_claims_def isPublicMethod_def split: prod.splits sum.splits option.splits)
next
  case (2 i w r w1)
  then show ?case using jwt_check_backend [of L "FullMethod info" "fst i" w]
    by (auto simp: jwt_unary_admit_def split: prod.splits sum.splits)
next
  case (3 i w i' w1)
  then show ?case using jwt_check_backend [of L "FullMethod info" "fst i" w]
    by (auto simp: jwt_unary_admit_def split: prod.splits sum.splits)
qed (simp_all add: no_leave_def)

sublocale approver \<subseteq> stream: gate "JWTAuthStreamInterceptor L A info"
    "jwt_stream_admit L A (s_FullMethod info)" no_leave for L info
proof (unfold_locales, goal_cases)
  case (1 h i w)
  show ?case
    by (auto simp: JWTAuthStreamInterceptor_def jwt_stream_admit_def jwt_check_def no_leave_def
      with_claims_def isPublicMethod_def split: prod.splits sum.splits option.splits)
next
  case (2 i w r w1)
  then show ?case using jwt_check_backend [of L "s_FullMethod info" "ss_Context i" w]
    by (auto simp: jwt_stream_admit_def split: prod.splits sum.splits)
next
  case (3 i w i' w1)
  then show ?case using jwt_check_backend [of L "s_FullMethod info" "ss_Context i" w]
    by (auto simp: jwt_stream_admit_def split: prod.splits sum.splits)
qed (simp_all add: no_leave_def)

text \<open>The approver \<open>main\<close> builds: a token manager and the fake approver of claims.\<close>

interpretation fake: approver "NewApprover J L m FakeClaimsApprover_ValidMethod" for J L m
  by unfold_locales
    (auto simp: NewApprover_def FakeClaimsApprover_ValidMethod_def world_defs Let_def)

end
