(* ===== verification/Otel.thy ===== *)
theory Otel
  imports Gates
begin

text \<open>
  \<open>interceptors/otel_interceptors.go\<close>: tracing and metrics by OpenTelemetry. The API is not
  under \<open>src/\<close>: the calls made to it are recorded in the component \<open>otel\<close> of the process, and
  what the code uses of its answers is the record \<open>otel_lib\<close>: the context \<open>tracer.Start\<close>
  returns for a new span, \<open>status.FromError\<close> and \<open>codes.Code.String\<close> of gRPC.
\<close>

record otel_lib =
  ContextWithSpan :: "ctx \<Rightarrow> nat \<Rightarrow> ctx"
  FromError :: "error \<Rightarrow> code \<times> string"
  code_String :: "code \<Rightarrow> string"

section \<open>Helpers\<close>

fun until_slash :: "string \<Rightarrow> string" where
  "until_slash [] = []"
| "until_slash (c # cs) = (if c = CHR ''/'' then [] else c # until_slash cs)"

definition extractService :: "string \<Rightarrow> string" where
  "extractService fullMethod =
     (let fm = (case fullMethod of [] \<Rightarrow> [] | c # cs \<Rightarrow> if c = CHR ''/'' then cs else c # cs)
      in until_slash fm)"

text \<open>The loop of \<open>extractMethod\<close>, which counts the index down from \<open>i - 1\<close> to 0.\<close>

fun extract_method_loop :: "string \<Rightarrow> nat \<Rightarrow> string" where
  "extract_method_loop fullMethod 0 = fullMethod"
| "extract_method_loop fullMethod (Suc i) =
     (if fullMethod ! i = CHR ''/'' then drop (i + 1) fullMethod
      else extract_method_loop fullMethod i)"

definition extractMethod :: "string \<Rightarrow> string" where
  "extractMethod fullMethod = extract_method_loop fullMethod (length fullMethod)"

definition determineStreamType :: "StreamServerInfo \<Rightarrow> string" where
  "determineStreamType info =
     (if IsClientStream info \<and> IsServerStream info then ''bidi_stream''
      else if IsClientStream info then ''client_stream''
      else if IsServerStream info then ''server_stream''
      else ''unknown'')"

definition getStatusCode :: "otel_lib \<Rightarrow> error option \<Rightarrow> string" where
  "getStatusCode T err = (case err of None \<Rightarrow> ''OK'' | Some e \<Rightarrow> code_String T (fst (FromError T e)))"

definition Milliseconds :: "duration \<Rightarrow> int" where
  "Milliseconds d = d sdiv 10 ^ 6"

section \<open>Tracing\<close>

text \<open>The name a new span gets in the record of calls: their number so far.\<close>

definition fresh_span :: "'s world \<Rightarrow> nat" where
  "fresh_span w = length (otel w)"

text \<open>What both interceptors do to the span when the handler has returned.\<close>

definition span_status :: "otel_lib \<Rightarrow> lib \<Rightarrow> nat \<Rightarrow> error option \<Rightarrow> 's world \<Rightarrow> 's world" where
  "span_status T L span err w = (case err of
     Some e \<Rightarrow>
       let (st_Code, st_Message) = FromError T e
       in otel_do (SpanSetAttributes span
            [(''rpc.grpc.status_code'', AString (code_String T st_Code)),
             (''error.message'', AString st_Message)])
          (otel_do (SpanRecordError span e)
          (otel_do (SpanSetStatus span False (error_Error L e)) w))
   | None \<Rightarrow>
       otel_do (SpanSetAttributes span [(''rpc.grpc.status_code'', AString ''OK'')])
         (otel_do (SpanSetStatus span True ''Success'') w))"

definition span_user :: "nat \<Rightarrow> ctx \<Rightarrow> 's world \<Rightarrow> 's world" where
  "span_user span ctx w = (case GetClaimsFromContext ctx of
     Some claims \<Rightarrow> otel_do (SpanSetAttributes span
       [(''user.id'', AString (c_Username claims)),
        (''user.email'', AString (c_Email claims)),
        (''user.roles'', AStrings (c_Roles claims))]) w
   | None \<Rightarrow> w)"

definition OtelLoggingUnaryInterceptor :: "otel_lib \<Rightarrow> lib \<Rightarrow> ('q, 'p, 's) UnaryInterceptor" where
  "OtelLoggingUnaryInterceptor T L info handler = (\<lambda>(ctx0, req) w0.
     let span = fresh_span w0;
         ctx = ContextWithSpan T ctx0 span;
         w1 = otel_do (SpanStart span (FullMethod info)
                [(''rpc.system'', AString ''grpc''),
                 (''rpc.service'', AString (extractService (FullMethod info))),
                 (''rpc.method'', AString (extractMethod (FullMethod info))),
                 (''rpc.grpc.kind'', AString ''unary'')]) w0;
         (start, w2) = time_Now w1;
         w3 = log_Printf (LogStarted ''Unary'' (FullMethod info)) w2;
         ((resp, err), w4) = handler (ctx, req) w3;
         (dur, w5) = time_Since start w4;
         w6 = span_status T L span err w5;
         w7 = log_Printf (LogCompleted ''Unary'' (FullMethod info) err dur) w6;
         w8 = otel_do (SpanSetAttributes span [(''rpc.duration_ms'', AInt (Milliseconds dur))]) w7;
         w9 = span_user span ctx w8
     in ((resp, err), otel_do (SpanEnd span) w9))"

definition OtelLoggingStreamInterceptor :: "otel_lib \<Rightarrow> lib \<Rightarrow> ('st, 's) StreamInterceptor" where
  "OtelLoggingStreamInterceptor T L info handler = (\<lambda>ss w0.
     let span = fresh_span w0;
         ctx = ContextWithSpan T (ss_Context ss) span;
         w1 = otel_do (SpanStart span (s_FullMethod info)
                [(''rpc.system'', AString ''grpc''),
                 (''rpc.service'', AString (extractService (s_FullMethod info))),
                 (''rpc.method'', AString (extractMethod (s_FullMethod info))),
                 (''rpc.grpc.is_client_stream'', ABool (IsClientStream info)),
                 (''rpc.grpc.is_server_stream'', ABool (IsServerStream info))]) w0;
         (start, w2) = time_Now w1;
         streamType = determineStreamType info;
         w3 = otel_do (SpanSetAttributes span [(''rpc.grpc.kind'', AString streamType)]) w2;
         w4 = log_Printf (LogStarted streamType (s_FullMethod info)) w3;
         (err, w5) = handler (ss\<lparr>ss_Context := ctx\<rparr>) w4;
         (dur, w6) = time_Since start w5;
         w7 = span_status T L span err w6;
         w8 = log_Printf (LogCompleted streamType (s_FullMethod info) err dur) w7;
         w9 = otel_do (SpanSetAttributes span [(''rpc.duration_ms'', AInt (Milliseconds dur))]) w8;
         w10 = span_user span ctx w9
     in (err, otel_do (SpanEnd span) w10))"

section \<open>Metrics\<close>

text \<open>What is recorded when the handler has returned: the request, its duration, its error.\<close>

definition record_call :: "attrs \<Rightarrow> duration \<Rightarrow> error option \<Rightarrow> 's world \<Rightarrow> 's world" where
  "record_call statusAttrs dur err w =
     (let w1 = otel_do (RequestCounterAdd 1 statusAttrs) w;
          w2 = otel_do (RequestDurationRecord (Milliseconds dur) statusAttrs) w1
      in if err \<noteq> None then otel_do (ErrorCounterAdd 1 statusAttrs) w2 else w2)"

definition OtelMetricsUnaryInterceptor :: "otel_lib \<Rightarrow> ('q, 'p, 's) UnaryInterceptor" where
  "OtelMetricsUnaryInterceptor T info handler = (\<lambda>(ctx, req) w0.
     if \<not> globalOtelMetrics w0 then handler (ctx, req) w0
     else
       let attrs = [(''rpc.method'', AString (FullMethod info)),
                    (''rpc.service'', AString (extractService (FullMethod info))),
                    (''rpc.grpc.kind'', AString ''unary'')];
           w1 = otel_do (ActiveRequestsAdd 1 attrs) w0;
           (start, w2) = time_Now w1;
           ((resp, err), w3) = handler (ctx, req) w2;
           (dur, w4) = time_Since start w3;
           statusAttrs = attrs @ [(''rpc.grpc.status_code'', AString (getStatusCode T err))];
           w5 = record_call statusAttrs dur err w4
       in ((resp, err), otel_do (ActiveRequestsAdd (- 1) attrs) w5))"

definition OtelMetricsStreamInterceptor :: "otel_lib \<Rightarrow> ('st, 's) StreamInterceptor" where
  "OtelMetricsStreamInterceptor T info handler = (\<lambda>ss w0.
     if \<not> globalOtelMetrics w0 then handler ss w0
     else
       let streamType = determineStreamType info;
           attrs = [(''rpc.method'', AString (s_FullMethod info)),
                    (''rpc.service'', AString (extractService (s_FullMethod info))),
                    (''rpc.grpc.kind'', AString streamType)];
           w1 = otel_do (ActiveRequestsAdd 1 attrs) w0;
           (start, w2) = time_Now w1;
           (err, w3) = handler ss w2;
           (dur, w4) = time_Since start w3;
           statusAttrs = attrs @ [(''rpc.grpc.status_code'', AString (getStatusCode T err))];
           w5 = record_call statusAttrs dur err w4
       in (err, otel_do (ActiveRequestsAdd (- 1) attrs) w5))"

text \<open>
  \<open>InitializeOtelMetrics\<close>: four instruments are made in turn, the first error is returned and
  leaves the global unset; \<open>new\<close> is what the meter answers for the name of an instrument.
\<close>

definition instruments :: "string list" where
  "instruments = [''grpc.server.request.count'', ''grpc.server.request.duration'',
     ''grpc.server.request.errors'', ''grpc.server.active_requests'']"

fun make_all :: "(string \<Rightarrow> error option) \<Rightarrow> string list \<Rightarrow> error option" where
  "make_all new [] = None"
| "make_all new (n # ns) = (case new n of Some err \<Rightarrow> Some err | None \<Rightarrow> make_all new ns)"

definition InitializeOtelMetrics ::
    "(string \<Rightarrow> error option) \<Rightarrow> 's world \<Rightarrow> error option \<times> 's world" where
  "InitializeOtelMetrics new w = (case make_all new instruments of
     Some err \<Rightarrow> (Some err, w)
   | None \<Rightarrow> (None, w\<lparr>globalOtelMetrics := True\<rparr>))"

section \<open>The contract\<close>

definition trace_unary_admit ::
    "otel_lib \<Rightarrow> UnaryServerInfo \<Rightarrow> ctx \<times> 'q \<Rightarrow> 's world \<Rightarrow> ('o \<times> 's world) + ((ctx \<times> 'q) \<times> 's world)" where
  "trace_unary_admit T info i w0 =
     (let span = fresh_span w0;
          w1 = otel_do (SpanStart span (FullMethod info)
                [(''rpc.system'', AString ''grpc''),
                 (''rpc.service'', AString (extractService (FullMethod info))),
                 (''rpc.method'', AString (extractMethod (FullMethod info))),
                 (''rpc.grpc.kind'', AString ''unary'')]) w0
      in Inr ((ContextWithSpan T (fst i) span, snd i),
              log_Printf (LogStarted ''Unary'' (FullMethod info)) (snd (time_Now w1))))"

definition trace_leave ::
    "otel_lib \<Rightarrow> lib \<Rightarrow> string \<Rightarrow> string \<Rightarrow> ('i \<Rightarrow> ctx) \<Rightarrow> ('o \<Rightarrow> error option)
     \<Rightarrow> 'i \<Rightarrow> 's world \<Rightarrow> 'o \<times> 's world \<Rightarrow> 'o \<times> 's world" where
  "trace_leave T L kind method context err i w0 r =
     (let span = fresh_span w0;
          (dur, w5) = time_Since (started_at w0) (snd r);
          w6 = span_status T L span (err (fst r)) w5;
          w7 = log_Printf (LogCompleted kind method (err (fst r)) dur) w6;
          w8 = otel_do (SpanSetAttributes span [(''rpc.duration_ms'', AInt (Milliseconds dur))]) w7;
          w9 = span_user span (ContextWithSpan T (context i) span) w8
      in (fst r, otel_do (SpanEnd span) w9))"

definition trace_stream_admit ::
    "otel_lib \<Rightarrow> StreamServerInfo \<Rightarrow> 'st ServerStream \<Rightarrow> 's world
     \<Rightarrow> ('o \<times> 's world) + ('st ServerStream \<times> 's world)" where
  "trace_stream_admit T info ss w0 =
     (let span = fresh_span w0;
          w1 = otel_do (SpanStart span (s_FullMethod info)
                [(''rpc.system'', AString ''grpc''),
                 (''rpc.service'', AString (extractService (s_FullMethod info))),
                 (''rpc.method'', AString (extractMethod (s_FullMethod info))),
                 (''rpc.grpc.is_client_stream'', ABool (IsClientStream info)),
                 (''rpc.grpc.is_server_stream'', ABool (IsServerStream info))]) w0;
          w3 = otel_do (SpanSetAttributes span
                 [(''rpc.grpc.kind'', AString (determineStreamType info))]) (snd (time_Now w1))
      in Inr (ss\<lparr>ss_Context := ContextWithSpan T (ss_Context ss) span\<rparr>,
              log_Printf (LogStarted (determineStreamType info) (s_FullMethod info)) w3))"

lemma span_backend [simp]:
  "backend (span_status T L span err w) = backend w" "backend (span_user span ctx w) = backend w"
  "backend (record_call attrs dur err w) = backend w"
  by (auto simp: span_status_def span_user_def record_call_def Let_def split: option.splits prod.splits)

interpretation trace_unary: gate "OtelLoggingUnaryInterceptor T L info"
    "trace_unary_admit T info" "trace_leave T L ''Unary'' (FullMethod info) fst snd" for T L info
proof (unfold_locales, goal_cases)
  case (1 h i w)
  show ?case
    by (cases i) (simp add: OtelLoggingUnaryInterceptor_def trace_unary_admit_def trace_leave_def
        started_at_def time_Now_def otel_do_def Let_def split: prod.splits)
qed (auto simp: trace_unary_admit_def trace_leave_def time_Since_def time_Now_def Let_def
    split: prod.splits)

interpretation trace_stream: gate "OtelLoggingStreamInterceptor T L info"
    "trace_stream_admit T info" "trace_leave T L (determineStreamType info) (s_FullMethod info) ss_Context id"
    for T L info
proof (unfold_locales, goal_cases)
  case (1 h i w)
  show ?case
    by (simp add: OtelLoggingStreamInterceptor_def trace_stream_admit_def trace_leave_def
        started_at_def time_Now_def otel_do_def Let_def split: prod.splits)
qed (auto simp: trace_stream_admit_def trace_leave_def time_Since_def time_Now_def Let_def
    split: prod.splits)

definition gauge_admit :: "attrs \<Rightarrow> 'i \<Rightarrow> 's world \<Rightarrow> ('o \<times> 's world) + ('i \<times> 's world)" where
  "gauge_admit attrs i w = Inr (i, if globalOtelMetrics w
     then snd (time_Now (otel_do (ActiveRequestsAdd 1 attrs) w)) else w)"

definition gauge_leave ::
    "otel_lib \<Rightarrow> attrs \<Rightarrow> ('o \<Rightarrow> error option) \<Rightarrow> 'i \<Rightarrow> 's world \<Rightarrow> 'o \<times> 's world \<Rightarrow> 'o \<times> 's world" where
  "gauge_leave T attrs err i w r = (if globalOtelMetrics w
     then let (dur, w4) = time_Since (started_at w) (snd r);
              w5 = record_call (attrs @ [(''rpc.grpc.status_code'',
                     AString (getStatusCode T (err (fst r))))]) dur (err (fst r)) w4
          in (fst r, otel_do (ActiveRequestsAdd (- 1) attrs) w5)
     else r)"

definition call_attrs :: "string \<Rightarrow> string \<Rightarrow> attrs" where
  "call_attrs method kind = [(''rpc.method'', AString method),
     (''rpc.service'', AString (extractService method)), (''rpc.grpc.kind'', AString kind)]"

interpretation gauge_unary: gate "OtelMetricsUnaryInterceptor T info"
    "gauge_admit (call_attrs (FullMethod info) ''unary'')"
    "gauge_leave T (call_attrs (FullMethod info) ''unary'') snd" for T info
proof (unfold_locales, goal_cases)
  case (1 h i w)
  show ?case
    by (cases i) (simp add: OtelMetricsUnaryInterceptor_def gauge_admit_def gauge_leave_def
        started_at_def time_Now_def otel_do_def call_attrs_def Let_def split: prod.splits)
qed (auto simp: gauge_admit_def gauge_leave_def time_Since_def time_Now_def Let_def
    split: prod.splits if_splits)

interpretation gauge_stream: gate "OtelMetricsStreamInterceptor T info"
    "gauge_admit (call_attrs (s_FullMethod info) (determineStreamType info))"
    "gauge_leave T (call_attrs (s_FullMethod info) (determineStreamType info)) id" for T info
proof (unfold_locales, goal_cases)
  case (1 h i w)
  show ?case
    by (simp add: OtelMetricsStreamInterceptor_def gauge_admit_def gauge_leave_def
        started_at_def time_Now_def otel_do_def call_attrs_def Let_def split: prod.splits)
qed (auto simp: gauge_admit_def gauge_leave_def time_Since_def time_Now_def Let_def
    split: prod.splits if_splits)

end
