(* ===== verification/Startup.thy ===== *)
theory Startup
  imports Otel MemoryStorage
begin

text \<open>
  \<open>main.go\<close>: what is read from the environment, the TLS credentials, the chain of interceptors,
  and the decisions of \<open>main\<close> up to the running servers and from the signal to the end. What the
  process is told by the operating system, TLS, gRPC and the database when it asks is the record
  \<open>host\<close>.
\<close>

section \<open>The environment\<close>

type_synonym env = "string \<Rightarrow> string option"

definition Getenv :: "env \<Rightarrow> string \<Rightarrow> string" where
  "Getenv env name = (case env name of None \<Rightarrow> [] | Some v \<Rightarrow> v)"

definition getJWTSecret :: "env \<Rightarrow> string" where
  "getJWTSecret env =
     (let secret = Getenv env ''JWT_SECRET''
      in if secret \<noteq> [] then secret
         else let secret = Getenv env ''GRPC_SECRET_KEY''
              in if secret \<noteq> [] then secret else ''our little secret'')"

text \<open>
  \<open>fmt.Sscanf\<close> with \<open>%d\<close> and \<open>%t\<close> on ASCII text: leading blanks are skipped, a newline is an
  error, what follows the value is not looked at; an integer is read into an \<open>int64\<close>; a boolean
  is read from its first letter, with the rest of \<open>true\<close> or \<open>false\<close> only if it begins.
\<close>

fun skip_space :: "string \<Rightarrow> string option" where
  "skip_space [] = Some []"
| "skip_space (c # cs) = (let n = of_char c :: nat in
     if n = 10 \<or> (n = 13 \<and> take 1 cs = [char_of (10 :: nat)]) then None
     else if n = 32 \<or> (9 \<le> n \<and> n \<le> 13) then skip_space cs else Some (c # cs))"

definition is_digit :: "char \<Rightarrow> bool" where
  "is_digit c = (let n = of_char c :: nat in 48 \<le> n \<and> n \<le> 57)"

definition scan_number :: "int \<Rightarrow> string \<Rightarrow> int option" where
  "scan_number sign s = (let ds = takeWhile is_digit s; v = sign * int (undec ds) in
     if ds = [] then None
     else if - (2 ^ 63) \<le> v \<and> v < 2 ^ 63 then Some v else None)"

definition Sscanf_d :: "string \<Rightarrow> int option" where
  "Sscanf_d s = (case skip_space s of None \<Rightarrow> None
     | Some [] \<Rightarrow> None
     | Some (c # cs) \<Rightarrow> if c = CHR ''-'' then scan_number (- 1) cs
         else if c = CHR ''+'' then scan_number 1 cs else scan_number 1 (c # cs))"

text \<open>\<open>accept_rest ls s\<close>: the first pair of letters is optional, the others then required.\<close>

fun letters :: "(char \<times> char) list \<Rightarrow> string \<Rightarrow> bool" where
  "letters [] s = True"
| "letters (p # ps) [] = False"
| "letters (p # ps) (c # cs) = ((c = fst p \<or> c = snd p) \<and> letters ps cs)"

definition accept_rest :: "(char \<times> char) list \<Rightarrow> string \<Rightarrow> bool" where
  "accept_rest ps s = (\<not> letters (take 1 ps) s \<or> letters ps s)"

definition Sscanf_t :: "string \<Rightarrow> bool option" where
  "Sscanf_t s = (case skip_space s of None \<Rightarrow> None
     | Some [] \<Rightarrow> None
     | Some (c # cs) \<Rightarrow>
         if c = CHR ''0'' then Some False
         else if c = CHR ''1'' then Some True
         else if c = CHR ''t'' \<or> c = CHR ''T'' then
           (if accept_rest [(CHR ''r'', CHR ''R''), (CHR ''u'', CHR ''U''), (CHR ''e'', CHR ''E'')] cs
            then Some True else None)
         else if c = CHR ''f'' \<or> c = CHR ''F'' then
           (if accept_rest [(CHR ''a'', CHR ''A''), (CHR ''l'', CHR ''L''), (CHR ''s'', CHR ''S''),
                (CHR ''e'', CHR ''E'')] cs
            then Some False else None)
         else Some False)"

text \<open>The three types \<open>DefaultEnv\<close> is used at.\<close>

definition DefaultEnv_string :: "env \<Rightarrow> string \<Rightarrow> string \<Rightarrow> string" where
  "DefaultEnv_string env name def = (case env name of None \<Rightarrow> def | Some val \<Rightarrow> val)"

definition DefaultEnv_int :: "env \<Rightarrow> string \<Rightarrow> int \<Rightarrow> int" where
  "DefaultEnv_int env name def = (case env name of None \<Rightarrow> def
     | Some val \<Rightarrow> (case Sscanf_d val of Some v \<Rightarrow> v | None \<Rightarrow> def))"

definition DefaultEnv_bool :: "env \<Rightarrow> string \<Rightarrow> bool \<Rightarrow> bool" where
  "DefaultEnv_bool env name def = (case env name of None \<Rightarrow> def
     | Some val \<Rightarrow> (case Sscanf_t val of Some v \<Rightarrow> v | None \<Rightarrow> def))"

text \<open>The flags, and their defaults.\<close>

record Flags =
  gRPCPort :: int
  gatewayPort :: int
  nocheck :: bool
  enableAuth :: bool
  printMetrics :: bool
  hostname :: string
  validateToken :: string
  certFile :: string
  keyFile :: string
  pprofAddr :: string
  otelEnabled :: bool
  otelEndpoint :: string
  serviceName :: string
  environment :: string
  dbConnString :: string

definition default_flags :: "env \<Rightarrow> Flags" where
  "default_flags env = \<lparr>
     gRPCPort = DefaultEnv_int env ''GRPC_PORT'' 10000,
     gatewayPort = DefaultEnv_int env ''GRPC_GATEWAY_PORT'' 11000,
     nocheck = False,
     enableAuth = False,
     printMetrics = False,
     hostname = DefaultEnv_string env ''GRPC_HOST'' ''localhost'',
     validateToken = [],
     certFile = ''certs/server.crt'',
     keyFile = ''certs/server.key'',
     pprofAddr = [],
     otelEnabled = DefaultEnv_bool env ''OTEL_ENABLED'' False,
     otelEndpoint = DefaultEnv_string env ''OTEL_EXPORTER_OTLP_ENDPOINT'' ''localhost:4317'',
     serviceName = DefaultEnv_string env ''SERVICE_NAME'' ''grpc-example'',
     environment = DefaultEnv_string env ''ENVIRONMENT'' ''development'',
     dbConnString = DefaultEnv_string env ''DATABASE_URL'' []\<rparr>"

definition jwtIssuer :: "env \<Rightarrow> string" where
  "jwtIssuer env = DefaultEnv_string env ''GRPC_ISSUER'' ''grpc-example''"

section \<open>TLS\<close>

definition VersionTLS12 :: nat where
  "VersionTLS12 = 771"

record 'cert tls_Config =
  Certificates :: "'cert list"
  MinVersion :: nat
  InsecureSkipVerify :: bool
  CurvePreferences :: "string list"
  CipherSuites :: "string list"

definition tls_Config_zero :: "'cert tls_Config" where
  "tls_Config_zero = \<lparr>Certificates = [], MinVersion = 0, InsecureSkipVerify = False,
     CurvePreferences = [], CipherSuites = []\<rparr>"

record ('cert, 'pool) host =
  LoadX509KeyPair :: "string \<Rightarrow> string \<Rightarrow> error + 'cert"
  ReadFile :: "string \<Rightarrow> error + string"
  AppendCertsFromPEM :: "string \<Rightarrow> 'pool option"
  insecure_Cert :: 'cert
  insecure_CertPool :: 'pool
  otel_Setup :: "error option"
  new_instrument :: "string \<Rightarrow> error option"
  net_Listen :: "string \<Rightarrow> error option"
  open_postgres :: "string \<Rightarrow> error option"
  grpc_NewClient :: "string \<Rightarrow> error option"
  RegisterGateway :: "error option"

definition wrap_error :: "lib \<Rightarrow> string \<Rightarrow> error \<Rightarrow> error" where
  "wrap_error L text err = Errorf (text @ error_Error L err) (Some err)"

definition loadTLSCredentials ::
    "lib \<Rightarrow> ('cert, 'pool) host \<Rightarrow> string \<Rightarrow> string \<Rightarrow> error + 'cert \<times> 'cert tls_Config \<times> 'pool" where
  "loadTLSCredentials L H cfile kfile = (case LoadX509KeyPair H cfile kfile of
     Inl err \<Rightarrow> Inl (wrap_error L ''failed to load TLS key pair: '' err)
   | Inr cert \<Rightarrow> (case ReadFile H cfile of
       Inl err \<Rightarrow> Inl (wrap_error L ''failed to read certificate file: '' err)
     | Inr certPEM \<Rightarrow> (case AppendCertsFromPEM H certPEM of
         None \<Rightarrow> Inl (Errorf ''failed to parse certificate'' None)
       | Some certPool \<Rightarrow> Inr (cert,
           tls_Config_zero\<lparr>Certificates := [cert], MinVersion := VersionTLS12\<rparr>, certPool))))"

definition AdvisedConfig :: "bool \<Rightarrow> 'cert tls_Config" where
  "AdvisedConfig allowInsecure = tls_Config_zero\<lparr>
     MinVersion := VersionTLS12,
     CurvePreferences := [''X25519'', ''CurveP256'', ''CurveP384''],
     CipherSuites := [''TLS_ECDHE_ECDSA_WITH_AES_128_GCM_SHA256'',
       ''TLS_ECDHE_RSA_WITH_AES_128_GCM_SHA256'', ''TLS_ECDHE_ECDSA_WITH_AES_256_GCM_SHA384'',
       ''TLS_ECDHE_RSA_WITH_AES_256_GCM_SHA384'', ''TLS_ECDHE_ECDSA_WITH_CHACHA20_POLY1305'',
       ''TLS_ECDHE_RSA_WITH_CHACHA20_POLY1305''],
     InsecureSkipVerify := allowInsecure\<rparr>"

section \<open>The chain of interceptors\<close>

definition server_jwt :: "env \<Rightarrow> JWTManager" where
  "server_jwt env = interceptors_NewJWTManager (getJWTSecret env) (24 * 3600 * 10 ^ 9) (jwtIssuer env)"

definition unary_interceptors ::
    "otel_lib \<Rightarrow> jwt \<Rightarrow> lib \<Rightarrow> env \<Rightarrow> Flags \<Rightarrow> ('q, 'p, 's) UnaryInterceptor list" where
  "unary_interceptors T J L env flags =
     (if otelEnabled flags
      then [OtelLoggingUnaryInterceptor T L, OtelMetricsUnaryInterceptor T]
      else [LoggingUnaryInterceptor, MetricsUnaryInterceptor]) @
     (if enableAuth flags
      then [JWTAuthUnaryInterceptor L
              (NewApprover J L (server_jwt env) FakeClaimsApprover_ValidMethod)]
      else [])"

definition stream_interceptors ::
    "otel_lib \<Rightarrow> jwt \<Rightarrow> lib \<Rightarrow> env \<Rightarrow> Flags \<Rightarrow> ('st, 's) StreamInterceptor list" where
  "stream_interceptors T J L env flags =
     (if otelEnabled flags
      then [OtelLoggingStreamInterceptor T L, OtelMetricsStreamInterceptor T]
      else [LoggingStreamInterceptor, MetricsStreamInterceptor]) @
     (if enableAuth flags
      then [JWTAuthStreamInterceptor L
              (NewApprover J L (server_jwt env) FakeClaimsApprover_ValidMethod)]
      else [])"

section \<open>Starting\<close>

datatype storage_kind = InMemory | InPostgres string

text \<open>What runs once \<open>main\<close> waits for a signal.\<close>

record ('cert, 'pool) deployment =
  grpc_addr :: string
  grpc_cert :: 'cert
  storage_used :: storage_kind
  dial_addr :: string
  dial_pool :: 'pool
  gateway_addr :: string
  gateway_tls :: "'cert tls_Config"
  gateway_traced :: bool
  pprof_addr :: "string option"

datatype ('cert, 'pool) outcome =
    Validated Claims
  | Fatal string
  | Running "('cert, 'pool) deployment"

definition host_port :: "string \<Rightarrow> int \<Rightarrow> string" where
  "host_port h p = h @ '':'' @ dec_int p"

definition grpcDialHost :: "Flags \<Rightarrow> string" where
  "grpcDialHost flags =
     (if hostname flags \<noteq> [] \<and> hostname flags \<noteq> ''0.0.0.0'' then hostname flags else ''localhost'')"

definition fatal :: "lib \<Rightarrow> string \<Rightarrow> error \<Rightarrow> ('cert, 'pool) outcome" where
  "fatal L text err = Fatal (text @ error_Error L err)"

definition tls_setup ::
    "lib \<Rightarrow> ('cert, 'pool) host \<Rightarrow> Flags \<Rightarrow> 'cert \<times> 'cert tls_Config \<times> 'pool" where
  "tls_setup L H flags = (case loadTLSCredentials L H (certFile flags) (keyFile flags) of
     Inl err \<Rightarrow> (insecure_Cert H,
       tls_Config_zero\<lparr>Certificates := [insecure_Cert H], MinVersion := VersionTLS12\<rparr>,
       insecure_CertPool H)
   | Inr c \<Rightarrow> c)"

definition gateway_config :: "Flags \<Rightarrow> 'cert tls_Config \<Rightarrow> 'cert tls_Config" where
  "gateway_config flags tlsConfig = (if nocheck flags
     then tls_Config_zero\<lparr>Certificates := Certificates tlsConfig, InsecureSkipVerify := True,
            MinVersion := VersionTLS12\<rparr>
     else tlsConfig)"

definition main_deployment :: "('cert, 'pool) host \<Rightarrow> Flags \<Rightarrow> 'cert \<times> 'cert tls_Config \<times> 'pool \<Rightarrow> ('cert, 'pool) deployment" where
  "main_deployment H flags tls = (case tls of (tlsCert, tlsConfig, certPool) \<Rightarrow> \<lparr>
     grpc_addr = host_port (hostname flags) (gRPCPort flags),
     grpc_cert = tlsCert,
     storage_used = (if dbConnString flags \<noteq> [] then InPostgres (dbConnString flags) else InMemory),
     dial_addr = host_port (grpcDialHost flags) (gRPCPort flags),
     dial_pool = certPool,
     gateway_addr = host_port (hostname flags) (gatewayPort flags),
     gateway_tls = gateway_config flags tlsConfig,
     gateway_traced = otelEnabled flags,
     pprof_addr = (if pprofAddr flags \<noteq> [] then Some (pprofAddr flags) else None)\<rparr>)"

definition main_run ::
    "jwt \<Rightarrow> lib \<Rightarrow> ('cert, 'pool) host \<Rightarrow> env \<Rightarrow> time \<Rightarrow> Flags \<Rightarrow> ('cert, 'pool) outcome" where
  "main_run J L H env now flags =
     (if validateToken flags \<noteq> []
      then (case JWTManager_ValidateToken J L (server_jwt env) now (validateToken flags) of
              Inl err \<Rightarrow> fatal L ''Token validation failed: '' err
            | Inr claims \<Rightarrow> Validated claims)
      else
        let tls = tls_setup L H flags
        in case (if otelEnabled flags then otel_Setup H else None) of
          Some err \<Rightarrow> fatal L ''Failed to initialize OpenTelemetry: '' err
        | None \<Rightarrow> (case (if otelEnabled flags then make_all (new_instrument H) instruments else None) of
            Some err \<Rightarrow> fatal L ''Failed to initialize OpenTelemetry metrics: '' err
          | None \<Rightarrow> (case net_Listen H (host_port (hostname flags) (gRPCPort flags)) of
              Some err \<Rightarrow> fatal L ''Failed to listen: '' err
            | None \<Rightarrow> (case (if dbConnString flags \<noteq> [] then open_postgres H (dbConnString flags) else None) of
                Some err \<Rightarrow> fatal L ''Failed to initialize PostgreSQL storage: '' err
              | None \<Rightarrow> (case grpc_NewClient H (host_port (grpcDialHost flags) (gRPCPort flags)) of
                  Some err \<Rightarrow> fatal L ''Failed to dial server: '' err
                | None \<Rightarrow> (case RegisterGateway H of
                    Some err \<Rightarrow> fatal L ''Failed to register gateway: '' err
                  | None \<Rightarrow> Running (main_deployment H flags tls)))))))"

text \<open>What \<open>main\<close> does, in this order, once a signal has arrived.\<close>

datatype action =
    PrintMetrics
  | ShutdownGateway
  | GracefulStop
  | CloseConn
  | CloseStorage
  | ShutdownOtel

definition main_shutdown :: "Flags \<Rightarrow> action list" where
  "main_shutdown flags =
     (if printMetrics flags then [PrintMetrics] else []) @ [ShutdownGateway, GracefulStop] @
     [CloseConn] @ (if dbConnString flags \<noteq> [] then [CloseStorage] else []) @
     (if otelEnabled flags then [ShutdownOtel] else [])"

end
