(* ===== verification/Tokens.thy ===== *)
theory Tokens
  imports Auth Samples
begin

text \<open>
  What the token manager promises, given the documented behaviour of the JWT library: how long
  a token is valid, what is accepted at all, what a refresh keeps, and the role checks.
\<close>

section \<open>The documented behaviour of the library\<close>

text \<open>
  The claims a JSON object can carry unchanged: ASCII text, dates that are whole numeric dates.
\<close>

definition ascii :: "string \<Rightarrow> bool" where
  "ascii s = list_all (\<lambda>c. of_char c < (128 :: nat)) s"

definition portable :: "jwt \<Rightarrow> Claims \<Rightarrow> bool" where
  "portable J c \<longleftrightarrow> ascii (c_UserID c) \<and> ascii (c_Username c) \<and> ascii (c_Email c) \<and>
     list_all ascii (c_Roles c) \<and>
     ascii (Issuer (c_Registered c)) \<and> ascii (Subject (c_Registered c)) \<and>
     (\<forall>d. ExpiresAt (c_Registered c) = Some d \<or> NotBefore (c_Registered c) = Some d \<or>
          IssuedAt (c_Registered c) = Some d \<longrightarrow> NewNumericDate J d = d)"

text \<open>A token is in time if it has not expired and is not used too early.\<close>

definition unexpired :: "time \<Rightarrow> Claims \<Rightarrow> bool" where
  "unexpired now c = (case ExpiresAt (c_Registered c) of None \<Rightarrow> True | Some e \<Rightarrow> now < e)"

definition started :: "time \<Rightarrow> Claims \<Rightarrow> bool" where
  "started now c = (case NotBefore (c_Registered c) of None \<Rightarrow> True | Some b \<Rightarrow> b \<le> now)"

text \<open>
  \<open>decode\<close> reads a token without checking it, \<open>verify\<close> checks its signature under a key. A
  parse fails on text that is no token, when the key function fails on the decoded token, or
  when the signature is wrong; otherwise, with validation, it looks at the dates, and an error
  is \<open>ErrTokenExpired\<close> exactly if the token has expired.
\<close>

definition parse_law :: "jwt \<Rightarrow> (string \<Rightarrow> Token option) \<Rightarrow> (string \<Rightarrow> string \<Rightarrow> bool) \<Rightarrow> bool" where
  "parse_law J decode verify \<longleftrightarrow> (\<forall>now tok kf.
     let key = (case decode tok of None \<Rightarrow> None | Some T \<Rightarrow>
           (case kf T of Inl _ \<Rightarrow> None | Inr k \<Rightarrow> if verify tok k then Some T else None))
     in case key of
          None \<Rightarrow> (\<exists>e. ParseWithClaims J now tok kf = Inl e \<and> \<not> is_ErrTokenExpired J e) \<and>
                  (\<exists>e. ParseNoValidation J tok kf = Inl e)
        | Some T \<Rightarrow> ParseNoValidation J tok kf = Inr (T\<lparr>t_Valid := True\<rparr>) \<and>
            (\<forall>c. t_Claims T = Some c \<longrightarrow>
               (if unexpired now c \<and> started now c
                then ParseWithClaims J now tok kf = Inr (T\<lparr>t_Valid := True\<rparr>)
                else \<exists>e. ParseWithClaims J now tok kf = Inl e \<and>
                       (is_ErrTokenExpired J e \<longleftrightarrow> \<not> unexpired now c))))"

text \<open>The string \<open>SignedString\<close> makes decodes to the claims signed and verifies under the key.\<close>

definition sign_law :: "jwt \<Rightarrow> (string \<Rightarrow> Token option) \<Rightarrow> (string \<Rightarrow> string \<Rightarrow> bool) \<Rightarrow> bool" where
  "sign_law J decode verify \<longleftrightarrow> (\<forall>c k tok.
     SignedString J SigningMethodHS256 c k = Inr tok \<longrightarrow> portable J c \<longrightarrow>
       verify tok k \<and> (\<exists>T. decode tok = Some T \<and> t_Method T = SigningMethodHS256 \<and> t_Claims T = Some c))"

text \<open>A numeric date counts whole seconds (\<open>jwt.TimePrecision\<close>).\<close>

definition date_law :: "jwt \<Rightarrow> bool" where
  "date_law J \<longleftrightarrow> (\<forall>t. NewNumericDate J t = time_Unix (time_unix_seconds t))"

lemma date_law_idem: "date_law J \<Longrightarrow> NewNumericDate J (NewNumericDate J t) = NewNumericDate J t"
  by (simp add: date_law_def time_Unix_def time_unix_seconds_def)

lemma portable_new_claims:
  assumes "date_law J" and "ascii (issuer m)" and "ascii uid" and "ascii name" and "ascii mail"
    and "list_all ascii rs"
  shows "portable J (new_claims J m now uid name mail rs)"
  using assms by (auto simp: portable_def new_claims_def date_law_idem)

text \<open>How the manager reads a token that decodes.\<close>

lemma validate_cases:
  assumes "parse_law J decode verify" and "\<And>T. decode tok = Some T \<Longrightarrow> t_Claims T \<noteq> None"
  obtains (ok) T c h where "decode tok = Some T" "t_Method T = HMAC h" "verify tok (secretKey m)"
      "t_Claims T = Some c" "unexpired now c" "started now c"
      "JWTManager_ValidateToken J L m now tok = Inr c"
    | (expired) T c h where "decode tok = Some T" "t_Method T = HMAC h" "verify tok (secretKey m)"
      "t_Claims T = Some c" "\<not> unexpired now c"
      "JWTManager_ValidateToken J L m now tok = Inl ErrExpiredToken"
    | (early) T c h e where "decode tok = Some T" "t_Method T = HMAC h" "verify tok (secretKey m)"
      "t_Claims T = Some c" "unexpired now c" "\<not> started now c"
      "JWTManager_ValidateToken J L m now tok = Inl (invalid_token L e tok)"
    | (bad) e where "\<And>T. decode tok = Some T \<Longrightarrow> (\<exists>h. t_Method T = HMAC h) \<Longrightarrow>
        \<not> verify tok (secretKey m)"
      "JWTManager_ValidateToken J L m now tok = Inl (invalid_token L e tok)"
proof (cases "\<exists>T h. decode tok = Some T \<and> t_Method T = HMAC h \<and> verify tok (secretKey m)")
  case True
  then obtain T h where T: "decode tok = Some T" "t_Method T = HMAC h" "verify tok (secretKey m)"
    by blast
  obtain c where c: "t_Claims T = Some c" using assms(2) T(1) by blast
  note P = assms(1)[unfolded parse_law_def, rule_format, of tok "validate_keyfunc m tok" now]
  show ?thesis
    using P T c ok [OF T c] expired [OF T c] early [OF T c]
    by (cases "unexpired now c"; cases "started now c")
      (auto simp: JWTManager_ValidateToken_def validate_keyfunc_def Let_def)
next
  case False
  note P = assms(1)[unfolded parse_law_def, rule_format, of tok "validate_keyfunc m tok" now]
  have "\<exists>e. ParseWithClaims J now tok (validate_keyfunc m tok) = Inl e \<and> \<not> is_ErrTokenExpired J e"
    using P False
    by (auto simp: validate_keyfunc_def Let_def split: option.splits signing_method.splits if_splits)
  then obtain e where "JWTManager_ValidateToken J L m now tok = Inl (invalid_token L e tok)"
    by (auto simp: JWTManager_ValidateToken_def)
  with False show ?thesis by (intro bad) auto
qed

lemma invalid_token_simps [simp]:
  "invalid_token L e tok \<noteq> ErrExpiredToken" "ErrExpiredToken \<noteq> invalid_token L e tok"
  "errors_Is (invalid_token L e tok) ErrInvalidToken"
  by (simp_all add: invalid_token_def ErrExpiredToken_def)

section \<open>Validation\<close>

text \<open>C11. What \<open>ValidateToken\<close> accepts: exactly the tokens of an HMAC method whose signature
  verifies under the key of the manager and that are in time, and it answers their claims; it
  answers \<open>ErrExpiredToken\<close> exactly for those that verify and have expired; every other error
  wraps \<open>ErrInvalidToken\<close>.\<close>

theorem validate_decision:
  assumes "parse_law J decode verify" and "\<And>T. decode tok = Some T \<Longrightarrow> t_Claims T \<noteq> None"
  shows "(\<forall>c. JWTManager_ValidateToken J L m now tok = Inr c \<longleftrightarrow>
      (\<exists>T h. decode tok = Some T \<and> t_Method T = HMAC h \<and> verify tok (secretKey m) \<and>
        t_Claims T = Some c \<and> unexpired now c \<and> started now c)) \<and>
    (JWTManager_ValidateToken J L m now tok = Inl ErrExpiredToken \<longleftrightarrow>
      (\<exists>T h c. decode tok = Some T \<and> t_Method T = HMAC h \<and> verify tok (secretKey m) \<and>
        t_Claims T = Some c \<and> \<not> unexpired now c)) \<and>
    (\<forall>e. JWTManager_ValidateToken J L m now tok = Inl e \<longrightarrow>
      e = ErrExpiredToken \<or> errors_Is e ErrInvalidToken)"
  using assms by (rule validate_cases [where now = now and L = L and m = m]) auto

text \<open>A library that knows a single token, issued for the second 100 with a lifetime of an hour.\<close>

definition sample_claims :: Claims where
  "sample_claims = \<lparr>c_UserID = ''7'', c_Username = ''eve'', c_Email = ''e@x'', c_Roles = [''user''],
     c_Registered = \<lparr>Issuer = ''me'', Subject = ''7'', ExpiresAt = Some (3700 * 10 ^ 9),
       NotBefore = Some (100 * 10 ^ 9), IssuedAt = Some (100 * 10 ^ 9)\<rparr>\<rparr>"

definition sample_token :: Token where
  "sample_token = \<lparr>t_Method = SigningMethodHS256, t_alg = ''HS256'', t_Claims = Some sample_claims,
     t_Valid = False\<rparr>"

definition sample_decode :: "string \<Rightarrow> Token option" where
  "sample_decode tok = (if tok = ''T'' then Some sample_token else None)"

definition sample_verify :: "string \<Rightarrow> string \<Rightarrow> bool" where
  "sample_verify tok k = (tok = ''T'' \<and> k = ''key'')"

definition sample_parse :: "(Claims \<Rightarrow> error option) \<Rightarrow> string \<Rightarrow> keyfunc \<Rightarrow> error + Token" where
  "sample_parse check tok kf = (case sample_decode tok of None \<Rightarrow> Inl (Errorf ''malformed'' None)
     | Some T \<Rightarrow> (case kf T of Inl e \<Rightarrow> Inl (Errorf ''unverifiable'' None)
        | Inr k \<Rightarrow> if \<not> sample_verify tok k then Inl (Errorf ''signature'' None)
            else (case check sample_claims of Some e \<Rightarrow> Inl e | None \<Rightarrow> Inr (T\<lparr>t_Valid := True\<rparr>))))"

definition sample_jwt :: jwt where
  "sample_jwt = \<lparr>
     NewNumericDate = (\<lambda>t. time_Unix (time_unix_seconds t)),
     SignedString = (\<lambda>method c k. if c = sample_claims \<and> k = ''key'' then Inr ''T''
       else Inl (Errorf ''cannot sign'' None)),
     ParseWithClaims = (\<lambda>now. sample_parse (\<lambda>c. if \<not> unexpired now c then Some (Errorf ''expired'' None)
       else if \<not> started now c then Some (Errorf ''early'' None) else None)),
     ParseNoValidation = sample_parse (\<lambda>c. None),
     is_ErrTokenExpired = (\<lambda>e. e = Errorf ''expired'' None)\<rparr>"

lemma sample_parse_law [simp]: "parse_law sample_jwt sample_decode sample_verify"
  by (auto simp: parse_law_def sample_jwt_def sample_parse_def sample_decode_def sample_token_def
      Let_def split: sum.splits)

lemma sample_sign_law [simp]: "sign_law sample_jwt sample_decode sample_verify"
  by (auto simp: sign_law_def sample_jwt_def sample_decode_def sample_verify_def sample_token_def
      split: if_splits)

lemma sample_date_law [simp]: "date_law sample_jwt"
  by (simp add: date_law_def sample_jwt_def)

definition sample_manager :: JWTManager where
  "sample_manager = NewJWTManager ''key'' (3600 * 10 ^ 9) ''me''"

lemma sample_generate:
  "JWTManager_GenerateToken sample_jwt L sample_manager (100 * 10 ^ 9) ''7'' ''eve'' ''e@x'' [''user''] =
     Inr ''T''"
  by (simp add: JWTManager_GenerateToken_def sample_jwt_def new_claims_def sample_claims_def
      sample_manager_def NewJWTManager_def time_Unix_def time_unix_seconds_def)

theorem validate_decision_witness:
  "JWTManager_ValidateToken sample_jwt sample_lib sample_manager (200 * 10 ^ 9) ''T'' = Inr sample_claims"
proof -
  have "\<And>T. sample_decode ''T'' = Some T \<Longrightarrow> t_Claims T \<noteq> None"
    by (simp add: sample_decode_def sample_token_def)
  from validate_decision [OF sample_parse_law this,
      where L = sample_lib and m = sample_manager and now = "200 * 10 ^ 9"]
  have "JWTManager_ValidateToken sample_jwt sample_lib sample_manager (200 * 10 ^ 9) ''T'' = Inr sample_claims
    \<longleftrightarrow> (\<exists>T h. sample_decode ''T'' = Some T \<and> t_Method T = HMAC h \<and>
        sample_verify ''T'' (secretKey sample_manager) \<and>
        t_Claims T = Some sample_claims \<and> unexpired (200 * 10 ^ 9) sample_claims \<and>
        started (200 * 10 ^ 9) sample_claims)"
    by blast
  then show ?thesis
    by (simp add: sample_decode_def sample_token_def sample_verify_def sample_manager_def
        NewJWTManager_def SigningMethodHS256_def unexpired_def started_def sample_claims_def)
qed

section \<open>The life of a token\<close>

lemma generate_ok:
  assumes "sign_law J decode verify" and "date_law J"
    and "JWTManager_GenerateToken J L m now uid name mail rs = Inr tok"
    and "list_all ascii (issuer m # uid # name # mail # rs)"
  shows "verify tok (secretKey m)"
    and "\<exists>T. decode tok = Some T \<and> t_Method T = SigningMethodHS256 \<and>
      t_Claims T = Some (new_claims J m now uid name mail rs)"
proof -
  have s: "SignedString J SigningMethodHS256 (new_claims J m now uid name mail rs) (secretKey m) = Inr tok"
    using assms(3) by (auto simp: JWTManager_GenerateToken_def split: sum.splits)
  have "portable J (new_claims J m now uid name mail rs)"
    using assms(2,4) by (intro portable_new_claims) auto
  with s assms(1) show "verify tok (secretKey m)"
    "\<exists>T. decode tok = Some T \<and> t_Method T = SigningMethodHS256 \<and>
      t_Claims T = Some (new_claims J m now uid name mail rs)"
    unfolding sign_law_def by blast+
qed

lemma validate_generated:
  assumes "parse_law J decode verify" and "sign_law J decode verify" and "date_law J"
    and "JWTManager_GenerateToken J L m now uid name mail rs = Inr tok"
    and "list_all ascii (issuer m # uid # name # mail # rs)"
    and "secretKey m' = secretKey m" and "now \<le> t"
  shows "JWTManager_ValidateToken J L' m' t tok =
    (if t < time_Unix (time_unix_seconds (now + tokenDuration m))
     then Inr (new_claims J m now uid name mail rs) else Inl ErrExpiredToken)"
proof -
  let ?c = "new_claims J m now uid name mail rs"
  note G = generate_ok [OF assms(2-5)]
  have s: "started t ?c"
    using assms(3,7) time_Unix_floor(1) [of now]
    by (simp add: started_def new_claims_def date_law_def)
  have u: "unexpired t ?c \<longleftrightarrow> t < time_Unix (time_unix_seconds (now + tokenDuration m))"
    using assms(3) by (simp add: unexpired_def new_claims_def date_law_def)
  have "\<And>T. decode tok = Some T \<Longrightarrow> t_Claims T \<noteq> None" using G(2) by auto
  then show ?thesis
    by (rule validate_cases [OF assms(1), where now = t and L = L' and m = m'])
      (use G s u assms(6) in \<open>auto simp: SigningMethodHS256_def\<close>)
qed

text \<open>C9. The life of a token: from the moment it is generated it is accepted, with exactly the
  claims it was generated for, until the last whole second before its lifetime is over, and
  answered by \<open>ErrExpiredToken\<close> from then on. Every manager with the same key accepts it: its
  own issuer and lifetime are not looked at.\<close>

theorem token_lifetime:
  assumes "parse_law J decode verify" and "sign_law J decode verify" and "date_law J"
    and "JWTManager_GenerateToken J L m now uid name mail rs = Inr tok"
    and "list_all ascii (issuer m # uid # name # mail # rs)"
    and "secretKey m' = secretKey m" and "now \<le> t"
  shows "if t < (now + tokenDuration m) div 10 ^ 9 * 10 ^ 9
    then \<exists>c. JWTManager_ValidateToken J L' m' t tok = Inr c \<and>
      GetInfo c = \<lparr>i_UserID = uid, i_Username = name, i_Email = mail, i_Roles = rs\<rparr> \<and>
      Issuer (c_Registered c) = issuer m \<and> Subject (c_Registered c) = uid
    else JWTManager_ValidateToken J L' m' t tok = Inl ErrExpiredToken"
  using validate_generated [OF assms]
  by (simp add: time_Unix_def time_unix_seconds_def GetInfo_def new_claims_def)

theorem token_lifetime_witness:
  "JWTManager_ValidateToken sample_jwt sample_lib (NewJWTManager ''key'' 5 ''other'') (3700 * 10 ^ 9) ''T'' =
     Inl ErrExpiredToken"
proof -
  have a: "list_all ascii (issuer sample_manager # ''7'' # ''eve'' # ''e@x'' # [''user''])"
    by (simp add: sample_manager_def NewJWTManager_def ascii_def)
  have k: "secretKey (NewJWTManager ''key'' 5 ''other'') = secretKey sample_manager"
    by (simp add: sample_manager_def NewJWTManager_def)
  from token_lifetime [OF sample_parse_law sample_sign_law sample_date_law sample_generate a k,
      where t = "3700 * 10 ^ 9" and L' = sample_lib]
  show ?thesis by (simp add: sample_manager_def NewJWTManager_def)
qed

text \<open>C34. \<open>RefreshToken\<close> works on a token however long ago it expired: whatever it answers is
  valid for the same identity and roles, with the issuer of the refreshing manager, for a new
  lifetime counted from the refresh.\<close>

theorem refresh_keeps_identity:
  assumes "parse_law J decode verify" and "sign_law J decode verify" and "date_law J"
    and "JWTManager_GenerateToken J L m now uid name mail rs = Inr tok"
    and "list_all ascii (issuer m # issuer m' # uid # name # mail # rs)"
    and "secretKey m' = secretKey m"
    and "JWTManager_RefreshToken J L m' later tok = r"
  shows "r = JWTManager_GenerateToken J L m' later uid name mail rs \<and>
    (\<forall>tok' t. r = Inr tok' \<longrightarrow> later \<le> t \<longrightarrow>
      t < (later + tokenDuration m') div 10 ^ 9 * 10 ^ 9 \<longrightarrow>
      (\<exists>c. JWTManager_ValidateToken J L m' t tok' = Inr c \<and>
        GetInfo c = \<lparr>i_UserID = uid, i_Username = name, i_Email = mail, i_Roles = rs\<rparr> \<and>
        Issuer (c_Registered c) = issuer m'))"
proof -
  have "list_all ascii (issuer m # uid # name # mail # rs)" using assms(5) by simp
  note G = generate_ok [OF assms(2-4) this]
  note P = assms(1)[unfolded parse_law_def, rule_format, of tok "refresh_keyfunc m'" later]
  obtain T where T: "decode tok = Some T" "t_Method T = SigningMethodHS256"
      "t_Claims T = Some (new_claims J m now uid name mail rs)" using G(2) by blast
  have r: "r = JWTManager_GenerateToken J L m' later uid name mail rs"
    using P G(1) T assms(6,7)
    by (auto simp: JWTManager_RefreshToken_def refresh_keyfunc_def SigningMethodHS256_def
        new_claims_def Let_def)
  have a: "list_all ascii (issuer m' # uid # name # mail # rs)" using assms(5) by simp
  have "JWTManager_ValidateToken J L m' t tok' = Inr (new_claims J m' later uid name mail rs)"
    if "r = Inr tok'" "later \<le> t" "t < (later + tokenDuration m') div 10 ^ 9 * 10 ^ 9" for tok' t
    using validate_generated [OF assms(1-3) _ a refl that(2)] that r
    by (simp add: time_Unix_def time_unix_seconds_def)
  with r show ?thesis by (auto simp: GetInfo_def new_claims_def)
qed

theorem refresh_keeps_identity_witness:
  "JWTManager_RefreshToken sample_jwt sample_lib sample_manager (100 * 10 ^ 9 + 5) ''T'' = Inr ''T''"
proof -
  have a: "list_all ascii (issuer sample_manager # issuer sample_manager # ''7'' # ''eve'' # ''e@x'' #
      [''user''])"
    by (simp add: sample_manager_def NewJWTManager_def ascii_def)
  have "JWTManager_GenerateToken sample_jwt sample_lib sample_manager (100 * 10 ^ 9 + 5)
      ''7'' ''eve'' ''e@x'' [''user''] = Inr ''T''"
    by (simp add: JWTManager_GenerateToken_def sample_jwt_def new_claims_def sample_claims_def
        sample_manager_def NewJWTManager_def time_Unix_def time_unix_seconds_def)
  with refresh_keeps_identity [OF sample_parse_law sample_sign_law sample_date_law sample_generate
      a refl, where L = sample_lib and later = "100 * 10 ^ 9 + 5"]
  show ?thesis by simp
qed

section \<open>GetInfo and the slice of roles\<close>

text \<open>
  A slice is a window of an array of the heap; \<open>c.Roles[:]\<close> is the same window of the same
  array. Writing through a slice changes the array.
\<close>

record slice =
  array :: nat
  offset :: nat
  len :: nat

type_synonym heap = "nat \<Rightarrow> string list"

definition slice_get :: "heap \<Rightarrow> slice \<Rightarrow> string list" where
  "slice_get h s = take (len s) (drop (offset s) (h (array s)))"

definition slice_set :: "heap \<Rightarrow> slice \<Rightarrow> nat \<Rightarrow> string \<Rightarrow> heap" where
  "slice_set h s i v = h(array s := (h (array s))[offset s + i := v])"

definition deref :: "heap \<Rightarrow> slice claims \<Rightarrow> Claims" where
  "deref h c = \<lparr>c_UserID = c_UserID c, c_Username = c_Username c, c_Email = c_Email c,
     c_Roles = slice_get h (c_Roles c), c_Registered = c_Registered c\<rparr>"

text \<open>\<open>GetInfo\<close> is meant to protect the claims from being modified, but its roles are the
  roles of the claims: whoever writes a role into the copy grants it to the claims.\<close>

lemma get_info_aliases:
  assumes "i < len (c_Roles c)" and "offset (c_Roles c) + len (c_Roles c) \<le> length (h (array (c_Roles c)))"
  shows "HasRole (deref (slice_set h (i_Roles (GetInfo c)) i role) c) role"
proof -
  let ?s = "c_Roles c"
  have "slice_get (slice_set h ?s i role) ?s ! i = role" "i < length (slice_get (slice_set h ?s i role) ?s)"
    using assms by (auto simp: slice_get_def slice_set_def)
  then have "role \<in> set (slice_get (slice_set h ?s i role) ?s)"
    by (metis nth_mem)
  then show ?thesis by (simp add: HasRole_def deref_def GetInfo_def)
qed

end
