(* ===== verification/AuthChain.thy ===== *)
theory AuthChain
  imports Startup Tokens
begin

text \<open>
  What the chain of interceptors that \<open>main\<close> builds does to a call: who gets through, what the
  handler sees and what the caller gets, whichever of the two pairs of observers is in front.
\<close>

section \<open>The libraries\<close>

text \<open>
  \<open>grpc.ChainUnaryInterceptor\<close> and \<open>grpc.ChainStreamInterceptor\<close> make the first interceptor the
  outermost; the context of a new span is derived from the one it is given.
\<close>

definition chain_law ::
    "(('info \<Rightarrow> 'call \<Rightarrow> 'call) list \<Rightarrow> 'info \<Rightarrow> 'call \<Rightarrow> 'call) \<Rightarrow> bool" where
  "chain_law Chain \<longleftrightarrow> (\<forall>info h. Chain [] info h = h) \<and>
     (\<forall>i is info h. Chain (i # is) info h = i info (Chain is info h))"

definition span_law :: "otel_lib \<Rightarrow> bool" where
  "span_law T \<longleftrightarrow> (\<forall>ctx n. incoming (ContextWithSpan T ctx n) = incoming ctx \<and>
     ctx_Value (ContextWithSpan T ctx n) ClaimsContextKey = ctx_Value ctx ClaimsContextKey)"

text \<open>Instances of both, for the witnesses.\<close>

definition sample_chain :: "('info \<Rightarrow> 'call \<Rightarrow> 'call) list \<Rightarrow> 'info \<Rightarrow> 'call \<Rightarrow> 'call" where
  "sample_chain is info h = foldr (\<lambda>i. i info) is h"

lemma sample_chain_law [simp]: "chain_law sample_chain"
  by (simp add: chain_law_def sample_chain_def)

definition sample_otel :: otel_lib where
  "sample_otel = \<lparr>ContextWithSpan = (\<lambda>ctx n. WithValue ctx ''span'' (OtherValue (dec n))),
     FromError = (\<lambda>e. case e of Status c m \<Rightarrow> (c, m) | _ \<Rightarrow> (Unknown, ''?'')),
     code_String = (\<lambda>c. if c = OK then ''OK'' else ''Error'')\<rparr>"

lemma sample_span_law [simp]: "span_law sample_otel"
  by (simp add: span_law_def sample_otel_def ClaimsContextKey_def)

section \<open>The decision\<close>

text \<open>The token a call carries, if its metadata have one in the right format.\<close>

definition bearer :: "ctx \<Rightarrow> string option" where
  "bearer ctx = (case incoming ctx of None \<Rightarrow> None
     | Some md \<Rightarrow> (case md_Get md ''authorization'' of [] \<Rightarrow> None
        | v # _ \<Rightarrow> if HasPrefix v ''Bearer '' \<and> v \<noteq> ''Bearer '' then Some (drop 7 v) else None))"

text \<open>The two kinds of callers the fake approver turns away.\<close>

definition banned :: "string \<Rightarrow> Claims \<Rightarrow> bool" where
  "banned meth c \<longleftrightarrow> meth = ''/proto.UserService/ListUsers'' \<and>
     (c_Email c = ''hello@example.com'' \<or> c_Username c = ''mynameismud'')"

text \<open>Who may call what at which time: the claims of the caller, or the code of the refusal.\<close>

definition caller ::
    "jwt \<Rightarrow> lib \<Rightarrow> JWTManager \<Rightarrow> string \<Rightarrow> ctx \<Rightarrow> time \<Rightarrow> code + Claims" where
  "caller J L m meth ctx now = (case bearer ctx of
     None \<Rightarrow> Inl Unauthenticated
   | Some tok \<Rightarrow> (case JWTManager_ValidateToken J L m now tok of
       Inl _ \<Rightarrow> Inl Unauthenticated
     | Inr c \<Rightarrow> if banned meth c then Inl PermissionDenied else Inr c))"

text \<open>\<open>decided d r\<close>: the answer \<open>r\<close> of the check is what the decision \<open>d\<close> says.\<close>

definition decided :: "code + Claims \<Rightarrow> error + Claims \<Rightarrow> bool" where
  "decided d r = (case d of Inl code \<Rightarrow> (\<exists>msg. r = Inl (Status code msg)) | Inr c \<Rightarrow> r = Inr c)"

lemma bearer_prefix: "HasPrefix v ''Bearer '' \<Longrightarrow> TrimPrefix v ''Bearer '' = drop 7 v"
  by (simp add: TrimPrefix_def eval_nat_numeral)

lemma bearer_nonempty:
  "HasPrefix v ''Bearer '' \<Longrightarrow> length v \<le> 7 \<longleftrightarrow> v = ''Bearer ''"
  by (auto simp: HasPrefix_iff)

lemma jwt_check_decided:
  "decided (caller J L m meth ctx (clock w (ticks w)))
     (fst (jwt_check L (NewApprover J L m FakeClaimsApprover_ValidMethod) meth ctx w))"
proof (cases "bearer ctx")
  case None
  then show ?thesis
    by (auto simp: decided_def caller_def jwt_check_def validateJWT_def bearer_def bearer_prefix
        bearer_nonempty Let_def split: option.splits list.splits if_splits)
next
  case (Some tok)
  then obtain md v vs where md: "incoming ctx = Some md" "md_Get md ''authorization'' = v # vs"
      and v: "HasPrefix v ''Bearer ''" "v \<noteq> ''Bearer ''" "tok = drop 7 v"
    by (auto simp: bearer_def split: option.splits list.splits if_splits)
  have "validateJWT L ctx (NewApprover J L m FakeClaimsApprover_ValidMethod) w =
      (case JWTManager_ValidateToken J L m (clock w (ticks w)) tok of
         Inl e \<Rightarrow> (Inl (Status Unauthenticated (error_Error L e)), snd (time_Now w))
       | Inr c \<Rightarrow> (Inr c, snd (time_Now w)))"
    using md v by (simp add: validateJWT_def bearer_prefix bearer_nonempty NewApprover_def
        time_Now_def Let_def split: sum.splits)
  then show ?thesis using Some
    by (auto simp: decided_def caller_def jwt_check_def NewApprover_def banned_def
        FakeClaimsApprover_ValidMethod_def split: sum.splits)
qed

section \<open>Observers\<close>

text \<open>
  An interceptor only observes a call if it always hands it on, with a context that carries the
  same metadata and claims, and changes neither the answer nor the backend.
\<close>

definition same_ctx :: "ctx \<Rightarrow> ctx \<Rightarrow> bool" where
  "same_ctx c c' \<longleftrightarrow> incoming c' = incoming c \<and> GetClaimsFromContext c' = GetClaimsFromContext c"

definition hands_on ::
    "('i \<Rightarrow> 'i \<Rightarrow> bool) \<Rightarrow> (('i, 'o, 's) call \<Rightarrow> ('i, 'o, 's) call) \<Rightarrow> 'i \<Rightarrow> 's world \<Rightarrow> bool" where
  "hands_on R I i w \<longleftrightarrow> (\<exists>i' w'. R i i' \<and> clock w' = clock w \<and> backend w' = backend w \<and>
     (\<forall>h. fst (I h i w) = fst (h i' w') \<and> backend (snd (I h i w)) = backend (snd (h i' w'))))"

context gate begin

lemma hands_on_admitted:
  assumes "admit i w = Inr (i', w')" and "R i i'" and "clock w' = clock w"
  shows "hands_on R I i w"
  using assms admitted unfolding hands_on_def by metis

end

lemma same_ctx_refl [simp]: "same_ctx c c"
  by (simp add: same_ctx_def)

lemma same_ctx_trans: "same_ctx a b \<Longrightarrow> same_ctx b c \<Longrightarrow> same_ctx a c"
  by (simp add: same_ctx_def)

lemma hands_on_comp:
  assumes "hands_on R I1 i w" and "transp R"
    and "\<And>i' w'. R i i' \<Longrightarrow> clock w' = clock w \<Longrightarrow> hands_on R I2 i' w'"
  shows "hands_on R (\<lambda>h. I1 (I2 h)) i w"
proof -
  obtain i1 w1 where 1: "R i i1" "clock w1 = clock w" "backend w1 = backend w"
    "\<And>h. fst (I1 h i w) = fst (h i1 w1) \<and> backend (snd (I1 h i w)) = backend (snd (h i1 w1))"
    using assms(1) unfolding hands_on_def by blast
  obtain i2 w2 where 2: "R i1 i2" "clock w2 = clock w1" "backend w2 = backend w1"
    "\<And>h. fst (I2 h i1 w1) = fst (h i2 w2) \<and> backend (snd (I2 h i1 w1)) = backend (snd (h i2 w2))"
    using assms(3) [OF 1(1,2)] unfolding hands_on_def by blast
  have "R i i2" using assms(2) 1(1) 2(1) by (rule transpD)
  then show ?thesis using 1 2 unfolding hands_on_def
    by (intro exI [of _ i2] exI [of _ w2]) simp
qed

definition same_unary :: "ctx \<times> 'q \<Rightarrow> ctx \<times> 'q \<Rightarrow> bool" where
  "same_unary i i' \<longleftrightarrow> same_ctx (fst i) (fst i') \<and> snd i' = snd i"

definition same_stream :: "'st ServerStream \<Rightarrow> 'st ServerStream \<Rightarrow> bool" where
  "same_stream s s' \<longleftrightarrow> same_ctx (ss_Context s) (ss_Context s') \<and> transport s' = transport s"

lemma same_trans: "transp same_unary" "transp same_stream"
  by (auto simp: same_unary_def same_stream_def intro!: transpI intro: same_ctx_trans)

lemma clock_time [simp]:
  "clock (snd (time_Now w)) = clock w" "clock (log_Printf e w) = clock w"
  "clock (otel_do c w) = clock w"
  by (simp_all add: world_defs Let_def)

lemma span_law_ctx: "span_law T \<Longrightarrow> same_ctx ctx (ContextWithSpan T ctx n)"
  by (simp add: span_law_def same_ctx_def GetClaimsFromContext_def)

lemma logging_unary_on: "hands_on same_unary (LoggingUnaryInterceptor info) i w"
  by (rule logging_unary.hands_on_admitted [OF log_admit_def]) (auto simp: same_unary_def span_law_ctx)

lemma metrics_unary_on: "hands_on same_unary (MetricsUnaryInterceptor info) i w"
  by (rule metrics_unary.hands_on_admitted [OF metrics_admit_def]) (auto simp: same_unary_def span_law_ctx)

lemma trace_unary_on: "span_law T \<Longrightarrow> hands_on same_unary (OtelLoggingUnaryInterceptor T L info) i w"
  by (rule trace_unary.hands_on_admitted [OF trace_unary_admit_def [unfolded Let_def]]) (auto simp: same_unary_def span_law_ctx)

lemma gauge_unary_on: "hands_on same_unary (OtelMetricsUnaryInterceptor T info) i w"
  by (rule gauge_unary.hands_on_admitted [OF gauge_admit_def]) (auto simp: same_unary_def span_law_ctx)

lemma logging_stream_on: "hands_on same_stream (LoggingStreamInterceptor info) i w"
  by (rule logging_stream.hands_on_admitted [OF log_admit_def]) (auto simp: same_stream_def span_law_ctx)

lemma metrics_stream_on: "hands_on same_stream (MetricsStreamInterceptor info) i w"
  by (rule metrics_stream.hands_on_admitted [OF metrics_admit_def]) (auto simp: same_stream_def span_law_ctx)

lemma trace_stream_on: "span_law T \<Longrightarrow> hands_on same_stream (OtelLoggingStreamInterceptor T L info) i w"
  by (rule trace_stream.hands_on_admitted [OF trace_stream_admit_def [unfolded Let_def]]) (auto simp: same_stream_def span_law_ctx)

lemma gauge_stream_on: "hands_on same_stream (OtelMetricsStreamInterceptor T info) i w"
  by (rule gauge_stream.hands_on_admitted [OF gauge_admit_def]) (auto simp: same_stream_def span_law_ctx)

lemma unary_chain:
  assumes "chain_law Chain" and "span_law T"
  obtains I where "hands_on same_unary I i w" and
    "\<And>h. Chain (unary_interceptors T J L env flags) info h = I (if enableAuth flags
       then JWTAuthUnaryInterceptor L (NewApprover J L (server_jwt env)
              FakeClaimsApprover_ValidMethod) info h else h)"
proof -
  let ?I = "if otelEnabled flags
    then (\<lambda>h. OtelLoggingUnaryInterceptor T L info (OtelMetricsUnaryInterceptor T info h))
    else (\<lambda>h. LoggingUnaryInterceptor info (MetricsUnaryInterceptor info h))"
  have "hands_on same_unary ?I i w"
    by (cases "otelEnabled flags")
      (simp_all add: hands_on_comp [OF trace_unary_on [OF assms(2)] same_trans(1) gauge_unary_on]
        hands_on_comp [OF logging_unary_on same_trans(1) metrics_unary_on])
  then show ?thesis
    by (rule that) (use assms(1) in \<open>simp add: chain_law_def unary_interceptors_def\<close>)
qed

lemma stream_chain:
  assumes "chain_law Chain" and "span_law T"
  obtains I where "hands_on same_stream I ss w" and
    "\<And>h. Chain (stream_interceptors T J L env flags) info h = I (if enableAuth flags
       then JWTAuthStreamInterceptor L (NewApprover J L (server_jwt env)
              FakeClaimsApprover_ValidMethod) info h else h)"
proof -
  let ?I = "if otelEnabled flags
    then (\<lambda>h. OtelLoggingStreamInterceptor T L info (OtelMetricsStreamInterceptor T info h))
    else (\<lambda>h. LoggingStreamInterceptor info (MetricsStreamInterceptor info h))"
  have "hands_on same_stream ?I ss w"
    by (cases "otelEnabled flags")
      (simp_all add: hands_on_comp [OF trace_stream_on [OF assms(2)] same_trans(2) gauge_stream_on]
        hands_on_comp [OF logging_stream_on same_trans(2) metrics_stream_on])
  then show ?thesis
    by (rule that) (use assms(1) in \<open>simp add: chain_law_def stream_interceptors_def\<close>)
qed

lemma caller_cong: "incoming ctx' = incoming ctx \<Longrightarrow> caller J L m meth ctx' = caller J L m meth ctx"
  by (simp add: caller_def bearer_def fun_eq_iff)

section \<open>Admission\<close>

text \<open>The authenticating interceptors behind an observer: one decision, for every handler.\<close>

lemma jwt_unary_outcome:
  fixes req :: 'q and w :: "'s world"
  assumes "same_ctx ctx c1" and "clock w1 = clock w" and "backend w1 = backend w"
  obtains n ctx' w' where "backend w' = backend w" and "incoming ctx' = incoming ctx"
    and "\<forall>h :: ('q, 'p, 's) UnaryHandler. case caller J L m (FullMethod info) ctx (clock w n) of
        Inl code \<Rightarrow> (\<exists>msg. JWTAuthUnaryInterceptor L (NewApprover J L m FakeClaimsApprover_ValidMethod) info h (c1, req) w1 =
          ((None, Some (Status code msg)), w'))
      | Inr c \<Rightarrow> GetClaimsFromContext ctx' = Some c \<and>
          JWTAuthUnaryInterceptor L (NewApprover J L m FakeClaimsApprover_ValidMethod) info h (c1, req) w1 = h (ctx', req) w'"
proof -
  let ?A = "NewApprover J L m FakeClaimsApprover_ValidMethod"
  obtain d w2 where check: "jwt_check L ?A (FullMethod info) c1 w1 = (d, w2)"
    by (cases "jwt_check L ?A (FullMethod info) c1 w1")
  have dec: "decided (caller J L m (FullMethod info) ctx (clock w (ticks w1))) d"
    using jwt_check_decided [of J L m "FullMethod info" c1 w1] check assms(1,2)
    by (simp add: caller_cong [of c1 ctx] same_ctx_def)
  have b: "backend w2 = backend w"
    using fake.jwt_check_backend [where J = J and L = L and m = m and La = L and meth = "FullMethod info" and
        ctx = c1 and w = w1] check assms(3) by simp
  have jwt: "JWTAuthUnaryInterceptor L ?A info h (c1, req) w1 =
      (case d of Inl e \<Rightarrow> ((None, Some e), w2) | Inr c \<Rightarrow> h (with_claims c c1, req) w2)" for h :: "('q, 'p, 's) UnaryHandler"
    by (simp add: fake.unary.run jwt_unary_admit_def check no_leave_def split: sum.splits)
  show thesis
  proof (cases d)
    case (Inl e)
    with dec show thesis using b
      by (intro that [of w2 ctx "ticks w1"]) (auto simp: jwt decided_def split: sum.splits)
  next
    case (Inr c)
    with dec show thesis using b assms(1)
      by (intro that [of w2 "with_claims c c1" "ticks w1"])
        (auto simp: jwt decided_def with_claims_def same_ctx_def split: sum.splits)
  qed
qed

lemma jwt_stream_outcome:
  fixes w :: "'s world" and ss :: "'st ServerStream"
  assumes "same_ctx (ss_Context ss) (ss_Context s1)" and "transport s1 = transport ss"
    and "clock w1 = clock w" and "backend w1 = backend w"
  obtains n ss' w' where "backend w' = backend w" and "transport ss' = transport ss"
    and "incoming (ss_Context ss') = incoming (ss_Context ss)"
    and "\<forall>h :: ('st, 's) StreamHandler. case caller J L m (s_FullMethod info) (ss_Context ss) (clock w n) of
        Inl code \<Rightarrow> (\<exists>msg. JWTAuthStreamInterceptor L (NewApprover J L m FakeClaimsApprover_ValidMethod) info h s1 w1 =
          (Some (Status code msg), w'))
      | Inr c \<Rightarrow> GetClaimsFromContext (ss_Context ss') = Some c \<and>
          JWTAuthStreamInterceptor L (NewApprover J L m FakeClaimsApprover_ValidMethod) info h s1 w1 = h ss' w'"
proof -
  let ?A = "NewApprover J L m FakeClaimsApprover_ValidMethod" and ?ctx = "ss_Context s1"
  obtain d w2 where check: "jwt_check L ?A (s_FullMethod info) ?ctx w1 = (d, w2)"
    by (cases "jwt_check L ?A (s_FullMethod info) ?ctx w1")
  have dec: "decided (caller J L m (s_FullMethod info) (ss_Context ss) (clock w (ticks w1))) d"
    using jwt_check_decided [of J L m "s_FullMethod info" ?ctx w1] check assms(1,3)
    by (simp add: caller_cong [of ?ctx "ss_Context ss"] same_ctx_def)
  have b: "backend w2 = backend w"
    using fake.jwt_check_backend [where J = J and L = L and m = m and La = L and meth = "s_FullMethod info" and
        ctx = ?ctx and w = w1] check assms(4) by simp
  have jwt: "JWTAuthStreamInterceptor L ?A info h s1 w1 = (case d of Inl e \<Rightarrow> (Some e, w2)
      | Inr c \<Rightarrow> h (s1\<lparr>ss_Context := with_claims c ?ctx\<rparr>) w2)" for h :: "('st, 's) StreamHandler"
    by (simp add: fake.stream.run jwt_stream_admit_def check no_leave_def split: sum.splits)
  show thesis
  proof (cases d)
    case (Inl e)
    with dec show thesis using b
      by (intro that [of w2 ss "ticks w1"]) (auto simp: jwt decided_def split: sum.splits)
  next
    case (Inr c)
    with dec show thesis using b assms(1,2)
      by (intro that [of w2 "s1\<lparr>ss_Context := with_claims c ?ctx\<rparr>" "ticks w1"])
        (auto simp: jwt decided_def with_claims_def same_ctx_def split: sum.splits)
  qed
qed

text \<open>The heart of the matter, for one call and every handler.\<close>

lemma unary_decided:
  fixes Chain :: "('q, 'p, 's) UnaryInterceptor list \<Rightarrow> ('q, 'p, 's) UnaryInterceptor"
  assumes "chain_law Chain" and "span_law T"
  obtains n ctx' w' where "backend w' = backend w" and "incoming ctx' = incoming ctx"
    and "\<forall>h. let r = Chain (unary_interceptors T J L env flags) info h (ctx, req) w;
             served = (fst r = fst (h (ctx', req) w') \<and>
               backend (snd r) = backend (snd (h (ctx', req) w')))
         in if enableAuth flags
            then (case caller J L (server_jwt env) (FullMethod info) ctx (clock w n) of
                Inl code \<Rightarrow> backend (snd r) = backend w \<and>
                  (\<exists>msg. fst r = (None, Some (Status code msg)))
              | Inr c \<Rightarrow> GetClaimsFromContext ctx' = Some c \<and> served)
            else GetClaimsFromContext ctx' = GetClaimsFromContext ctx \<and> served"
proof -
  let ?A = "NewApprover J L (server_jwt env) FakeClaimsApprover_ValidMethod"
  obtain I where on: "hands_on same_unary I (ctx, req) w"
    and chain: "\<And>h. Chain (unary_interceptors T J L env flags) info h = I (if enableAuth flags
       then JWTAuthUnaryInterceptor L ?A info h else h)"
    using unary_chain [OF assms] by blast
  obtain c1 w1 where 1: "same_ctx ctx c1" "clock w1 = clock w" "backend w1 = backend w"
    "\<And>h. fst (I h (ctx, req) w) = fst (h (c1, req) w1) \<and>
      backend (snd (I h (ctx, req) w)) = backend (snd (h (c1, req) w1))"
    using on by (auto simp: hands_on_def same_unary_def)
  show thesis
  proof (cases "enableAuth flags")
    case False
    then show thesis using 1 chain
      by (intro that [of w1 c1 0]) (simp_all add: same_ctx_def Let_def)
  next
    case True
    obtain n ctx' w' where 2: "backend w' = backend w" "incoming ctx' = incoming ctx"
      and d: "\<forall>h :: ('q, 'p, 's) UnaryHandler. case caller J L (server_jwt env) (FullMethod info) ctx (clock w n) of
          Inl code \<Rightarrow> (\<exists>msg. JWTAuthUnaryInterceptor L ?A info h (c1, req) w1 = ((None, Some (Status code msg)), w'))
        | Inr c \<Rightarrow> GetClaimsFromContext ctx' = Some c \<and> JWTAuthUnaryInterceptor L ?A info h (c1, req) w1 = h (ctx', req) w'"
      by (rule jwt_unary_outcome [OF 1(1-3), where J = J and L = L and m = "server_jwt env" and info = info and req = req])
    have r: "fst (Chain (unary_interceptors T J L env flags) info h (ctx, req) w) =
          fst (JWTAuthUnaryInterceptor L ?A info h (c1, req) w1)"
        "backend (snd (Chain (unary_interceptors T J L env flags) info h (ctx, req) w)) =
          backend (snd (JWTAuthUnaryInterceptor L ?A info h (c1, req) w1))" for h
      using 1(4) chain True by simp_all
    show thesis
    proof (cases "caller J L (server_jwt env) (FullMethod info) ctx (clock w n)")
      case (Inl code)
      then show thesis using 2 d True
        by (intro that [of w' ctx' n]) (simp_all add: Let_def r, metis fst_conv snd_conv)
    next
      case (Inr c)
      then show thesis using 2 d True
        by (intro that [of w' ctx' n]) (simp_all add: Let_def r)
    qed
  qed
qed

text \<open>C4. A unary call through the chain of interceptors that \<open>main\<close> builds, with or without
  OpenTelemetry. With authentication the decision at one reading of the clock, made from the
  metadata of the call alone, settles it: a refused call never reaches the handler, leaves the
  backend alone and is answered \<open>Unauthenticated\<close> or \<open>PermissionDenied\<close>; an admitted one runs
  the handler with the claims of the caller. Without authentication the handler always runs. In
  every case its answer and its effect on the backend come back unchanged.\<close>

theorem unary_admission:
  assumes "chain_law Chain" and "span_law T"
  shows "\<exists>n ctx' w'. backend w' = backend w \<and> incoming ctx' = incoming ctx \<and>
    (\<forall>h. let r = Chain (unary_interceptors T J L env flags) info h (ctx, req) w;
             served = (fst r = fst (h (ctx', req) w') \<and>
               backend (snd r) = backend (snd (h (ctx', req) w')))
         in if enableAuth flags
            then (case caller J L (server_jwt env) (FullMethod info) ctx (clock w n) of
                Inl code \<Rightarrow> backend (snd r) = backend w \<and>
                  (\<exists>msg. fst r = (None, Some (Status code msg)))
              | Inr c \<Rightarrow> GetClaimsFromContext ctx' = Some c \<and> served)
            else GetClaimsFromContext ctx' = GetClaimsFromContext ctx \<and> served)"
  by (rule unary_decided [OF assms, where J = J and L = L and env = env and flags = flags and
        info = info and ctx = ctx and req = req and w = w]) blast

text \<open>A server with authentication, an idle process, and a call without any metadata.\<close>

definition auth_flags :: Flags where
  "auth_flags = (default_flags (\<lambda>_. None))\<lparr>enableAuth := True\<rparr>"

definition idle :: "'s \<Rightarrow> 's world" where
  "idle s = \<lparr>backend = s, clock = (\<lambda>n. int n), ticks = 0, logs = [],
     globalMetrics = NewMetricsCollector, globalOtelMetrics = False, otel = []\<rparr>"

definition anonymous :: ctx where
  "anonymous = \<lparr>incoming = None, ctx_values = []\<rparr>"

lemma anonymous_refused [simp]: "caller J L m meth anonymous now = Inl Unauthenticated"
  by (simp add: caller_def bearer_def anonymous_def)

lemma auth_flags_simps [simp]: "enableAuth auth_flags" "\<not> otelEnabled auth_flags"
  by (simp_all add: auth_flags_def default_flags_def DefaultEnv_bool_def)

theorem unary_admission_witness:
  "\<exists>msg. fst (sample_chain (unary_interceptors sample_otel sample_jwt sample_lib (\<lambda>_. None) auth_flags)
      \<lparr>FullMethod = ''/proto.UserService/GetUser''\<rparr> (\<lambda>i w. ((Some (0 :: nat), None), w)) (anonymous, ())
      (idle ())) = (None, Some (Status Unauthenticated msg))"
proof -
  obtain n ctx' w' where "\<forall>h. let r = sample_chain (unary_interceptors sample_otel sample_jwt sample_lib
        (\<lambda>_. None) auth_flags) \<lparr>FullMethod = ''/proto.UserService/GetUser''\<rparr> h (anonymous, ()) (idle ());
      served = (fst r = (fst (h (ctx', ()) w') :: nat option \<times> error option) \<and>
               backend (snd r) = backend (snd (h (ctx', ()) w')))
      in if enableAuth auth_flags
         then (case caller sample_jwt sample_lib (server_jwt (\<lambda>_. None)) ''/proto.UserService/GetUser''
            anonymous (clock (idle ()) n) of
                Inl code \<Rightarrow> backend (snd r) = backend (idle ()) \<and>
                  (\<exists>msg. fst r = (None, Some (Status code msg)))
              | Inr c \<Rightarrow> GetClaimsFromContext ctx' = Some c \<and> served)
         else GetClaimsFromContext ctx' = GetClaimsFromContext anonymous \<and> served"
    using unary_admission [OF sample_chain_law sample_span_law, where J = sample_jwt and L = sample_lib
        and env = "\<lambda>_. None" and flags = auth_flags and info = "\<lparr>FullMethod = ''/proto.UserService/GetUser''\<rparr>"
        and ctx = anonymous and req = "()" and w = "idle ()"]
    by auto
  then show ?thesis by (simp add: Let_def)
qed

text \<open>The same for a stream.\<close>

lemma stream_decided:
  fixes Chain :: "('st, 's) StreamInterceptor list \<Rightarrow> ('st, 's) StreamInterceptor"
  assumes "chain_law Chain" and "span_law T"
  obtains n ss' w' where "backend w' = backend w" and "transport ss' = transport ss"
    and "incoming (ss_Context ss') = incoming (ss_Context ss)"
    and "\<forall>h. let r = Chain (stream_interceptors T J L env flags) info h ss w;
             served = (fst r = fst (h ss' w') \<and> backend (snd r) = backend (snd (h ss' w')))
         in if enableAuth flags
            then (case caller J L (server_jwt env) (s_FullMethod info) (ss_Context ss) (clock w n) of
                Inl code \<Rightarrow> backend (snd r) = backend w \<and> (\<exists>msg. fst r = Some (Status code msg))
              | Inr c \<Rightarrow> GetClaimsFromContext (ss_Context ss') = Some c \<and> served)
            else GetClaimsFromContext (ss_Context ss') = GetClaimsFromContext (ss_Context ss) \<and> served"
proof -
  let ?A = "NewApprover J L (server_jwt env) FakeClaimsApprover_ValidMethod"
  obtain I where on: "hands_on same_stream I ss w"
    and chain: "\<And>h. Chain (stream_interceptors T J L env flags) info h = I (if enableAuth flags
       then JWTAuthStreamInterceptor L ?A info h else h)"
    using stream_chain [OF assms] by blast
  obtain s1 w1 where 1: "same_ctx (ss_Context ss) (ss_Context s1)" "transport s1 = transport ss"
    "clock w1 = clock w" "backend w1 = backend w"
    "\<And>h. fst (I h ss w) = fst (h s1 w1) \<and> backend (snd (I h ss w)) = backend (snd (h s1 w1))"
    using on by (auto simp: hands_on_def same_stream_def)
  show thesis
  proof (cases "enableAuth flags")
    case False
    then show thesis using 1 chain
      by (intro that [of w1 s1 0]) (simp_all add: same_ctx_def Let_def)
  next
    case True
    obtain n ss' w' where 2: "backend w' = backend w" "transport ss' = transport ss"
        "incoming (ss_Context ss') = incoming (ss_Context ss)"
      and d: "\<forall>h :: ('st, 's) StreamHandler. case caller J L (server_jwt env) (s_FullMethod info) (ss_Context ss) (clock w n) of
          Inl code \<Rightarrow> (\<exists>msg. JWTAuthStreamInterceptor L ?A info h s1 w1 = (Some (Status code msg), w'))
        | Inr c \<Rightarrow> GetClaimsFromContext (ss_Context ss') = Some c \<and> JWTAuthStreamInterceptor L ?A info h s1 w1 = h ss' w'"
      by (rule jwt_stream_outcome [OF 1(1-4), where J = J and L = L and m = "server_jwt env" and info = info])
    have r: "fst (Chain (stream_interceptors T J L env flags) info h ss w) =
          fst (JWTAuthStreamInterceptor L ?A info h s1 w1)"
        "backend (snd (Chain (stream_interceptors T J L env flags) info h ss w)) =
          backend (snd (JWTAuthStreamInterceptor L ?A info h s1 w1))" for h
      using 1(5) chain True by simp_all
    show thesis
    proof (cases "caller J L (server_jwt env) (s_FullMethod info) (ss_Context ss) (clock w n)")
      case (Inl code)
      then show thesis using 2 d True
        by (intro that [of w' ss' n]) (simp_all add: Let_def r, metis fst_conv snd_conv)
    next
      case (Inr c)
      then show thesis using 2 d True
        by (intro that [of w' ss' n]) (simp_all add: Let_def r)
    qed
  qed
qed

text \<open>C14. The same for a call that streams: a refused call never reaches the handler and ends with
  \<open>Unauthenticated\<close> or \<open>PermissionDenied\<close>; an admitted one runs it on the same transport with the
  claims of the caller in the context of the stream.\<close>

theorem stream_admission:
  assumes "chain_law Chain" and "span_law T"
  shows "\<exists>n ss' w'. backend w' = backend w \<and> transport ss' = transport ss \<and>
    incoming (ss_Context ss') = incoming (ss_Context ss) \<and>
    (\<forall>h. let r = Chain (stream_interceptors T J L env flags) info h ss w;
             served = (fst r = fst (h ss' w') \<and> backend (snd r) = backend (snd (h ss' w')))
         in if enableAuth flags
            then (case caller J L (server_jwt env) (s_FullMethod info) (ss_Context ss) (clock w n) of
                Inl code \<Rightarrow> backend (snd r) = backend w \<and> (\<exists>msg. fst r = Some (Status code msg))
              | Inr c \<Rightarrow> GetClaimsFromContext (ss_Context ss') = Some c \<and> served)
            else GetClaimsFromContext (ss_Context ss') = GetClaimsFromContext (ss_Context ss) \<and> served)"
  by (rule stream_decided [OF assms, where J = J and L = L and env = env and flags = flags and info = info
      and ss = ss and w = w]) blast

theorem stream_admission_witness:
  "\<exists>msg. fst (sample_chain (stream_interceptors sample_otel sample_jwt sample_lib (\<lambda>_. None) auth_flags)
      \<lparr>s_FullMethod = ''/proto.UserService/ListUsers'', IsClientStream = False, IsServerStream = True\<rparr>
      (\<lambda>i w. (None, w)) \<lparr>ss_Context = anonymous, transport = ()\<rparr> (idle ())) =
    Some (Status Unauthenticated msg)"
proof -
  let ?info = "\<lparr>s_FullMethod = ''/proto.UserService/ListUsers'', IsClientStream = False, IsServerStream = True\<rparr>"
  let ?ss = "\<lparr>ss_Context = anonymous, transport = ()\<rparr>"
  obtain n ss' w' where "\<forall>h. let r = sample_chain (stream_interceptors sample_otel sample_jwt sample_lib
        (\<lambda>_. None) auth_flags) ?info h ?ss (idle ());
      served = (fst r = fst (h ss' w') \<and> backend (snd r) = backend (snd (h ss' w')))
      in if enableAuth auth_flags
         then (case caller sample_jwt sample_lib (server_jwt (\<lambda>_. None)) (s_FullMethod ?info)
            (ss_Context ?ss) (clock (idle ()) n) of
                Inl code \<Rightarrow> backend (snd r) = backend (idle ()) \<and> (\<exists>msg. fst r = Some (Status code msg))
              | Inr c \<Rightarrow> GetClaimsFromContext (ss_Context ss') = Some c \<and> served)
         else GetClaimsFromContext (ss_Context ss') = GetClaimsFromContext (ss_Context ?ss) \<and> served"
    using stream_admission [OF sample_chain_law sample_span_law, where J = sample_jwt and L = sample_lib
        and env = "\<lambda>_. None" and flags = auth_flags and info = ?info and ss = ?ss and w = "idle ()"]
    by blast
  then show ?thesis by (simp add: Let_def)
qed

section \<open>Roles\<close>

text \<open>\<open>RequireRole\<close> lets a call pass exactly if its context carries claims with one of the
  roles: without claims it answers \<open>Unauthenticated\<close>, with other roles \<open>PermissionDenied\<close>; an
  empty list of roles lets nobody pass.\<close>

lemma require_role_decision:
  "(case GetClaimsFromContext ctx of
      None \<Rightarrow> (\<exists>msg. RequireRole roles ctx = Some (Status Unauthenticated msg))
    | Some c \<Rightarrow> if set roles \<inter> set (c_Roles c) = {}
        then \<exists>msg. RequireRole roles ctx = Some (Status PermissionDenied msg)
        else RequireRole roles ctx = None)"
  by (auto simp: RequireRole_def HasAnyRole_def list_ex_iff split: option.splits)

end
