(* ===== verification/Observability.thy ===== *)
theory Observability
  imports AuthChain
begin

text \<open>
  What the metrics and the traces say about the calls: the collector of \<open>metrics.go\<close>, the
  instruments and spans of \<open>otel_interceptors.go\<close>.
\<close>

section \<open>Names of methods\<close>

lemma until_slash_append: "CHR ''/'' \<notin> set s \<Longrightarrow> until_slash (s @ CHR ''/'' # t) = s"
  by (induction s) auto

lemma extract_method_loop_append:
  "CHR ''/'' \<notin> set m \<Longrightarrow> n \<le> length m \<Longrightarrow>
   extract_method_loop (p @ CHR ''/'' # m) (length p + 1 + n) = m"
proof (induction n)
  case (Suc n)
  then have "(p @ CHR ''/'' # m) ! (length p + 1 + n) = m ! n" "m ! n \<noteq> CHR ''/''"
    by (simp_all add: nth_append) (metis Suc_le_lessD nth_mem)
  with Suc show ?case by simp
qed simp

text \<open>\<open>extractService\<close> and \<open>extractMethod\<close> take a full method name of gRPC apart, also where
  the leading slash is missing.\<close>

lemma extract_roundtrip:
  assumes "CHR ''/'' \<notin> set service" and "CHR ''/'' \<notin> set meth"
  shows "extractService (''/'' @ service @ ''/'' @ meth) = service \<and>
    extractMethod (''/'' @ service @ ''/'' @ meth) = meth \<and>
    extractMethod (service @ ''/'' @ meth) = meth \<and>
    (service \<noteq> [] \<longrightarrow> extractService (service @ ''/'' @ meth) = service)"
  using assms until_slash_append [OF assms(1), of meth]
    extract_method_loop_append [OF assms(2) le_refl, of "''/'' @ service"]
    extract_method_loop_append [OF assms(2) le_refl, of service]
  by (cases service) (auto simp: extractService_def extractMethod_def)

section \<open>The collector\<close>

definition record_all :: "(string \<times> duration \<times> bool) list \<Rightarrow> MetricsCollector" where
  "record_all rs = fold (\<lambda>(meth, dur, err). recordRequest meth dur err) rs NewMetricsCollector"

definition durations_of :: "(string \<times> duration \<times> bool) list \<Rightarrow> string \<Rightarrow> duration list" where
  "durations_of rs meth = map (\<lambda>(_, dur, _). dur) (filter (\<lambda>(x, _, _). x = meth) rs)"

lemma record_all_facts:
  "totalRequests (record_all rs) = of_nat (length rs) \<and>
   totalErrors (record_all rs) = of_nat (length (filter (\<lambda>(_, _, err). err) rs)) \<and>
   (\<forall>meth. map_get [] (requestDurations (record_all rs)) meth = durations_of rs meth \<and>
     fmlookup (methodCounts (record_all rs)) meth =
       (if durations_of rs meth = [] then None else Some (of_nat (length (durations_of rs meth)))))"
proof (induction rs rule: rev_induct)
  case (snoc r rs)
  obtain meth dur err where r: "r = (meth, dur, err)" by (cases r)
  have "record_all (rs @ [r]) = recordRequest meth dur err (record_all rs)"
    by (simp add: record_all_def r)
  with snoc show ?case
    by (auto simp: r recordRequest_def Let_def durations_of_def map_get_def split: option.splits if_splits)
qed (simp add: record_all_def NewMetricsCollector_def durations_of_def)

text \<open>The collector after any requests since it was made: the number of requests and of
  errors, and per method the number of requests and their durations in order. They do not depend
  on how requests of different methods were interleaved.\<close>

lemma collector_counts:
  "totalRequests (record_all rs) = of_nat (length rs) \<and>
   totalErrors (record_all rs) = of_nat (length (filter (\<lambda>(_, _, err). err) rs)) \<and>
   (\<forall>meth. map_get [] (requestDurations (record_all rs)) meth = durations_of rs meth \<and>
     fmlookup (methodCounts (record_all rs)) meth =
       (if durations_of rs meth = [] then None else Some (of_nat (length (durations_of rs meth)))))"
  by (rule record_all_facts)

section \<open>The statistics\<close>

lemma fmlookup_stats_loop:
  "distinct ks \<Longrightarrow> fmlookup (stats_loop m ks r) k =
    (if k \<in> set ks \<and> fmlookup (methodCounts m) k \<noteq> None \<and> map_get [] (requestDurations m) k \<noteq> []
     then Some \<lparr>ms_count = the (fmlookup (methodCounts m) k),
                avg_duration = average (map_get [] (requestDurations m) k)\<rparr>
     else fmlookup r k)"
  by (induction m ks r rule: stats_loop.induct) (auto simp: Let_def split: option.splits)

lemma sum_durations_exact:
  assumes "list_all (\<lambda>d. 0 \<le> d) ds" and "sum_list ds \<le> maxDuration"
  shows "sint (sum_durations ds) = sum_list ds"
proof -
  have "foldl (\<lambda>t d. t + word_of_int d) (word_of_int a) ds = (word_of_int (a + sum_list ds) :: int64)" for a
    by (induction ds arbitrary: a) (simp_all add: algebra_simps flip: of_int_add)
  from this [of 0] have "sum_durations ds = word_of_int (sum_list ds)"
    by (simp add: sum_durations_def)
  moreover have "0 \<le> sum_list ds" using assms(1) by (induction ds) auto
  ultimately show ?thesis using assms(2)
    by (simp add: signed_of_int signed_take_bit_int_eq_self maxDuration_def)
qed

lemma average_bounds:
  assumes "list_all (\<lambda>d. lo \<le> d \<and> d \<le> hi) ds" and "0 \<le> lo" and "ds \<noteq> []" and "sum_list ds \<le> maxDuration"
  shows "average ds = sum_list ds div int (length ds) \<and> lo \<le> average ds \<and> average ds \<le> hi"
proof -
  have nn: "list_all (\<lambda>d. 0 \<le> d) ds" using assms(1,2) by (auto simp: list_all_iff)
  have s: "int (length ds) * lo \<le> sum_list ds" "sum_list ds \<le> int (length ds) * hi"
    using assms(1) by (induction ds) (auto simp: algebra_simps)
  have l: "0 < int (length ds)" using assms(3) by simp
  have "0 \<le> sum_list ds" using nn by (induction ds) auto
  then have avg: "average ds = sum_list ds div int (length ds)"
    using l by (simp add: average_def sum_durations_exact [OF nn assms(4)] signed_divide_int_def sgn_if)
  have "lo \<le> sum_list ds div int (length ds)" using s(1) l
    by (metis mult.commute pos_imp_zdiv_nonneg_iff zdiv_mono1 nonzero_mult_div_cancel_right less_irrefl)
  moreover have "sum_list ds div int (length ds) \<le> hi" using s(2) l
    by (metis mult.commute zdiv_mono1 nonzero_mult_div_cancel_right less_irrefl)
  ultimately show ?thesis using avg by simp
qed

text \<open>C36. \<open>GetStats\<close> after any requests: it lists exactly the methods that were called, each with
  the number of its calls and the average of their durations, which lies between the shortest
  and the longest, as long as their sum is within the range of \<open>time.Duration\<close>.\<close>

theorem stats_report:
  assumes "enumerates ks (methodCounts (record_all rs))"
    and "list_all (\<lambda>d. lo \<le> d \<and> d \<le> hi) (durations_of rs meth)" and "0 \<le> lo"
    and "sum_list (durations_of rs meth) \<le> maxDuration"
  shows "fmlookup (st_methods (GetStats F ks (record_all rs))) meth =
      (let ds = durations_of rs meth in if ds = [] then None
       else Some \<lparr>ms_count = of_nat (length ds), avg_duration = sum_list ds div int (length ds)\<rparr>) \<and>
    (durations_of rs meth \<noteq> [] \<longrightarrow>
      lo \<le> average (durations_of rs meth) \<and> average (durations_of rs meth) \<le> hi)"
  using record_all_facts [of rs] assms(1) average_bounds [OF assms(2,3) _ assms(4)]
  by (auto simp: GetStats_def fmlookup_stats_loop enumerates_def enumerates_iff [OF assms(1)] Let_def
      in_fmdom'_iff split: if_splits)

theorem stats_report_witness:
  "fmlookup (st_methods (GetStats \<lparr>f_of_int64 = sint, f_div = (div), f_mul = (*)\<rparr> [''a'', ''b''] (record_all
      [(''a'', 3, False), (''b'', 9, True), (''a'', 6, False)]))) ''a'' =
    Some \<lparr>ms_count = 2, avg_duration = 4\<rparr>"
proof -
  let ?rs = "[(''a'', 3, False), (''b'', 9, True), (''a'', 6, False)] :: (string \<times> duration \<times> bool) list"
  have "enumerates [''a'', ''b''] (methodCounts (record_all ?rs))"
    by (auto simp: enumerates_def record_all_def recordRequest_def NewMetricsCollector_def Let_def)
  from stats_report [OF this, of 3 6 "''a''" "\<lparr>f_of_int64 = sint, f_div = (div), f_mul = (*)\<rparr>"] show ?thesis
    by (simp add: durations_of_def maxDuration_def Let_def)
qed

lemma in_map_filter: "x \<in> set (List.map_filter f ls) \<longleftrightarrow> (\<exists>k \<in> set ls. f k = Some x)"
proof (induction ls)
  case (Cons k ls)
  then show ?case by (cases "f k") (auto simp: map_filter_simps)
qed (simp add: map_filter_simps)

text \<open>\<open>PrintStats\<close> logs the totals and one line for each of these methods, in any order.\<close>

lemma print_stats_lines:
  assumes "enumerates ks' (st_methods (GetStats F ks m))"
  shows "length (PrintStats F ks ks' m) = 3 + fcard (fmdom (st_methods (GetStats F ks m)))"
    and "StatMethod k s \<in> set (PrintStats F ks ks' m) \<longleftrightarrow> fmlookup (st_methods (GetStats F ks m)) k = Some s"
proof -
  let ?M = "st_methods (GetStats F ks m)"
  have ks: "distinct ks'" "set ks' = fset (fmdom ?M)"
    using assms by (simp_all add: enumerates_def fmdom'_alt_def)
  have some: "\<exists>v. fmlookup ?M k = Some v" if "k \<in> fset (fmdom ?M)" for k
    using that by (simp add: fmlookup_dom_iff)
  have "length (List.map_filter (\<lambda>k. map_option (StatMethod k) (fmlookup ?M k)) ls) = length ls"
    if "set ls \<subseteq> fset (fmdom ?M)" for ls
    using that by (induction ls) (auto simp: map_filter_simps dest: some split: option.splits)
  from this [of ks'] show "length (PrintStats F ks ks' m) = 3 + fcard (fmdom ?M)"
    using ks distinct_card [OF ks(1)] by (simp add: PrintStats_def Let_def fcard.rep_eq)
  show "StatMethod k s \<in> set (PrintStats F ks ks' m) \<longleftrightarrow> fmlookup ?M k = Some s"
  proof -
    have "StatMethod k s \<in> set (PrintStats F ks ks' m) \<longleftrightarrow>
        (\<exists>k' \<in> fset (fmdom ?M). map_option (StatMethod k') (fmlookup ?M k') = Some (StatMethod k s))"
      by (simp add: PrintStats_def Let_def in_map_filter ks)
    then show ?thesis by (auto simp: fmdomI)
  qed
qed

section \<open>What the chain records\<close>

text \<open>
  \<open>leaves f h\<close>: the call \<open>h\<close> does not change the component \<open>f\<close> of the process; the JWT
  interceptor of the server hands such a call on as one.
\<close>

definition leaves :: "('s world \<Rightarrow> 'a) \<Rightarrow> ('i, 'o, 's) call \<Rightarrow> bool" where
  "leaves f h \<longleftrightarrow> (\<forall>i w. f (snd (h i w)) = f w)"

lemma jwt_check_keeps:
  assumes "\<And>e w. f (log_Printf e w) = f w" and "\<And>w. f (snd (time_Now w)) = f w"
  shows "f (snd (jwt_check L (NewApprover J L' m FakeClaimsApprover_ValidMethod) meth ctx w)) = f w"
  using assms
  by (auto simp: jwt_check_def validateJWT_def NewApprover_def FakeClaimsApprover_ValidMethod_def Let_def
      split: prod.splits sum.splits option.splits list.splits) (metis snd_conv)+

lemma jwt_leaves:
  assumes "leaves f h" and "\<And>e w. f (log_Printf e w) = f w" and "\<And>w. f (snd (time_Now w)) = f w"
  shows "leaves f (JWTAuthUnaryInterceptor L (NewApprover J L' m FakeClaimsApprover_ValidMethod) info h)"
proof -
  let ?A = "NewApprover J L' m FakeClaimsApprover_ValidMethod"
  have "f (snd (JWTAuthUnaryInterceptor L ?A info h i w)) = f w" for i w
    using assms(1) jwt_check_keeps [OF assms(2,3), of L J L' m "FullMethod info" "fst i" w]
    by (cases "jwt_check L ?A (FullMethod info) (fst i) w")
      (auto simp: fake.unary.run jwt_unary_admit_def no_leave_def leaves_def split: sum.splits)
  then show ?thesis by (simp add: leaves_def)
qed

text \<open>The call behind the two observers.\<close>

definition guarded :: "jwt \<Rightarrow> lib \<Rightarrow> env \<Rightarrow> Flags \<Rightarrow> UnaryServerInfo \<Rightarrow> ('q, 'p, 's) UnaryHandler
    \<Rightarrow> ('q, 'p, 's) UnaryHandler" where
  "guarded J L env flags info h = (if enableAuth flags
     then JWTAuthUnaryInterceptor L (NewApprover J L (server_jwt env) FakeClaimsApprover_ValidMethod) info h
     else h)"

lemma guarded_leaves:
  assumes "leaves f h" and "\<And>e w. f (log_Printf e w) = f w" and "\<And>w. f (snd (time_Now w)) = f w"
  shows "leaves f (guarded J L env flags info h)"
  using assms jwt_leaves [OF assms] by (simp add: guarded_def)

lemma keep_components [simp]:
  "globalMetrics (log_Printf e w) = globalMetrics w" "globalMetrics (snd (time_Now w)) = globalMetrics w"
  "otel (log_Printf e w) = otel w" "otel (snd (time_Now w)) = otel w"
  "otel (otel_do c w) = otel w @ [c]" "globalOtelMetrics (otel_do c w) = globalOtelMetrics w"
  "globalOtelMetrics (log_Printf e w) = globalOtelMetrics w"
  "globalOtelMetrics (snd (time_Now w)) = globalOtelMetrics w"
  by (simp_all add: world_defs)

text \<open>Without OpenTelemetry, every call is counted once in the global collector, under its
  method, and as an error exactly if its answer is one, whether authentication refused it or the
  handler ran.\<close>

lemma every_call_counted:
  assumes "chain_law Chain" and "\<not> otelEnabled flags" and "leaves globalMetrics h"
  shows "\<exists>dur. let r = Chain (unary_interceptors T J L env flags) info h i w
    in globalMetrics (snd r) = recordRequest (FullMethod info) dur (snd (fst r) \<noteq> None) (globalMetrics w)"
proof -
  let ?g = "guarded J L env flags info h"
  have g: "globalMetrics (snd (?g j v)) = globalMetrics v" for j v
    using guarded_leaves [OF assms(3) keep_components(1,2)] unfolding leaves_def by blast
  have "Chain (unary_interceptors T J L env flags) info h =
      LoggingUnaryInterceptor info (MetricsUnaryInterceptor info ?g)"
    using assms(1,2) by (simp add: chain_law_def unary_interceptors_def guarded_def)
  then show ?thesis
    using g [of i "snd (time_Now (log_Printf (LogStarted ''Unary'' (FullMethod info)) (snd (time_Now w))))"]
    by (auto simp: logging_unary.run metrics_unary.run log_admit_def log_leave_def metrics_admit_def
        metrics_leave_def time_Since_def time_Now_def log_Printf_def Let_def split: prod.splits)
qed

lemma every_call_counted_witness:
  "\<exists>dur. globalMetrics (snd (sample_chain (unary_interceptors sample_otel sample_jwt sample_lib (\<lambda>_. None)
      auth_flags) \<lparr>FullMethod = ''m''\<rparr> (\<lambda>i w. ((Some (), None), w)) (anonymous, ()) (idle ()))) =
    recordRequest ''m'' dur True NewMetricsCollector"
proof -
  let ?r = "sample_chain (unary_interceptors sample_otel sample_jwt sample_lib (\<lambda>_. None) auth_flags)
      \<lparr>FullMethod = ''m''\<rparr> (\<lambda>i w. ((Some (), None), w)) (anonymous, ()) (idle ())"
  have h: "leaves globalMetrics ((\<lambda>i w. ((Some (), None), w)) :: (unit, unit, unit) UnaryHandler)"
    by (simp add: leaves_def)
  obtain dur where "globalMetrics (snd ?r) =
      recordRequest ''m'' dur (snd (fst ?r) \<noteq> None) (globalMetrics (idle ()))"
    using every_call_counted [OF sample_chain_law _ h, of auth_flags sample_otel sample_jwt sample_lib
        "\<lambda>_. None" "\<lparr>FullMethod = ''m''\<rparr>" "(anonymous, ())" "idle ()"]
    by (auto simp: Let_def)
  moreover have "snd (fst ?r) \<noteq> None"
    by (simp add: sample_chain_def unary_interceptors_def logging_unary.run metrics_unary.run
        fake.unary.run log_admit_def log_leave_def metrics_admit_def metrics_leave_def jwt_unary_admit_def
        jwt_check_def validateJWT_def anonymous_def time_Since_def time_Now_def Let_def)
  ultimately show ?thesis by (auto simp: idle_def)
qed

section \<open>Traces\<close>

text \<open>What a list of calls to the API adds to the gauge of active requests, to the counters, and
  whether a span gets an attribute.\<close>

fun active_delta :: "otel_call \<Rightarrow> int" where
  "active_delta (ActiveRequestsAdd n _) = n"
| "active_delta _ = 0"

fun request_delta :: "string \<Rightarrow> otel_call \<Rightarrow> int" where
  "request_delta code (RequestCounterAdd n as) =
     (if (''rpc.grpc.status_code'', AString code) \<in> set as then n else 0)"
| "request_delta code _ = 0"

fun error_delta :: "otel_call \<Rightarrow> int" where
  "error_delta (ErrorCounterAdd n _) = n"
| "error_delta _ = 0"

fun sets_attr :: "string \<Rightarrow> otel_call \<Rightarrow> bool" where
  "sets_attr k (SpanSetAttributes _ as) = (k \<in> fst ` set as)"
| "sets_attr k (SpanStart _ _ as) = (k \<in> fst ` set as)"
| "sets_attr k _ = False"

text \<open>What a handler records: it can only add to what is recorded already.\<close>

definition appends :: "('i, 'o, 's) call \<Rightarrow> bool" where
  "appends h \<longleftrightarrow> (\<forall>i w. \<exists>mid. otel (snd (h i w)) = otel w @ mid)"

definition records :: "('i, 'o, 's) call \<Rightarrow> otel_call list set" where
  "records h = {mid. \<exists>i w. otel (snd (h i w)) = otel w @ mid}"

text \<open>Authentication records nothing: a refused call leaves no record, an admitted one its handler's.\<close>

definition guarded_stream :: "jwt \<Rightarrow> lib \<Rightarrow> env \<Rightarrow> Flags \<Rightarrow> StreamServerInfo \<Rightarrow> ('st, 's) StreamHandler
    \<Rightarrow> ('st, 's) StreamHandler" where
  "guarded_stream J L env flags info h = (if enableAuth flags
     then JWTAuthStreamInterceptor L (NewApprover J L (server_jwt env) FakeClaimsApprover_ValidMethod) info h
     else h)"

lemma appended:
  assumes "appends h" and "otel w' = otel w"
  shows "\<exists>mid \<in> insert [] (records h). otel (snd (h i w')) = otel w @ mid"
  using assms unfolding appends_def records_def by (metis (mono_tags, lifting) insertI2 mem_Collect_eq)

lemma guarded_records:
  assumes "appends h"
  shows "\<exists>mid \<in> insert [] (records h). otel (snd (guarded J L env flags info h i w)) = otel w @ mid"
proof (cases "enableAuth flags")
  case True
  let ?A = "NewApprover J L (server_jwt env) FakeClaimsApprover_ValidMethod"
  obtain d w1 where d: "jwt_check L ?A (FullMethod info) (fst i) w = (d, w1)" by fastforce
  have "otel w1 = otel w"
    using jwt_check_keeps [OF keep_components(3,4), of L J L "server_jwt env" "FullMethod info" "fst i" w] d by simp
  with True d appended [OF assms this] show ?thesis
    by (cases d) (auto simp: guarded_def fake.unary.run jwt_unary_admit_def no_leave_def)
qed (use appended [OF assms refl] in \<open>simp add: guarded_def\<close>)

lemma guarded_stream_records:
  assumes "appends h"
  shows "\<exists>mid \<in> insert [] (records h). otel (snd (guarded_stream J L env flags info h ss w)) = otel w @ mid"
proof (cases "enableAuth flags")
  case True
  let ?A = "NewApprover J L (server_jwt env) FakeClaimsApprover_ValidMethod"
  obtain d w1 where d: "jwt_check L ?A (s_FullMethod info) (ss_Context ss) w = (d, w1)" by fastforce
  have "otel w1 = otel w"
    using jwt_check_keeps [OF keep_components(3,4), of L J L "server_jwt env" "s_FullMethod info" "ss_Context ss" w] d
    by simp
  with True d appended [OF assms this] show ?thesis
    by (cases d) (auto simp: guarded_stream_def fake.stream.run jwt_stream_admit_def no_leave_def)
qed (use appended [OF assms refl] in \<open>simp add: guarded_stream_def\<close>)

text \<open>What the two observers record before the handler and when it has returned.\<close>

definition count_calls :: "otel_lib \<Rightarrow> attrs \<Rightarrow> error option \<Rightarrow> duration \<Rightarrow> otel_call list" where
  "count_calls T as err d = (let sas = as @ [(''rpc.grpc.status_code'', AString (getStatusCode T err))]
     in [RequestCounterAdd 1 sas, RequestDurationRecord (Milliseconds d) sas] @
        (if err \<noteq> None then [ErrorCounterAdd 1 sas] else []) @ [ActiveRequestsAdd (- 1) as])"

definition close_calls :: "otel_lib \<Rightarrow> lib \<Rightarrow> nat \<Rightarrow> ctx \<Rightarrow> error option \<Rightarrow> duration \<Rightarrow> otel_call list" where
  "close_calls T L span ctx err d =
     (case err of
        Some e \<Rightarrow> [SpanSetStatus span False (error_Error L e), SpanRecordError span e,
          SpanSetAttributes span [(''rpc.grpc.status_code'', AString (code_String T (fst (FromError T e)))),
            (''error.message'', AString (snd (FromError T e)))]]
      | None \<Rightarrow> [SpanSetStatus span True ''Success'',
          SpanSetAttributes span [(''rpc.grpc.status_code'', AString ''OK'')]]) @
     [SpanSetAttributes span [(''rpc.duration_ms'', AInt (Milliseconds d))]] @
     (case GetClaimsFromContext ctx of None \<Rightarrow> []
      | Some c \<Rightarrow> [SpanSetAttributes span [(''user.id'', AString (c_Username c)),
          (''user.email'', AString (c_Email c)), (''user.roles'', AStrings (c_Roles c))]]) @
     [SpanEnd span]"

definition start_call :: "string \<Rightarrow> nat \<Rightarrow> otel_call" where
  "start_call meth span = SpanStart span meth [(''rpc.system'', AString ''grpc''),
     (''rpc.service'', AString (extractService meth)),
     (''rpc.method'', AString (extractMethod meth)), (''rpc.grpc.kind'', AString ''unary'')]"

definition start_stream :: "StreamServerInfo \<Rightarrow> nat \<Rightarrow> otel_call list" where
  "start_stream info span = [SpanStart span (s_FullMethod info) [(''rpc.system'', AString ''grpc''),
       (''rpc.service'', AString (extractService (s_FullMethod info))),
       (''rpc.method'', AString (extractMethod (s_FullMethod info))),
       (''rpc.grpc.is_client_stream'', ABool (IsClientStream info)),
       (''rpc.grpc.is_server_stream'', ABool (IsServerStream info))],
     SpanSetAttributes span [(''rpc.grpc.kind'', AString (determineStreamType info))]]"

definition call_trace ::
    "otel_lib \<Rightarrow> lib \<Rightarrow> otel_call list \<Rightarrow> string \<Rightarrow> string \<Rightarrow> nat \<Rightarrow> ctx \<Rightarrow> error option \<Rightarrow> duration \<Rightarrow> duration
     \<Rightarrow> otel_call list \<Rightarrow> otel_call list" where
  "call_trace T L starts meth kind span ctx err d1 d2 mid =
     (starts @ [ActiveRequestsAdd 1 (call_attrs meth kind)]) @ mid @
     count_calls T (call_attrs meth kind) err d1 @ close_calls T L span ctx err d2"

lemma gauge_leave_otel:
  "globalOtelMetrics w \<Longrightarrow> \<exists>d. otel (snd (gauge_leave T as err i w (r, v))) =
    otel v @ count_calls T as (err r) d"
  by (simp add: gauge_leave_def time_Since_def time_Now_def record_call_def otel_do_def count_calls_def Let_def)
    blast

lemma trace_leave_otel:
  "\<exists>d. otel (snd (trace_leave T L kind meth context err i w (r, v))) =
    otel v @ close_calls T L (fresh_span w) (ContextWithSpan T (context i) (fresh_span w)) (err r) d"
  by (simp add: trace_leave_def time_Since_def time_Now_def span_status_def span_user_def close_calls_def
      Let_def split: option.splits prod.splits) blast

lemma observers_trace:
  assumes "span_law T" and "globalOtelMetrics w2" and "otel w2 = otel w @ starts"
    and "otel w4 = (otel w2 @ [ActiveRequestsAdd 1 (call_attrs meth kind)]) @ mid"
    and r5: "(r5, w5) = gauge_leave T (call_attrs meth kind) err j w2 (r4, w4)"
    and r6: "(r6, w6) = trace_leave T L kind' name cx err i w (r5, w5)"
  shows "r6 = r4 \<and> (\<exists>d1 d2. otel w6 = otel w @
    call_trace T L starts meth kind (fresh_span w) (cx i) (err r4) d1 d2 mid)"
proof -
  obtain d1 where o5: "otel w5 = otel w4 @ count_calls T (call_attrs meth kind) (err r4) d1"
    using gauge_leave_otel [OF assms(2), of T "call_attrs meth kind" err j r4 w4] by (auto simp flip: r5)
  have e5: "r5 = r4" using r5 by (simp add: gauge_leave_def Let_def split: prod.splits if_splits)
  obtain d2 where o6: "otel w6 = otel w5 @ close_calls T L (fresh_span w)
      (ContextWithSpan T (cx i) (fresh_span w)) (err r5) d2"
    using trace_leave_otel [of T L kind' name cx err i w r5 w5] by (auto simp flip: r6)
  have e6: "r6 = r5" using r6 by (simp add: trace_leave_def Let_def split: prod.splits)
  have "close_calls T L n (ContextWithSpan T ctx k) = close_calls T L n ctx" for n k ctx
    using assms(1) by (simp add: fun_eq_iff close_calls_def span_law_def GetClaimsFromContext_def)
  then show ?thesis using o5 o6 assms(3,4) e5 e6 by (auto simp: call_trace_def)
qed

lemma unary_trace:
  assumes "chain_law Chain" and "span_law T" and "otelEnabled flags" and "globalOtelMetrics w"
    and "appends h"
    and "Chain (unary_interceptors T J L env flags) info h (ctx, req) w = ((resp, err), w')"
  shows "\<exists>d1 d2. \<exists>mid \<in> insert [] (records h). otel w' = otel w @ call_trace T L
    [start_call (FullMethod info) (fresh_span w)] (FullMethod info) ''unary'' (fresh_span w) ctx err d1 d2 mid"
proof -
  let ?g = "guarded J L env flags info h" and ?m = "FullMethod info" and ?n = "fresh_span w"
  have chain: "Chain (unary_interceptors T J L env flags) info h =
      OtelLoggingUnaryInterceptor T L info (OtelMetricsUnaryInterceptor T info ?g)"
    using assms(1,3) by (simp add: chain_law_def unary_interceptors_def guarded_def)
  let ?c2 = "ContextWithSpan T ctx ?n"
  let ?w2 = "log_Printf (LogStarted ''Unary'' ?m) (snd (time_Now (otel_do (start_call ?m ?n) w)))"
  let ?w3 = "snd (time_Now (otel_do (ActiveRequestsAdd 1 (call_attrs ?m ''unary'')) ?w2))"
  obtain r4 w4 where run: "?g (?c2, req) ?w3 = (r4, w4)" by (cases "?g (?c2, req) ?w3")
  obtain mid where mid: "mid \<in> insert [] (records h)" "otel w4 = otel ?w3 @ mid"
    using guarded_records [OF assms(5), of J L env flags info "(?c2, req)" ?w3] run by auto
  obtain r5 w5 where inner: "OtelMetricsUnaryInterceptor T info ?g (?c2, req) ?w2 = (r5, w5)"
    by (cases "OtelMetricsUnaryInterceptor T info ?g (?c2, req) ?w2")
  have r5: "(r5, w5) = gauge_leave T (call_attrs ?m ''unary'') snd (?c2, req) ?w2 (r4, w4)"
    using inner run assms(4) by (simp add: gauge_unary.run gauge_admit_def)
  have r6: "((resp, err), w') = trace_leave T L ''Unary'' ?m fst snd (ctx, req) w (r5, w5)"
    using assms(6) inner unfolding chain
    by (simp add: trace_unary.run trace_unary_admit_def start_call_def Let_def)
  obtain d1 d2 where "otel w' = otel w @ call_trace T L [start_call ?m ?n] ?m ''unary'' ?n ctx err d1 d2 mid"
    using observers_trace [OF assms(2) _ _ _ r5 r6, of "[start_call ?m ?n]" mid] mid(2) assms(4) by auto
  with mid(1) show ?thesis by blast
qed

lemma stream_trace:
  assumes "chain_law Chain" and "span_law T" and "otelEnabled flags" and "globalOtelMetrics w"
    and "appends h" and "Chain (stream_interceptors T J L env flags) info h ss w = (err, w')"
  shows "\<exists>d1 d2. \<exists>mid \<in> insert [] (records h). otel w' = otel w @ call_trace T L
    (start_stream info (fresh_span w)) (s_FullMethod info) (determineStreamType info) (fresh_span w)
    (ss_Context ss) err d1 d2 mid"
proof -
  let ?g = "guarded_stream J L env flags info h" and ?m = "s_FullMethod info" and ?n = "fresh_span w"
  let ?k = "determineStreamType info"
  have chain: "Chain (stream_interceptors T J L env flags) info h =
      OtelLoggingStreamInterceptor T L info (OtelMetricsStreamInterceptor T info ?g)"
    using assms(1,3) by (simp add: chain_law_def stream_interceptors_def guarded_stream_def)
  let ?s2 = "ss\<lparr>ss_Context := ContextWithSpan T (ss_Context ss) ?n\<rparr>"
  let ?w2 = "log_Printf (LogStarted ?k ?m) (otel_do (start_stream info ?n ! 1)
     (snd (time_Now (otel_do (start_stream info ?n ! 0) w))))"
  let ?w3 = "snd (time_Now (otel_do (ActiveRequestsAdd 1 (call_attrs ?m ?k)) ?w2))"
  obtain r4 w4 where run: "?g ?s2 ?w3 = (r4, w4)" by (cases "?g ?s2 ?w3")
  obtain mid where mid: "mid \<in> insert [] (records h)" "otel w4 = otel ?w3 @ mid"
    using guarded_stream_records [OF assms(5), of J L env flags info ?s2 ?w3] run by auto
  obtain r5 w5 where inner: "OtelMetricsStreamInterceptor T info ?g ?s2 ?w2 = (r5, w5)"
    by (cases "OtelMetricsStreamInterceptor T info ?g ?s2 ?w2")
  have r5: "(r5, w5) = gauge_leave T (call_attrs ?m ?k) id ?s2 ?w2 (r4, w4)"
    using inner run assms(4) by (simp add: gauge_stream.run gauge_admit_def)
  have r6: "(err, w') = trace_leave T L ?k ?m ss_Context id ss w (r5, w5)"
    using assms(6) inner unfolding chain
    by (simp add: trace_stream.run trace_stream_admit_def start_stream_def Let_def)
  have "otel ?w2 = otel w @ start_stream info ?n" by (simp add: start_stream_def)
  then obtain d1 d2 where "otel w' = otel w @
      call_trace T L (start_stream info ?n) ?m ?k ?n (ss_Context ss) err d1 d2 mid"
    using observers_trace [OF assms(2) _ _ _ r5 r6, of "start_stream info ?n" mid] mid(2) assms(4) by auto
  with mid(1) show ?thesis by blast
qed

text \<open>
  The accounts of one call: what the observers record before and after the handler's own
  records \<open>mid\<close>.
\<close>

definition accounted ::
    "otel_lib \<Rightarrow> ('i, 'o, 's) call \<Rightarrow> string \<Rightarrow> error option \<Rightarrow> 's world \<Rightarrow> 's world \<Rightarrow> bool" where
  "accounted T h meth err w w' \<longleftrightarrow> (\<exists>pre mid post. otel w' = otel w @ pre @ mid @ post \<and>
     mid \<in> insert [] (records h) \<and>
     sum_list (map active_delta (pre @ post)) = 0 \<and>
     sum_list (map (request_delta (getStatusCode T err)) (pre @ post)) = 1 \<and>
     sum_list (map error_delta (pre @ post)) = (if err = None then 0 else 1) \<and>
     (\<exists>as rest. pre = SpanStart (length (otel w)) meth as # rest) \<and>
     (\<exists>rest. post = rest @ [SpanEnd (length (otel w))]))"

definition user_free :: "('i, 'o, 's) call \<Rightarrow> 's world \<Rightarrow> 's world \<Rightarrow> bool" where
  "user_free h w w' \<longleftrightarrow> (\<exists>pre mid post. otel w' = otel w @ pre @ mid @ post \<and>
     mid \<in> insert [] (records h) \<and> list_all (\<lambda>c. \<not> sets_attr ''user.id'' c) (pre @ post))"

lemma trace_accounted:
  assumes "otel w' = otel w @ call_trace T L (SpanStart (fresh_span w) meth as # rest) meth kind
      (fresh_span w) ctx err d1 d2 mid" and "mid \<in> insert [] (records h)"
    and "sum_list (map active_delta rest) = 0" and "sum_list (map error_delta rest) = 0"
    and "sum_list (map (request_delta (getStatusCode T err)) rest) = 0"
  shows "accounted T h meth err w w'"
  unfolding accounted_def
proof (intro exI conjI)
  let ?as = "call_attrs meth kind"
  let ?pre = "(SpanStart (fresh_span w) meth as # rest) @ [ActiveRequestsAdd 1 ?as]"
  let ?post = "count_calls T ?as err d1 @ close_calls T L (fresh_span w) ctx err d2"
  show "otel w' = otel w @ ?pre @ mid @ ?post" using assms(1) by (simp add: call_trace_def)
  show "mid \<in> insert [] (records h)" by (rule assms(2))
  show "sum_list (map active_delta (?pre @ ?post)) = 0"
    using assms(3) by (cases err; auto simp: count_calls_def close_calls_def Let_def split: option.splits)
  show "sum_list (map (request_delta (getStatusCode T err)) (?pre @ ?post)) = 1"
    using assms(5) by (cases err; auto simp: count_calls_def close_calls_def Let_def split: option.splits)
  show "sum_list (map error_delta (?pre @ ?post)) = (if err = None then 0 else 1)"
    using assms(4) by (cases err; auto simp: count_calls_def close_calls_def Let_def split: option.splits)
  show "?pre = SpanStart (length (otel w)) meth as # rest @ [ActiveRequestsAdd 1 ?as]"
    by (simp add: fresh_span_def)
  show "?post = (count_calls T ?as err d1 @ butlast (close_calls T L (fresh_span w) ctx err d2)) @
      [SpanEnd (length (otel w))]"
    by (simp add: close_calls_def fresh_span_def butlast_append split: option.splits)
qed

lemma trace_user_free:
  assumes "otel w' = otel w @ call_trace T L starts meth kind (fresh_span w) ctx err d1 d2 mid"
    and "mid \<in> insert [] (records h)" and "list_all (\<lambda>c. \<not> sets_attr ''user.id'' c) starts"
    and "GetClaimsFromContext ctx = None"
  shows "user_free h w w'"
  unfolding user_free_def
proof (intro exI conjI)
  let ?as = "call_attrs meth kind"
  let ?post = "count_calls T ?as err d1 @ close_calls T L (fresh_span w) ctx err d2"
  show "otel w' = otel w @ (starts @ [ActiveRequestsAdd 1 ?as]) @ mid @ ?post"
    using assms(1) by (simp add: call_trace_def)
  show "mid \<in> insert [] (records h)" by (rule assms(2))
  show "list_all (\<lambda>c. \<not> sets_attr ''user.id'' c) ((starts @ [ActiveRequestsAdd 1 ?as]) @ ?post)"
    using assms(3,4) by (cases err; simp add: count_calls_def close_calls_def Let_def)
qed

text \<open>C28. With OpenTelemetry every call is accounted for, unary or streaming, refused by
  authentication or answered by its handler: beside what the handler itself records (\<open>mid\<close>, nothing
  if it was never reached), the observers leave the gauge of active requests where it was, count the
  call once, under the status code of its answer, add an error exactly if the answer is one, and
  open one span, which they close last.\<close>

theorem otel_accounting:
  assumes "chain_law Chain" and "chain_law StreamChain" and "span_law T" and "otelEnabled flags"
    and "globalOtelMetrics w" and "appends h" and "appends sh"
    and "Chain (unary_interceptors T J L env flags) info h (ctx, req) w = ((resp, err), w1)"
    and "StreamChain (stream_interceptors T J L env flags) sinfo sh ss w = (serr, w2)"
  shows "accounted T h (FullMethod info) err w w1 \<and> accounted T sh (s_FullMethod sinfo) serr w w2"
proof
  obtain d1 d2 mid where m: "mid \<in> insert [] (records h)" and t: "otel w1 = otel w @ call_trace T L
      [start_call (FullMethod info) (fresh_span w)] (FullMethod info) ''unary'' (fresh_span w) ctx err d1 d2 mid"
    using unary_trace [OF assms(1,3,4,5,6,8)] by blast
  show "accounted T h (FullMethod info) err w w1"
    by (rule trace_accounted [OF _ m]) (rule t [unfolded start_call_def], simp_all)
  obtain d1 d2 mid where m: "mid \<in> insert [] (records sh)" and t: "otel w2 = otel w @ call_trace T L
      (start_stream sinfo (fresh_span w)) (s_FullMethod sinfo) (determineStreamType sinfo) (fresh_span w)
      (ss_Context ss) serr d1 d2 mid"
    using stream_trace [OF assms(2,3,4,5,7,9)] by blast
  show "accounted T sh (s_FullMethod sinfo) serr w w2"
    by (rule trace_accounted [OF _ m]) (rule t [unfolded start_stream_def], simp_all)
qed

text \<open>C35. The observers never put the user on the span of a call, unary or streaming, although they
  mean to add the user of the claims: the claims are put into the context that the handler gets, the
  interceptors look into their own. Even an admitted caller leaves no \<open>user.id\<close>, unless the handler
  itself records one.\<close>

theorem spans_without_user:
  assumes "chain_law Chain" and "chain_law StreamChain" and "span_law T" and "otelEnabled flags"
    and "globalOtelMetrics w" and "appends h" and "appends sh"
    and "GetClaimsFromContext ctx = None" and "GetClaimsFromContext (ss_Context ss) = None"
    and "Chain (unary_interceptors T J L env flags) info h (ctx, req) w = ((resp, err), w1)"
    and "StreamChain (stream_interceptors T J L env flags) sinfo sh ss w = (serr, w2)"
  shows "user_free h w w1 \<and> user_free sh w w2"
proof
  obtain d1 d2 mid where m: "mid \<in> insert [] (records h)" and t: "otel w1 = otel w @ call_trace T L
      [start_call (FullMethod info) (fresh_span w)] (FullMethod info) ''unary'' (fresh_span w) ctx err d1 d2 mid"
    using unary_trace [OF assms(1,3,4,5,6,10)] by blast
  show "user_free h w w1" by (rule trace_user_free [OF t m]) (simp_all add: start_call_def assms(8))
  obtain d1 d2 mid where m: "mid \<in> insert [] (records sh)" and t: "otel w2 = otel w @ call_trace T L
      (start_stream sinfo (fresh_span w)) (s_FullMethod sinfo) (determineStreamType sinfo) (fresh_span w)
      (ss_Context ss) serr d1 d2 mid"
    using stream_trace [OF assms(2,3,4,5,7,11)] by blast
  show "user_free sh w w2" by (rule trace_user_free [OF t m]) (simp_all add: start_stream_def assms(9))
qed

text \<open>A call with the token of the sample library, through a server that has both switched on.\<close>

definition both_flags :: Flags where
  "both_flags = auth_flags\<lparr>otelEnabled := True\<rparr>"

definition traced :: "unit world" where
  "traced = (idle ())\<lparr>globalOtelMetrics := True, clock := (\<lambda>n. 200 * 10 ^ 9)\<rparr>"

definition sample_env :: env where
  "sample_env name = (if name = ''JWT_SECRET'' then Some ''key'' else None)"

definition with_token :: ctx where
  "with_token = \<lparr>incoming = Some (fmupd ''authorization'' [''Bearer T''] fmempty), ctx_values = []\<rparr>"

definition sample_handler :: "(unit, string, unit) UnaryHandler" where
  "sample_handler i w = ((map_option c_Username (GetClaimsFromContext (fst i)), None), w)"

lemma both_flags_simps [simp]: "enableAuth both_flags" "otelEnabled both_flags"
  by (simp_all add: both_flags_def)

text \<open>A stream handler that answers the user of the claims, and a stream with the same token.\<close>

definition sample_stream_handler :: "(unit, unit) StreamHandler" where
  "sample_stream_handler ss w = (case GetClaimsFromContext (ss_Context ss) of
     None \<Rightarrow> Some (Status Internal ''nobody'') | Some _ \<Rightarrow> None, w)"

definition sample_stream :: "unit ServerStream" where
  "sample_stream = \<lparr>ss_Context = with_token, transport = ()\<rparr>"

definition sample_sinfo :: StreamServerInfo where
  "sample_sinfo = \<lparr>s_FullMethod = ''/s/n'', IsClientStream = True, IsServerStream = False\<rparr>"

lemma sample_handler_facts [simp]:
  "appends sample_handler" "records sample_handler = {[]}"
  "appends sample_stream_handler" "records sample_stream_handler = {[]}"
  by (simp_all add: appends_def records_def sample_handler_def sample_stream_handler_def)

lemma traced_simps [simp]: "globalOtelMetrics traced" "otel traced = []" "clock traced n = 200 * 10 ^ 9"
  by (simp_all add: traced_def idle_def)

lemma sample_validate:
  "JWTManager_ValidateToken sample_jwt sample_lib (server_jwt sample_env) (200 * 10 ^ 9) ''T'' = Inr sample_claims"
  by (simp add: JWTManager_ValidateToken_def sample_jwt_def sample_parse_def sample_decode_def
      sample_token_def validate_keyfunc_def SigningMethodHS256_def sample_verify_def server_jwt_def
      interceptors_NewJWTManager_def NewJWTManager_def getJWTSecret_def Getenv_def sample_env_def
      unexpired_def started_def sample_claims_def)

lemma sample_admitted:
  assumes "incoming ctx = incoming with_token" and "clock w = (\<lambda>n. 200 * 10 ^ 9)"
  shows "\<exists>w1. jwt_check sample_lib (NewApprover sample_jwt sample_lib (server_jwt sample_env)
    FakeClaimsApprover_ValidMethod) meth ctx w = (Inr sample_claims, w1)"
  using assms sample_validate
  by (simp add: jwt_check_def validateJWT_def with_token_def md_Get_def HasPrefix_def TrimPrefix_def
      NewApprover_def FakeClaimsApprover_ValidMethod_def sample_claims_def time_Now_def Let_def)

lemma sample_call:
  "\<exists>w'. sample_chain (unary_interceptors sample_otel sample_jwt sample_lib sample_env both_flags)
      \<lparr>FullMethod = ''/s/m''\<rparr> sample_handler (with_token, ()) traced = ((Some ''eve'', None), w')"
proof -
  let ?A = "NewApprover sample_jwt sample_lib (server_jwt sample_env) FakeClaimsApprover_ValidMethod"
  have j: "fst (JWTAuthUnaryInterceptor sample_lib ?A \<lparr>FullMethod = ''/s/m''\<rparr> sample_handler (ctx, ()) w) =
      (Some ''eve'', None)"
    if "incoming ctx = incoming with_token" "clock w = (\<lambda>n. 200 * 10 ^ 9)" for ctx w
    using sample_admitted [OF that, of "''/s/m''"]
    by (auto simp: fake.unary.run jwt_unary_admit_def no_leave_def sample_handler_def with_claims_def
        sample_claims_def)
  have "fst (sample_chain (unary_interceptors sample_otel sample_jwt sample_lib sample_env both_flags)
      \<lparr>FullMethod = ''/s/m''\<rparr> sample_handler (with_token, ()) traced) = (Some ''eve'', None)"
    by (simp add: sample_chain_def unary_interceptors_def trace_unary.run gauge_unary.run
        trace_unary_admit_def trace_leave_def gauge_admit_def gauge_leave_def time_Since_def
        time_Now_def Let_def j sample_otel_def traced_def idle_def split: prod.splits)
  then show ?thesis by (metis prod.collapse)
qed

lemma sample_stream_call:
  "\<exists>w'. sample_chain (stream_interceptors sample_otel sample_jwt sample_lib sample_env both_flags)
      sample_sinfo sample_stream_handler sample_stream traced = (None, w')"
proof -
  let ?A = "NewApprover sample_jwt sample_lib (server_jwt sample_env) FakeClaimsApprover_ValidMethod"
  have j: "fst (JWTAuthStreamInterceptor sample_lib ?A sample_sinfo sample_stream_handler ss w) = None"
    if "incoming (ss_Context ss) = incoming with_token" "clock w = (\<lambda>n. 200 * 10 ^ 9)" for ss w
    using sample_admitted [OF that, of "s_FullMethod sample_sinfo"]
    by (auto simp: fake.stream.run jwt_stream_admit_def no_leave_def sample_stream_handler_def with_claims_def)
  have "fst (sample_chain (stream_interceptors sample_otel sample_jwt sample_lib sample_env both_flags)
      sample_sinfo sample_stream_handler sample_stream traced) = None"
    by (simp add: sample_chain_def stream_interceptors_def trace_stream.run gauge_stream.run
        trace_stream_admit_def trace_leave_def gauge_admit_def gauge_leave_def time_Since_def
        time_Now_def Let_def j sample_otel_def traced_def idle_def sample_stream_def split: prod.splits)
  then show ?thesis by (metis prod.collapse)
qed

text \<open>What the two calls leave in the process.\<close>

definition unary_after :: "unit world" where
  "unary_after = snd (sample_chain (unary_interceptors sample_otel sample_jwt sample_lib sample_env both_flags)
     \<lparr>FullMethod = ''/s/m''\<rparr> sample_handler (with_token, ()) traced)"

definition stream_after :: "unit world" where
  "stream_after = snd (sample_chain (stream_interceptors sample_otel sample_jwt sample_lib sample_env both_flags)
     sample_sinfo sample_stream_handler sample_stream traced)"

lemma sample_calls:
  "sample_chain (unary_interceptors sample_otel sample_jwt sample_lib sample_env both_flags)
     \<lparr>FullMethod = ''/s/m''\<rparr> sample_handler (with_token, ()) traced = ((Some ''eve'', None), unary_after)"
  "sample_chain (stream_interceptors sample_otel sample_jwt sample_lib sample_env both_flags)
     sample_sinfo sample_stream_handler sample_stream traced = (None, stream_after)"
  unfolding unary_after_def stream_after_def using sample_call sample_stream_call by auto

lemma accounted_sums:
  assumes "accounted T h meth err w w'" and "records h = {[]}" and "otel w = []"
  shows "sum_list (map error_delta (otel w')) = (if err = None then 0 else 1)"
proof -
  from assms(1) obtain pre mid post where "otel w' = otel w @ pre @ mid @ post" "mid \<in> insert [] (records h)"
      and sum: "sum_list (map error_delta (pre @ post)) = (if err = None then 0 else 1)"
    unfolding accounted_def by blast
  then have "otel w' = pre @ post" using assms(2,3) by simp
  then show ?thesis using sum by simp
qed

theorem otel_accounting_witness:
  "sum_list (map error_delta (otel unary_after)) = 0 \<and> sum_list (map error_delta (otel stream_after)) = 0"
proof -
  note both = otel_accounting [OF sample_chain_law sample_chain_law sample_span_law both_flags_simps(2)
      traced_simps(1) sample_handler_facts(1,3) sample_calls]
  show ?thesis
    using accounted_sums [OF conjunct1 [OF both] sample_handler_facts(2) traced_simps(2)]
      accounted_sums [OF conjunct2 [OF both] sample_handler_facts(4) traced_simps(2)] by simp
qed

theorem spans_without_user_witness:
  "list_all (\<lambda>c. \<not> sets_attr ''user.id'' c) (otel unary_after @ otel stream_after)"
proof -
  have "GetClaimsFromContext with_token = None" "GetClaimsFromContext (ss_Context sample_stream) = None"
    by (simp_all add: sample_stream_def GetClaimsFromContext_def with_token_def ctx_Value_def)
  from spans_without_user [OF sample_chain_law sample_chain_law sample_span_law both_flags_simps(2) traced_simps(1)
      sample_handler_facts(1,3) this sample_calls]
  show ?thesis by (auto simp: user_free_def)
qed

end
