(* ===== verification/PostgresStorage.thy ===== *)
theory PostgresStorage
  imports Server
begin

text \<open>
  \<open>server/postgres_storage.go\<close>: the storage over PostgreSQL. The database and its driver are
  not under \<open>src/\<close>: the calls the code makes of them are the record \<open>pgx\<close>, over a state \<open>'d\<close>
  of the database. The texts of the queries, their arguments, and what is made of the rows that
  come back are the code's. The spans the methods open for tracing do not influence them and are
  left out.
\<close>

section \<open>The driver\<close>

text \<open>
  Arguments of a query; a row of the table \<open>users\<close> as it is scanned, a column that may be null
  as an option (a null slice as the empty one for bytes).
\<close>

datatype sql_arg =
    SqlUint uint32
  | SqlInt int32
  | SqlString string
  | SqlTime time
  | SqlTimeOpt "time option"
  | SqlBytes string
  | SqlStrings "string list option"

record row =
  r_id :: uint32
  r_username :: string
  r_role :: int32
  r_email :: "string option"
  r_phone :: "string option"
  r_display_name :: "string option"
  r_bio :: "string option"
  r_avatar_url :: "string option"
  r_date_of_birth :: "time option"
  r_preferences :: string
  r_tags :: "string list option"
  r_metadata :: string
  r_status :: int32
  r_create_date :: "time option"
  r_last_login :: "time option"
  r_addresses :: string

text \<open>
  \<open>Exec\<close> answers the number of rows affected; \<open>QueryUser\<close> is \<open>QueryRow\<close> with a \<open>Scan\<close> into
  the sixteen columns, \<open>QueryBool\<close> and \<open>QueryInt\<close> with one into a single value; \<open>Query\<close>
  answers the rows, each with the result of its \<open>Scan\<close>.
\<close>

record 'd pgx =
  Exec :: "string \<Rightarrow> sql_arg list \<Rightarrow> 'd \<Rightarrow> (error + int) \<times> 'd"
  QueryUser :: "string \<Rightarrow> sql_arg list \<Rightarrow> 'd \<Rightarrow> error + row"
  QueryBool :: "string \<Rightarrow> sql_arg list \<Rightarrow> 'd \<Rightarrow> error + bool"
  QueryInt :: "string \<Rightarrow> sql_arg list \<Rightarrow> 'd \<Rightarrow> error + int"
  Query :: "string \<Rightarrow> sql_arg list \<Rightarrow> 'd \<Rightarrow> error + (error + row) list"
  ErrNoRows :: error

text \<open>
  \<open>encoding/json\<close> on the three types used: the text of a value; and the error of decoding a text
  with the value its target has afterwards.
\<close>

record json =
  MarshalPreferences :: "(string, int32) fmap \<Rightarrow> error + string"
  UnmarshalPreferences :: "string \<Rightarrow> (string, int32) fmap option \<Rightarrow> error option \<times> (string, int32) fmap option"
  MarshalMetadata :: "(string, string) fmap \<Rightarrow> error + string"
  UnmarshalMetadata :: "string \<Rightarrow> (string, string) fmap option \<Rightarrow> error option \<times> (string, string) fmap option"
  MarshalAddresses :: "Address option list \<Rightarrow> error + string"
  UnmarshalAddresses :: "string \<Rightarrow> Address option list option \<Rightarrow> error option \<times> Address option list option"

section \<open>Serialisation\<close>

definition serializePreferences :: "json \<Rightarrow> (string, int32) fmap option \<Rightarrow> error + string" where
  "serializePreferences K prefs = (case prefs of
     None \<Rightarrow> Inr ''{}''
   | Some m \<Rightarrow> if fcard (fmdom m) = 0 then Inr ''{}'' else MarshalPreferences K m)"

definition deserializePreferences ::
    "json \<Rightarrow> string \<Rightarrow> (string, int32) fmap option \<Rightarrow> error option \<times> (string, int32) fmap option" where
  "deserializePreferences K bytes prefs =
     (if length bytes = 0 then (None, Some fmempty) else UnmarshalPreferences K bytes prefs)"

definition serializeMetadata :: "json \<Rightarrow> (string, string) fmap option \<Rightarrow> error + string" where
  "serializeMetadata K meta = (case meta of
     None \<Rightarrow> Inr ''{}''
   | Some m \<Rightarrow> if fcard (fmdom m) = 0 then Inr ''{}'' else MarshalMetadata K m)"

definition deserializeMetadata ::
    "json \<Rightarrow> string \<Rightarrow> (string, string) fmap option \<Rightarrow> error option \<times> (string, string) fmap option" where
  "deserializeMetadata K bytes meta =
     (if length bytes = 0 then (None, Some fmempty) else UnmarshalMetadata K bytes meta)"

definition serializeAddresses :: "json \<Rightarrow> Address option list option \<Rightarrow> error + string" where
  "serializeAddresses K addrs = (case addrs of
     None \<Rightarrow> Inr ''[]''
   | Some as \<Rightarrow> if length as = 0 then Inr ''[]'' else MarshalAddresses K as)"

definition deserializeAddresses ::
    "json \<Rightarrow> string \<Rightarrow> Address option list option \<Rightarrow> error option \<times> Address option list option" where
  "deserializeAddresses K bytes addrs =
     (if length bytes = 0 then (None, Some []) else UnmarshalAddresses K bytes addrs)"

section \<open>The queries\<close>

text \<open>A raw string of several lines: each begins on a new line, after some tabs.\<close>

definition sql_lines :: "(nat \<times> string) list \<Rightarrow> string" where
  "sql_lines ls = concat (map (\<lambda>(n, s). char_of (10 :: nat) # replicate n (char_of (9 :: nat)) @ s) ls)"

definition schema_query :: string where
  "schema_query = sql_lines [
     (1, ''CREATE TABLE IF NOT EXISTS users (''),
     (2, ''id SERIAL PRIMARY KEY,''),
     (2, ''username VARCHAR(255) NOT NULL UNIQUE,''),
     (2, ''role INTEGER NOT NULL DEFAULT 0,''),
     (2, ''email VARCHAR(255),''),
     (2, ''phone VARCHAR(50),''),
     (2, ''display_name VARCHAR(255),''),
     (2, ''bio TEXT,''),
     (2, ''avatar_url TEXT,''),
     (2, ''date_of_birth TIMESTAMPTZ,''),
     (2, ''preferences JSONB,''),
     (2, ''tags TEXT[],''),
     (2, ''metadata JSONB,''),
     (2, ''status INTEGER NOT NULL DEFAULT 0,''),
     (2, ''create_date TIMESTAMPTZ NOT NULL DEFAULT NOW(),''),
     (2, ''last_login TIMESTAMPTZ,''),
     (2, ''addresses JSONB''),
     (1, '');''),
     (0, ''''),
     (1, ''CREATE INDEX IF NOT EXISTS idx_users_username ON users(username);''),
     (1, ''CREATE INDEX IF NOT EXISTS idx_users_role ON users(role);''),
     (1, ''CREATE INDEX IF NOT EXISTS idx_users_status ON users(status);''),
     (1, ''CREATE INDEX IF NOT EXISTS idx_users_create_date ON users(create_date);''),
     (1, '''')]"

definition insert_query :: string where
  "insert_query = sql_lines [
     (2, ''INSERT INTO users (''),
     (3, ''id, username, role, email, phone,''),
     (3, ''display_name, bio, avatar_url, date_of_birth, preferences,''),
     (3, ''tags, metadata, status, create_date, last_login, addresses''),
     (2, '') VALUES ($1, $2, $3, $4, $5, $6, $7, $8, $9, $10, $11, $12, $13, $14, $15, $16)''),
     (2, ''ON CONFLICT (id) DO UPDATE SET''),
     (3, ''username = EXCLUDED.username,''),
     (3, ''role = EXCLUDED.role,''),
     (3, ''email = EXCLUDED.email,''),
     (3, ''phone = EXCLUDED.phone,''),
     (3, ''display_name = EXCLUDED.display_name,''),
     (3, ''bio = EXCLUDED.bio,''),
     (3, ''avatar_url = EXCLUDED.avatar_url,''),
     (3, ''date_of_birth = EXCLUDED.date_of_birth,''),
     (3, ''preferences = EXCLUDED.preferences,''),
     (3, ''tags = EXCLUDED.tags,''),
     (3, ''metadata = EXCLUDED.metadata,''),
     (3, ''status = EXCLUDED.status,''),
     (3, ''last_login = EXCLUDED.last_login,''),
     (3, ''addresses = EXCLUDED.addresses''),
     (1, '''')]"

definition update_query :: string where
  "update_query = sql_lines [
     (2, ''UPDATE users SET''),
     (3, ''username = $2, role = $3, email = $4, phone = $5,''),
     (3, ''display_name = $6, bio = $7, avatar_url = $8, date_of_birth = $9,''),
     (3, ''preferences = $10, tags = $11, metadata = $12, status = $13,''),
     (3, ''last_login = $14, addresses = $15''),
     (2, ''WHERE id = $1''),
     (1, '''')]"

definition select_columns :: "(nat \<times> string) list" where
  "select_columns = [
     (2, ''SELECT id, username, role, email, phone,''),
     (2, ''       display_name, bio, avatar_url, date_of_birth, preferences,''),
     (2, ''       tags, metadata, status, create_date, last_login, addresses'')]"

definition get_query :: string where
  "get_query = sql_lines (select_columns @ [(2, ''FROM users WHERE id = $1''), (1, '''')])"

definition list_query :: string where
  "list_query = sql_lines (select_columns @ [(2, ''FROM users''), (2, ''WHERE 1=1''), (1, '''')])"

definition role_query :: string where
  "role_query = sql_lines (select_columns @ [(2, ''FROM users WHERE role = $1 ORDER BY id''), (1, '''')])"

definition delete_query :: string where
  "delete_query = ''DELETE FROM users WHERE id = $1''"

definition exists_query :: string where
  "exists_query = ''SELECT EXISTS(SELECT 1 FROM users WHERE id = $1)''"

definition count_query :: string where
  "count_query = ''SELECT COUNT(*) FROM users''"

section \<open>Arguments and rows\<close>

text \<open>The arguments two methods compute alike from a user: the three serialised fields, two dates.\<close>

definition opt_time :: "lib \<Rightarrow> Timestamp option \<Rightarrow> time option" where
  "opt_time L t = (case t of None \<Rightarrow> None | Some ts \<Rightarrow> Some (AsTime L (Some ts)))"

definition serialized :: "lib \<Rightarrow> json \<Rightarrow> User \<Rightarrow> error + string \<times> string \<times> string" where
  "serialized L K user = (case serializePreferences K (Profile_GetPreferences (u_Profile user)) of
     Inl err \<Rightarrow> Inl (Errorf (''failed to serialize preferences: '' @ error_Error L err) (Some err))
   | Inr p \<Rightarrow> (case serializeMetadata K (u_Metadata user) of
       Inl err \<Rightarrow> Inl (Errorf (''failed to serialize metadata: '' @ error_Error L err) (Some err))
     | Inr m \<Rightarrow> (case serializeAddresses K (u_Addresses user) of
         Inl err \<Rightarrow> Inl (Errorf (''failed to serialize addresses: '' @ error_Error L err) (Some err))
       | Inr a \<Rightarrow> Inr (p, m, a))))"

definition insert_args :: "lib \<Rightarrow> User \<Rightarrow> string \<times> string \<times> string \<Rightarrow> sql_arg list" where
  "insert_args L user js = (case js of (preferencesJSON, metadataJSON, addressesJSON) \<Rightarrow>
     [SqlUint (u_Id user), SqlString (u_Username user), SqlInt (u_Role user),
      SqlString (u_Email user), SqlString (u_Phone user),
      SqlString (Profile_GetDisplayName (u_Profile user)), SqlString (Profile_GetBio (u_Profile user)),
      SqlString (Profile_GetAvatarUrl (u_Profile user)),
      SqlTimeOpt (opt_time L (Profile_GetDateOfBirth (u_Profile user))),
      SqlBytes preferencesJSON, SqlStrings (u_Tags user), SqlBytes metadataJSON,
      SqlInt (u_Status user), SqlTime (AsTime L (u_CreateDate user)),
      SqlTimeOpt (opt_time L (u_LastLogin user)), SqlBytes addressesJSON])"

definition update_args :: "lib \<Rightarrow> User \<Rightarrow> string \<times> string \<times> string \<Rightarrow> sql_arg list" where
  "update_args L user js = (case js of (preferencesJSON, metadataJSON, addressesJSON) \<Rightarrow>
     [SqlUint (u_Id user), SqlString (u_Username user), SqlInt (u_Role user),
      SqlString (u_Email user), SqlString (u_Phone user),
      SqlString (Profile_GetDisplayName (u_Profile user)), SqlString (Profile_GetBio (u_Profile user)),
      SqlString (Profile_GetAvatarUrl (u_Profile user)),
      SqlTimeOpt (opt_time L (Profile_GetDateOfBirth (u_Profile user))),
      SqlBytes preferencesJSON, SqlStrings (u_Tags user), SqlBytes metadataJSON,
      SqlInt (u_Status user), SqlTimeOpt (opt_time L (u_LastLogin user)), SqlBytes addressesJSON])"

definition or_empty :: "string option \<Rightarrow> string" where
  "or_empty s = (case s of None \<Rightarrow> [] | Some v \<Rightarrow> v)"

definition opt_stamp :: "lib \<Rightarrow> time option \<Rightarrow> Timestamp option" where
  "opt_stamp L t = (case t of None \<Rightarrow> None | Some v \<Rightarrow> Some (timestamppb_New L v))"

text \<open>
  A user out of a scanned row. An error of decoding is at most recorded in the span, and the
  field keeps what the decoder left.
\<close>

definition user_of_row :: "lib \<Rightarrow> json \<Rightarrow> row \<Rightarrow> User" where
  "user_of_row L K r = \<lparr>
     u_Id = r_id r,
     u_Role = r_role r,
     u_CreateDate = opt_stamp L (r_create_date r),
     u_Username = r_username r,
     u_Email = or_empty (r_email r),
     u_Phone = or_empty (r_phone r),
     u_Profile = Some \<lparr>
       p_DisplayName = or_empty (r_display_name r),
       p_Bio = or_empty (r_bio r),
       p_AvatarUrl = or_empty (r_avatar_url r),
       p_DateOfBirth = opt_stamp L (r_date_of_birth r),
       p_Preferences = (if length (r_preferences r) > 0
         then snd (deserializePreferences K (r_preferences r) None) else None)\<rparr>,
     u_Tags = r_tags r,
     u_Metadata = (if length (r_metadata r) > 0
       then snd (deserializeMetadata K (r_metadata r) None) else None),
     u_Status = r_status r,
     u_LastLogin = opt_stamp L (r_last_login r),
     u_Addresses = (if length (r_addresses r) > 0
       then snd (deserializeAddresses K (r_addresses r) None) else None)\<rparr>"

section \<open>The methods\<close>

definition errorf :: "lib \<Rightarrow> string \<Rightarrow> error \<Rightarrow> error" where
  "errorf L text err = Errorf (text @ error_Error L err) (Some err)"

definition not_found :: "uint32 \<Rightarrow> error" where
  "not_found i = Errorf (''user with ID '' @ dec (unat i) @ '' not found'') None"

definition Postgres_AddUser ::
    "'d pgx \<Rightarrow> lib \<Rightarrow> json \<Rightarrow> User \<Rightarrow> 'd \<Rightarrow> error option \<times> 'd" where
  "Postgres_AddUser D L K user d = (case serialized L K user of
     Inl err \<Rightarrow> (Some err, d)
   | Inr js \<Rightarrow> (case Exec D insert_query (insert_args L user js) d of
       (Inl err, d') \<Rightarrow> (Some (errorf L ''failed to add user: '' err), d')
     | (Inr _, d') \<Rightarrow> (None, d')))"

definition Postgres_GetUser :: "'d pgx \<Rightarrow> lib \<Rightarrow> json \<Rightarrow> uint32 \<Rightarrow> 'd \<Rightarrow> error + User" where
  "Postgres_GetUser D L K i d = (case QueryUser D get_query [SqlUint i] d of
     Inl err \<Rightarrow> if err = ErrNoRows D then Inl (errorf L ''user not found: '' err)
                else Inl (errorf L ''failed to get user: '' err)
   | Inr r \<Rightarrow> Inr (user_of_row L K r))"

definition Postgres_UserExists :: "'d pgx \<Rightarrow> lib \<Rightarrow> uint32 \<Rightarrow> 'd \<Rightarrow> error + bool" where
  "Postgres_UserExists D L i d = (case QueryBool D exists_query [SqlUint i] d of
     Inl err \<Rightarrow> Inl (errorf L ''failed to check user existence: '' err)
   | Inr exists \<Rightarrow> Inr exists)"

definition Postgres_UpdateUser ::
    "'d pgx \<Rightarrow> lib \<Rightarrow> json \<Rightarrow> User \<Rightarrow> 'd \<Rightarrow> error option \<times> 'd" where
  "Postgres_UpdateUser D L K user d = (case Postgres_UserExists D L (u_Id user) d of
     Inl err \<Rightarrow> (Some err, d)
   | Inr exists \<Rightarrow>
       if \<not> exists then (Some (not_found (u_Id user)), d)
       else case serialized L K user of
         Inl err \<Rightarrow> (Some err, d)
       | Inr js \<Rightarrow> (case Exec D update_query (update_args L user js) d of
           (Inl err, d') \<Rightarrow> (Some (errorf L ''failed to update user: '' err), d')
         | (Inr _, d') \<Rightarrow> (None, d')))"

definition Postgres_DeleteUser :: "'d pgx \<Rightarrow> lib \<Rightarrow> uint32 \<Rightarrow> 'd \<Rightarrow> error option \<times> 'd" where
  "Postgres_DeleteUser D L i d = (case Exec D delete_query [SqlUint i] d of
     (Inl err, d') \<Rightarrow> (Some (errorf L ''failed to delete user: '' err), d')
   | (Inr affected, d') \<Rightarrow> if affected = 0 then (Some (not_found i), d') else (None, d'))"

text \<open>
  The query of \<open>ListUsers\<close>: the text, the arguments and \<open>argIdx\<close> grow together; \<open>add_clause\<close>
  is one of the four steps.
\<close>

type_synonym building = "string \<times> sql_arg list \<times> nat"

definition add_clause :: "string \<Rightarrow> sql_arg option \<Rightarrow> building \<Rightarrow> building" where
  "add_clause clause arg b = (case (arg, b) of
     (None, _) \<Rightarrow> b
   | (Some a, (query, args, argIdx)) \<Rightarrow> (query @ clause @ dec argIdx, args @ [a], argIdx + 1))"

definition list_building :: "ListFilter option \<Rightarrow> building" where
  "list_building flt = (case flt of
     None \<Rightarrow> (list_query, [], 1)
   | Some f \<Rightarrow>
       let b0 = (list_query, [], 1);
           b1 = add_clause '' AND create_date >= $''
                  (map_option (\<lambda>c. SqlTime (time_Unix c)) (f_CreatedSince f)) b0;
           b2 = add_clause '' AND create_date < $''
                  (map_option (\<lambda>c. SqlTime (time_Unix c)) (f_OlderThan f)) b1;
           b3 = add_clause '' AND status = $'' (map_option SqlInt (f_Status f)) b2
       in add_clause '' LIMIT $'' (if 0 <s f_PageSize f then Some (SqlInt (f_PageSize f)) else None) b3)"

fun scan_rows :: "lib \<Rightarrow> json \<Rightarrow> (error + row) list \<Rightarrow> User list \<Rightarrow> User list" where
  "scan_rows L K [] users = users"
| "scan_rows L K (Inl err # rs) users = scan_rows L K rs users"
| "scan_rows L K (Inr r # rs) users = scan_rows L K rs (users @ [user_of_row L K r])"

definition Postgres_ListUsers ::
    "'d pgx \<Rightarrow> lib \<Rightarrow> json \<Rightarrow> ListFilter option \<Rightarrow> 'd \<Rightarrow> error + User list" where
  "Postgres_ListUsers D L K flt d = (case list_building flt of (query, args, argIdx) \<Rightarrow>
     (case Query D (query @ '' ORDER BY id'') args d of
        Inl err \<Rightarrow> Inl (errorf L ''failed to list users: '' err)
      | Inr rs \<Rightarrow> Inr (scan_rows L K rs [])))"

definition Postgres_ListUsersByRole ::
    "'d pgx \<Rightarrow> lib \<Rightarrow> json \<Rightarrow> Role \<Rightarrow> 'd \<Rightarrow> error + User list" where
  "Postgres_ListUsersByRole D L K role d = (case Query D role_query [SqlInt role] d of
     Inl err \<Rightarrow> Inl (errorf L ''failed to list users by role: '' err)
   | Inr rs \<Rightarrow> Inr (scan_rows L K rs []))"

definition Postgres_Count :: "'d pgx \<Rightarrow> lib \<Rightarrow> 'd \<Rightarrow> error + int" where
  "Postgres_Count D L d = (case QueryInt D count_query [] d of
     Inl err \<Rightarrow> Inl (errorf L ''failed to count users: '' err)
   | Inr n \<Rightarrow> Inr n)"

definition Postgres_initSchema :: "'d pgx \<Rightarrow> 'd \<Rightarrow> error option \<times> 'd" where
  "Postgres_initSchema D d = (case Exec D schema_query [] d of
     (Inl err, d') \<Rightarrow> (Some err, d')
   | (Inr _, d') \<Rightarrow> (None, d'))"

text \<open>
  \<open>NewPostgresStorage\<close>: the pool (\<open>pgxpool.New\<close>), its \<open>Ping\<close>, then the schema. The flag says
  whether the pool was made and closed again.
\<close>

definition NewPostgresStorage ::
    "'d pgx \<Rightarrow> lib \<Rightarrow> error option \<Rightarrow> error option \<Rightarrow> 'd \<Rightarrow> error option \<times> bool \<times> 'd" where
  "NewPostgresStorage D L new_pool ping d = (case new_pool of
     Some err \<Rightarrow> (Some (errorf L ''unable to create connection pool: '' err), False, d)
   | None \<Rightarrow> (case ping of
       Some err \<Rightarrow> (Some (errorf L ''unable to connect to database: '' err), True, d)
     | None \<Rightarrow> (case Postgres_initSchema D d of
         (Some err, d') \<Rightarrow> (Some (errorf L ''failed to initialize schema: '' err), True, d')
       | (None, d') \<Rightarrow> (None, False, d'))))"

text \<open>\<open>PostgresStorage\<close> as a value of the interface. It writes no defaults into a user.\<close>

definition postgres_Storage :: "'d pgx \<Rightarrow> lib \<Rightarrow> json \<Rightarrow> 'd Storage" where
  "postgres_Storage D L K = \<lparr>
     AddUser = (\<lambda>now user d. case Postgres_AddUser D L K user d of (r, d') \<Rightarrow> (r, user, d')),
     GetUser = Postgres_GetUser D L K,
     UpdateUser = Postgres_UpdateUser D L K,
     DeleteUser = Postgres_DeleteUser D L,
     ListUsers = Postgres_ListUsers D L K,
     ListUsersByRole = Postgres_ListUsersByRole D L K,
     UserExists = Postgres_UserExists D L,
     Count = Postgres_Count D L\<rparr>"

end
