(* ===== verification/PostgresSpec.thy ===== *)
theory PostgresSpec
  imports PostgresStorage Samples Otel
begin

text \<open>
  What the storage over PostgreSQL promises, given what the database does with the queries the
  code sends: it keeps the contract of a backend, and where it differs from the in-memory one.
\<close>

section \<open>The database\<close>

text \<open>
  \<open>tab d\<close> is the table \<open>users\<close> of the state \<open>d\<close>, by primary key, and \<open>keeps r\<close> what its columns
  keep of the row \<open>r\<close> (timestamps to the microsecond, normalised JSON). A statement that succeeds
  does what its text says. An error of \<open>Exec\<close> says nothing: the connection can be lost or the
  context cancelled after the server has executed the statement, so the table is then either as it
  was or as the statement makes it (\<open>tab\<close> counts a statement that is still under way by what
  becomes of it).
\<close>

definition not_null :: "row \<Rightarrow> bool" where
  "not_null r \<longleftrightarrow> r_email r \<noteq> None \<and> r_phone r \<noteq> None \<and> r_display_name r \<noteq> None \<and> r_bio r \<noteq> None \<and>
     r_avatar_url r \<noteq> None \<and> r_create_date r \<noteq> None"

definition before_dates :: "row \<Rightarrow> sql_arg list" where
  "before_dates r = [SqlUint (r_id r), SqlString (r_username r), SqlInt (r_role r),
     SqlString (or_empty (r_email r)), SqlString (or_empty (r_phone r)),
     SqlString (or_empty (r_display_name r)), SqlString (or_empty (r_bio r)),
     SqlString (or_empty (r_avatar_url r)), SqlTimeOpt (r_date_of_birth r),
     SqlBytes (r_preferences r), SqlStrings (r_tags r), SqlBytes (r_metadata r), SqlInt (r_status r)]"

definition insert_row_args :: "row \<Rightarrow> sql_arg list" where
  "insert_row_args r = before_dates r @ [SqlTime (case r_create_date r of None \<Rightarrow> 0 | Some c \<Rightarrow> c),
     SqlTimeOpt (r_last_login r), SqlBytes (r_addresses r)]"

definition update_row_args :: "row \<Rightarrow> sql_arg list" where
  "update_row_args r = before_dates r @ [SqlTimeOpt (r_last_login r), SqlBytes (r_addresses r)]"

definition with_created :: "row \<Rightarrow> row \<Rightarrow> row" where
  "with_created old r = r\<lparr>r_create_date := r_create_date old\<rparr>"

text \<open>What the three statements make of the table.\<close>

definition insert_row :: "(row \<Rightarrow> row) \<Rightarrow> row \<Rightarrow> (uint32, row) fmap \<Rightarrow> (uint32, row) fmap" where
  "insert_row keeps r T = fmupd (r_id r) (case fmlookup T (r_id r) of None \<Rightarrow> keeps r
     | Some old \<Rightarrow> with_created old (keeps r)) T"

definition update_row :: "(row \<Rightarrow> row) \<Rightarrow> row \<Rightarrow> (uint32, row) fmap \<Rightarrow> (uint32, row) fmap" where
  "update_row keeps r T = (case fmlookup T (r_id r) of None \<Rightarrow> T
     | Some old \<Rightarrow> fmupd (r_id r) (with_created old (keeps r)) T)"

definition executed :: "(error + int) \<Rightarrow> 't \<Rightarrow> 't \<Rightarrow> 't \<Rightarrow> bool" where
  "executed res before after now \<longleftrightarrow>
     (case res of Inl _ \<Rightarrow> now = before \<or> now = after | Inr _ \<Rightarrow> now = after)"

definition insert_law :: "'d pgx \<Rightarrow> ('d \<Rightarrow> (uint32, row) fmap) \<Rightarrow> (row \<Rightarrow> row) \<Rightarrow> bool" where
  "insert_law D tab keeps \<longleftrightarrow> (\<forall>r d res d'. not_null r \<longrightarrow>
     Exec D insert_query (insert_row_args r) d = (res, d') \<longrightarrow>
     executed res (tab d) (insert_row keeps r (tab d)) (tab d'))"

definition update_law :: "'d pgx \<Rightarrow> ('d \<Rightarrow> (uint32, row) fmap) \<Rightarrow> (row \<Rightarrow> row) \<Rightarrow> bool" where
  "update_law D tab keeps \<longleftrightarrow> (\<forall>r d res d'. not_null r \<longrightarrow>
     Exec D update_query (update_row_args r) d = (res, d') \<longrightarrow>
     executed res (tab d) (update_row keeps r (tab d)) (tab d'))"

definition delete_law :: "'d pgx \<Rightarrow> ('d \<Rightarrow> (uint32, row) fmap) \<Rightarrow> bool" where
  "delete_law D tab \<longleftrightarrow> (\<forall>i d res d'. Exec D delete_query [SqlUint i] d = (res, d') \<longrightarrow>
     executed res (tab d) (fmdrop i (tab d)) (tab d') \<and>
     (\<forall>n. res = Inr n \<longrightarrow> n = (if fmlookup (tab d) i = None then 0 else 1)))"

definition read_law :: "'d pgx \<Rightarrow> ('d \<Rightarrow> (uint32, row) fmap) \<Rightarrow> bool" where
  "read_law D tab \<longleftrightarrow> (\<forall>d.
     (\<forall>i r. QueryUser D get_query [SqlUint i] d = Inr r \<longrightarrow> fmlookup (tab d) i = Some r) \<and>
     (\<forall>i. fmlookup (tab d) i = None \<longrightarrow> (\<exists>e. QueryUser D get_query [SqlUint i] d = Inl e)) \<and>
     (\<forall>i b. QueryBool D exists_query [SqlUint i] d = Inr b \<longrightarrow> b = (fmlookup (tab d) i \<noteq> None)) \<and>
     (\<forall>n. QueryInt D count_query [] d = Inr n \<longrightarrow> n = int (fcard (fmdom (tab d)))) \<and>
     (\<forall>flt q args k rs r. list_building flt = (q, args, k) \<longrightarrow>
        Query D (q @ '' ORDER BY id'') args d = Inr rs \<longrightarrow>
        Inr r \<in> set rs \<longrightarrow> fmlookup (tab d) (r_id r) = Some r) \<and>
     (\<forall>role rs r. Query D role_query [SqlInt role] d = Inr rs \<longrightarrow> Inr r \<in> set rs \<longrightarrow>
        fmlookup (tab d) (r_id r) = Some r \<and> r_role r = role))"

definition db_law :: "'d pgx \<Rightarrow> ('d \<Rightarrow> (uint32, row) fmap) \<Rightarrow> (row \<Rightarrow> row) \<Rightarrow> bool" where
  "db_law D tab keeps \<longleftrightarrow> insert_law D tab keeps \<and> update_law D tab keeps \<and> delete_law D tab \<and>
     read_law D tab \<and> (\<forall>r. r_id (keeps r) = r_id r) \<and>
     (\<forall>d i r. fmlookup (tab d) i = Some r \<longrightarrow> r_id r = i)"

lemmas db_laws = db_law_def insert_law_def update_law_def delete_law_def read_law_def executed_def

section \<open>The contract\<close>

text \<open>The users a state stands for, and what the table keeps of a user over its former entry.\<close>

definition pg_users :: "('d \<Rightarrow> (uint32, row) fmap) \<Rightarrow> lib \<Rightarrow> json \<Rightarrow> 'd \<Rightarrow> (uint32, User) fmap" where
  "pg_users tab L K d = fmmap (user_of_row L K) (tab d)"

definition pg_row :: "lib \<Rightarrow> User \<Rightarrow> string \<times> string \<times> string \<Rightarrow> row" where
  "pg_row L u js = (case js of (p, m, a) \<Rightarrow> \<lparr>
     r_id = u_Id u, r_username = u_Username u, r_role = u_Role u, r_email = Some (u_Email u),
     r_phone = Some (u_Phone u), r_display_name = Some (Profile_GetDisplayName (u_Profile u)),
     r_bio = Some (Profile_GetBio (u_Profile u)), r_avatar_url = Some (Profile_GetAvatarUrl (u_Profile u)),
     r_date_of_birth = opt_time L (Profile_GetDateOfBirth (u_Profile u)), r_preferences = p,
     r_tags = u_Tags u, r_metadata = m, r_status = u_Status u,
     r_create_date = Some (AsTime L (u_CreateDate u)), r_last_login = opt_time L (u_LastLogin u),
     r_addresses = a\<rparr>)"

definition pg_keep :: "(row \<Rightarrow> row) \<Rightarrow> lib \<Rightarrow> json \<Rightarrow> User option \<Rightarrow> User \<Rightarrow> User" where
  "pg_keep keeps L K old u = (case serialized L K u of Inl _ \<Rightarrow> u
     | Inr js \<Rightarrow> (let v = user_of_row L K (keeps (pg_row L u js))
        in case old of None \<Rightarrow> v | Some o' \<Rightarrow> v\<lparr>u_CreateDate := u_CreateDate o'\<rparr>))"

lemma user_of_row_Id [simp]: "u_Id (user_of_row L K r) = r_id r"
  by (simp add: user_of_row_def)

lemma user_of_row_Role [simp]: "u_Role (user_of_row L K r) = r_role r"
  by (simp add: user_of_row_def)

lemma user_of_row_created [simp]:
  "user_of_row L K (with_created old r) =
     (user_of_row L K r)\<lparr>u_CreateDate := u_CreateDate (user_of_row L K old)\<rparr>"
  by (simp add: user_of_row_def with_created_def)

lemma pg_row_args:
  "insert_args L u js = insert_row_args (pg_row L u js)"
  "update_args L u js = update_row_args (pg_row L u js)"
  "not_null (pg_row L u js)" "r_id (pg_row L u js) = u_Id u"
  by (cases js; simp add: insert_args_def update_args_def insert_row_args_def update_row_args_def
      before_dates_def pg_row_def not_null_def or_empty_def)+

lemma in_scan_rows:
  "u \<in> set (scan_rows L K rs us) \<longleftrightarrow> u \<in> set us \<or> (\<exists>r. Inr r \<in> set rs \<and> u = user_of_row L K r)"
  by (induction L K rs us rule: scan_rows.induct) auto

lemma fmmap_upd [simp]: "fmmap f (fmupd k v m) = fmupd k (f v) (fmmap f m)"
  by (rule fmap_ext) auto

lemma insert_effect:
  assumes "db_law D tab keeps" and "serialized L K u = Inr js"
    and "Exec D insert_query (insert_args L u js) d = (res, d')"
  shows "executed res (pg_users tab L K d) (fmupd (u_Id u)
    (pg_keep keeps L K (fmlookup (pg_users tab L K d) (u_Id u)) u) (pg_users tab L K d)) (pg_users tab L K d')"
proof -
  let ?r = "pg_row L u js"
  have e: "executed res (tab d) (insert_row keeps ?r (tab d)) (tab d')"
    using assms(1,3) pg_row_args [of L u js] by (auto simp: db_law_def insert_law_def)
  have "fmmap (user_of_row L K) (insert_row keeps ?r (tab d)) = fmupd (u_Id u)
      (pg_keep keeps L K (fmlookup (pg_users tab L K d) (u_Id u)) u) (pg_users tab L K d)"
    by (simp add: insert_row_def pg_users_def pg_keep_def pg_row_args assms(2) Let_def split: option.splits)
  then show ?thesis using e by (auto simp: executed_def pg_users_def split: sum.splits)
qed

lemma update_effect:
  assumes "db_law D tab keeps" and "serialized L K u = Inr js"
    and "Exec D update_query (update_args L u js) d = (res, d')"
    and "fmlookup (tab d) (u_Id u) \<noteq> None"
  shows "executed res (pg_users tab L K d) (fmupd (u_Id u)
    (pg_keep keeps L K (fmlookup (pg_users tab L K d) (u_Id u)) u) (pg_users tab L K d)) (pg_users tab L K d')"
proof -
  let ?r = "pg_row L u js"
  obtain old where old: "fmlookup (tab d) (u_Id u) = Some old" using assms(4) by blast
  have e: "executed res (tab d) (update_row keeps ?r (tab d)) (tab d')"
    using assms(1,3) pg_row_args [of L u js] by (auto simp: db_law_def update_law_def)
  have "fmmap (user_of_row L K) (update_row keeps ?r (tab d)) = fmupd (u_Id u)
      (pg_keep keeps L K (fmlookup (pg_users tab L K d) (u_Id u)) u) (pg_users tab L K d)"
    by (simp add: update_row_def pg_users_def pg_keep_def pg_row_args assms(2) old Let_def)
  then show ?thesis using e by (auto simp: executed_def pg_users_def split: sum.splits)
qed

lemma delete_effect:
  assumes "db_law D tab keeps" and "Exec D delete_query [SqlUint i] d = (res, d')"
  shows "executed res (tab d) (fmdrop i (tab d)) (tab d')"
    and "res = Inr n \<Longrightarrow> n = (if fmlookup (tab d) i = None then 0 else 1)"
proof -
  have "delete_law D tab" using assms(1) by (simp add: db_law_def)
  note law = this [unfolded delete_law_def, rule_format, OF assms(2)]
  show "executed res (tab d) (fmdrop i (tab d)) (tab d')" using law by blast
  show "res = Inr n \<Longrightarrow> n = (if fmlookup (tab d) i = None then 0 else 1)" using law by blast
qed

lemma fmdrop_absent: "fmlookup T i = None \<Longrightarrow> fmdrop i T = T"
  by (rule fmap_ext) auto

lemma list_rows:
  assumes "db_law D tab keeps" and "list_building flt = (q, args, k)"
    and "Query D (q @ '' ORDER BY id'') args d = Inr rs" and "Inr r \<in> set rs"
  shows "fmlookup (tab d) (r_id r) = Some r"
  using assms unfolding db_law_def read_law_def by blast

lemmas postgres_defs = postgres_Storage_def Postgres_AddUser_def Postgres_GetUser_def
  Postgres_UserExists_def Postgres_UpdateUser_def Postgres_DeleteUser_def Postgres_ListUsers_def
  Postgres_ListUsersByRole_def Postgres_Count_def

text \<open>The contract, law by law.\<close>

lemma postgres_user_store:
  assumes db: "db_law D tab keeps"
  shows "user_store (postgres_Storage D L K) (\<lambda>_. True) (pg_users tab L K) (\<lambda>now u. u) (pg_keep keeps L K)"
proof (unfold_locales, goal_cases)
  case (2 old u)
  show ?case using db by (auto simp: pg_keep_def db_law_def pg_row_args Let_def split: sum.splits option.splits)
next
  case (3 s i u)
  then show ?case using db by (auto simp: pg_users_def db_law_def)
next
  case (5 s now u u' s')
  then obtain js n where "serialized L K u = Inr js" "u' = u"
      and ex: "Exec D insert_query (insert_args L u js) s = (Inr n, s')"
    by (auto simp: postgres_defs split: sum.splits prod.splits)
  from insert_effect [OF db this(1) ex] this(2) show ?case by (simp add: executed_def)
next
  case (6 s now u e u' s')
  then consider "s' = s" | js e' where "serialized L K u = Inr js"
      "Exec D insert_query (insert_args L u js) s = (Inl e', s')"
    by (auto simp: postgres_defs split: sum.splits prod.splits)
  then show ?case
  proof cases
    case 2
    from insert_effect [OF db 2] show ?thesis by (simp add: executed_def)
  qed simp
next
  case (7 s i u)
  then show ?case using db
    by (auto simp: postgres_defs pg_users_def db_law_def read_law_def split: sum.splits if_splits)
next
  case (9 s u s')
  have "b = (fmlookup (tab s) (u_Id u) \<noteq> None)" if "QueryBool D exists_query [SqlUint (u_Id u)] s = Inr b" for b
    using that db by (auto simp: db_law_def read_law_def)
  with 9 obtain js n where "serialized L K u = Inr js" "fmlookup (tab s) (u_Id u) \<noteq> None"
      and ex: "Exec D update_query (update_args L u js) s = (Inr n, s')"
    by (auto simp: postgres_defs split: sum.splits prod.splits if_splits)
  from update_effect [OF db this(1) ex this(2)] this(2) show ?case by (simp add: executed_def pg_users_def)
next
  case (10 s u e s')
  have "b = (fmlookup (tab s) (u_Id u) \<noteq> None)" if "QueryBool D exists_query [SqlUint (u_Id u)] s = Inr b" for b
    using that db by (auto simp: db_law_def read_law_def)
  with 10 consider "s' = s" | js e' where "serialized L K u = Inr js" "fmlookup (tab s) (u_Id u) \<noteq> None"
      "Exec D update_query (update_args L u js) s = (Inl e', s')"
    by (auto simp: postgres_defs split: sum.splits prod.splits if_splits)
  then show ?case
  proof cases
    case 2
    from update_effect [OF db 2(1,3,2)] 2(2) show ?thesis by (simp add: executed_def pg_users_def)
  qed simp
next
  case (12 s i s')
  obtain res d' where ex: "Exec D delete_query [SqlUint i] s = (res, d')" by (cases "Exec D delete_query [SqlUint i] s")
  with 12(2) obtain n where n: "res = Inr n" "n \<noteq> 0" "d' = s'"
    by (auto simp: postgres_Storage_def Postgres_DeleteUser_def split: sum.splits if_splits)
  note E = delete_effect [OF db ex]
  have "fmlookup (tab s) i \<noteq> None" using E(2) n by metis
  then show ?case using E(1) n by (simp add: pg_users_def executed_def)
next
  case (13 s i e s')
  obtain res d' where ex: "Exec D delete_query [SqlUint i] s = (res, d')" by (cases "Exec D delete_query [SqlUint i] s")
  then have s': "d' = s'" using 13(2)
    by (auto simp: postgres_Storage_def Postgres_DeleteUser_def split: sum.splits if_splits)
  have "tab s' = tab s \<or> tab s' = fmdrop i (tab s)" and "tab s' = tab s \<or> fmlookup (tab s) i \<noteq> None"
    using delete_effect(1) [OF db ex] fmdrop_absent [of "tab s" i] s'
    by (auto simp: executed_def split: sum.splits)
  then show ?case by (auto simp: pg_users_def)
next
  case (14 s f us u)
  obtain q args k where b: "list_building f = (q, args, k)" by (cases "list_building f")
  with 14 obtain rs r where rs: "Query D (q @ '' ORDER BY id'') args s = Inr rs"
      "Inr r \<in> set rs" "u = user_of_row L K r"
    by (auto simp: postgres_Storage_def Postgres_ListUsers_def in_scan_rows split: sum.splits)
  then show ?case using list_rows [OF db b rs(1,2)] by (simp add: pg_users_def)
next
  case (15 s ro us u)
  then show ?case using db
    by (auto simp: postgres_defs pg_users_def db_law_def read_law_def in_scan_rows split: sum.splits)
next
  case (16 s i b)
  then show ?case using db
    by (auto simp: postgres_defs pg_users_def db_law_def read_law_def split: sum.splits)
next
  case (17 s n)
  then show ?case using db
    by (auto simp: postgres_defs pg_users_def db_law_def read_law_def split: sum.splits)
qed simp_all

end
