(* ===== verification/PostgresService.thy ===== *)
theory PostgresService
  imports PostgresSpec
begin

text \<open>
  The service over PostgreSQL: the invariant it shares with the in-memory storage, what is read
  back of a user, and where the two backends differ.
\<close>

section \<open>A database to test on\<close>

fun arg_uint :: "sql_arg \<Rightarrow> uint32" where "arg_uint (SqlUint i) = i" | "arg_uint _ = 0"
fun arg_int :: "sql_arg \<Rightarrow> int32" where "arg_int (SqlInt i) = i" | "arg_int _ = 0"
fun arg_text :: "sql_arg \<Rightarrow> string" where
  "arg_text (SqlString s) = s" | "arg_text (SqlBytes s) = s" | "arg_text _ = []"
fun arg_time :: "sql_arg \<Rightarrow> time option" where
  "arg_time (SqlTime t) = Some t" | "arg_time (SqlTimeOpt t) = t" | "arg_time _ = None"
fun arg_list :: "sql_arg \<Rightarrow> string list option" where
  "arg_list (SqlStrings l) = l" | "arg_list _ = None"

text \<open>The row that the arguments of a write name, with the creation date, the last login and the
  addresses at the given places.\<close>

definition sample_row :: "sql_arg list \<Rightarrow> time option \<Rightarrow> nat \<Rightarrow> row" where
  "sample_row as created k = \<lparr>
     r_id = arg_uint (as ! 0), r_username = arg_text (as ! 1), r_role = arg_int (as ! 2),
     r_email = Some (arg_text (as ! 3)), r_phone = Some (arg_text (as ! 4)),
     r_display_name = Some (arg_text (as ! 5)), r_bio = Some (arg_text (as ! 6)),
     r_avatar_url = Some (arg_text (as ! 7)), r_date_of_birth = arg_time (as ! 8),
     r_preferences = arg_text (as ! 9), r_tags = arg_list (as ! 10), r_metadata = arg_text (as ! 11),
     r_status = arg_int (as ! 12), r_create_date = created, r_last_login = arg_time (as ! k),
     r_addresses = arg_text (as ! (k + 1))\<rparr>"

type_synonym sample_db = "(uint32, row) fmap"

definition sample_write :: "row \<Rightarrow> sample_db \<Rightarrow> sample_db" where
  "sample_write r d = fmupd (r_id r)
     (case fmlookup d (r_id r) of None \<Rightarrow> r | Some old \<Rightarrow> with_created old r) d"

definition sample_tab :: "sample_db \<Rightarrow> sample_db" where
  "sample_tab d = fmmap_keys (\<lambda>i r. r\<lparr>r_id := i\<rparr>) d"

definition sample_pgx :: "sample_db pgx" where
  "sample_pgx = \<lparr>
     Exec = (\<lambda>q as d.
       if q = insert_query then (Inr 1, sample_write (sample_row as (arg_time (as ! 13)) 14) d)
       else if q = update_query then
         (if fmlookup d (arg_uint (as ! 0)) = None then (Inr 0, d)
          else (Inr 1, sample_write (sample_row as None 13) d))
       else if q = delete_query then
         (Inr (if fmlookup d (arg_uint (as ! 0)) = None then 0 else 1), fmdrop (arg_uint (as ! 0)) d)
       else (Inl (Errorf ''syntax error'' None), d)),
     QueryUser = (\<lambda>q as d. case fmlookup (sample_tab d) (arg_uint (as ! 0)) of
        None \<Rightarrow> Inl (Errorf ''no rows in result set'' None) | Some r \<Rightarrow> Inr r),
     QueryBool = (\<lambda>q as d. Inr (fmlookup d (arg_uint (as ! 0)) \<noteq> None)),
     QueryInt = (\<lambda>q as d. Inr (int (fcard (fmdom d)))),
     Query = (\<lambda>q as d. if q = role_query
       then Inr (map Inr (filter (\<lambda>r. r_role r = arg_int (as ! 0))
              (List.map_filter (fmlookup (sample_tab d)) (sorted_keys d))))
       else Inl (Errorf ''syntax error'' None)),
     ErrNoRows = Errorf ''no rows in result set'' None\<rparr>"

lemma queries_distinct [simp]:
  "insert_query \<noteq> update_query" "insert_query \<noteq> delete_query" "update_query \<noteq> delete_query"
  "update_query \<noteq> insert_query" "delete_query \<noteq> insert_query" "delete_query \<noteq> update_query"
  by (simp_all add: insert_query_def update_query_def delete_query_def sql_lines_def)

lemma sample_row_args:
  "not_null r \<Longrightarrow> sample_row (insert_row_args r) (arg_time (insert_row_args r ! 13)) 14 = r"
  "not_null r \<Longrightarrow> sample_row (update_row_args r) c 13 = r\<lparr>r_create_date := c\<rparr>"
  "arg_uint (update_row_args r ! 0) = r_id r"
  by (auto simp: sample_row_def insert_row_args_def update_row_args_def before_dates_def not_null_def
      or_empty_def)

lemma sample_tab_simps [simp]:
  "fmlookup (sample_tab d) i = map_option (\<lambda>r. r\<lparr>r_id := i\<rparr>) (fmlookup d i)"
  "fmdom (sample_tab d) = fmdom d"
  by (simp_all add: sample_tab_def)

lemma sample_tab_write [simp]:
  "sample_tab (sample_write r d) = fmupd (r_id r) (case fmlookup (sample_tab d) (r_id r) of
     None \<Rightarrow> r | Some old \<Rightarrow> with_created old r) (sample_tab d)"
  by (rule fmap_ext) (auto simp: sample_write_def with_created_def split: option.splits)

lemma sample_tab_drop [simp]: "sample_tab (fmdrop i d) = fmdrop i (sample_tab d)"
  by (rule fmap_ext) simp

lemma sample_db_law [simp]: "db_law sample_pgx sample_tab (\<lambda>r. r)"
  unfolding db_law_def
proof (intro conjI)
  show "insert_law sample_pgx sample_tab (\<lambda>r. r)"
    by (auto simp: insert_law_def sample_pgx_def sample_row_args executed_def insert_row_def)
  show "update_law sample_pgx sample_tab (\<lambda>r. r)"
    by (auto simp: update_law_def sample_pgx_def sample_row_args with_created_def executed_def update_row_def split: option.splits)
  show "delete_law sample_pgx sample_tab"
    by (auto simp: delete_law_def sample_pgx_def executed_def)
  show "read_law sample_pgx sample_tab"
    by (auto simp: read_law_def sample_pgx_def List.map_filter_def split: option.splits)
qed auto

text \<open>The laws leave room for a database whose answers are lost after it has executed a statement.\<close>

definition lossy :: "error \<Rightarrow> 'd pgx \<Rightarrow> 'd pgx" where
  "lossy e D = D\<lparr>Exec := \<lambda>q as d. (Inl e, snd (Exec D q as d))\<rparr>"

lemma lossy_simps [simp]:
  "Exec (lossy e D) q as d = (Inl e, snd (Exec D q as d))"
  "QueryUser (lossy e D) = QueryUser D" "QueryBool (lossy e D) = QueryBool D"
  "QueryInt (lossy e D) = QueryInt D" "Query (lossy e D) = Query D"
  by (simp_all add: lossy_def)

lemma lossy_db_law:
  assumes "db_law D tab keeps"
  shows "db_law (lossy e D) tab keeps"
proof -
  have e: "executed res T T' T'' \<Longrightarrow> executed (Inl e) T T' T''" for res :: "error + int" and T T' T'' :: "(uint32, row) fmap"
    by (simp add: executed_def split: sum.splits)
  have i: "insert_law D tab keeps" and u: "update_law D tab keeps" and d: "delete_law D tab"
    and r: "read_law D tab" using assms by (simp_all add: db_law_def)
  have "insert_law (lossy e D) tab keeps"
    unfolding insert_law_def using i [unfolded insert_law_def] by (auto intro: e) (metis e prod.collapse)
  moreover have "update_law (lossy e D) tab keeps"
    unfolding update_law_def using u [unfolded update_law_def] by (auto intro: e) (metis e prod.collapse)
  moreover have "delete_law (lossy e D) tab"
    unfolding delete_law_def using d [unfolded delete_law_def] by (auto intro: e) (metis e prod.collapse)
  moreover have "read_law (lossy e D) tab" using r by (simp add: read_law_def)
  ultimately show ?thesis using assms by (simp add: db_law_def)
qed

section \<open>The contract\<close>

text \<open>
  What the three calls that write make of a table \<open>T\<close> of users, when they are accepted: \<open>T'\<close> is
  the table after. \<open>keep old u\<close> is what is recorded of \<open>u\<close> over the entry \<open>old\<close>.
\<close>

definition table_added ::
    "(User option \<Rightarrow> User \<Rightarrow> User) \<Rightarrow> User \<Rightarrow> (uint32, User) fmap \<Rightarrow> (uint32, User) fmap \<Rightarrow> bool" where
  "table_added keep u T T' \<longleftrightarrow> u_Id u \<noteq> 0 \<and> u_Username u \<noteq> [] \<and> (T = fmempty \<longrightarrow> u_Role u = Role_ADMIN) \<and>
     T' = fmupd (u_Id u) (keep (fmlookup T (u_Id u)) u) T"

definition table_updated ::
    "(User option \<Rightarrow> User \<Rightarrow> User) \<Rightarrow> UpdateUserRequest \<Rightarrow> User \<Rightarrow> (uint32, User) fmap
     \<Rightarrow> (uint32, User) fmap \<Rightarrow> bool" where
  "table_updated keep req v T T' \<longleftrightarrow> (\<exists>user old. uu_User req = Some user \<and> u_Id user \<noteq> 0 \<and>
     fmlookup T (u_Id user) = Some old \<and> apply_update user (uu_UpdateMask req) old = Inr v \<and>
     u_Id v = u_Id user \<and> u_CreateDate v = u_CreateDate old \<and>
     T' = fmupd (u_Id user) (keep (Some old) v) T)"

definition table_deleted :: "uint32 \<Rightarrow> (uint32, User) fmap \<Rightarrow> (uint32, User) fmap \<Rightarrow> bool" where
  "table_deleted i T T' \<longleftrightarrow> fmlookup T i \<noteq> None \<and> T' = fmdrop i T"

text \<open>One lemma for each call that writes.\<close>

lemma postgres_refines_add:
  assumes "db_law D tab keeps"
  shows "case Server_AddUser (postgres_Storage D L K) now u d of
      (Inl _, d') \<Rightarrow> pg_users tab L K d' = pg_users tab L K d \<or>
        table_added (pg_keep keeps L K) u (pg_users tab L K d) (pg_users tab L K d')
    | (Inr _, d') \<Rightarrow> table_added (pg_keep keeps L K) u (pg_users tab L K d) (pg_users tab L K d')"
proof -
  note store = postgres_user_store [OF assms, of L K]
  obtain r d' where "Server_AddUser (postgres_Storage D L K) now u d = (r, d')"
    by (cases "Server_AddUser (postgres_Storage D L K) now u d")
  then show ?thesis
    using user_store.serve_add_ok(2-5) [OF store TrueI, of now u d d']
      user_store.serve_add_err(2) [OF store TrueI, of now u d _ d']
    by (cases r) (simp_all add: table_added_def)
qed

lemma postgres_refines_update:
  assumes "db_law D tab keeps"
  shows "case Server_UpdateUser (postgres_Storage D L K) req d of
      (Inl _, d') \<Rightarrow> pg_users tab L K d' = pg_users tab L K d \<or>
        (\<exists>v. table_updated (pg_keep keeps L K) req v (pg_users tab L K d) (pg_users tab L K d'))
    | (Inr v, d') \<Rightarrow> table_updated (pg_keep keeps L K) req v (pg_users tab L K d) (pg_users tab L K d')"
proof -
  note store = postgres_user_store [OF assms, of L K]
  obtain r d' where run: "Server_UpdateUser (postgres_Storage D L K) req d = (r, d')"
    by (cases "Server_UpdateUser (postgres_Storage D L K) req d")
  show ?thesis
  proof (cases r)
    case (Inl e)
    from user_store.serve_update_err(2) [OF store TrueI run [unfolded Inl]]
    have "pg_users tab L K d' = pg_users tab L K d \<or>
        (\<exists>v. table_updated (pg_keep keeps L K) req v (pg_users tab L K d) (pg_users tab L K d'))"
    proof
      assume "\<exists>user old u'. uu_User req = Some user \<and> u_Id user \<noteq> 0 \<and>
          fmlookup (pg_users tab L K d) (u_Id user) = Some old \<and>
          apply_update user (uu_UpdateMask req) old = Inr u' \<and>
          pg_users tab L K d' = fmupd (u_Id user) (pg_keep keeps L K (Some old) u') (pg_users tab L K d)"
      then obtain user old u' where u: "uu_User req = Some user" "u_Id user \<noteq> 0"
          "fmlookup (pg_users tab L K d) (u_Id user) = Some old"
          "apply_update user (uu_UpdateMask req) old = Inr u'"
          "pg_users tab L K d' = fmupd (u_Id user) (pg_keep keeps L K (Some old) u') (pg_users tab L K d)" by blast
      have "u_Id old = u_Id user" using user_store.look_Id [OF store TrueI u(3)] .
      then have "u_Id u' = u_Id user" "u_CreateDate u' = u_CreateDate old"
        using apply_update_ok [OF u(4)] by simp_all
      with u show ?thesis unfolding table_updated_def by blast
    qed simp
    with run show ?thesis by (simp add: Inl)
  next
    case (Inr v)
    with run have "Server_UpdateUser (postgres_Storage D L K) req d = (Inr v, d')" by simp
    from user_store.serve_update_ok [OF store TrueI this]
    have "table_updated (pg_keep keeps L K) req v (pg_users tab L K d) (pg_users tab L K d')"
      unfolding table_updated_def by metis
    then show ?thesis by (simp add: run Inr)
  qed
qed

lemma postgres_refines_delete:
  assumes "db_law D tab keeps"
  shows "case Server_DeleteUser (postgres_Storage D L K) del d of
      (Inl _, d') \<Rightarrow> pg_users tab L K d' = pg_users tab L K d \<or>
        table_deleted (du_Id del) (pg_users tab L K d) (pg_users tab L K d')
    | (Inr _, d') \<Rightarrow> table_deleted (du_Id del) (pg_users tab L K d) (pg_users tab L K d')"
proof -
  note store = postgres_user_store [OF assms, of L K]
  obtain r d' where "Server_DeleteUser (postgres_Storage D L K) del d = (r, d')"
    by (cases "Server_DeleteUser (postgres_Storage D L K) del d")
  then show ?thesis
    using user_store.serve_delete_ok(2,3) [OF store TrueI, of del d d']
      user_store.serve_delete_err(2) [OF store TrueI, of del d _ d']
    by (cases r) (auto simp: table_deleted_def)
qed

text \<open>C8. The service over PostgreSQL works on the table as its calls say: a successful \<open>AddUser\<close>
  files what the columns keep of the user, over an existing one too, whose creation date then
  stays, and only an administrator into an empty table; a successful \<open>UpdateUser\<close> files the
  answer over the stored user; a successful \<open>DeleteUser\<close> removes one. A call that fails has left
  the table as it was or has done to it what the same call does when it succeeds, never anything
  else: the database may have executed the statement although its answer was lost.\<close>

theorem postgres_refines:
  assumes "db_law D tab keeps"
  shows "(case Server_AddUser (postgres_Storage D L K) now u d of
      (Inl _, d') \<Rightarrow> pg_users tab L K d' = pg_users tab L K d \<or>
        table_added (pg_keep keeps L K) u (pg_users tab L K d) (pg_users tab L K d')
    | (Inr _, d') \<Rightarrow> table_added (pg_keep keeps L K) u (pg_users tab L K d) (pg_users tab L K d')) \<and>
    (case Server_UpdateUser (postgres_Storage D L K) req d of
      (Inl _, d') \<Rightarrow> pg_users tab L K d' = pg_users tab L K d \<or>
        (\<exists>v. table_updated (pg_keep keeps L K) req v (pg_users tab L K d) (pg_users tab L K d'))
    | (Inr v, d') \<Rightarrow> table_updated (pg_keep keeps L K) req v (pg_users tab L K d) (pg_users tab L K d')) \<and>
    (case Server_DeleteUser (postgres_Storage D L K) del d of
      (Inl _, d') \<Rightarrow> pg_users tab L K d' = pg_users tab L K d \<or>
        table_deleted (du_Id del) (pg_users tab L K d) (pg_users tab L K d')
    | (Inr _, d') \<Rightarrow> table_deleted (du_Id del) (pg_users tab L K d) (pg_users tab L K d'))"
  by (intro conjI postgres_refines_add [OF assms] postgres_refines_update [OF assms] postgres_refines_delete [OF assms])

text \<open>A codec that knows the empty collections and one map.\<close>

definition sample_json :: json where
  "sample_json = \<lparr>
     MarshalPreferences = (\<lambda>m. Inl (Errorf ''unsupported'' None)),
     UnmarshalPreferences = (\<lambda>t p. if t = ''{}'' then (None, Some fmempty) else (Some (Errorf ''bad'' None), p)),
     MarshalMetadata = (\<lambda>m. if m = fmupd ''k'' ''v'' fmempty then Inr ''{k:v}'' else Inl (Errorf ''unsupported'' None)),
     UnmarshalMetadata = (\<lambda>t p. if t = ''{}'' then (None, Some fmempty)
        else if t = ''{k:v}'' then (None, Some (fmupd ''k'' ''v'' fmempty)) else (Some (Errorf ''bad'' None), p)),
     MarshalAddresses = (\<lambda>as. Inl (Errorf ''unsupported'' None)),
     UnmarshalAddresses = (\<lambda>t p. if t = ''[]'' then (None, Some []) else (Some (Errorf ''bad'' None), p))\<rparr>"

definition sample_pg :: "sample_db Storage" where
  "sample_pg = postgres_Storage sample_pgx sample_lib sample_json"

lemma admin_serialized: "serialized sample_lib sample_json admin = Inr (''{}'', ''{}'', ''[]'')"
  by (simp add: serialized_def serializePreferences_def serializeMetadata_def serializeAddresses_def
      admin_def sample_user_def User_zero_def Profile_GetPreferences_def)

lemma sample_pg_add:
  "Server_AddUser sample_pg 0 admin fmempty =
     (Inr (), sample_write (pg_row sample_lib admin (''{}'', ''{}'', ''[]'')) fmempty)"
  by (simp add: Server_AddUser_def sample_pg_def postgres_Storage_def Postgres_Count_def Postgres_AddUser_def
      admin_serialized sample_pgx_def pg_row_args sample_row_args)

text \<open>Over a database that loses its answers the same call fails and has stored the user.\<close>

lemma lossy_add:
  "Server_AddUser (postgres_Storage (lossy e sample_pgx) sample_lib sample_json) 0 admin fmempty =
     (case Server_AddUser sample_pg 0 admin fmempty of (_, d') \<Rightarrow>
        (Inl (Errorf (''failed to add user: '' @ error_Error sample_lib e) (Some e)), d'))"
  by (simp add: Server_AddUser_def sample_pg_def postgres_Storage_def Postgres_Count_def Postgres_AddUser_def
      admin_serialized sample_pgx_def pg_row_args sample_row_args lossy_def errorf_def)

lemma sample_users_empty [simp]: "pg_users sample_tab L K fmempty = fmempty"
  by (rule fmap_ext) (simp add: pg_users_def)

theorem postgres_refines_witness:
  "case Server_AddUser sample_pg 0 admin fmempty of
     (Inl _, d') \<Rightarrow> False
   | (Inr _, d') \<Rightarrow> pg_users sample_tab sample_lib sample_json d' = fmupd 1
       (pg_keep (\<lambda>r. r) sample_lib sample_json None admin) fmempty"
  using postgres_refines [OF sample_db_law, where L = sample_lib and K = sample_json and now = 0 and u = admin
      and d = fmempty] sample_pg_add
  by (simp add: sample_pg_def table_added_def)

section \<open>Reading back\<close>

text \<open>
  A Go string is a sequence of bytes. \<open>utf8_valid\<close> is the check of \<open>utf8.ValidString\<close>: the well-formed
  sequences of one to four bytes, without overlong forms, surrogates and what is above 10FFFF.
\<close>

definition byte_in :: "char \<Rightarrow> nat \<Rightarrow> nat \<Rightarrow> bool" where
  "byte_in c lo hi \<longleftrightarrow> lo \<le> of_char c \<and> of_char c \<le> hi"

definition utf8_second :: "char \<Rightarrow> char \<Rightarrow> bool" where
  "utf8_second b c \<longleftrightarrow>
     (if byte_in b 0xE0 0xE0 then byte_in c 0xA0 0xBF
      else if byte_in b 0xED 0xED then byte_in c 0x80 0x9F
      else if byte_in b 0xF0 0xF0 then byte_in c 0x90 0xBF
      else if byte_in b 0xF4 0xF4 then byte_in c 0x80 0x8F
      else byte_in c 0x80 0xBF)"

fun utf8_valid :: "string \<Rightarrow> bool" where
  "utf8_valid [] \<longleftrightarrow> True"
| "utf8_valid (b # bs) \<longleftrightarrow>
     (if byte_in b 0 0x7F then utf8_valid bs
      else if byte_in b 0xC2 0xDF then (case bs of c # cs \<Rightarrow> utf8_second b c \<and> utf8_valid cs | _ \<Rightarrow> False)
      else if byte_in b 0xE0 0xEF then (case bs of c # d # cs \<Rightarrow>
          utf8_second b c \<and> byte_in d 0x80 0xBF \<and> utf8_valid cs | _ \<Rightarrow> False)
      else if byte_in b 0xF0 0xF4 then (case bs of c # d # e # cs \<Rightarrow>
          utf8_second b c \<and> byte_in d 0x80 0xBF \<and> byte_in e 0x80 0xBF \<and> utf8_valid cs | _ \<Rightarrow> False)
      else False)"

lemma utf8_samples:
  "utf8_valid ''plain''" "utf8_valid [CHR 0xC3, CHR 0xA9]" "\<not> utf8_valid [CHR 0xC3]" "\<not> utf8_valid [CHR 0xFF]"
  "\<not> utf8_valid [CHR 0xED, CHR 0xA0, CHR 0x80]"
  by code_simp+


definition pref_text :: "(string, int32) fmap \<Rightarrow> bool" where
  "pref_text m \<longleftrightarrow> fmpred (\<lambda>k _. utf8_valid k) m"

definition meta_text :: "(string, string) fmap \<Rightarrow> bool" where
  "meta_text m \<longleftrightarrow> fmpred (\<lambda>k v. utf8_valid k \<and> utf8_valid v) m"

lemma empty_text [simp]: "pref_text fmempty" "meta_text fmempty"
  by (simp_all add: pref_text_def meta_text_def)













section \<open>The queries of ListUsers\<close>

text \<open>PostgreSQL knows the clause \<open>LIMIT\<close> only after \<open>ORDER BY\<close>.\<close>

definition limit_law :: "'d pgx \<Rightarrow> bool" where
  "limit_law D \<longleftrightarrow> (\<forall>text n args d. \<exists>e.
     Query D (text @ '' LIMIT $'' @ dec n @ '' ORDER BY id'') args d = Inl e)"

text \<open>\<open>ListUsers\<close> over PostgreSQL fails on every request with a positive page size: the query
  puts \<open>LIMIT\<close> before \<open>ORDER BY\<close>. The handler returns the error of the database, not the users.\<close>

lemma postgres_paging_fails:
  assumes "limit_law D" and "0 <s lu_PageSize req"
  shows "\<exists>e. Server_ListUsers L (postgres_Storage D L K) now sends req d =
    ([], Some (Errorf (''failed to list users: '' @ error_Error L e) (Some e)))"
proof -
  let ?f = "request_filter L now req"
  obtain q args k where b3: "(let b0 = (list_query, [], 1);
           b1 = add_clause '' AND create_date >= $''
                  (map_option (\<lambda>c. SqlTime (time_Unix c)) (f_CreatedSince ?f)) b0;
           b2 = add_clause '' AND create_date < $''
                  (map_option (\<lambda>c. SqlTime (time_Unix c)) (f_OlderThan ?f)) b1
       in add_clause '' AND status = $'' (map_option SqlInt (f_Status ?f)) b2) = (q, args, k)"
    by (metis prod_cases3)
  have p: "f_PageSize ?f = lu_PageSize req" by (simp add: request_filter_def)
  have "list_building (Some ?f) = (q @ '' LIMIT $'' @ dec k, args @ [SqlInt (lu_PageSize req)], k + 1)"
    using b3 assms(2) by (simp add: list_building_def Let_def add_clause_def p)
  moreover obtain e where "Query D ((q @ '' LIMIT $'' @ dec k) @ '' ORDER BY id'') (args @ [SqlInt (lu_PageSize req)]) d = Inl e"
    using assms(1) unfolding limit_law_def by (metis append.assoc)
  ultimately show ?thesis
    by (simp add: Server_ListUsers_def postgres_Storage_def Postgres_ListUsers_def errorf_def)
qed

lemma sample_limit_law: "limit_law sample_pgx"
proof -
  have "q @ '' LIMIT $'' @ dec n @ '' ORDER BY id'' \<noteq> role_query" for q n
  proof
    assume "q @ '' LIMIT $'' @ dec n @ '' ORDER BY id'' = role_query"
    then have "last (q @ '' LIMIT $'' @ dec n @ '' ORDER BY id'') = last role_query" by simp
    then show False by (simp add: role_query_def sql_lines_def char_of_def)
  qed
  then show ?thesis by (simp add: limit_law_def sample_pgx_def)
qed

end
