(* ===== verification/Concurrency.thy ===== *)
theory Concurrency
  imports UserService
begin

text \<open>
  Concurrent calls. gRPC runs every call in a goroutine of its own, and \<open>MemoryStorage\<close> takes its
  lock for the length of one storage call: a handler that makes two storage calls can be
  interrupted between them. \<open>AddUser\<close> (count, then add) and \<open>UpdateUser\<close> (get, then update) make
  two, \<open>GetUser\<close> and \<open>DeleteUser\<close> one.
\<close>

section \<open>Handlers in steps\<close>

datatype call =
    CallAdd User
  | CallGet GetUserRequest
  | CallUpdate UpdateUserRequest
  | CallDelete DeleteUserRequest

text \<open>
  Where a call is: just called; before the second storage call, \<open>UpdateUser\<close> with the user it is
  about to write; or returned, with its answer.
\<close>

datatype phase =
    Called
  | Adding
  | Updating User
  | Returned "error + User option"

definition add_check :: "'s Storage \<Rightarrow> User \<Rightarrow> 's \<Rightarrow> phase" where
  "add_check S user s = (case Count S s of
     Inl _ \<Rightarrow> Returned (Inl (Status Internal ''failed to check user count''))
   | Inr count \<Rightarrow>
       if count = 0 \<and> u_Role user \<noteq> Role_ADMIN
       then Returned (Inl (Status InvalidArgument ''first user created must be an admin''))
       else if u_Id user = 0
       then Returned (Inl (Status InvalidArgument ''user ID must be greater than 0''))
       else if u_Username user = ''''
       then Returned (Inl (Status InvalidArgument ''username is required''))
       else Adding)"

definition add_store :: "'s Storage \<Rightarrow> time \<Rightarrow> User \<Rightarrow> 's \<Rightarrow> phase \<times> 's" where
  "add_store S now user s = (case AddUser S now user s of
     (Some err, _, s') \<Rightarrow> (Returned (Inl err), s')
   | (None, _, s') \<Rightarrow> (Returned (Inr None), s'))"

definition update_read :: "'s Storage \<Rightarrow> UpdateUserRequest \<Rightarrow> 's \<Rightarrow> phase" where
  "update_read S req s = (case uu_User req of
     None \<Rightarrow> Returned (Inl (Status InvalidArgument ''user is required''))
   | Some user \<Rightarrow>
       if u_Id user = 0
       then Returned (Inl (Status InvalidArgument ''user ID must be greater than 0''))
       else case GetUser S (u_Id user) s of
         Inl err \<Rightarrow> Returned (Inl err)
       | Inr existing \<Rightarrow>
           (case apply_update user (uu_UpdateMask req) existing of
              Inl err \<Rightarrow> Returned (Inl err)
            | Inr existing' \<Rightarrow> Updating existing'))"

definition update_store :: "'s Storage \<Rightarrow> User \<Rightarrow> 's \<Rightarrow> phase \<times> 's" where
  "update_store S existing s = (case UpdateUser S existing s of
     (Some err, s') \<Rightarrow> (Returned (Inl err), s')
   | (None, s') \<Rightarrow> (Returned (Inr (Some existing)), s'))"

text \<open>One step of a call, up to its next storage call or its answer.\<close>

fun advance :: "'s Storage \<Rightarrow> time \<Rightarrow> call \<Rightarrow> phase \<Rightarrow> 's \<Rightarrow> phase \<times> 's" where
  "advance S now (CallAdd user) Called s = (add_check S user s, s)"
| "advance S now (CallAdd user) Adding s = add_store S now user s"
| "advance S now (CallGet req) Called s =
     (case Server_GetUser S req s of (r, s') \<Rightarrow> (Returned (map_sum id Some r), s'))"
| "advance S now (CallUpdate req) Called s = (update_read S req s, s)"
| "advance S now (CallUpdate req) (Updating user) s = update_store S user s"
| "advance S now (CallDelete req) Called s =
     (case Server_DeleteUser S req s of (r, s') \<Rightarrow> (Returned (map_sum id (\<lambda>_. None) r), s'))"
| "advance S now _ ph s = (ph, s)"

text \<open>The same call when nothing comes in between: the handler of \<open>server.go\<close>.\<close>

fun serve_call :: "'s Storage \<Rightarrow> time \<Rightarrow> call \<Rightarrow> 's \<Rightarrow> (error + User option) \<times> 's" where
  "serve_call S now (CallAdd user) s = map_prod (map_sum id (\<lambda>_. None)) id (Server_AddUser S now user s)"
| "serve_call S now (CallGet req) s = map_prod (map_sum id Some) id (Server_GetUser S req s)"
| "serve_call S now (CallUpdate req) s = map_prod (map_sum id Some) id (Server_UpdateUser S req s)"
| "serve_call S now (CallDelete req) s = map_prod (map_sum id (\<lambda>_. None)) id (Server_DeleteUser S req s)"

lemma advance_alone:
  "advance S now c Called s = (ph, s1) \<Longrightarrow> advance S now c ph s1 =
     (case serve_call S now c s of (r, s2) \<Rightarrow> (Returned r, s2))"
  by (cases c)
    (auto simp: add_check_def add_store_def update_read_def update_store_def Server_AddUser_def
      Server_UpdateUser_def split: sum.splits option.splits prod.splits if_splits)

section \<open>Interleavings\<close>

type_synonym 's system = "(call \<times> phase) list \<times> 's"

text \<open>A new call comes in, or any call that is under way makes its next step.\<close>

inductive interleave :: "'s Storage \<Rightarrow> 's system \<Rightarrow> 's system \<Rightarrow> bool" for S where
  arrive: "interleave S (ts, s) (ts @ [(c, Called)], s)"
| run: "i < length ts \<Longrightarrow> ts ! i = (c, ph) \<Longrightarrow> \<not> (\<exists>r. ph = Returned r) \<Longrightarrow>
    advance S now c ph s = (ph', s') \<Longrightarrow> interleave S (ts, s) (ts[i := (c, ph')], s')"

inductive interleaved :: "'s Storage \<Rightarrow> 's system \<Rightarrow> 's system \<Rightarrow> bool" for S init where
  interleaved_start: "interleaved S init init"
| interleaved_step: "interleaved S init c1 \<Longrightarrow> interleave S c1 c2 \<Longrightarrow> interleaved S init c2"

inductive_cases interleaveE: "interleave S (ts, s) c"

text \<open>A schedule: the number of the call to move on (one after the last brings a new call in).\<close>

lemma interleaved_arrive:
  "interleaved S init (ts, s) \<Longrightarrow> interleaved S init (ts @ [(c, Called)], s)"
  by (blast intro: interleaved_step arrive)

lemma interleaved_run:
  "interleaved S init (ts, s) \<Longrightarrow> i < length ts \<Longrightarrow> ts ! i = (c, ph) \<Longrightarrow> \<not> (\<exists>r. ph = Returned r) \<Longrightarrow>
    advance S now c ph s = (ph', s') \<Longrightarrow> interleaved S init (ts[i := (c, ph')], s')"
  by (blast intro: interleaved_step run)

section \<open>Calls that only add and read are atomic\<close>

text \<open>Calls one after the other, each with the time it reads.\<close>

fun serial :: "'s Storage \<Rightarrow> (time \<times> call) list \<Rightarrow> 's \<Rightarrow> (error + User option) list \<times> 's" where
  "serial S [] s = ([], s)"
| "serial S ((now, c) # cs) s = (case serve_call S now c s of (r, s') \<Rightarrow>
     (case serial S cs s' of (rs, s'') \<Rightarrow> (r # rs, s'')))"

lemma serial_snoc:
  "serial S (cs @ [(now, c)]) s = (case serial S cs s of (rs, s') \<Rightarrow>
     (case serve_call S now c s' of (r, s'') \<Rightarrow> (rs @ [r], s'')))"
  by (induction S cs s rule: serial.induct) (auto split: prod.splits)

fun adds_or_gets :: "call \<Rightarrow> bool" where
  "adds_or_gets (CallAdd _) = True"
| "adds_or_gets (CallGet _) = True"
| "adds_or_gets _ = False"

fun ready :: "call \<Rightarrow> phase \<Rightarrow> (uint32, User) fmap \<Rightarrow> bool" where
  "ready (CallAdd u) Adding t \<longleftrightarrow>
     u_Id u \<noteq> 0 \<and> u_Username u \<noteq> [] \<and> (t = fmempty \<longrightarrow> u_Role u = Role_ADMIN)"
| "ready _ _ _ \<longleftrightarrow> True"

text \<open>
  The calls that have returned, in the order they did, with the time each read: run one after
  the other, they give every answer and the state of the storage.
\<close>

definition calls_at :: "(call \<times> phase) list \<Rightarrow> (nat \<times> time) list \<Rightarrow> (time \<times> call) list" where
  "calls_at ts order = map (\<lambda>(i, now). (now, fst (ts ! i))) order"

definition phases_at :: "(call \<times> phase) list \<Rightarrow> (nat \<times> time) list \<Rightarrow> phase list" where
  "phases_at ts order = map (\<lambda>(i, _). snd (ts ! i)) order"

definition returned :: "(call \<times> phase) list \<Rightarrow> nat \<Rightarrow> bool" where
  "returned ts i \<longleftrightarrow> i < length ts \<and> (case snd (ts ! i) of Returned _ \<Rightarrow> True | _ \<Rightarrow> False)"

definition explained :: "'s Storage \<Rightarrow> 's \<Rightarrow> (nat \<times> time) list \<Rightarrow> 's system \<Rightarrow> bool" where
  "explained S s0 order c \<longleftrightarrow> (case c of (ts, s) \<Rightarrow>
     distinct (map fst order) \<and> (\<forall>i. i \<in> set (map fst order) \<longleftrightarrow> returned ts i) \<and>
     (\<exists>rs. serial S (calls_at ts order) s0 = (rs, s) \<and> phases_at ts order = map Returned rs))"

lemma at_snoc [simp]:
  "calls_at ts (order @ [(i, now)]) = calls_at ts order @ [(now, fst (ts ! i))]"
  "phases_at ts (order @ [(i, now)]) = phases_at ts order @ [snd (ts ! i)]"
  by (simp_all add: calls_at_def phases_at_def)

lemma at_same:
  assumes "\<And>j. j \<in> set (map fst order) \<Longrightarrow> ts' ! j = ts ! j"
  shows "calls_at ts' order = calls_at ts order" and "phases_at ts' order = phases_at ts order"
  using assms by (force simp: calls_at_def phases_at_def)+

lemma returned_upd:
  "i < length ts \<Longrightarrow> returned (ts[i := (c, ph)]) j \<longleftrightarrow>
     (if j = i then (case ph of Returned _ \<Rightarrow> True | _ \<Rightarrow> False) else returned ts j)"
  by (auto simp: returned_def nth_list_update)

lemma returned_new [simp]: "returned (ts @ [(c, Called)]) j \<longleftrightarrow> returned ts j"
  by (auto simp: returned_def nth_append less_Suc_eq)

lemma explained_move:
  assumes "explained S s0 order (ts, s)" and "i < length ts" and "\<not> returned ts i"
  shows "\<not> returned (ts[i := (c, ph)]) i \<Longrightarrow> explained S s0 order (ts[i := (c, ph)], s)"
    and "serve_call S now c s = (r, s') \<Longrightarrow>
      explained S s0 (order @ [(i, now)]) (ts[i := (c, Returned r)], s')"
proof -
  from assms obtain rs where o: "distinct (map fst order)" "\<And>j. j \<in> set (map fst order) \<longleftrightarrow> returned ts j"
    and rs: "serial S (calls_at ts order) s0 = (rs, s)" "phases_at ts order = map Returned rs"
    by (auto simp: explained_def)
  have i: "i \<notin> set (map fst order)" using o(2) assms(3) by simp
  have same: "calls_at (ts[i := x]) order = calls_at ts order"
    "phases_at (ts[i := x]) order = phases_at ts order" for x
    by (rule at_same; use i in \<open>metis nth_list_update_neq\<close>)+
  show "explained S s0 order (ts[i := (c, ph)], s)" if "\<not> returned (ts[i := (c, ph)]) i"
    unfolding explained_def prod.case same
  proof (intro conjI allI)
    show "j \<in> set (map fst order) \<longleftrightarrow> returned (ts[i := (c, ph)]) j" for j
      using that assms(2,3) o(2) by (metis returned_upd)
  qed (use o(1) rs in auto)
  assume r: "serve_call S now c s = (r, s')"
  show "explained S s0 (order @ [(i, now)]) (ts[i := (c, Returned r)], s')"
    unfolding explained_def prod.case at_snoc same serial_snoc rs
  proof (intro conjI allI)
    show "j \<in> set (map fst (order @ [(i, now)])) \<longleftrightarrow> returned (ts[i := (c, Returned r)]) j" for j
      using o(2) [of j] by (auto simp: returned_upd [OF assms(2)])
  qed (use o(1) i r assms(2) in \<open>auto simp: rs\<close>)
qed

lemma explained_arrive:
  assumes "explained S s0 order (ts, s)"
  shows "explained S s0 order (ts @ [(c, Called)], s)"
proof -
  have "j < length ts" if "j \<in> set (map fst order)" for j
    using assms that by (auto simp: explained_def returned_def)
  then have "calls_at (ts @ [(c, Called)]) order = calls_at ts order"
    "phases_at (ts @ [(c, Called)]) order = phases_at ts order"
    by (intro at_same; simp add: nth_append)+
  with assms show ?thesis by (simp add: explained_def)
qed

context strict_store begin

lemma advance_grows:
  assumes "inv s" and "adds_or_gets c" and "advance S now c ph s = (ph', s')"
  shows "inv s'" and "look s \<noteq> fmempty \<Longrightarrow> look s' \<noteq> fmempty"
proof -
  have "s' = s \<or> (\<exists>u r u'. AddUser S now u s = (r, u', s'))"
  proof (cases c)
    case (CallAdd u)
    obtain r u' s1 where a: "AddUser S now u s = (r, u', s1)" by (cases "AddUser S now u s")
    show ?thesis
      using assms(3) a CallAdd by (cases ph; cases r) (auto simp: add_store_def)
  next
    case (CallGet req)
    then show ?thesis
      using assms(3) serve_get_state [of req s] by (cases ph) (auto split: prod.splits)
  qed (use assms(2) in simp_all)
  then have "inv s' \<and> (look s \<noteq> fmempty \<longrightarrow> look s' \<noteq> fmempty)"
  proof
    assume "\<exists>u r u'. AddUser S now u s = (r, u', s')"
    then obtain u r u' where a: "AddUser S now u s = (r, u', s')" by blast
    then show ?thesis
      using add_inv [OF assms(1) a] add_ok [OF assms(1)] add_kept [OF assms(1)] by (cases r) auto
  qed (use assms(1) in simp)
  then show "inv s'" "look s \<noteq> fmempty \<Longrightarrow> look s' \<noteq> fmempty" by simp_all
qed

lemma advance_atomic:
  assumes "inv s" and "adds_or_gets c" and "ready c ph (look s)" and "\<forall>r. ph \<noteq> Returned r"
    and "advance S now c ph s = (ph', s')"
  shows "(\<exists>r. ph' = Returned r \<and> serve_call S now c s = (r, s')) \<or>
    \<not> (\<exists>r. ph' = Returned r) \<and> s' = s \<and> ready c ph' (look s)"
proof (cases c)
  case (CallAdd u)
  obtain r u' s1 where a: "AddUser S now u s = (r, u', s1)" by (cases "AddUser S now u s")
  show ?thesis
  proof (cases ph)
    case Called
    with CallAdd assms(5) have "ph' = add_check S u s" "s' = s" by auto
    then show ?thesis
      using count_total [OF assms(1)] CallAdd by (auto simp: add_check_def Server_AddUser_def)
  next
    case Adding
    then show ?thesis
      using assms(3,5) count_total [OF assms(1)] CallAdd a
      by (cases r) (auto simp: add_store_def Server_AddUser_def fmdom_empty_iff)
  qed (use assms(4,5) CallAdd in auto)
next
  case (CallGet req)
  then show ?thesis using assms(4,5) by (cases ph) (auto split: prod.splits)
qed (use assms(2) in simp_all)

lemma interleaved_explained:
  assumes "interleaved S ([], s0) c" and "inv s0" and "\<forall>(c, ph) \<in> set (fst c). adds_or_gets c"
  shows "inv (snd c) \<and> (\<forall>(c', ph) \<in> set (fst c). ready c' ph (look (snd c))) \<and>
    (\<exists>order. explained S s0 order c)"
  using assms(1,3)
proof (induction rule: interleaved.induct)
  case interleaved_start
  have "explained S s0 [] ([], s0)" by (simp add: explained_def returned_def calls_at_def phases_at_def)
  with assms(2) show ?case by auto
next
  case (interleaved_step c1 c2)
  obtain ts s where c1: "c1 = (ts, s)" by (cases c1)
  from interleaved_step.hyps(2) show ?case unfolding c1
  proof (rule interleaveE, goal_cases)
    case arrive: (1 c)
    then show ?thesis
      using interleaved_step.IH interleaved_step.prems by (auto simp: c1 intro: explained_arrive)
  next
    case run: (2 i c ph now ph' s')
    have ts: "\<forall>(c, ph) \<in> set ts. adds_or_gets c" and c: "adds_or_gets c"
    proof -
      have "c' \<in> fst ` set ts \<Longrightarrow> c' \<in> fst ` set (ts[i := (c, ph')])" for c'
      proof -
        have "map fst (ts[i := (c, ph')]) = map fst ts"
          using run(2,3) by (metis fst_conv list_update_id map_update nth_map)
        then show "c' \<in> fst ` set ts \<Longrightarrow> c' \<in> fst ` set (ts[i := (c, ph')])"
          by (metis set_map)
      qed
      with interleaved_step.prems show "\<forall>(c, ph) \<in> set ts. adds_or_gets c"
        unfolding run(1) by (fastforce simp: image_iff)
      then show "adds_or_gets c" using run(2,3) nth_mem by fastforce
    qed
    with interleaved_step.IH c1 obtain order where s: "inv s" "\<forall>(c', ph) \<in> set ts. ready c' ph (look s)"
      and e: "explained S s0 order (ts, s)" by auto
    have r: "ready c ph (look s)" using s(2) run(2,3) nth_mem by fastforce
    note go = advance_atomic [OF s(1) c r run(4,5)]
    have fresh: "\<not> returned ts i"
      using run(3,4) by (simp add: returned_def split: phase.splits)
    have grow: "look s' = fmempty \<longrightarrow> look s = fmempty"
      using advance_grows(2) [OF s(1) c run(5)] by blast
    have keeps: "ready c' p (look s')" if "(c', p) \<in> set ts" for c' p
    proof -
      from s(2) that have "ready c' p (look s)" by auto
      with grow show ?thesis by (cases "(c', p, look s)" rule: ready.cases) auto
    qed
    have "ready c ph' (look s')" using go by auto
    then have "\<forall>(c', ph) \<in> set (ts[i := (c, ph')]). ready c' ph (look s')"
    proof (intro ballI, clarify)
      fix c' p assume "(c', p) \<in> set (ts[i := (c, ph')])"
      then have "(c', p) \<in> insert (c, ph') (set ts)" by (rule set_update_subset_insert [THEN subsetD])
      then show "ready c' p (look s')" using keeps \<open>ready c ph' (look s')\<close> by blast
    qed
    moreover have "\<exists>order. explained S s0 order (ts[i := (c, ph')], s')"
    proof (cases "\<exists>r. ph' = Returned r")
      case True
      with go obtain r where "ph' = Returned r" "serve_call S now c s = (r, s')" by blast
      then show ?thesis using explained_move(2) [OF e run(2) fresh] by blast
    next
      case False
      then have "\<not> returned (ts[i := (c, ph')]) i"
        by (simp add: returned_upd [OF run(2)] split: phase.splits)
      with False go show ?thesis using explained_move(1) [OF e run(2) fresh] by metis
    qed
    ultimately show ?thesis using run(1) advance_grows(1) [OF s(1) c run(5)] by simp
  qed
qed

end

section \<open>What interleaving does to the service\<close>

text \<open>C7. Concurrent \<open>AddUser\<close> and \<open>GetUser\<close> calls are atomic, although \<open>AddUser\<close> counts the users
  and adds one under two separate locks: whatever the interleaving, the calls that have returned
  gave the answers, and left the storage, of the handlers run one after the other in some order.\<close>

theorem adds_serializable:
  assumes "mem_inv m0" and "interleaved (memory_Storage L ord clk) ([], m0) (ts, m)"
    and "\<forall>(c, ph) \<in> set ts. adds_or_gets c"
  shows "\<exists>order rs. distinct (map fst order) \<and>
    (\<forall>i. i \<in> set (map fst order) \<longleftrightarrow> i < length ts \<and> (\<exists>r. snd (ts ! i) = Returned r)) \<and>
    serial (memory_Storage L ord clk) (map (\<lambda>(i, now). (now, fst (ts ! i))) order) m0 = (rs, m) \<and>
    map (\<lambda>(i, now). snd (ts ! i)) order = map Returned rs"
proof -
  from mem.interleaved_explained [OF assms(2,1)] assms(3) obtain order
    where "explained (memory_Storage L ord clk) m0 order (ts, m)" by auto
  moreover have "returned ts i \<longleftrightarrow> i < length ts \<and> (\<exists>r. snd (ts ! i) = Returned r)" for i
    by (auto simp: returned_def split: phase.splits)
  ultimately show ?thesis unfolding explained_def calls_at_def phases_at_def by auto
qed

text \<open>Two calls into an empty storage, the first of which has been refused.\<close>

definition racing :: "(call \<times> phase) list" where
  "racing = [(CallAdd guest, Returned (Inl (Status InvalidArgument ''first user created must be an admin''))),
     (CallAdd admin, Called)]"

theorem adds_serializable_witness:
  "\<exists>order rs. distinct (map fst order) \<and>
    (\<forall>i. i \<in> set (map fst order) \<longleftrightarrow> i < length racing \<and> (\<exists>r. snd (racing ! i) = Returned r)) \<and>
    serial sample_store (map (\<lambda>(i, now). (now, fst (racing ! i))) order) NewMemoryStorage = (rs, NewMemoryStorage) \<and>
    map (\<lambda>(i, now). snd (racing ! i)) order = map Returned rs"
proof -
  let ?r = "Returned (Inl (Status InvalidArgument ''first user created must be an admin''))"
  have "interleaved sample_store ([], NewMemoryStorage) ([] @ [(CallAdd guest, Called)], NewMemoryStorage)"
    by (rule interleaved_arrive [OF interleaved_start])
  then have "interleaved sample_store ([], NewMemoryStorage)
      (([] @ [(CallAdd guest, Called)]) @ [(CallAdd admin, Called)], NewMemoryStorage)"
    by (rule interleaved_arrive)
  then have "interleaved sample_store ([], NewMemoryStorage)
      ([(CallAdd guest, Called), (CallAdd admin, Called)], NewMemoryStorage)" by simp
  from interleaved_run [OF this, of 0 "CallAdd guest" Called 0 ?r NewMemoryStorage]
  have "interleaved sample_store ([], NewMemoryStorage)
      (racing, NewMemoryStorage)"
    by (simp add: racing_def add_check_def MemoryStorage_Count_def NewMemoryStorage_def enum_defs)
  then show ?thesis by (rule adds_serializable [OF mem_inv_New]) (simp add: racing_def)
qed

text \<open>C13. Two concurrent updates of a user can both be acknowledged and one of them lost, because
  \<open>UpdateUser\<close> reads the user and writes it back under two separate locks: for any two accepted
  updates of a stored user there is an interleaving after which both have returned their result
  and the user is what the second made of the user as it was before the first.\<close>

theorem lost_update:
  assumes "mem_inv m" and "fmlookup (users m) i = Some old" and "i \<noteq> 0"
    and "u_Id a = i" and "apply_update a ma old = Inr a'"
    and "u_Id b = i" and "apply_update b mb old = Inr b'"
  shows "interleaved (memory_Storage L ord clk) ([], m)
    ([(CallUpdate \<lparr>uu_User = Some a, uu_UpdateMask = ma\<rparr>, Returned (Inr (Some a'))),
      (CallUpdate \<lparr>uu_User = Some b, uu_UpdateMask = mb\<rparr>, Returned (Inr (Some b')))],
     m\<lparr>users := fmupd i (clone_fields b') (users m)\<rparr>)"
proof -
  let ?S = "memory_Storage L ord clk"
  let ?a = "CallUpdate \<lparr>uu_User = Some a, uu_UpdateMask = ma\<rparr>"
  let ?b = "CallUpdate \<lparr>uu_User = Some b, uu_UpdateMask = mb\<rparr>"
  note old = mem_invD [OF assms(1,2)]
  have id: "u_Id a' = i" "u_Id b' = i"
    using apply_update_ok [OF assms(5)] apply_update_ok [OF assms(7)] old by simp_all
  note steps = interleaved_run [where S = ?S and init = "([], m)" and now = 0]
  have "interleaved ?S ([], m) ([] @ [(?a, Called)], m)"
    by (rule interleaved_arrive [OF interleaved_start])
  then have "interleaved ?S ([], m) (([] @ [(?a, Called)]) @ [(?b, Called)], m)"
    by (rule interleaved_arrive)
  then have "interleaved ?S ([], m) ([(?a, Called), (?b, Called)], m)" by simp
  then have "interleaved ?S ([], m) ([(?a, Updating a'), (?b, Called)], m)"
    using steps [of "[(?a, Called), (?b, Called)]" m 0 ?a Called "Updating a'" m] assms old
    by (simp add: update_read_def MemoryStorage_GetUser_def)
  then have "interleaved ?S ([], m) ([(?a, Updating a'), (?b, Updating b')], m)"
    using steps [of "[(?a, Updating a'), (?b, Called)]" m 1 ?b Called "Updating b'" m] assms old
    by (simp add: update_read_def MemoryStorage_GetUser_def)
  then have "interleaved ?S ([], m) ([(?a, Returned (Inr (Some a'))), (?b, Updating b')],
      m\<lparr>users := fmupd i (clone_fields a') (users m)\<rparr>)"
    using steps [of "[(?a, Updating a'), (?b, Updating b')]" m 0 ?a "Updating a'" "Returned (Inr (Some a'))"
        "m\<lparr>users := fmupd i (clone_fields a') (users m)\<rparr>"] assms(2) id
    by (simp add: update_store_def MemoryStorage_UpdateUser_def)
  then show ?thesis
    using steps [of "[(?a, Returned (Inr (Some a'))), (?b, Updating b')]"
        "m\<lparr>users := fmupd i (clone_fields a') (users m)\<rparr>" 1 ?b "Updating b'" "Returned (Inr (Some b'))"
        "m\<lparr>users := fmupd i (clone_fields b') (users m)\<rparr>"] id
    by (simp add: update_store_def MemoryStorage_UpdateUser_def fmupd_idem)
qed

theorem lost_update_witness:
  "interleaved sample_store ([], sample_mem)
    ([(CallUpdate \<lparr>uu_User = Some (guest\<lparr>u_Username := ''bob''\<rparr>), uu_UpdateMask = Some [''username'']\<rparr>,
         Returned (Inr (Some (clone_fields (guest\<lparr>u_Username := ''bob''\<rparr>))))),
      (CallUpdate \<lparr>uu_User = Some (guest\<lparr>u_Role := Role_MEMBER\<rparr>), uu_UpdateMask = Some [''role'']\<rparr>,
         Returned (Inr (Some (clone_fields (guest\<lparr>u_Role := Role_MEMBER\<rparr>)))))],
     sample_mem\<lparr>users := fmupd 2 (clone_fields (guest\<lparr>u_Role := Role_MEMBER\<rparr>)) (users sample_mem)\<rparr>) \<and>
   u_Username (clone_fields (guest\<lparr>u_Role := Role_MEMBER\<rparr>)) = ''guest''"
proof -
  have a: "apply_update (guest\<lparr>u_Username := ''bob''\<rparr>) (Some [''username'']) (clone_fields guest) =
      Inr (clone_fields (guest\<lparr>u_Username := ''bob''\<rparr>))"
    by (simp add: apply_update_def apply_path_def clone_fields_eq)
  have b: "apply_update (guest\<lparr>u_Role := Role_MEMBER\<rparr>) (Some [''role'']) (clone_fields guest) =
      Inr (clone_fields (guest\<lparr>u_Role := Role_MEMBER\<rparr>))"
    by (simp add: apply_update_def apply_path_def clone_fields_eq)
  show ?thesis
    using lost_update [OF sample_mem_inv sample_mem_lookup(2) _ _ a _ b, of sample_lib "\<lambda>_. [1, 2]" "\<lambda>_. (0, 0)"]
    by simp
qed

end
