(* ===== verification/Telemetry.thy ===== *)
theory Telemetry
  imports Startup
begin

text \<open>
  \<open>otel/setup.go\<close>: starting the providers of traces and metrics, and the function that stops
  them. The SDK is not under \<open>src/\<close>: whether one of its calls fails is the record \<open>sdk\<close>, and the
  calls the code makes are recorded in the order they are made.
\<close>

section \<open>The SDK\<close>

datatype sdk_call =
    NewResource "(string \<times> string) list"
  | NewTraceExporter string
  | NewTracerProvider int nat
  | SetTracerProvider
  | SetTextMapPropagator "string list"
  | NewMetricExporter string
  | NewMeterProvider int
  | SetMeterProvider
  | StopTracerProvider
  | StopMeterProvider
  | LogLine string

type_synonym sdk_log = "sdk_call list"

record sdk =
  fail_resource :: "error option"
  fail_trace_exporter :: "error option"
  fail_metric_exporter :: "error option"
  fail_trace_stop :: "sdk_log \<Rightarrow> error option"
  fail_metric_stop :: "sdk_log \<Rightarrow> error option"

section \<open>Setup\<close>

record otel_config =
  ServiceName :: string
  ServiceVersion :: string
  Environment :: string
  OTLPEndpoint :: string
  Enabled :: bool

type_synonym Shutdown = "sdk_log \<Rightarrow> error option \<times> sdk_log"

definition trace_Shutdown :: "sdk \<Rightarrow> Shutdown" where
  "trace_Shutdown K w = (fail_trace_stop K w, w @ [StopTracerProvider])"

definition metric_Shutdown :: "sdk \<Rightarrow> Shutdown" where
  "metric_Shutdown K w = (fail_metric_stop K w, w @ [StopMeterProvider])"

definition second :: int where "second = 10 ^ 9"

definition setupTraceProvider :: "sdk \<Rightarrow> lib \<Rightarrow> string \<Rightarrow> sdk_log \<Rightarrow> (error + Shutdown) \<times> sdk_log" where
  "setupTraceProvider K L endpoint w =
     (let w1 = w @ [NewTraceExporter endpoint]
      in case fail_trace_exporter K of
        Some err \<Rightarrow> (Inl (wrap_error L ''failed to create trace exporter: '' err), w1)
      | None \<Rightarrow> (Inr (trace_Shutdown K),
          w1 @ [NewTracerProvider (5 * second) 512, SetTracerProvider,
            SetTextMapPropagator [''TraceContext'', ''Baggage''], LogLine ''Trace provider initialized'']))"

definition setupMetricProvider :: "sdk \<Rightarrow> lib \<Rightarrow> string \<Rightarrow> sdk_log \<Rightarrow> (error + Shutdown) \<times> sdk_log" where
  "setupMetricProvider K L endpoint w =
     (let w1 = w @ [NewMetricExporter endpoint]
      in case fail_metric_exporter K of
        Some err \<Rightarrow> (Inl (wrap_error L ''failed to create metric exporter: '' err), w1)
      | None \<Rightarrow> (Inr (metric_Shutdown K),
          w1 @ [NewMeterProvider (10 * second), SetMeterProvider, LogLine ''Metric provider initialized'']))"

text \<open>The combined shutdown: metrics first, traces in any case, both errors in the answer.\<close>

definition combined_shutdown :: "lib \<Rightarrow> Shutdown \<Rightarrow> Shutdown \<Rightarrow> Shutdown" where
  "combined_shutdown L metricShutdown traceShutdown w =
     (case metricShutdown w of (mErr, w1) \<Rightarrow>
        let err = (case mErr of None \<Rightarrow> None
                   | Some m \<Rightarrow> Some (wrap_error L ''metric shutdown error: '' m))
        in case traceShutdown w1 of (tErr, w2) \<Rightarrow>
          ((case tErr of
              None \<Rightarrow> err
            | Some t \<Rightarrow> (case err of
                Some e \<Rightarrow> Some (wrap_error L (error_Error L e @ ''; trace shutdown error: '') t)
              | None \<Rightarrow> Some (wrap_error L ''trace shutdown error: '' t))), w2))"

definition Setup :: "sdk \<Rightarrow> lib \<Rightarrow> otel_config \<Rightarrow> sdk_log \<Rightarrow> (error + Shutdown) \<times> sdk_log" where
  "Setup K L config w =
     (if \<not> Enabled config
      then (Inr (\<lambda>w. (None, w)), w @ [LogLine ''OpenTelemetry is disabled''])
      else
        let w1 = w @ [NewResource [(''service.name'', ServiceName config),
              (''service.version'', ServiceVersion config),
              (''deployment.environment'', Environment config)]]
        in case fail_resource K of
          Some err \<Rightarrow> (Inl (wrap_error L ''failed to create resource: '' err), w1)
        | None \<Rightarrow> (case setupTraceProvider K L (OTLPEndpoint config) w1 of
            (Inl err, w2) \<Rightarrow> (Inl (wrap_error L ''failed to setup trace provider: '' err), w2)
          | (Inr traceShutdown, w2) \<Rightarrow> (case setupMetricProvider K L (OTLPEndpoint config) w2 of
              (Inl err, w3) \<Rightarrow> (case traceShutdown w3 of (_, w4) \<Rightarrow>
                (Inl (wrap_error L ''failed to setup metric provider: '' err), w4))
            | (Inr metricShutdown, w3) \<Rightarrow>
                (Inr (combined_shutdown L metricShutdown traceShutdown),
                 w3 @ [LogLine (''OpenTelemetry initialized: service='' @ ServiceName config @
                   '', version='' @ ServiceVersion config @ '', endpoint='' @ OTLPEndpoint config)]))))"

text \<open>The name of the span of an HTTP request, and a wrapped handler.\<close>

definition span_name :: "string \<Rightarrow> string \<Rightarrow> string" where
  "span_name meth path = meth @ '' '' @ path"

definition WrapHandler ::
    "('handler \<Rightarrow> string \<Rightarrow> (string \<Rightarrow> string \<Rightarrow> string \<Rightarrow> string) \<Rightarrow> 'handler) \<Rightarrow> 'handler \<Rightarrow> string \<Rightarrow> 'handler" where
  "WrapHandler NewHandler handler service =
     NewHandler handler service (\<lambda>operation meth path. span_name meth path)"

definition WrapMux ::
    "('handler \<Rightarrow> string \<Rightarrow> (string \<Rightarrow> string \<Rightarrow> string \<Rightarrow> string) \<Rightarrow> 'handler) \<Rightarrow> 'handler \<Rightarrow> string \<Rightarrow> 'handler" where
  "WrapMux NewHandler mux service = WrapHandler NewHandler mux service"

section \<open>What is running\<close>

text \<open>The providers started and not stopped since, in the order they were started.\<close>

datatype provider = Traces | Metrics

fun provider_after :: "provider list \<Rightarrow> sdk_call \<Rightarrow> provider list" where
  "provider_after ps (NewTracerProvider _ _) = ps @ [Traces]"
| "provider_after ps (NewMeterProvider _) = ps @ [Metrics]"
| "provider_after ps StopTracerProvider = filter (\<lambda>p. p \<noteq> Traces) ps"
| "provider_after ps StopMeterProvider = filter (\<lambda>p. p \<noteq> Metrics) ps"
| "provider_after ps _ = ps"

definition providers :: "sdk_log \<Rightarrow> provider list" where
  "providers w = foldl provider_after [] w"

lemma providers_append [simp]: "providers (w @ v) = foldl provider_after (providers w) v"
  by (simp add: providers_def)

lemma providers_Nil [simp]: "providers [] = []"
  by (simp add: providers_def)

lemma providers_Cons [simp]: "providers (c # w) = foldl provider_after (provider_after [] c) w"
  by (simp add: providers_def)

lemmas setup_defs = Setup_def setupTraceProvider_def setupMetricProvider_def combined_shutdown_def
  trace_Shutdown_def metric_Shutdown_def Let_def

text \<open>
  The calls \<open>main\<close> makes: \<open>Setup\<close> with the flags, and its shutdown function in the order of
  \<open>main_shutdown\<close>.
\<close>

definition main_otel_config :: "Flags \<Rightarrow> otel_config" where
  "main_otel_config flags = \<lparr>ServiceName = serviceName flags, ServiceVersion = ''1.0.0'',
     Environment = environment flags, OTLPEndpoint = otelEndpoint flags, Enabled = True\<rparr>"

fun stop_actions :: "Shutdown \<Rightarrow> action list \<Rightarrow> sdk_log \<Rightarrow> sdk_log" where
  "stop_actions sd [] w = w"
| "stop_actions sd (a # as) w = stop_actions sd as (if a = ShutdownOtel then snd (sd w) else w)"

lemma wrap_error_text [simp]: "error_Error L (wrap_error L s e) = s @ error_Error L e"
  by (simp add: wrap_error_def)

lemma combined_stops [simp]:
  "providers (snd (combined_shutdown L (metric_Shutdown K) (trace_Shutdown K) w)) = []"
proof -
  have "p = Traces \<or> p = Metrics" for p by (cases p) simp_all
  then show ?thesis by (auto simp: setup_defs filter_empty_conv)
qed

text \<open>What the combined shutdown answers, and what is left of a \<open>Setup\<close>.\<close>

lemma combined_error:
  "map_option (error_Error L) (fst (combined_shutdown L (metric_Shutdown K) (trace_Shutdown K) w)) =
    (case (fail_metric_stop K w, fail_trace_stop K (w @ [StopMeterProvider])) of
       (None, None) \<Rightarrow> None
     | (Some m, None) \<Rightarrow> Some (''metric shutdown error: '' @ error_Error L m)
     | (None, Some t) \<Rightarrow> Some (''trace shutdown error: '' @ error_Error L t)
     | (Some m, Some t) \<Rightarrow> Some (''metric shutdown error: '' @ error_Error L m @
         ''; trace shutdown error: '' @ error_Error L t))"
  by (simp add: setup_defs split: option.splits)

lemma Setup_enabled:
  assumes "Setup K L config [] = (Inr sd, w)" and "Enabled config"
  shows "sd = combined_shutdown L (metric_Shutdown K) (trace_Shutdown K)"
    and "providers w = [Traces, Metrics]" and "SetTracerProvider \<in> set w" and "SetMeterProvider \<in> set w"
  using assms
  by (auto simp: Setup_def setupTraceProvider_def setupMetricProvider_def trace_Shutdown_def Let_def
      split: option.splits if_splits)

lemma Setup_failed: "Setup K L config [] = (Inl e, w) \<Longrightarrow> providers w = []"
  by (auto simp: Setup_def setupTraceProvider_def setupMetricProvider_def trace_Shutdown_def Let_def
      split: option.splits if_splits)

lemma Setup_disabled: "\<not> Enabled config \<Longrightarrow>
    Setup K L config w = (Inr (\<lambda>w. (None, w)), w @ [LogLine ''OpenTelemetry is disabled''])"
  by (simp add: Setup_def)

text \<open>C27. Telemetry is all or nothing: when \<open>Setup\<close> fails no provider keeps running, whichever call
  failed; when it succeeds with telemetry on, exactly one provider of each kind runs and is the
  global one, and the function it returns stops both even if one of the two fails to stop, and
  names every failure in its answer.\<close>

theorem setup_all_or_nothing:
  "case Setup K L config [] of
     (Inl e, w) \<Rightarrow> providers w = []
   | (Inr sd, w) \<Rightarrow>
       providers w = (if Enabled config then [Traces, Metrics] else []) \<and>
       (SetTracerProvider \<in> set w \<longleftrightarrow> Enabled config) \<and>
       (SetMeterProvider \<in> set w \<longleftrightarrow> Enabled config) \<and>
       providers (snd (sd w)) = [] \<and>
       map_option (error_Error L) (fst (sd w)) =
         (if Enabled config
          then (case (fail_metric_stop K w, fail_trace_stop K (w @ [StopMeterProvider])) of
              (None, None) \<Rightarrow> None
            | (Some m, None) \<Rightarrow> Some (''metric shutdown error: '' @ error_Error L m)
            | (None, Some t) \<Rightarrow> Some (''trace shutdown error: '' @ error_Error L t)
            | (Some m, Some t) \<Rightarrow> Some (''metric shutdown error: '' @ error_Error L m @
                ''; trace shutdown error: '' @ error_Error L t))
          else None)"
proof (cases "Setup K L config []")
  case (Pair r w)
  show ?thesis
  proof (cases r)
    case (Inl e)
    with Pair show ?thesis using Setup_failed by simp
  next
    case (Inr sd)
    show ?thesis
    proof (cases "Enabled config")
      case True
      with Pair Inr show ?thesis using Setup_enabled [of K L config sd w] combined_error [of L K w] by simp
    qed (use Pair Inr in \<open>auto simp: Setup_disabled\<close>)
  qed
qed

text \<open>Once \<open>main\<close> waits for a signal, its shutdown stops what its \<open>Setup\<close> started.\<close>

lemma main_stops_telemetry:
  assumes "Setup K L (main_otel_config flags) [] = (Inr sd, w)" and "otelEnabled flags"
  shows "providers w = [Traces, Metrics]" and "providers (stop_actions sd (main_shutdown flags) w) = []"
proof -
  note s = Setup_enabled [OF assms(1)]
  show "providers w = [Traces, Metrics]" using s(2) by (simp add: main_otel_config_def)
  show "providers (stop_actions sd (main_shutdown flags) w) = []"
    using s(1) assms(2) by (simp add: main_otel_config_def main_shutdown_def)
qed

end
