(* ===== verification/Respawn.thy ===== *)
theory Respawn
  imports Startup Samples
begin

text \<open>
  \<open>cmd/respawn/main.go\<close>: a server that hands its listening socket to a new process. One process
  is \<open>respawn_main\<close>; the processes that hand the socket on are the steps of \<open>respawn_step\<close>. What
  the operating system answers is the record \<open>proc_os\<close>. \<open>server.Shutdown\<close> is called with a context
  that is never cancelled, so it waits for as long as a connection stays busy: it need not return,
  which is the value \<open>None\<close> of \<open>server_Shutdown\<close>.
\<close>

section \<open>One process\<close>

record proc_os =
  FileListener :: "error option"
  tcp_Listen :: "string \<Rightarrow> error option"
  listener_File :: "error option"
  cmd_Start :: "error option"
  server_Shutdown :: "error option option"

text \<open>The signals of the \<open>switch\<close>, with their names on Linux, and any other, which the \<open>switch\<close> passes
  over (\<open>signal.Notify\<close> registers the channel for the first three only).\<close>

datatype signal = SIGINT | SIGTERM | SIGUSR2 | OtherSignal string

fun signal_String :: "signal \<Rightarrow> string" where
  "signal_String SIGINT = ''interrupt''"
| "signal_String SIGTERM = ''terminated''"
| "signal_String SIGUSR2 = ''user defined signal 2''"
| "signal_String (OtherSignal name) = name"

text \<open>What a process does, in order: printed lines, the child it starts, the shutdown of its server.\<close>

datatype event = Println string | Spawn env | Shutdown

definition listenerFDEnv :: string where
  "listenerFDEnv = ''LISTENER_FD''"

definition acquire_listener :: "lib \<Rightarrow> proc_os \<Rightarrow> env \<Rightarrow> event list \<times> bool" where
  "acquire_listener L os env =
     (if Getenv env listenerFDEnv \<noteq> ''''
      then (case FileListener os of
              Some err \<Rightarrow> ([Println ''Inheriting listener from parent process'',
                            Println (''net.FileListener error: '' @ error_Error L err)], False)
            | None \<Rightarrow> ([Println ''Inheriting listener from parent process''], True))
      else (case tcp_Listen os '':8080'' of
              Some err \<Rightarrow> ([Println ''Starting new listener'',
                            Println (''net.Listen error: '' @ error_Error L err)], False)
            | None \<Rightarrow> ([Println ''Starting new listener''], True)))"

definition spawnChild :: "proc_os \<Rightarrow> env \<Rightarrow> error option \<times> event list" where
  "spawnChild os env = (case listener_File os of
     Some err \<Rightarrow> (Some err, [])
   | None \<Rightarrow> (case cmd_Start os of
       Some err \<Rightarrow> (Some err, [])
     | None \<Rightarrow> (None, [Spawn (env(listenerFDEnv \<mapsto> ''3''))])))"

text \<open>The two cases of the \<open>switch\<close>; the first falls through to the second. Beside its events each
  says whether it comes to its end.\<close>

definition spawn_part :: "lib \<Rightarrow> proc_os \<Rightarrow> env \<Rightarrow> event list" where
  "spawn_part L os env = Println ''Spawning new process'' #
     (case spawnChild os env of (err, evs) \<Rightarrow> evs @
        (case err of None \<Rightarrow> [] | Some e \<Rightarrow> [Println (''Failed to spawn child: '' @ error_Error L e)]))"

definition terminate :: "lib \<Rightarrow> proc_os \<Rightarrow> event list \<times> bool" where
  "terminate L os = (let evs = [Println ''Initiating graceful shutdown'', Shutdown]
     in case server_Shutdown os of
       None \<Rightarrow> (evs, False)
     | Some r \<Rightarrow> (evs @
         (case r of None \<Rightarrow> []
          | Some err \<Rightarrow> [Println (''HTTP server Shutdown error: '' @ error_Error L err)]) @
         [Println ''Server gracefully stopped''], True))"

definition restart :: "lib \<Rightarrow> proc_os \<Rightarrow> env \<Rightarrow> event list \<times> bool" where
  "restart L os env = (case terminate L os of (evs, r) \<Rightarrow> (spawn_part L os env @ evs, r))"

text \<open>The signal loop over the signals that arrive: its events, and whether \<open>main\<close> has returned.\<close>

fun signal_loop :: "lib \<Rightarrow> proc_os \<Rightarrow> env \<Rightarrow> signal list \<Rightarrow> event list \<times> bool" where
  "signal_loop L os env [] = ([], False)"
| "signal_loop L os env (sig # sigs) =
     (let evs = [Println (''Received signal: '' @ signal_String sig)]
      in case sig of
        SIGUSR2 \<Rightarrow> (case restart L os env of (evs', r) \<Rightarrow> (evs @ evs', r))
      | SIGINT \<Rightarrow> (case terminate L os of (evs', r) \<Rightarrow> (evs @ evs', r))
      | SIGTERM \<Rightarrow> (case terminate L os of (evs', r) \<Rightarrow> (evs @ evs', r))
      | OtherSignal _ \<Rightarrow> (case signal_loop L os env sigs of (evs', r) \<Rightarrow> (evs @ evs', r)))"

definition respawn_main :: "lib \<Rightarrow> proc_os \<Rightarrow> env \<Rightarrow> signal list \<Rightarrow> event list \<times> bool" where
  "respawn_main L os env sigs = (case acquire_listener L os env of
     (evs, False) \<Rightarrow> (evs, True)
   | (evs, True) \<Rightarrow> (case signal_loop L os env sigs of (evs', r) \<Rightarrow> (evs @ evs', r)))"

section \<open>Termination\<close>

fun registered :: "signal \<Rightarrow> bool" where
  "registered (OtherSignal _) \<longleftrightarrow> False"
| "registered _ \<longleftrightarrow> True"

lemma signal_loop_skip:
  assumes "\<forall>s \<in> set ignored. \<not> registered s" and "registered sig"
  shows "signal_loop L os env (ignored @ sig # rest) =
    (case if sig = SIGUSR2 then restart L os env else terminate L os of (evs, r) \<Rightarrow>
      (map (\<lambda>s. Println (''Received signal: '' @ signal_String s)) (ignored @ [sig]) @ evs, r))"
  using assms
proof (induction ignored)
  case Nil
  then show ?case by (cases sig) simp_all
next
  case (Cons s ss)
  then show ?case by (cases s) (simp_all split: prod.splits)
qed

lemma signal_loop_waits:
  "\<forall>s \<in> set sigs. \<not> registered s \<Longrightarrow> \<not> snd (signal_loop L os env sigs)"
proof (induction sigs)
  case (Cons s sigs)
  then show ?case by (cases s) (auto split: prod.splits)
qed simp

lemma signal_loop_cases:
  obtains (waiting) "\<not> list_ex registered sigs"
      "signal_loop L os env sigs = (map (\<lambda>s. Println (''Received signal: '' @ signal_String s)) sigs, False)"
  | (handled) ignored sig rest where "sigs = ignored @ sig # rest" "\<forall>s \<in> set ignored. \<not> registered s"
      "registered sig"
proof (cases "list_ex registered sigs")
  case False
  then have "signal_loop L os env sigs =
      (map (\<lambda>s. Println (''Received signal: '' @ signal_String s)) sigs, False)"
  proof (induction sigs)
    case (Cons s sigs)
    then show ?case by (cases s) simp_all
  qed simp
  with False show thesis by (rule waiting)
next
  case True
  then have "\<exists>sig \<in> set sigs. registered sig" by (simp add: list_ex_iff)
  from split_list_first_prop [OF this] show thesis using handled by blast
qed

fun spawns :: "event list \<Rightarrow> nat" where
  "spawns [] = 0"
| "spawns (Spawn _ # es) = Suc (spawns es)"
| "spawns (_ # es) = spawns es"

lemma spawns_append [simp]: "spawns (xs @ ys) = spawns xs + spawns ys"
  by (induction xs rule: spawns.induct) simp_all

lemma printed [simp]:
  "count_list (map (\<lambda>s. Println (f s)) xs) Shutdown = 0"
  "spawns (map (\<lambda>s. Println (f s)) xs) = 0"
  by (induction xs) simp_all

lemma acquired [simp]:
  "count_list (fst (acquire_listener L os env)) Shutdown = 0"
  "spawns (fst (acquire_listener L os env)) = 0"
  by (auto simp: acquire_listener_def split: option.splits)

lemma terminated [simp]:
  "count_list (fst (terminate L os)) Shutdown = 1" "spawns (fst (terminate L os)) = 0"
  "count_list (fst (restart L os env)) Shutdown = 1"
  "spawns (fst (restart L os env)) = (if fst (spawnChild os env) = None then 1 else 0)"
  "snd (terminate L os) \<longleftrightarrow> server_Shutdown os \<noteq> None"
  "snd (restart L os env) \<longleftrightarrow> server_Shutdown os \<noteq> None"
  by (auto simp: terminate_def restart_def spawn_part_def spawnChild_def Let_def split: option.splits)

text \<open>C26. When a process returns: one without a listener at once; one with a listener exactly if one
  of the three signals has arrived and \<open>server.Shutdown\<close> comes back, which it does only once no
  connection is busy any more. Such a process calls \<open>Shutdown\<close> exactly once, and it has started a
  child exactly if the first of these signals was \<open>SIGUSR2\<close> and the listener could be handed over.
  What arrives after that signal is never looked at, so a process that waits in \<open>Shutdown\<close> cannot be
  ended by a second \<open>SIGTERM\<close>.\<close>

theorem respawn_returns:
  "(snd (respawn_main L os env sigs) \<longleftrightarrow>
     (if snd (acquire_listener L os env) then list_ex registered sigs \<and> server_Shutdown os \<noteq> None else True)) \<and>
   count_list (fst (respawn_main L os env sigs)) Shutdown =
     (if snd (acquire_listener L os env) \<and> list_ex registered sigs then 1 else 0) \<and>
   spawns (fst (respawn_main L os env sigs)) =
     (if snd (acquire_listener L os env) \<and> find registered sigs = Some SIGUSR2 \<and>
         fst (spawnChild os env) = None then 1 else 0) \<and>
   respawn_main L os env (takeWhile (\<lambda>s. \<not> registered s) sigs @
     take 1 (dropWhile (\<lambda>s. \<not> registered s) sigs)) = respawn_main L os env sigs"
proof (cases "snd (acquire_listener L os env)")
  case False
  then show ?thesis
    using acquired [of L os env] by (cases "acquire_listener L os env") (simp add: respawn_main_def)
next
  case True
  then obtain evs where a: "acquire_listener L os env = (evs, True)" by (metis prod.collapse)
  have e: "count_list evs Shutdown = 0" "spawns evs = 0" using acquired [of L os env] a by simp_all
  show ?thesis
  proof (cases rule: signal_loop_cases [of sigs L os env])
    case waiting
    then have "\<forall>s \<in> set sigs. \<not> registered s" by (simp add: list_ex_iff)
    then have tw: "takeWhile (\<lambda>s. \<not> registered s) sigs = sigs" and none: "find registered sigs = None"
      by (simp_all add: find_None_iff takeWhile_eq_all_conv)
    have same: "takeWhile (\<lambda>s. \<not> registered s) sigs @ take 1 (dropWhile (\<lambda>s. \<not> registered s) sigs) = sigs"
      using takeWhile_dropWhile_id [of "\<lambda>s. \<not> registered s" sigs] unfolding tw by simp
    from waiting none show ?thesis unfolding same by (simp add: respawn_main_def a e)
  next
    case (handled ignored sig rest)
    then have "find registered sigs = Some sig" by (induction ignored arbitrary: sigs) auto
    moreover have "list_ex registered sigs" using handled by simp
    moreover have "takeWhile (\<lambda>s. \<not> registered s) sigs @ take 1 (dropWhile (\<lambda>s. \<not> registered s) sigs) =
        ignored @ [sig]"
      using handled by simp
    moreover note signal_loop_skip [OF handled(2,3), of L os env]
    ultimately show ?thesis using handled(1) by (simp add: respawn_main_def a e case_prod_unfold)
  qed
qed

section \<open>Handing the socket on\<close>

text \<open>
  The processes that descend from one server, the newest last. A process is \<open>Starting\<close> until it has
  its listener and is registered for the signals, \<open>Serving\<close> while it waits for one, \<open>Closing\<close> from
  the signal on (its child, if any, is started) until \<open>Shutdown\<close> has closed its listener, \<open>Draining\<close>
  while \<open>Shutdown\<close> waits for the connections. It may have the socket open twice: as the listener it
  serves, and as the descriptor 3 it inherited, which stays open until the process ends or the
  garbage collector finalises the unused file of \<open>os.NewFile\<close>.
\<close>

datatype pphase = Starting | Serving | Closing | Draining | Exited

record process =
  p_env :: env
  p_phase :: pphase
  p_listener :: bool
  p_fd3 :: bool

definition child_process :: "env \<Rightarrow> process" where
  "child_process env = \<lparr>p_env = env, p_phase = Starting, p_listener = False, p_fd3 = True\<rparr>"

fun children :: "event list \<Rightarrow> process list" where
  "children [] = []"
| "children (Spawn env # evs) = child_process env # children evs"
| "children (_ # evs) = children evs"

definition exited :: "process \<Rightarrow> process" where
  "exited p = p\<lparr>p_phase := Exited, p_listener := False, p_fd3 := False\<rparr>"

text \<open>What a process does on a signal before it calls \<open>Shutdown\<close>.\<close>

definition on_signal :: "lib \<Rightarrow> proc_os \<Rightarrow> env \<Rightarrow> signal \<Rightarrow> event list" where
  "on_signal L os env sig = Println (''Received signal: '' @ signal_String sig) #
     (if sig = SIGUSR2 then spawn_part L os env else [])"

text \<open>
  The steps. Those that can take a listener away say whether it was the newest process's: a process
  can be killed at any time, and before it is registered each of the three signals kills it; and
  \<open>server.Serve\<close> can fail, which closes the listener while \<open>main\<close> goes on waiting. \<open>Closed\<close> is the
  first thing \<open>Shutdown\<close> does, \<open>Stopped\<close> the return of \<open>main\<close>.
\<close>

datatype step_label =
    Acquired bool
  | Handled signal "event list"
  | Closed
  | Stopped
  | ServeFailed bool
  | Killed bool
  | Finalised

inductive respawn_step :: "lib \<Rightarrow> process list \<Rightarrow> step_label \<Rightarrow> process list \<Rightarrow> bool" for L where
  step_start: "i < length ps \<Longrightarrow> p_phase (ps ! i) = Starting \<Longrightarrow>
    acquire_listener L os (p_env (ps ! i)) = (evs, ok) \<Longrightarrow>
    respawn_step L ps (Acquired ok)
      (ps[i := (if ok then (ps ! i)\<lparr>p_phase := Serving, p_listener := True\<rparr> else exited (ps ! i))])"
| step_signal: "i < length ps \<Longrightarrow> p_phase (ps ! i) = Serving \<Longrightarrow> registered sig \<Longrightarrow>
    p_listener (ps ! i) \<or> listener_File os \<noteq> None \<Longrightarrow> evs = on_signal L os (p_env (ps ! i)) sig \<Longrightarrow>
    respawn_step L ps (Handled sig evs) (ps[i := (ps ! i)\<lparr>p_phase := Closing\<rparr>] @ children evs)"
| step_close: "i < length ps \<Longrightarrow> p_phase (ps ! i) = Closing \<Longrightarrow>
    respawn_step L ps Closed (ps[i := (ps ! i)\<lparr>p_phase := Draining, p_listener := False\<rparr>])"
| step_exit: "i < length ps \<Longrightarrow> p_phase (ps ! i) = Draining \<Longrightarrow>
    respawn_step L ps Stopped (ps[i := exited (ps ! i)])"
| step_fail: "i < length ps \<Longrightarrow> p_phase (ps ! i) \<in> {Serving, Closing} \<Longrightarrow> p_listener (ps ! i) \<Longrightarrow>
    respawn_step L ps (ServeFailed (Suc i = length ps)) (ps[i := (ps ! i)\<lparr>p_listener := False\<rparr>])"
| step_kill: "i < length ps \<Longrightarrow> p_phase (ps ! i) \<noteq> Exited \<Longrightarrow>
    respawn_step L ps (Killed (Suc i = length ps)) (ps[i := exited (ps ! i)])"
| step_final: "i < length ps \<Longrightarrow> p_phase (ps ! i) \<noteq> Starting \<Longrightarrow>
    respawn_step L ps Finalised (ps[i := (ps ! i)\<lparr>p_fd3 := False\<rparr>])"

inductive respawn_run :: "lib \<Rightarrow> process list \<Rightarrow> step_label list \<Rightarrow> process list \<Rightarrow> bool" for L ps0 where
  run_start: "respawn_run L ps0 [] ps0"
| run_step: "respawn_run L ps0 ls ps \<Longrightarrow> respawn_step L ps l ps' \<Longrightarrow> respawn_run L ps0 (ls @ [l]) ps'"

inductive_cases respawn_stepE: "respawn_step L ps l ps'"

definition holds_socket :: "process \<Rightarrow> bool" where
  "holds_socket p \<longleftrightarrow> p_listener p \<or> p_fd3 p"



text \<open>The steps that hand the socket on, or leave it where it is.\<close>

fun hands_on :: "step_label \<Rightarrow> bool" where
  "hands_on (Acquired ok) \<longleftrightarrow> ok"
| "hands_on (Handled sig evs) \<longleftrightarrow> children evs \<noteq> []"
| "hands_on (ServeFailed newest) \<longleftrightarrow> \<not> newest"
| "hands_on (Killed newest) \<longleftrightarrow> \<not> newest"
| "hands_on _ \<longleftrightarrow> True"

lemma on_signal_children:
  "children (on_signal L os env sig) =
     (if sig = SIGUSR2 \<and> listener_File os = None \<and> cmd_Start os = None
      then [child_process (env(listenerFDEnv \<mapsto> ''3''))] else [])"
  by (auto simp: on_signal_def spawn_part_def spawnChild_def split: option.splits)

lemma on_signal_loop:
  assumes "registered sig"
  shows "signal_loop L os env (sig # sigs) =
    (on_signal L os env sig @ fst (terminate L os), snd (terminate L os))"
  using assms by (cases sig) (simp_all add: on_signal_def restart_def case_prod_unfold del: terminated)











text \<open>The server that was started first, with the socket it serves.\<close>

definition first_process :: "env \<Rightarrow> bool \<Rightarrow> process" where
  "first_process env fd3 = \<lparr>p_env = env, p_phase = Serving, p_listener = True, p_fd3 = fd3\<rparr>"


text \<open>An operating system on which every call succeeds.\<close>

definition sample_os :: proc_os where
  "sample_os = \<lparr>FileListener = None, tcp_Listen = (\<lambda>_. None), listener_File = None, cmd_Start = None,
     server_Shutdown = Some None\<rparr>"

text \<open>
  Between the start of the child and the shutdown of its parent both hold the socket, and the parent
  may hold it on descriptor 3 while it drains.
\<close>

lemma handover_run:
  assumes child: "child = child_process (env(listenerFDEnv \<mapsto> ''3''))"
    and evs: "evs = on_signal sample_lib sample_os env SIGUSR2"
  shows handover_overlap: "respawn_run sample_lib [first_process env fd3] [Handled SIGUSR2 evs, Acquired True]
      [(first_process env fd3)\<lparr>p_phase := Closing\<rparr>, child\<lparr>p_phase := Serving, p_listener := True\<rparr>]"
    and handover_drain: "respawn_run sample_lib [first_process env fd3] [Handled SIGUSR2 evs, Acquired True, Closed]
      [(first_process env fd3)\<lparr>p_phase := Draining, p_listener := False\<rparr>,
       child\<lparr>p_phase := Serving, p_listener := True\<rparr>]"
proof -
  let ?f = "first_process env fd3"
  have kids: "children evs = [child]"
    unfolding evs child by (simp add: on_signal_children sample_os_def)
  have 1: "respawn_step sample_lib [?f] (Handled SIGUSR2 evs) [?f\<lparr>p_phase := Closing\<rparr>, child]"
    using step_signal [of 0 "[?f]" SIGUSR2 sample_os evs sample_lib] kids evs
    by (simp add: first_process_def)
  have 2: "respawn_step sample_lib [?f\<lparr>p_phase := Closing\<rparr>, child] (Acquired True)
      [?f\<lparr>p_phase := Closing\<rparr>, child\<lparr>p_phase := Serving, p_listener := True\<rparr>]"
    using step_start [of 1 "[?f\<lparr>p_phase := Closing\<rparr>, child]" sample_lib sample_os _ True]
    by (simp add: child child_process_def acquire_listener_def Getenv_def sample_os_def)
  have 3: "respawn_step sample_lib [?f\<lparr>p_phase := Closing\<rparr>, child\<lparr>p_phase := Serving, p_listener := True\<rparr>] Closed
      [?f\<lparr>p_phase := Draining, p_listener := False\<rparr>, child\<lparr>p_phase := Serving, p_listener := True\<rparr>]"
    using step_close [of 0 "[?f\<lparr>p_phase := Closing\<rparr>, child\<lparr>p_phase := Serving, p_listener := True\<rparr>]" sample_lib]
    by (simp add: first_process_def)
  show "respawn_run sample_lib [?f] [Handled SIGUSR2 evs, Acquired True]
      [?f\<lparr>p_phase := Closing\<rparr>, child\<lparr>p_phase := Serving, p_listener := True\<rparr>]"
    using run_step [OF run_step [OF run_start 1] 2] by simp
  from run_step [OF this 3] show "respawn_run sample_lib [?f] [Handled SIGUSR2 evs, Acquired True, Closed]
      [?f\<lparr>p_phase := Draining, p_listener := False\<rparr>, child\<lparr>p_phase := Serving, p_listener := True\<rparr>]" by simp
qed

lemma both_hold:
  "\<exists>ls ps. respawn_run sample_lib [first_process env fd3] ls ps \<and> list_all hands_on ls \<and>
     length (filter holds_socket ps) = 2"
proof (intro exI conjI)
  show "respawn_run sample_lib [first_process env fd3]
      [Handled SIGUSR2 (on_signal sample_lib sample_os env SIGUSR2), Acquired True]
      [(first_process env fd3)\<lparr>p_phase := Closing\<rparr>,
       (child_process (env(listenerFDEnv \<mapsto> ''3'')))\<lparr>p_phase := Serving, p_listener := True\<rparr>]"
    by (rule handover_overlap) simp_all
qed (simp_all add: on_signal_children sample_os_def holds_socket_def first_process_def child_process_def)


end
