(* ===== verification/TokenGen.thy ===== *)
theory TokenGen
  imports AuthChain
begin

text \<open>
  \<open>cmd/tokengen/main.go\<close>: the command that prints a token, and what the server makes of the token
  it prints.
\<close>

section \<open>The command\<close>

text \<open>The flags, as \<open>flag.Parse\<close> leaves them, and their defaults.\<close>

record tokengen_flags =
  f_userID :: string
  f_username :: string
  f_email :: string
  f_roles :: string
  f_duration :: duration
  f_secretKey :: string
  f_issuer :: string
  f_showHelp :: bool

definition tokengen_defaults :: tokengen_flags where
  "tokengen_defaults = \<lparr>f_userID = '''', f_username = '''', f_email = '''', f_roles = ''user'',
     f_duration = 24 * 3600 * 10 ^ 9, f_secretKey = '''', f_issuer = ''grpc-example'', f_showHelp = False\<rparr>"

definition help_lines :: "string list" where
  "help_lines = [
     ''JWT Token Generator for gRPC Example'',
     '''',
     ''Usage:'',
     ''  tokengen [flags]'',
     '''',
     ''Required Flags:'',
     ''  -user-id string'',
     ''        User ID'',
     ''  -username string'',
     ''        Username'',
     ''  -email string'',
     ''        User email address'',
     '''',
     ''Optional Flags:'',
     ''  -roles string'',
     ''        Comma-separated list of roles (default: user)'',
     ''  -duration duration'',
     ''        Token validity duration (default: 24h)'',
     ''        Examples: 1h, 24h, 168h (7 days)'',
     ''  -secret string'',
     ''        JWT secret key (can also use JWT_SECRET env var)'',
     ''  -issuer string'',
     ''        Token issuer (default: grpc-example)'',
     ''  -help'',
     ''        Show this help message'',
     '''',
     ''Environment Variables:'',
     ''  JWT_SECRET'',
     ''        JWT secret key (alternative to -secret flag)'',
     '''',
     ''Examples:'',
     ''  # Generate token for regular user'',
     ''  tokengen -user-id=123 -username=john -email=john@example.com'',
     '''',
     ''  # Generate token for admin with multiple roles'',
     ''  tokengen -user-id=1 -username=admin -email=admin@example.com -roles=admin,user'',
     '''',
     ''  # Generate token with custom duration'',
     ''  tokengen -user-id=123 -username=john -email=john@example.com -duration=7h'',
     '''',
     ''  # Use environment variable for secret'',
     ''  export JWT_SECRET=my-secret-key'',
     ''  tokengen -user-id=123 -username=john -email=john@example.com'']"

text \<open>
  How the command ends, with the lines it writes to standard error; the roles and the duration
  are printed with \<open>%v\<close>. Only the token goes to standard output.
\<close>

datatype stderr_line = Line string | RolesLine "string list" | DurationLine duration

datatype tokengen_exit =
    HelpShown "string list"
  | LogFatal string
  | Printed string "stderr_line list"

definition effective_secret :: "env \<Rightarrow> tokengen_flags \<Rightarrow> string" where
  "effective_secret env fl =
     (let secret = f_secretKey fl in if secret = '''' then Getenv env ''JWT_SECRET'' else secret)"

definition role_list :: "tokengen_flags \<Rightarrow> string list" where
  "role_list fl = map TrimSpace (split_on CHR '','' (f_roles fl))"

definition token_report :: "tokengen_flags \<Rightarrow> string \<Rightarrow> stderr_line list" where
  "token_report fl token = [
     Line ''=== JWT Token Generated ==='',
     Line (''User ID:   '' @ f_userID fl),
     Line (''Username:  '' @ f_username fl),
     Line (''Email:     '' @ f_email fl),
     RolesLine (role_list fl),
     DurationLine (f_duration fl),
     Line (''Issuer:    '' @ f_issuer fl),
     Line '''',
     Line ''Token:'',
     Line '''',
     Line ''Use this token in the Authorization header:'',
     Line (''Authorization: Bearer '' @ token),
     Line '''',
     Line ''Example gRPC metadata:'',
     Line (''authorization: Bearer '' @ token)]"

definition tokengen_main :: "jwt \<Rightarrow> lib \<Rightarrow> env \<Rightarrow> time \<Rightarrow> tokengen_flags \<Rightarrow> tokengen_exit" where
  "tokengen_main J L env now fl =
     (if f_showHelp fl then HelpShown help_lines
      else if f_userID fl = '''' then LogFatal ''Error: -user-id is required''
      else if f_username fl = '''' then LogFatal ''Error: -username is required''
      else if f_email fl = '''' then LogFatal ''Error: -email is required''
      else if effective_secret env fl = '''' then LogFatal
        ''Error: JWT secret key must be provided via -secret flag or JWT_SECRET environment variable''
      else case JWTManager_GenerateToken J L
            (NewJWTManager (effective_secret env fl) (f_duration fl) (f_issuer fl)) now
            (f_userID fl) (f_username fl) (f_email fl) (role_list fl) of
          Inl err \<Rightarrow> LogFatal (''Failed to generate token: '' @ error_Error L err)
        | Inr token \<Rightarrow> Printed token (token_report fl token))"

section \<open>From the command to the server\<close>

lemma tokengen_printed:
  assumes "tokengen_main J L env now fl = Printed tok lines"
  shows "JWTManager_GenerateToken J L (NewJWTManager (effective_secret env fl) (f_duration fl) (f_issuer fl)) now
      (f_userID fl) (f_username fl) (f_email fl) (role_list fl) = Inr tok"
    and "f_userID fl \<noteq> []" and "f_username fl \<noteq> []" and "f_email fl \<noteq> []" and "effective_secret env fl \<noteq> []"
  using assms by (auto simp: tokengen_main_def split: if_splits sum.splits)

lemma role_list_ascii: "ascii (f_roles fl) \<Longrightarrow> list_all ascii (role_list fl)"
  using split_on_chars [of "f_roles fl" "CHR '',''"] TrimSpace_chars
  by (fastforce simp: role_list_def list_all_iff ascii_def)

text \<open>C10. What \<open>tokengen\<close> prints opens the server: sent as a bearer token to a server with the
  same secret, while it lasts, it identifies the caller by the flags it was made from, with the
  roles separated at the commas and trimmed, whatever issuer and duration the two sides have set;
  only the fake approver can still turn the caller away. Once it has expired the call is refused
  as unauthenticated.\<close>

theorem tokengen_opens_server:
  assumes "parse_law J decode verify" and "sign_law J decode verify" and "date_law J"
    and "tokengen_main J L env now fl = Printed tok lines"
    and "list_all ascii [f_issuer fl, f_userID fl, f_username fl, f_email fl, f_roles fl]"
    and "effective_secret env fl = getJWTSecret env'"
    and "bearer ctx = Some tok" and "now \<le> t"
  shows "case caller J L' (server_jwt env') meth ctx t of
      Inr c \<Rightarrow> t < (now + f_duration fl) div 10 ^ 9 * 10 ^ 9 \<and> \<not> banned meth c \<and>
        GetInfo c = \<lparr>i_UserID = f_userID fl, i_Username = f_username fl, i_Email = f_email fl,
          i_Roles = role_list fl\<rparr>
    | Inl code \<Rightarrow> if t < (now + f_duration fl) div 10 ^ 9 * 10 ^ 9
        then code = PermissionDenied \<and> meth = ''/proto.UserService/ListUsers'' \<and>
          (f_email fl = ''hello@example.com'' \<or> f_username fl = ''mynameismud'')
        else code = Unauthenticated"
proof -
  let ?m = "NewJWTManager (effective_secret env fl) (f_duration fl) (f_issuer fl)"
  let ?c = "new_claims J ?m now (f_userID fl) (f_username fl) (f_email fl) (role_list fl)"
  have ascii: "list_all ascii (issuer ?m # f_userID fl # f_username fl # f_email fl # role_list fl)"
    using assms(5) role_list_ascii [of fl] by (simp add: NewJWTManager_def)
  have key: "secretKey (server_jwt env') = secretKey ?m"
    using assms(6) by (simp add: server_jwt_def interceptors_NewJWTManager_def NewJWTManager_def)
  have v: "JWTManager_ValidateToken J L' (server_jwt env') t tok =
      (if t < (now + f_duration fl) div 10 ^ 9 * 10 ^ 9 then Inr ?c else Inl ErrExpiredToken)"
    using validate_generated [OF assms(1-3) tokengen_printed(1) [OF assms(4)] ascii key assms(8)]
    by (simp add: time_Unix_def time_unix_seconds_def NewJWTManager_def)
  show ?thesis
    using assms(7) v by (simp add: caller_def GetInfo_def new_claims_def banned_def)
qed

text \<open>A run with every flag given, and a call that carries the token.\<close>

definition sample_flags :: tokengen_flags where
  "sample_flags = tokengen_defaults\<lparr>f_userID := ''7'', f_username := ''eve'', f_email := ''e@x'',
     f_roles := '' user'', f_duration := 3600 * 10 ^ 9, f_secretKey := ''key'', f_issuer := ''me''\<rparr>"

definition with_token :: ctx where
  "with_token = \<lparr>incoming = Some (fmap_of_list [(''authorization'', [''Bearer T''])]), ctx_values = []\<rparr>"

lemma sample_roles: "role_list sample_flags = [''user'']"
  by (simp add: role_list_def sample_flags_def tokengen_defaults_def TrimSpace_def is_space_def)

lemma sample_printed: "tokengen_main sample_jwt sample_lib (\<lambda>_. None) (100 * 10 ^ 9) sample_flags =
    Printed ''T'' (token_report sample_flags ''T'')"
  using sample_generate [of sample_lib] sample_roles
  by (simp add: tokengen_main_def sample_flags_def effective_secret_def sample_manager_def Let_def
      tokengen_defaults_def)

theorem tokengen_opens_server_witness:
  "caller sample_jwt sample_lib (server_jwt [''JWT_SECRET'' \<mapsto> ''key'']) ''/proto.UserService/GetUser''
     with_token (3700 * 10 ^ 9) = Inl Unauthenticated"
proof -
  have a: "list_all ascii [f_issuer sample_flags, f_userID sample_flags, f_username sample_flags,
      f_email sample_flags, f_roles sample_flags]"
    by (simp add: sample_flags_def ascii_def)
  have k: "effective_secret (\<lambda>_. None) sample_flags = getJWTSecret [''JWT_SECRET'' \<mapsto> ''key'']"
    by (simp add: effective_secret_def sample_flags_def getJWTSecret_def Getenv_def)
  have b: "bearer with_token = Some ''T''"
    by (simp add: bearer_def with_token_def md_Get_def HasPrefix_def eval_nat_numeral)
  show ?thesis
    using tokengen_opens_server [OF sample_parse_law sample_sign_law sample_date_law sample_printed a k b,
        where t = "3700 * 10 ^ 9" and L' = sample_lib and meth = "''/proto.UserService/GetUser''"]
    by (simp add: sample_flags_def split: sum.splits)
qed

end
