(* ===== verification/Gateway.thy ===== *)
theory Gateway
  imports Server
begin

text \<open>
  \<open>proto/pkg/example.pb.gw.go\<close>: the REST gateway, from an HTTP request to a call of the service
  and back. The gateway's runtime (decoding, conversion of parameters, contexts) is the record
  \<open>gateway_runtime\<close>; the gRPC client the gateway calls is the record \<open>client\<close>, over a state \<open>'s\<close> of
  the service behind it. Contexts are of any type \<open>'c\<close>.
\<close>

section \<open>The runtime and the client\<close>

type_synonym md = "(string, string list) fmap"

record server_md =
  HeaderMD :: md
  TrailerMD :: md

definition no_md :: server_md where
  "no_md = \<lparr>HeaderMD = fmempty, TrailerMD = fmempty\<rparr>"

text \<open>An HTTP request: the values in its body, and its form as \<open>ParseForm\<close> leaves it.\<close>

record gateway_request =
  req_body :: "string list"
  req_form :: "error + md"

record 'c gateway_runtime =
  AnnotateContext :: "'c \<Rightarrow> string \<Rightarrow> string \<Rightarrow> error + 'c"
  AnnotateIncomingContext :: "'c \<Rightarrow> string \<Rightarrow> string \<Rightarrow> error + 'c"
  decode_User :: "string \<Rightarrow> error + User"
  decode_UpdateUserRequest :: "string \<Rightarrow> error + UpdateUserRequest"
  decode_UserActivity :: "string \<Rightarrow> error + UserActivity"
  Uint32 :: "string \<Rightarrow> error + uint32"
  Enum :: "string \<Rightarrow> (string, int32) fmap \<Rightarrow> error + int32"
  PopulateFieldFromPath :: "UpdateUserRequest \<Rightarrow> string \<Rightarrow> string \<Rightarrow> error + UpdateUserRequest"
  PopulateQueryParameters :: "ListUsersRequest \<Rightarrow> md \<Rightarrow> error + ListUsersRequest"

text \<open>
  A stream of answers: its header, the messages and the error \<open>Recv\<close> ends with. The stream of
  \<open>BatchAddUsers\<close>: the result of each \<open>Send\<close>, and what the service makes of the users sent, after
  \<open>CloseAndRecv\<close> or when the call is given up. A bidirectional stream in the same way: what comes
  back for the messages sent until the sending side is closed, with the error \<open>Recv\<close> ends with.
\<close>

record 'm recv_stream =
  stream_Header :: "error + md"
  stream_messages :: "'m list"
  stream_end :: error

record 's send_stream =
  send_Send :: "nat \<Rightarrow> error option"
  send_CloseSend :: "error option"
  send_Header :: "error + md"
  CloseAndRecv :: "User list \<Rightarrow> 's \<Rightarrow> (error + BatchAddUsersResponse) \<times> md \<times> 's"
  give_up :: "User list \<Rightarrow> 's \<Rightarrow> 's"

record ('m, 'r, 's) bidi_stream =
  bidi_Send :: "nat \<Rightarrow> error option"
  bidi_Header :: "error + md"
  bidi_answers :: "'m list \<Rightarrow> 's \<Rightarrow> 'r list \<times> error \<times> 's"
  bidi_give_up :: "'m list \<Rightarrow> 's \<Rightarrow> 's"

record ('c, 's) client =
  c_AddUser :: "'c \<Rightarrow> User \<Rightarrow> 's \<Rightarrow> (error + unit) \<times> server_md \<times> 's"
  c_GetUser :: "'c \<Rightarrow> GetUserRequest \<Rightarrow> 's \<Rightarrow> (error + User) \<times> server_md \<times> 's"
  c_UpdateUser :: "'c \<Rightarrow> UpdateUserRequest \<Rightarrow> 's \<Rightarrow> (error + User) \<times> server_md \<times> 's"
  c_DeleteUser :: "'c \<Rightarrow> DeleteUserRequest \<Rightarrow> 's \<Rightarrow> (error + unit) \<times> server_md \<times> 's"
  c_ListUsers :: "'c \<Rightarrow> ListUsersRequest \<Rightarrow> 's \<Rightarrow> (error + User recv_stream) \<times> 's"
  c_ListUsersByRole :: "'c \<Rightarrow> UserRole \<Rightarrow> 's \<Rightarrow> (error + User recv_stream) \<times> 's"
  c_BatchAddUsers :: "'c \<Rightarrow> error + 's send_stream"
  c_UserActivityStream :: "'c \<Rightarrow> error + (UserActivity, UserActivityResponse, 's) bidi_stream"
  c_SyncUsers :: "'c \<Rightarrow> error + (User, SyncUserResponse, 's) bidi_stream"

text \<open>The service itself, as the in-process registration calls it.\<close>

record ('c, 's) service =
  s_AddUser :: "'c \<Rightarrow> User \<Rightarrow> 's \<Rightarrow> (error + unit) \<times> 's"
  s_GetUser :: "'c \<Rightarrow> GetUserRequest \<Rightarrow> 's \<Rightarrow> (error + User) \<times> 's"
  s_UpdateUser :: "'c \<Rightarrow> UpdateUserRequest \<Rightarrow> 's \<Rightarrow> (error + User) \<times> 's"
  s_DeleteUser :: "'c \<Rightarrow> DeleteUserRequest \<Rightarrow> 's \<Rightarrow> (error + unit) \<times> 's"

section \<open>From the HTTP request to the message\<close>

text \<open>
  \<open>NewDecoder(req.Body).Decode(&protoReq)\<close>: the next value of the body, \<open>EOF\<close> when there is none.
  \<open>decode_one\<close> is the test all unary routes make: the end of the body leaves the zero message.
\<close>

definition Decode :: "(string \<Rightarrow> error + 'm) \<Rightarrow> string list \<Rightarrow> (error + 'm) \<times> string list" where
  "Decode decode b = (case b of [] \<Rightarrow> (Inl EOF, []) | v # vs \<Rightarrow> (decode v, vs))"

definition invalid :: "lib \<Rightarrow> error \<Rightarrow> error" where
  "invalid L err = Status InvalidArgument (error_Error L err)"

definition decode_one :: "lib \<Rightarrow> (string \<Rightarrow> error + 'm) \<Rightarrow> 'm \<Rightarrow> string list \<Rightarrow> error + 'm" where
  "decode_one L decode zero b = (case fst (Decode decode b) of
     Inl err \<Rightarrow> if errors_Is err EOF then Inr zero else Inl (invalid L err)
   | Inr m \<Rightarrow> Inr m)"

text \<open>A parameter of the path, converted.\<close>

definition path_param :: "lib \<Rightarrow> (string \<Rightarrow> error + 'v) \<Rightarrow> (string \<Rightarrow> string option) \<Rightarrow> string \<Rightarrow> error + 'v" where
  "path_param L conv pathParams name = (case pathParams name of
     None \<Rightarrow> Inl (Status InvalidArgument (''missing parameter '' @ name))
   | Some val \<Rightarrow> (case conv val of
       Inl err \<Rightarrow> Inl (Status InvalidArgument
         (''type mismatch, parameter: '' @ name @ '', error: '' @ error_Error L err))
     | Inr v \<Rightarrow> Inr v))"

definition update_message :: "lib \<Rightarrow> 'c gateway_runtime \<Rightarrow> gateway_request \<Rightarrow> (string \<Rightarrow> string option) \<Rightarrow>
    error + UpdateUserRequest" where
  "update_message L R req pathParams =
     (case decode_one L (decode_UpdateUserRequest R) UpdateUserRequest_zero (req_body req) of
        Inl err \<Rightarrow> Inl err
      | Inr protoReq \<Rightarrow>
          path_param L (PopulateFieldFromPath R protoReq ''user.id'') pathParams ''user.id'')"

definition list_message :: "lib \<Rightarrow> 'c gateway_runtime \<Rightarrow> gateway_request \<Rightarrow> error + ListUsersRequest" where
  "list_message L R req = (case req_form req of
     Inl err \<Rightarrow> Inl (invalid L err)
   | Inr form \<Rightarrow> (case PopulateQueryParameters R ListUsersRequest_zero form of
       Inl err \<Rightarrow> Inl (invalid L err)
     | Inr protoReq \<Rightarrow> Inr protoReq))"

section \<open>The requests\<close>

type_synonym ('m, 's) answered = "(error + 'm) \<times> server_md \<times> 's"

definition request_UserService_AddUser_0 :: "lib \<Rightarrow> 'c gateway_runtime \<Rightarrow> ('c, 's) client \<Rightarrow> 'c \<Rightarrow>
    gateway_request \<Rightarrow> (string \<Rightarrow> string option) \<Rightarrow> 's \<Rightarrow> (unit, 's) answered" where
  "request_UserService_AddUser_0 L R C ctx req pathParams s =
     (case decode_one L (decode_User R) User_zero (req_body req) of
        Inl err \<Rightarrow> (Inl err, no_md, s)
      | Inr protoReq \<Rightarrow> c_AddUser C ctx protoReq s)"

definition request_UserService_UpdateUser_0 :: "lib \<Rightarrow> 'c gateway_runtime \<Rightarrow> ('c, 's) client \<Rightarrow> 'c \<Rightarrow>
    gateway_request \<Rightarrow> (string \<Rightarrow> string option) \<Rightarrow> 's \<Rightarrow> (User, 's) answered" where
  "request_UserService_UpdateUser_0 L R C ctx req pathParams s = (case update_message L R req pathParams of
     Inl err \<Rightarrow> (Inl err, no_md, s)
   | Inr protoReq \<Rightarrow> c_UpdateUser C ctx protoReq s)"

definition request_UserService_GetUser_0 :: "lib \<Rightarrow> 'c gateway_runtime \<Rightarrow> ('c, 's) client \<Rightarrow> 'c \<Rightarrow>
    gateway_request \<Rightarrow> (string \<Rightarrow> string option) \<Rightarrow> 's \<Rightarrow> (User, 's) answered" where
  "request_UserService_GetUser_0 L R C ctx req pathParams s = (case path_param L (Uint32 R) pathParams ''id'' of
     Inl err \<Rightarrow> (Inl err, no_md, s)
   | Inr i \<Rightarrow> c_GetUser C ctx (GetUserRequest_zero\<lparr>gu_Id := i\<rparr>) s)"

definition request_UserService_DeleteUser_0 :: "lib \<Rightarrow> 'c gateway_runtime \<Rightarrow> ('c, 's) client \<Rightarrow> 'c \<Rightarrow>
    gateway_request \<Rightarrow> (string \<Rightarrow> string option) \<Rightarrow> 's \<Rightarrow> (unit, 's) answered" where
  "request_UserService_DeleteUser_0 L R C ctx req pathParams s = (case path_param L (Uint32 R) pathParams ''id'' of
     Inl err \<Rightarrow> (Inl err, no_md, s)
   | Inr i \<Rightarrow> c_DeleteUser C ctx (DeleteUserRequest_zero\<lparr>du_Id := i\<rparr>) s)"

text \<open>A stream that has been opened is handed on with its header.\<close>

definition opened :: "(error + 'm recv_stream) \<times> 's \<Rightarrow> ('m recv_stream, 's) answered" where
  "opened r = (case r of
     (Inl err, s) \<Rightarrow> (Inl err, no_md, s)
   | (Inr stream, s) \<Rightarrow> (case stream_Header stream of
       Inl err \<Rightarrow> (Inl err, no_md, s)
     | Inr hdr \<Rightarrow> (Inr stream, no_md\<lparr>HeaderMD := hdr\<rparr>, s)))"

definition request_UserService_ListUsers_0 :: "lib \<Rightarrow> 'c gateway_runtime \<Rightarrow> ('c, 's) client \<Rightarrow> 'c \<Rightarrow>
    gateway_request \<Rightarrow> (string \<Rightarrow> string option) \<Rightarrow> 's \<Rightarrow> (User recv_stream, 's) answered" where
  "request_UserService_ListUsers_0 L R C ctx req pathParams s = (case list_message L R req of
     Inl err \<Rightarrow> (Inl err, no_md, s)
   | Inr protoReq \<Rightarrow> opened (c_ListUsers C ctx protoReq s))"

definition request_UserService_ListUsersByRole_0 :: "lib \<Rightarrow> 'c gateway_runtime \<Rightarrow> ('c, 's) client \<Rightarrow> 'c \<Rightarrow>
    gateway_request \<Rightarrow> (string \<Rightarrow> string option) \<Rightarrow> 's \<Rightarrow> (User recv_stream, 's) answered" where
  "request_UserService_ListUsersByRole_0 L R C ctx req pathParams s =
     (case path_param L (\<lambda>val. Enum R val Role_value) pathParams ''role'' of
        Inl err \<Rightarrow> (Inl err, no_md, s)
      | Inr e \<Rightarrow> opened (c_ListUsersByRole C ctx (UserRole_zero\<lparr>ur_Role := e\<rparr>) s))"

text \<open>
  \<open>BatchAddUsers\<close>: the values of the body are sent one by one; the end of the body, or \<open>EOF\<close> from
  a \<open>Send\<close>, ends the loop. Any other error ends the request, and with it the call.
\<close>

fun batch_sends :: "lib \<Rightarrow> (string \<Rightarrow> error + User) \<Rightarrow> (nat \<Rightarrow> error option) \<Rightarrow> string list \<Rightarrow> User list \<Rightarrow>
    User list \<times> error option" where
  "batch_sends L decode send [] users = (users, None)"
| "batch_sends L decode send (v # vs) users = (case decode v of
     Inl err \<Rightarrow> if errors_Is err EOF then (users, None) else (users, Some (invalid L err))
   | Inr protoReq \<Rightarrow> (case send (length users) of
       Some err \<Rightarrow> if errors_Is err EOF then (users, None) else (users, Some err)
     | None \<Rightarrow> batch_sends L decode send vs (users @ [protoReq])))"

definition request_UserService_BatchAddUsers_0 :: "lib \<Rightarrow> 'c gateway_runtime \<Rightarrow> ('c, 's) client \<Rightarrow> 'c \<Rightarrow>
    gateway_request \<Rightarrow> (string \<Rightarrow> string option) \<Rightarrow> 's \<Rightarrow> (BatchAddUsersResponse, 's) answered" where
  "request_UserService_BatchAddUsers_0 L R C ctx req pathParams s = (case c_BatchAddUsers C ctx of
     Inl err \<Rightarrow> (Inl err, no_md, s)
   | Inr stream \<Rightarrow> (case batch_sends L (decode_User R) (send_Send stream) (req_body req) [] of
       (users, Some err) \<Rightarrow> (Inl err, no_md, give_up stream users s)
     | (users, None) \<Rightarrow> (case send_CloseSend stream of
         Some err \<Rightarrow> (Inl err, no_md, give_up stream users s)
       | None \<Rightarrow> (case send_Header stream of
           Inl err \<Rightarrow> (Inl err, no_md, give_up stream users s)
         | Inr hdr \<Rightarrow> (case CloseAndRecv stream users s of
             (r, trailer, s') \<Rightarrow> (r, \<lparr>HeaderMD = hdr, TrailerMD = trailer\<rparr>, s'))))))"

text \<open>
  The bidirectional calls: a goroutine sends the values of the body until the first error of any
  kind and closes the sending side; the stream of what the service answers to the messages sent is
  handed on.
\<close>

fun bidi_sends :: "(string \<Rightarrow> error + 'm) \<Rightarrow> (nat \<Rightarrow> error option) \<Rightarrow> string list \<Rightarrow> 'm list \<Rightarrow> 'm list" where
  "bidi_sends decode send [] ms = ms"
| "bidi_sends decode send (v # vs) ms = (case decode v of
     Inl err \<Rightarrow> ms
   | Inr protoReq \<Rightarrow> (case send (length ms) of
       Some err \<Rightarrow> ms
     | None \<Rightarrow> bidi_sends decode send vs (ms @ [protoReq])))"

definition bidi_request :: "(string \<Rightarrow> error + 'm) \<Rightarrow> error + ('m, 'r, 's) bidi_stream \<Rightarrow> string list \<Rightarrow> 's \<Rightarrow>
    ('r recv_stream, 's) answered" where
  "bidi_request decode opened_stream b s = (case opened_stream of
     Inl err \<Rightarrow> (Inl err, no_md, s)
   | Inr stream \<Rightarrow> let sent = bidi_sends decode (bidi_Send stream) b []
       in case bidi_Header stream of
         Inl err \<Rightarrow> (Inl err, no_md, bidi_give_up stream sent s)
       | Inr hdr \<Rightarrow> (case bidi_answers stream sent s of (rs, err, s') \<Rightarrow>
           (Inr \<lparr>stream_Header = Inr hdr, stream_messages = rs, stream_end = err\<rparr>, no_md\<lparr>HeaderMD := hdr\<rparr>, s')))"

definition request_UserService_UserActivityStream_0 :: "'c gateway_runtime \<Rightarrow> ('c, 's) client \<Rightarrow> 'c \<Rightarrow>
    gateway_request \<Rightarrow> 's \<Rightarrow> (UserActivityResponse recv_stream, 's) answered" where
  "request_UserService_UserActivityStream_0 R C ctx req s =
     bidi_request (decode_UserActivity R) (c_UserActivityStream C ctx) (req_body req) s"

definition request_UserService_SyncUsers_0 :: "'c gateway_runtime \<Rightarrow> ('c, 's) client \<Rightarrow> 'c \<Rightarrow>
    gateway_request \<Rightarrow> 's \<Rightarrow> (SyncUserResponse recv_stream, 's) answered" where
  "request_UserService_SyncUsers_0 R C ctx req s =
     bidi_request (decode_User R) (c_SyncUsers C ctx) (req_body req) s"

section \<open>The requests in process\<close>

definition local_request_UserService_AddUser_0 :: "lib \<Rightarrow> 'c gateway_runtime \<Rightarrow> ('c, 's) service \<Rightarrow> 'c \<Rightarrow>
    gateway_request \<Rightarrow> (string \<Rightarrow> string option) \<Rightarrow> 's \<Rightarrow> (error + unit) \<times> 's" where
  "local_request_UserService_AddUser_0 L R V ctx req pathParams s =
     (case decode_one L (decode_User R) User_zero (req_body req) of
        Inl err \<Rightarrow> (Inl err, s)
      | Inr protoReq \<Rightarrow> s_AddUser V ctx protoReq s)"

definition local_request_UserService_UpdateUser_0 :: "lib \<Rightarrow> 'c gateway_runtime \<Rightarrow> ('c, 's) service \<Rightarrow> 'c \<Rightarrow>
    gateway_request \<Rightarrow> (string \<Rightarrow> string option) \<Rightarrow> 's \<Rightarrow> (error + User) \<times> 's" where
  "local_request_UserService_UpdateUser_0 L R V ctx req pathParams s = (case update_message L R req pathParams of
     Inl err \<Rightarrow> (Inl err, s)
   | Inr protoReq \<Rightarrow> s_UpdateUser V ctx protoReq s)"

definition local_request_UserService_GetUser_0 :: "lib \<Rightarrow> 'c gateway_runtime \<Rightarrow> ('c, 's) service \<Rightarrow> 'c \<Rightarrow>
    gateway_request \<Rightarrow> (string \<Rightarrow> string option) \<Rightarrow> 's \<Rightarrow> (error + User) \<times> 's" where
  "local_request_UserService_GetUser_0 L R V ctx req pathParams s =
     (case path_param L (Uint32 R) pathParams ''id'' of
        Inl err \<Rightarrow> (Inl err, s)
      | Inr i \<Rightarrow> s_GetUser V ctx (GetUserRequest_zero\<lparr>gu_Id := i\<rparr>) s)"

definition local_request_UserService_DeleteUser_0 :: "lib \<Rightarrow> 'c gateway_runtime \<Rightarrow> ('c, 's) service \<Rightarrow> 'c \<Rightarrow>
    gateway_request \<Rightarrow> (string \<Rightarrow> string option) \<Rightarrow> 's \<Rightarrow> (error + unit) \<times> 's" where
  "local_request_UserService_DeleteUser_0 L R V ctx req pathParams s =
     (case path_param L (Uint32 R) pathParams ''id'' of
        Inl err \<Rightarrow> (Inl err, s)
      | Inr i \<Rightarrow> s_DeleteUser V ctx (DeleteUserRequest_zero\<lparr>du_Id := i\<rparr>) s)"

section \<open>The HTTP handlers\<close>

text \<open>
  What a handler makes of a request: an error page (\<open>runtime.HTTPError\<close>), with the metadata of
  the answer once there is one, or the answer (\<open>forward\<close>), a message or a stream.
\<close>

datatype 'r http_outcome = HTTPError error "server_md option" | Forward 'r server_md

definition respond :: "(error + 'r) \<times> server_md \<times> 's \<Rightarrow> 'r http_outcome \<times> 's" where
  "respond r = (case r of
     (Inl err, md, s) \<Rightarrow> (HTTPError err (Some md), s)
   | (Inr resp, md, s) \<Rightarrow> (Forward resp md, s))"

definition handle_client :: "'c gateway_runtime \<Rightarrow> string \<Rightarrow> string \<Rightarrow> ('c \<Rightarrow> 's \<Rightarrow> ('r, 's) answered) \<Rightarrow>
    'c \<Rightarrow> 's \<Rightarrow> 'r http_outcome \<times> 's" where
  "handle_client R rpc path request ctx s = (case AnnotateContext R ctx rpc path of
     Inl err \<Rightarrow> (HTTPError err None, s)
   | Inr annotatedContext \<Rightarrow> respond (request annotatedContext s))"

type_synonym ('c, 's, 'r) http_handler = "gateway_request \<Rightarrow> (string \<Rightarrow> string option) \<Rightarrow> 'c \<Rightarrow> 's \<Rightarrow> 'r http_outcome \<times> 's"

definition client_AddUser :: "lib \<Rightarrow> 'c gateway_runtime \<Rightarrow> ('c, 's) client \<Rightarrow> ('c, 's, unit) http_handler" where
  "client_AddUser L R C req pathParams = handle_client R ''/proto.UserService/AddUser'' ''/api/v1/users''
     (\<lambda>ctx. request_UserService_AddUser_0 L R C ctx req pathParams)"

definition client_ListUsers :: "lib \<Rightarrow> 'c gateway_runtime \<Rightarrow> ('c, 's) client \<Rightarrow> ('c, 's, User recv_stream) http_handler" where
  "client_ListUsers L R C req pathParams = handle_client R ''/proto.UserService/ListUsers'' ''/api/v1/users''
     (\<lambda>ctx. request_UserService_ListUsers_0 L R C ctx req pathParams)"

definition client_ListUsersByRole ::
    "lib \<Rightarrow> 'c gateway_runtime \<Rightarrow> ('c, 's) client \<Rightarrow> ('c, 's, User recv_stream) http_handler" where
  "client_ListUsersByRole L R C req pathParams =
     handle_client R ''/proto.UserService/ListUsersByRole'' ''/api/v1/users/role/{role}''
       (\<lambda>ctx. request_UserService_ListUsersByRole_0 L R C ctx req pathParams)"

definition client_UpdateUser :: "lib \<Rightarrow> 'c gateway_runtime \<Rightarrow> ('c, 's) client \<Rightarrow> ('c, 's, User) http_handler" where
  "client_UpdateUser L R C req pathParams =
     handle_client R ''/proto.UserService/UpdateUser'' ''/api/v1/users/{user.id}''
       (\<lambda>ctx. request_UserService_UpdateUser_0 L R C ctx req pathParams)"

definition client_GetUser :: "lib \<Rightarrow> 'c gateway_runtime \<Rightarrow> ('c, 's) client \<Rightarrow> ('c, 's, User) http_handler" where
  "client_GetUser L R C req pathParams = handle_client R ''/proto.UserService/GetUser'' ''/api/v1/users/{id}''
     (\<lambda>ctx. request_UserService_GetUser_0 L R C ctx req pathParams)"

definition client_DeleteUser :: "lib \<Rightarrow> 'c gateway_runtime \<Rightarrow> ('c, 's) client \<Rightarrow> ('c, 's, unit) http_handler" where
  "client_DeleteUser L R C req pathParams =
     handle_client R ''/proto.UserService/DeleteUser'' ''/api/v1/users/{id}''
       (\<lambda>ctx. request_UserService_DeleteUser_0 L R C ctx req pathParams)"

definition client_BatchAddUsers ::
    "lib \<Rightarrow> 'c gateway_runtime \<Rightarrow> ('c, 's) client \<Rightarrow> ('c, 's, BatchAddUsersResponse) http_handler" where
  "client_BatchAddUsers L R C req pathParams =
     handle_client R ''/proto.UserService/BatchAddUsers'' ''/api/v1/users/batch''
       (\<lambda>ctx. request_UserService_BatchAddUsers_0 L R C ctx req pathParams)"

definition client_UserActivityStream ::
    "'c gateway_runtime \<Rightarrow> ('c, 's) client \<Rightarrow> ('c, 's, UserActivityResponse recv_stream) http_handler" where
  "client_UserActivityStream R C req pathParams =
     handle_client R ''/proto.UserService/UserActivityStream'' ''/proto.UserService/UserActivityStream''
       (\<lambda>ctx. request_UserService_UserActivityStream_0 R C ctx req)"

definition client_SyncUsers ::
    "'c gateway_runtime \<Rightarrow> ('c, 's) client \<Rightarrow> ('c, 's, SyncUserResponse recv_stream) http_handler" where
  "client_SyncUsers R C req pathParams =
     handle_client R ''/proto.UserService/SyncUsers'' ''/proto.UserService/SyncUsers''
       (\<lambda>ctx. request_UserService_SyncUsers_0 R C ctx req)"

text \<open>
  The in-process registration: the unary handlers, with the metadata \<open>T\<close> the service left in the
  transport stream; the streaming ones all answer the same error.
\<close>

definition handle_server :: "'c gateway_runtime \<Rightarrow> server_md \<Rightarrow> string \<Rightarrow> string \<Rightarrow> ('c \<Rightarrow> 's \<Rightarrow> (error + 'r) \<times> 's) \<Rightarrow>
    'c \<Rightarrow> 's \<Rightarrow> 'r http_outcome \<times> 's" where
  "handle_server R T rpc path request ctx s = (case AnnotateIncomingContext R ctx rpc path of
     Inl err \<Rightarrow> (HTTPError err None, s)
   | Inr annotatedContext \<Rightarrow> (case request annotatedContext s of (r, s') \<Rightarrow> respond (r, T, s')))"

definition server_AddUser :: "lib \<Rightarrow> 'c gateway_runtime \<Rightarrow> server_md \<Rightarrow> ('c, 's) service \<Rightarrow> ('c, 's, unit) http_handler" where
  "server_AddUser L R T V req pathParams = handle_server R T ''/proto.UserService/AddUser'' ''/api/v1/users''
     (\<lambda>ctx. local_request_UserService_AddUser_0 L R V ctx req pathParams)"

definition server_UpdateUser :: "lib \<Rightarrow> 'c gateway_runtime \<Rightarrow> server_md \<Rightarrow> ('c, 's) service \<Rightarrow> ('c, 's, User) http_handler" where
  "server_UpdateUser L R T V req pathParams =
     handle_server R T ''/proto.UserService/UpdateUser'' ''/api/v1/users/{user.id}''
       (\<lambda>ctx. local_request_UserService_UpdateUser_0 L R V ctx req pathParams)"

definition server_GetUser :: "lib \<Rightarrow> 'c gateway_runtime \<Rightarrow> server_md \<Rightarrow> ('c, 's) service \<Rightarrow> ('c, 's, User) http_handler" where
  "server_GetUser L R T V req pathParams = handle_server R T ''/proto.UserService/GetUser'' ''/api/v1/users/{id}''
     (\<lambda>ctx. local_request_UserService_GetUser_0 L R V ctx req pathParams)"

definition server_DeleteUser :: "lib \<Rightarrow> 'c gateway_runtime \<Rightarrow> server_md \<Rightarrow> ('c, 's) service \<Rightarrow> ('c, 's, unit) http_handler" where
  "server_DeleteUser L R T V req pathParams = handle_server R T ''/proto.UserService/DeleteUser'' ''/api/v1/users/{id}''
     (\<lambda>ctx. local_request_UserService_DeleteUser_0 L R V ctx req pathParams)"

definition server_streaming :: "'r http_outcome" where
  "server_streaming = HTTPError (Status Unimplemented
     ''streaming calls are not yet supported in the in-process transport'') None"

section \<open>The two registrations agree\<close>

text \<open>A client that reaches the service, under contexts that do not matter to it.\<close>

definition relays :: "('c, 's) client \<Rightarrow> ('c, 's) service \<Rightarrow> server_md \<Rightarrow> bool" where
  "relays C V T \<longleftrightarrow>
     (\<forall>c c' m s. c_AddUser C c m s = (case s_AddUser V c' m s of (r, s') \<Rightarrow> (r, T, s'))) \<and>
     (\<forall>c c' m s. c_UpdateUser C c m s = (case s_UpdateUser V c' m s of (r, s') \<Rightarrow> (r, T, s'))) \<and>
     (\<forall>c c' m s. c_GetUser C c m s = (case s_GetUser V c' m s of (r, s') \<Rightarrow> (r, T, s'))) \<and>
     (\<forall>c c' m s. c_DeleteUser C c m s = (case s_DeleteUser V c' m s of (r, s') \<Rightarrow> (r, T, s')))"

text \<open>The page a caller sees: what \<open>HTTPError\<close> and \<open>forward\<close> show, without metadata.\<close>

fun shown :: "'r http_outcome \<times> 's \<Rightarrow> (error + 'r) \<times> 's" where
  "shown (HTTPError err _, s) = (Inl err, s)"
| "shown (Forward r _, s) = (Inr r, s)"

lemma shown_respond [simp]: "shown (respond (r, md, s)) = (r, s)"
  by (cases r) (simp_all add: respond_def)

lemma registrations_agree:
  assumes "relays C V T" and "AnnotateContext R ctx rpc path = Inr c1" and "AnnotateIncomingContext R ctx rpc path = Inr c2"
  shows "rpc = ''/proto.UserService/AddUser'' \<Longrightarrow> path = ''/api/v1/users'' \<Longrightarrow>
      shown (client_AddUser L R C req pp ctx s) = shown (server_AddUser L R T V req pp ctx s)"
    and "rpc = ''/proto.UserService/UpdateUser'' \<Longrightarrow> path = ''/api/v1/users/{user.id}'' \<Longrightarrow>
      shown (client_UpdateUser L R C req pp ctx s) = shown (server_UpdateUser L R T V req pp ctx s)"
    and "rpc = ''/proto.UserService/GetUser'' \<Longrightarrow> path = ''/api/v1/users/{id}'' \<Longrightarrow>
      shown (client_GetUser L R C req pp ctx s) = shown (server_GetUser L R T V req pp ctx s)"
    and "rpc = ''/proto.UserService/DeleteUser'' \<Longrightarrow> path = ''/api/v1/users/{id}'' \<Longrightarrow>
      shown (client_DeleteUser L R C req pp ctx s) = shown (server_DeleteUser L R T V req pp ctx s)"
proof -
  have relay: "c_AddUser C c1 u s = (case s_AddUser V c2 u s of (r, s') \<Rightarrow> (r, T, s'))"
    "c_UpdateUser C c1 uu s = (case s_UpdateUser V c2 uu s of (r, s') \<Rightarrow> (r, T, s'))"
    "c_GetUser C c1 g s = (case s_GetUser V c2 g s of (r, s') \<Rightarrow> (r, T, s'))"
    "c_DeleteUser C c1 d s = (case s_DeleteUser V c2 d s of (r, s') \<Rightarrow> (r, T, s'))" for u uu g d
    using assms(1) unfolding relays_def by blast+
  show "rpc = ''/proto.UserService/AddUser'' \<Longrightarrow> path = ''/api/v1/users'' \<Longrightarrow>
      shown (client_AddUser L R C req pp ctx s) = shown (server_AddUser L R T V req pp ctx s)"
    using assms(2,3)
    by (simp add: client_AddUser_def server_AddUser_def handle_client_def handle_server_def relay
        request_UserService_AddUser_0_def local_request_UserService_AddUser_0_def split: sum.splits prod.splits)
  show "rpc = ''/proto.UserService/UpdateUser'' \<Longrightarrow> path = ''/api/v1/users/{user.id}'' \<Longrightarrow>
      shown (client_UpdateUser L R C req pp ctx s) = shown (server_UpdateUser L R T V req pp ctx s)"
    using assms(2,3)
    by (simp add: client_UpdateUser_def server_UpdateUser_def handle_client_def handle_server_def relay
        request_UserService_UpdateUser_0_def local_request_UserService_UpdateUser_0_def
        split: sum.splits prod.splits)
  show "rpc = ''/proto.UserService/GetUser'' \<Longrightarrow> path = ''/api/v1/users/{id}'' \<Longrightarrow>
      shown (client_GetUser L R C req pp ctx s) = shown (server_GetUser L R T V req pp ctx s)"
    using assms(2,3)
    by (simp add: client_GetUser_def server_GetUser_def handle_client_def handle_server_def relay
        request_UserService_GetUser_0_def local_request_UserService_GetUser_0_def split: sum.splits prod.splits)
  show "rpc = ''/proto.UserService/DeleteUser'' \<Longrightarrow> path = ''/api/v1/users/{id}'' \<Longrightarrow>
      shown (client_DeleteUser L R C req pp ctx s) = shown (server_DeleteUser L R T V req pp ctx s)"
    using assms(2,3)
    by (simp add: client_DeleteUser_def server_DeleteUser_def handle_client_def handle_server_def relay
        request_UserService_DeleteUser_0_def local_request_UserService_DeleteUser_0_def split: sum.splits prod.splits)
qed

end
