(* ===== verification/GatewayService.thy ===== *)
theory GatewayService
  imports Gateway UserService
begin

text \<open>
  REST calls end to end: the gateway of \<open>example.pb.gw.go\<close> in front of the handlers of
  \<open>server.go\<close> over the in-memory storage, as \<open>main\<close> puts them together.
\<close>

section \<open>PATCH\<close>

text \<open>C24. A REST update without a mask is no partial update: \<open>PATCH /api/v1/users/{id}\<close> with a body
  that names a few fields replaces the user by these, the others becoming zero. Only the id, which
  comes from the path, and the creation date survive; the answer is the user stored, up to the
  e-mail address and phone number that the storage drops.\<close>

theorem rest_patch_replaces:
  assumes "mem_inv m" and "fmlookup (users m) i = Some old" and "i \<noteq> 0"
    and "AnnotateContext R ctx ''/proto.UserService/UpdateUser'' ''/api/v1/users/{user.id}'' = Inr c"
    and "req_body req = [v]" and "decode_UpdateUserRequest R v = Inr \<lparr>uu_User = Some u, uu_UpdateMask = None\<rparr>"
    and "pathParams ''user.id'' = Some p"
    and "PopulateFieldFromPath R \<lparr>uu_User = Some u, uu_UpdateMask = None\<rparr> ''user.id'' p =
      Inr \<lparr>uu_User = Some (u\<lparr>u_Id := i\<rparr>), uu_UpdateMask = None\<rparr>"
    and "\<And>r s. c_UpdateUser C c r s = (case Server_UpdateUser (memory_Storage L ord clk) r s of (x, s') \<Rightarrow> (x, T, s'))"
  shows "let stored = u\<lparr>u_Id := i, u_CreateDate := u_CreateDate old\<rparr>
    in client_UpdateUser L R C req pathParams ctx m =
      (Forward stored T, m\<lparr>users := fmupd i (clone_fields stored) (users m)\<rparr>)"
proof -
  note old = mem_invD [OF assms(1,2)]
  let ?v = "u\<lparr>u_Id := i, u_CreateDate := u_CreateDate old\<rparr>"
  have upd: "apply_update (u\<lparr>u_Id := i\<rparr>) None old = Inr ?v"
    using old(1) by (simp add: apply_update_def replace_fields_def)
  have serve: "Server_UpdateUser (memory_Storage L ord clk) \<lparr>uu_User = Some (u\<lparr>u_Id := i\<rparr>), uu_UpdateMask = None\<rparr> m =
      (Inr ?v, m\<lparr>users := fmupd i (clone_fields ?v) (users m)\<rparr>)"
    using assms(2,3) old upd by (simp add: Server_UpdateUser_def memory_read_defs memory_write_defs)
  have msg: "update_message L R req pathParams = Inr \<lparr>uu_User = Some (u\<lparr>u_Id := i\<rparr>), uu_UpdateMask = None\<rparr>"
    using assms(5-8) by (simp add: update_message_def decode_one_def Decode_def path_param_def)
  show ?thesis
    unfolding Let_def
    by (simp add: client_UpdateUser_def handle_client_def assms(4) request_UserService_UpdateUser_0_def msg
        assms(9) serve respond_def)
qed

section \<open>Batches\<close>

text \<open>The users a body holds up to its first unreadable value, and the error of that value.\<close>

fun readable :: "(string \<Rightarrow> error + 'm) \<Rightarrow> string list \<Rightarrow> 'm list \<times> error option" where
  "readable decode [] = ([], None)"
| "readable decode (v # vs) = (case decode v of
     Inl err \<Rightarrow> ([], Some err)
   | Inr u \<Rightarrow> (case readable decode vs of (us, e) \<Rightarrow> (u # us, e)))"

lemma batch_sends_readable:
  "(\<And>n. send n = None) \<Longrightarrow> readable decode b = (us, e) \<Longrightarrow>
   batch_sends L decode send b sent = (sent @ us,
     case e of None \<Rightarrow> None | Some err \<Rightarrow> if errors_Is err EOF then None else Some (invalid L err))"
  by (induction L decode send b sent arbitrary: us rule: batch_sends.induct)
    (auto split: sum.splits prod.splits)

lemma readable_length: "readable decode b = (us, e) \<Longrightarrow> length us \<le> length b"
  by (induction decode b arbitrary: us rule: readable.induct) (auto split: sum.splits prod.splits)

text \<open>
  A stream to the handler over a working connection: after \<open>CloseAndRecv\<close> the handler has had
  every user and its answer arrives; a call that is given up reaches the handler as some of the
  users and then an error.
\<close>

definition batch_transport :: "lib \<Rightarrow> 's Storage \<Rightarrow> 's send_stream \<Rightarrow> bool" where
  "batch_transport L S st \<longleftrightarrow> (\<forall>n. send_Send st n = None) \<and> send_CloseSend st = None \<and>
     (\<exists>h. send_Header st = Inr h) \<and>
     (\<forall>us s. \<exists>ts now rs s' trailer. length ts = length us \<and>
        Server_BatchAddUsers L S now None (messages (zip ts us)) s = (Some rs, None, s') \<and>
        CloseAndRecv st us s = (Inr rs, trailer, s')) \<and>
     (\<forall>us s. \<exists>ts now close e. length ts \<le> length us \<and>
        give_up st us s = snd (snd (Server_BatchAddUsers L S now close (messages (zip ts us) @ [RecvErr e]) s)))"

lemma batch_loop_aborted:
  "batch_loop L S now close (messages tus @ [RecvErr e]) bs = (None, Some e, snd (batch_run L S tus bs))"
  by (induction L S tus bs rule: batch_run.induct) auto

text \<open>Which user an id has after some users have been added, one after the other.\<close>

definition batch_entry :: "lib \<Rightarrow> MemoryStorage \<Rightarrow> (time \<times> User) list \<Rightarrow> uint32 \<Rightarrow> User option" where
  "batch_entry L m tus i = (case fmlookup (users m) i of
     Some v \<Rightarrow> Some v
   | None \<Rightarrow> map_option (\<lambda>(t, u). clone_fields (mem_fill L t u))
       (find (\<lambda>(t, u). u_Id u = i \<and> u_Id u \<noteq> 0 \<and> u_Username u \<noteq> []) tus))"

lemma batch_run_memory:
  assumes "mem_inv m"
  shows "fmlookup (users (snd (batch_run L (memory_Storage L ord clk) tus (b, m)))) i = batch_entry L m tus i"
  using mem.batch_run_entry [OF assms]
  by (auto simp: batch_entry_def batch_valid_def split: option.splits)

text \<open>A REST batch whose values can all be read, and one that cannot be read to its end.\<close>

lemma rest_batch_readable:
  assumes "mem_inv m" and "length us < 2 ^ 32" and "c_BatchAddUsers C c = Inr st"
    and "batch_transport L (memory_Storage L ord clk) st"
    and "batch_sends L (decode_User R) (send_Send st) (req_body req) [] = (us, None)"
    and "shown (respond (request_UserService_BatchAddUsers_0 L R C c req pathParams m)) = (r, m')"
  obtains ts rs where "length ts = length us" and "r = Inr rs" and "unat (ba_TotalReceived rs) = length us"
    and "unat (ba_TotalAdded rs) + unat (ba_TotalFailed rs) = length us"
    and "\<And>i. fmlookup (users m') i = batch_entry L m (zip ts us) i"
proof -
  let ?S = "memory_Storage L ord clk"
  obtain h where st: "send_CloseSend st = None" "send_Header st = Inr h"
    using assms(4) unfolding batch_transport_def by blast
  from assms(4) obtain ts now rs s' trailer where ts: "length ts = length us"
    and run: "Server_BatchAddUsers L ?S now None (messages (zip ts us)) m = (Some rs, None, s')"
    and recv: "CloseAndRecv st us m = (Inr rs, trailer, s')"
    unfolding batch_transport_def by blast
  have rm: "r = Inr rs" "m' = s'"
    using assms(6) by (simp_all add: request_UserService_BatchAddUsers_0_def assms(3,5) st recv)
  obtain b s where eq: "batch_run L ?S (zip ts us) (batch_init, m) = (b, s)"
    by (cases "batch_run L ?S (zip ts us) (batch_init, m)")
  have rs: "rs = batch_response L now b" "s' = s"
    using run eq by (auto simp: Server_BatchAddUsers_def batch_loop_messages)
  obtain a f where counts: "batch_counts (length us) a f b"
    using mem.batch_run_counts [OF assms(1) batch_counts_init _ eq] ts by auto
  have "unat (of_nat n :: int32) = n" if "n \<le> length us" for n
    using that assms(2) by (simp add: unat_of_nat take_bit_nat_eq_self)
  with counts have "unat (ba_TotalReceived rs) = length us"
    "unat (ba_TotalAdded rs) + unat (ba_TotalFailed rs) = length us"
    by (auto simp: rs batch_response_def batch_counts_def)
  moreover have "fmlookup (users m') i = batch_entry L m (zip ts us) i" for i
    using batch_run_memory [OF assms(1), of L ord clk "zip ts us" batch_init i] eq rm rs by simp
  ultimately show thesis using that ts rm(1) by blast
qed

lemma rest_batch_unreadable:
  assumes "mem_inv m" and "c_BatchAddUsers C c = Inr st" and "batch_transport L (memory_Storage L ord clk) st"
    and "batch_sends L (decode_User R) (send_Send st) (req_body req) [] = (us, Some err)"
    and "shown (respond (request_UserService_BatchAddUsers_0 L R C c req pathParams m)) = (r, m')"
  obtains ts where "length ts \<le> length us" and "r = Inl err"
    and "\<And>i. fmlookup (users m') i = batch_entry L m (zip ts us) i"
proof -
  let ?S = "memory_Storage L ord clk"
  from assms(3) obtain ts now close why where ts: "length ts \<le> length us"
    and gone: "give_up st us m = snd (snd (Server_BatchAddUsers L ?S now close (messages (zip ts us) @ [RecvErr why]) m))"
    unfolding batch_transport_def by blast
  have rm: "r = Inl err" "m' = give_up st us m"
    using assms(5) by (simp_all add: request_UserService_BatchAddUsers_0_def assms(2,4))
  then have "fmlookup (users m') i = batch_entry L m (zip ts us) i" for i
    using batch_run_memory [OF assms(1), of L ord clk "zip ts us" batch_init i]
    by (simp add: gone Server_BatchAddUsers_def batch_loop_aborted)
  then show thesis using that ts rm(1) by blast
qed

text \<open>A transport that lets the handler have the first \<open>k\<close> users of a call that is given up.\<close>

definition cut_after :: "lib \<Rightarrow> 's Storage \<Rightarrow> nat \<Rightarrow> 's send_stream \<Rightarrow> 's send_stream" where
  "cut_after L S k st = st\<lparr>give_up := \<lambda>us s. snd (snd (Server_BatchAddUsers L S 0 None
     (messages (zip (replicate (min k (length us)) 0) us) @ [RecvErr EOF]) s))\<rparr>"

lemma cut_after_transport:
  assumes "batch_transport L S st"
  shows "batch_transport L S (cut_after L S k st)"
proof -
  have "\<exists>ts now close e. length ts \<le> length us \<and> give_up (cut_after L S k st) us s =
      snd (snd (Server_BatchAddUsers L S now close (messages (zip ts us) @ [RecvErr e]) s))" for us s
    by (intro exI [of _ "replicate (min k (length us)) 0"] exI [of _ 0] exI [of _ None] exI [of _ EOF])
      (simp add: cut_after_def)
  with assms show ?thesis by (simp add: batch_transport_def cut_after_def)
qed

lemma zip_take: "zip xs (take (length xs) ys) = zip xs ys"
proof (induction xs arbitrary: ys)
  case (Cons x xs)
  then show ?case by (cases ys) simp_all
qed simp

lemma rest_batch_cut:
  assumes "mem_inv m" and "batch_transport L (memory_Storage L ord clk) st" and "k \<le> length us"
    and "AnnotateContext R ctx ''/proto.UserService/BatchAddUsers'' ''/api/v1/users/batch'' = Inr c"
    and "batch_sends L (decode_User R) (send_Send st) (req_body req) [] = (us, Some err)"
  shows "\<exists>ts m''. length ts = k \<and>
    shown (client_BatchAddUsers L R (C\<lparr>c_BatchAddUsers := \<lambda>_. Inr (cut_after L (memory_Storage L ord clk) k st)\<rparr>)
      req pathParams ctx m) = (Inl err, m'') \<and>
    (\<forall>i. fmlookup (users m'') i = batch_entry L m (zip ts (take k us)) i)"
proof -
  let ?S = "memory_Storage L ord clk" and ?ts = "replicate k (0 :: time)"
  let ?st = "cut_after L ?S k st"
  let ?m = "give_up ?st us m"
  have gone: "?m = snd (batch_run L ?S (zip ?ts us) (batch_init, m))"
    using assms(3) by (simp add: cut_after_def Server_BatchAddUsers_def batch_loop_aborted)
  have "batch_sends L (decode_User R) (send_Send ?st) (req_body req) [] = (us, Some err)"
    using assms(5) by (simp add: cut_after_def)
  then have "shown (client_BatchAddUsers L R (C\<lparr>c_BatchAddUsers := \<lambda>_. Inr ?st\<rparr>) req pathParams ctx m) = (Inl err, ?m)"
    by (simp add: client_BatchAddUsers_def handle_client_def assms(4) request_UserService_BatchAddUsers_0_def respond_def)
  moreover have "zip ?ts (take k us) = zip ?ts us" using zip_take [of ?ts us] by simp
  ultimately show ?thesis
    using batch_run_memory [OF assms(1), of L ord clk "zip ?ts us" batch_init] gone
    by (intro exI [of _ ?ts] exI [of _ ?m]) simp
qed

text \<open>C21. \<open>POST /api/v1/users/batch\<close> is not atomic. A body that is readable to its end is answered
  with a count of all its users, and each of them is stored that is valid and new. A body with an
  unreadable value is answered \<open>InvalidArgument\<close>, without a count, and the users before that value
  have been added as far as the handler had got: for every number \<open>k\<close> of them there is a connection,
  keeping the same law, over which the answer is this error and exactly the first \<open>k\<close> have been
  added. Users already stored stay as they are in every case.\<close>

theorem rest_batch_not_atomic:
  assumes "mem_inv m" and "length (req_body req) < 2 ^ 32"
    and "AnnotateContext R ctx ''/proto.UserService/BatchAddUsers'' ''/api/v1/users/batch'' = Inr c"
    and "c_BatchAddUsers C c = Inr st" and "batch_transport L (memory_Storage L ord clk) st"
    and "readable (decode_User R) (req_body req) = (us, e)"
    and "shown (client_BatchAddUsers L R C req pathParams ctx m) = (r, m')"
  shows "(\<exists>ts. length ts \<le> length us \<and> (\<forall>i. fmlookup (users m') i = batch_entry L m (zip ts us) i) \<and>
    (if e = None \<or> errors_Is (the e) EOF
     then length ts = length us \<and> (\<exists>rs. r = Inr rs \<and> unat (ba_TotalReceived rs) = length us \<and>
       unat (ba_TotalAdded rs) + unat (ba_TotalFailed rs) = length us)
     else r = Inl (invalid L (the e)))) \<and>
    (if e = None \<or> errors_Is (the e) EOF then True
     else \<forall>k \<le> length us. \<exists>st'. batch_transport L (memory_Storage L ord clk) st' \<and>
       (\<exists>ts m''. length ts = k \<and>
          shown (client_BatchAddUsers L R (C\<lparr>c_BatchAddUsers := \<lambda>_. Inr st'\<rparr>) req pathParams ctx m) =
            (Inl (invalid L (the e)), m'') \<and>
          (\<forall>i. fmlookup (users m'') i = batch_entry L m (zip ts (take k us)) i)))"
proof -
  have "send_Send st n = None" for n using assms(5) unfolding batch_transport_def by blast
  note sends = batch_sends_readable [of "send_Send st", OF this assms(6), of L "[]", unfolded append_Nil]
  have short: "length us < 2 ^ 32" using readable_length [OF assms(6)] assms(2) by simp
  have call: "shown (respond (request_UserService_BatchAddUsers_0 L R C c req pathParams m)) = (r, m')"
    using assms(7) by (simp add: client_BatchAddUsers_def handle_client_def assms(3))
  show ?thesis
  proof (cases "e = None \<or> errors_Is (the e) EOF")
    case True
    then have "batch_sends L (decode_User R) (send_Send st) (req_body req) [] = (us, None)"
      using sends by (cases e) simp_all
    from rest_batch_readable [OF assms(1) short assms(4,5) this call] True show ?thesis
      by (metis order_refl)
  next
    case False
    then have sent: "batch_sends L (decode_User R) (send_Send st) (req_body req) [] = (us, Some (invalid L (the e)))"
      using sends by (cases e) simp_all
    note cut = rest_batch_cut [OF assms(1,5) _ assms(3) sent, where C = C and pathParams = pathParams]
      cut_after_transport [OF assms(5)]
    from rest_batch_unreadable [OF assms(1,4,5) sent call] obtain ts where "length ts \<le> length us"
      "r = Inl (invalid L (the e))" "\<forall>i. fmlookup (users m') i = batch_entry L m (zip ts us) i" by metis
    with False cut show ?thesis by (simp del: One_nat_def) blast
  qed
qed

section \<open>A gateway to test on\<close>

definition sample_runtime :: "unit gateway_runtime" where
  "sample_runtime = \<lparr>
     AnnotateContext = (\<lambda>c rpc path. Inr c), AnnotateIncomingContext = (\<lambda>c rpc path. Inr c),
     decode_User = (\<lambda>v. if v = ''admin'' then Inr admin else Inl (Errorf ''bad json'' None)),
     decode_UpdateUserRequest = (\<lambda>v.
       Inr \<lparr>uu_User = Some (User_zero\<lparr>u_Role := Role_MEMBER\<rparr>), uu_UpdateMask = None\<rparr>),
     decode_UserActivity = (\<lambda>v. Inl (Errorf ''bad json'' None)),
     Uint32 = (\<lambda>v. Inr 2),
     Enum = (\<lambda>v names. Inr 0),
     PopulateFieldFromPath = (\<lambda>r f p. Inr (r\<lparr>uu_User := map_option (\<lambda>u. u\<lparr>u_Id := 2\<rparr>) (uu_User r)\<rparr>)),
     PopulateQueryParameters = (\<lambda>r form. Inr r)\<rparr>"

definition sample_stream :: "MemoryStorage send_stream" where
  "sample_stream = \<lparr>send_Send = (\<lambda>n. None), send_CloseSend = None, send_Header = Inr fmempty,
     CloseAndRecv = (\<lambda>us s. case Server_BatchAddUsers sample_lib sample_store 0 None
         (messages (zip (replicate (length us) 0) us)) s of
         (Some rs, _, s') \<Rightarrow> (Inr rs, fmempty, s') | (None, _, s') \<Rightarrow> (Inl EOF, fmempty, s')),
     give_up = (\<lambda>us s. snd (snd (Server_BatchAddUsers sample_lib sample_store 0 None
         (messages (zip (replicate (length us) 0) us) @ [RecvErr EOF]) s)))\<rparr>"

lemma batch_messages_answered:
  "\<exists>rs s'. Server_BatchAddUsers L S now close (messages tus) s = (Some rs, close, s')"
  by (simp add: Server_BatchAddUsers_def batch_loop_messages Let_def)

lemma sample_transport [simp]: "batch_transport sample_lib sample_store sample_stream"
  unfolding batch_transport_def
proof (intro conjI allI)
  fix us :: "User list" and s :: MemoryStorage
  let ?ts = "replicate (length us) (0 :: time)"
  obtain rs s' where run: "Server_BatchAddUsers sample_lib sample_store 0 None (messages (zip ?ts us)) s = (Some rs, None, s')"
    using batch_messages_answered [of sample_lib sample_store 0 None "zip ?ts us" s] by (elim exE)
  then have "CloseAndRecv sample_stream us s = (Inr rs, fmempty, s')"
    by (simp add: sample_stream_def)
  with run show "\<exists>ts now rs s' trailer. length ts = length us \<and>
      Server_BatchAddUsers sample_lib sample_store now None (messages (zip ts us)) s = (Some rs, None, s') \<and>
      CloseAndRecv sample_stream us s = (Inr rs, trailer, s')"
    by (intro exI [of _ ?ts] exI [of _ 0] exI [of _ rs] exI [of _ s'] exI [of _ fmempty]) simp
  show "\<exists>ts now close e. length ts \<le> length us \<and> give_up sample_stream us s =
      snd (snd (Server_BatchAddUsers sample_lib sample_store now close (messages (zip ts us) @ [RecvErr e]) s))"
    by (intro exI [of _ ?ts] exI [of _ 0] exI [of _ None] exI [of _ EOF]) (simp add: sample_stream_def)
qed (simp_all add: sample_stream_def)

definition sample_client :: "(unit, MemoryStorage) client" where
  "sample_client = \<lparr>
     c_AddUser = (\<lambda>c u s. case Server_AddUser sample_store 0 u s of (x, s') \<Rightarrow> (x, no_md, s')),
     c_GetUser = (\<lambda>c r s. case Server_GetUser sample_store r s of (x, s') \<Rightarrow> (x, no_md, s')),
     c_UpdateUser = (\<lambda>c r s. case Server_UpdateUser sample_store r s of (x, s') \<Rightarrow> (x, no_md, s')),
     c_DeleteUser = (\<lambda>c r s. case Server_DeleteUser sample_store r s of (x, s') \<Rightarrow> (x, no_md, s')),
     c_ListUsers = (\<lambda>c r s. (Inl EOF, s)), c_ListUsersByRole = (\<lambda>c r s. (Inl EOF, s)),
     c_BatchAddUsers = (\<lambda>c. Inr sample_stream),
     c_UserActivityStream = (\<lambda>c. Inl EOF), c_SyncUsers = (\<lambda>c. Inl EOF)\<rparr>"

theorem rest_patch_replaces_witness:
  "fst (client_UpdateUser sample_lib sample_runtime sample_client \<lparr>req_body = [''{role: 1}''], req_form = Inr fmempty\<rparr>
      [''user.id'' \<mapsto> ''2''] () sample_mem) =
   Forward (User_zero\<lparr>u_Role := Role_MEMBER, u_Id := 2, u_CreateDate := u_CreateDate guest\<rparr>) no_md"
proof -
  let ?req = "\<lparr>req_body = [''{role: 1}''], req_form = Inr fmempty\<rparr>"
  have "let stored = User_zero\<lparr>u_Role := Role_MEMBER, u_Id := 2, u_CreateDate := u_CreateDate (clone_fields guest)\<rparr>
    in client_UpdateUser sample_lib sample_runtime sample_client ?req [''user.id'' \<mapsto> ''2''] () sample_mem =
      (Forward stored no_md, sample_mem\<lparr>users := fmupd 2 (clone_fields stored) (users sample_mem)\<rparr>)"
    by (rule rest_patch_replaces [where p = "''2''" and L = sample_lib and v = "''{role: 1}''", OF sample_mem_inv sample_mem_lookup(2)])
      (simp_all add: sample_runtime_def sample_client_def)
  then show ?thesis by (simp add: Let_def)
qed

text \<open>One user, then a value that cannot be read: the page is the error, and the user is stored.\<close>

theorem rest_batch_not_atomic_witness:
  "\<exists>st m'. batch_transport sample_lib sample_store st \<and>
     shown (client_BatchAddUsers sample_lib sample_runtime (sample_client\<lparr>c_BatchAddUsers := \<lambda>_. Inr st\<rparr>)
       \<lparr>req_body = [''admin'', ''?''], req_form = Inr fmempty\<rparr> Map.empty () NewMemoryStorage) =
     (Inl (Status InvalidArgument ''bad json''), m') \<and> fmlookup (users m') 1 \<noteq> None"
proof -
  let ?req = "\<lparr>req_body = [''admin'', ''?''], req_form = Inr fmempty\<rparr>"
  let ?bad = "Errorf ''bad json'' None"
  have read: "readable (decode_User sample_runtime) (req_body ?req) = ([admin], Some ?bad)"
    by (simp add: sample_runtime_def)
  have bad: "\<not> errors_Is ?bad EOF" "invalid sample_lib ?bad = Status InvalidArgument ''bad json''"
    by (simp_all add: invalid_def)
  obtain r m' where run: "shown (client_BatchAddUsers sample_lib sample_runtime sample_client ?req Map.empty ()
      NewMemoryStorage) = (r, m')" by fastforce
  have small: "length (req_body ?req) < 2 ^ 32" by simp
  have ctx: "AnnotateContext sample_runtime () ''/proto.UserService/BatchAddUsers'' ''/api/v1/users/batch'' = Inr ()"
    by (simp add: sample_runtime_def)
  have conn: "c_BatchAddUsers sample_client () = Inr sample_stream" by (simp add: sample_client_def)
  note all = conjunct2 [OF rest_batch_not_atomic [OF mem_inv_New small ctx conn sample_transport read run]]
  have not: "\<not> (Some ?bad = None \<or> errors_Is (the (Some ?bad)) EOF)" using bad(1) by simp
  have one: "1 \<le> length [admin]" by simp
  note st = mp [OF spec [OF all [unfolded if_not_P [OF not]], of 1] one, unfolded option.sel]
  from st obtain st ts m'' where st: "batch_transport sample_lib sample_store st" and ts: "length ts = 1"
      and page: "shown (client_BatchAddUsers sample_lib sample_runtime (sample_client\<lparr>c_BatchAddUsers := \<lambda>_. Inr st\<rparr>)
        ?req Map.empty () NewMemoryStorage) = (Inl (invalid sample_lib ?bad), m'')"
      and stored: "\<forall>i. fmlookup (users m'') i = batch_entry sample_lib NewMemoryStorage (zip ts (take 1 [admin])) i"
    by (elim exE conjE) blast
  obtain t where "ts = [t]" using ts by (cases ts) auto
  then have "fmlookup (users m'') 1 \<noteq> None"
    using stored by (simp add: batch_entry_def NewMemoryStorage_def admin_def sample_user_def)
  with st page show ?thesis unfolding bad(2) by blast
qed

end
