(* ===== verification/Client.thy ===== *)
theory Client
  imports Gateway
begin

text \<open>
  \<open>cmd/client/main.go\<close>: the demonstration client, which calls every method of the service once.
  The gRPC client is the record \<open>rpc_client\<close> over a state \<open>'s\<close> of the service behind it. What
  the program prints is a list of lines: a format with its arguments for \<open>log.Printf\<close>, a text for
  \<open>log.Println\<close> and \<open>fmt.Println\<close>.
\<close>

section \<open>Output\<close>

datatype demo_arg =
    ArgStr string
  | ArgInt int
  | ArgBool bool
  | ArgErr error
  | ArgList "string list"
  | ArgMap "(string, string) fmap option"

datatype demo_line =
    Logf string "demo_arg list"
  | Logln string
  | Out string
  | Fatalf string "demo_arg list"

text \<open>The check mark and the two arrows of the messages, as UTF-8.\<close>

definition tick :: string where
  "tick = [CHR 0xE2, CHR 0x9C, CHR 0x93]"

definition right_arrow :: string where
  "right_arrow = [CHR 0xE2, CHR 0x86, CHR 0x92]"

definition left_arrow :: string where
  "left_arrow = [CHR 0xE2, CHR 0x86, CHR 0x90]"

definition elements :: "'a list option \<Rightarrow> 'a list" where
  "elements xs = (case xs of None \<Rightarrow> [] | Some l \<Rightarrow> l)"

section \<open>The client and its surroundings\<close>

text \<open>
  The context of the calls carries the outgoing metadata. A bidirectional stream answers the
  messages sent before \<open>CloseSend\<close> with messages and the error \<open>Recv\<close> ends with.
\<close>

type_synonym outgoing = "md option"

record ('m, 'r, 's) duplex =
  dx_Send :: "nat \<Rightarrow> error option"
  dx_answers :: "'m list \<Rightarrow> 's \<Rightarrow> ('r list \<times> error) \<times> 's"

record 's rpc_client =
  rc_AddUser :: "outgoing \<Rightarrow> User \<Rightarrow> 's \<Rightarrow> (error + unit) \<times> 's"
  rc_GetUser :: "outgoing \<Rightarrow> GetUserRequest \<Rightarrow> 's \<Rightarrow> (error + User) \<times> 's"
  rc_UpdateUser :: "outgoing \<Rightarrow> UpdateUserRequest \<Rightarrow> 's \<Rightarrow> (error + User) \<times> 's"
  rc_DeleteUser :: "outgoing \<Rightarrow> DeleteUserRequest \<Rightarrow> 's \<Rightarrow> (error + unit) \<times> 's"
  rc_ListUsers :: "outgoing \<Rightarrow> ListUsersRequest \<Rightarrow> 's \<Rightarrow> (error + User list \<times> error) \<times> 's"
  rc_ListUsersByRole :: "outgoing \<Rightarrow> UserRole \<Rightarrow> 's \<Rightarrow> (error + User list \<times> error) \<times> 's"
  rc_BatchAddUsers :: "outgoing \<Rightarrow> error + 's send_stream"
  rc_UserActivityStream :: "outgoing \<Rightarrow> error + (UserActivity, UserActivityResponse, 's) duplex"
  rc_SyncUsers :: "outgoing \<Rightarrow> error + (User, SyncUserResponse, 's) duplex"

text \<open>
  The flags and the rest of the world: files, certificates, the connection, \<open>durationpb.New\<close>, the
  readings of the clock, the order in which the lines of a demonstration that sends in one
  goroutine and receives in another come out, and \<open>e_contact\<close>: the client sets the contact of a user
  through a oneof, \<open>ContactInfo\<close>, with the wrappers \<open>pb.User_Email\<close> and \<open>pb.User_Phone\<close>, which the package
  it imports does not have. The program does not compile against that package; the model is of its
  text, and what setting the contact does to a user is left open.
\<close>

record client_flags =
  serverAddr :: string
  insecureConn :: bool
  jwtToken :: string
  certFile :: string
  skipVerify :: bool

definition client_defaults :: client_flags where
  "client_defaults = \<lparr>serverAddr = ''localhost:10000'', insecureConn = False, jwtToken = '''',
     certFile = ''certs/server.crt'', skipVerify = False\<rparr>"

record client_tls =
  tls_InsecureSkipVerify :: bool
  tls_MinVersion :: nat
  tls_RootCAs :: "string option"

datatype client_creds = NoTLS | WithTLS client_tls

datatype contact_info = User_Email string | User_Phone string

record 's demo_env =
  e_lib :: lib
  e_ReadFile :: "string \<Rightarrow> error + string"
  e_AppendCertsFromPEM :: "string \<Rightarrow> string option"
  e_NewClient :: "string \<Rightarrow> client_creds \<Rightarrow> error + 's rpc_client"
  e_Duration :: "duration \<Rightarrow> Duration"
  e_Now :: "nat \<Rightarrow> time"
  e_weave :: "demo_line list \<Rightarrow> demo_line list \<Rightarrow> demo_line list"
  e_contact :: "contact_info \<Rightarrow> User \<Rightarrow> User"

definition tls_VersionTLS12 :: nat where
  "tls_VersionTLS12 = 771"

definition loadClientTLSConfig ::
    "'s demo_env \<Rightarrow> string \<Rightarrow> bool \<Rightarrow> (error + client_tls) \<times> demo_line list" where
  "loadClientTLSConfig E cert skip =
     (let tlsConfig = \<lparr>tls_InsecureSkipVerify = skip, tls_MinVersion = tls_VersionTLS12, tls_RootCAs = None\<rparr>
      in if cert \<noteq> '''' then
           (case e_ReadFile E cert of
              Inl err \<Rightarrow> (Inr tlsConfig,
                [Logf ''Warning: Failed to read cert file %s (%v), using system certificates''
                  [ArgStr cert, ArgErr err]])
            | Inr certPEM \<Rightarrow> (case e_AppendCertsFromPEM E certPEM of
                None \<Rightarrow> (Inr tlsConfig,
                  [Logf ''Warning: Failed to parse cert from %s, using system certificates'' [ArgStr cert]])
              | Some certPool \<Rightarrow> (Inr (tlsConfig\<lparr>tls_RootCAs := Some certPool\<rparr>), [])))
         else (Inr tlsConfig, []))"

section \<open>What is sent\<close>

definition demo_admin :: "'s demo_env \<Rightarrow> User" where
  "demo_admin E = e_contact E (User_Email ''admin@example.com'') (User_zero\<lparr>
     u_Id := 1,
     u_Role := Role_ADMIN,
     u_Username := ''admin'',
     u_Profile := Some (Profile_zero\<lparr>
       p_DisplayName := ''Administrator'',
       p_Bio := ''System administrator'',
       p_Preferences := Some (fmap_of_list [(''theme'', 1), (''notifications'', 0)])\<rparr>),
     u_Tags := Some [''admin'', ''staff''],
     u_Metadata := Some (fmap_of_list [(''department'', ''IT''), (''location'', ''HQ'')]),
     u_Status := UserStatus_ACTIVE,
     u_Addresses := Some [Some \<lparr>
       a_Type = Address_WORK,
       a_Street = ''123 Main St'',
       a_City = ''San Francisco'',
       a_State = ''CA'',
       a_PostalCode = ''94102'',
       a_Country = ''USA'',
       a_IsPrimary = True\<rparr>]\<rparr>)"

definition demo_update :: "'s demo_env \<Rightarrow> UpdateUserRequest" where
  "demo_update E = \<lparr>
     uu_User = Some (e_contact E (User_Email ''admin-updated@example.com'')
       (User_zero\<lparr>u_Id := 1, u_Status := UserStatus_ACTIVE\<rparr>)),
     uu_UpdateMask = None\<rparr>"

definition time_Hour :: duration where
  "time_Hour = 3600 * 10 ^ 9"

definition demo_list :: "'s demo_env \<Rightarrow> ListUsersRequest" where
  "demo_list E = ListUsersRequest_zero\<lparr>
     lu_CreatedSince := Some (timestamppb_New (e_lib E) (e_Now E 0 - 24 * time_Hour)),
     lu_OlderThan := Some (e_Duration E (time_Hour * 24 * 365)),
     lu_Status := UserStatus_ACTIVE\<rparr>"

definition demo_user :: "'s demo_env \<Rightarrow> uint32 \<Rightarrow> Role \<Rightarrow> string \<Rightarrow> contact_info \<Rightarrow> User" where
  "demo_user E i r name c = e_contact E c (User_zero\<lparr>u_Id := i, u_Role := r, u_Username := name,
     u_Status := UserStatus_ACTIVE\<rparr>)"

definition demo_batch :: "'s demo_env \<Rightarrow> User list" where
  "demo_batch E =
     [demo_user E 2 Role_MEMBER ''user1'' (User_Email ''user1@example.com''),
      demo_user E 3 Role_MEMBER ''user2'' (User_Phone ''+1234567890''),
      demo_user E 4 Role_MODERATOR ''mod1'' (User_Email ''mod1@example.com'')]"

definition demo_activities :: "'s demo_env \<Rightarrow> UserActivity list" where
  "demo_activities E =
     [\<lparr>ac_UserId = 1, ac_ActivityType = UserActivity_LOGIN,
       ac_Timestamp = Some (timestamppb_New (e_lib E) (e_Now E 1)),
       ac_Details = Some (fmap_of_list [(''ip'', ''192.168.1.1''), (''user_agent'', ''Mozilla/5.0'')])\<rparr>,
      \<lparr>ac_UserId = 1, ac_ActivityType = UserActivity_UPDATE_PROFILE,
       ac_Timestamp = Some (timestamppb_New (e_lib E) (e_Now E 2)),
       ac_Details = Some (fmap_of_list [(''field'', ''bio'')])\<rparr>,
      \<lparr>ac_UserId = 2, ac_ActivityType = UserActivity_VIEW_PAGE,
       ac_Timestamp = Some (timestamppb_New (e_lib E) (e_Now E 3)),
       ac_Details = Some (fmap_of_list [(''page'', ''/dashboard'')])\<rparr>]"

definition demo_sync :: "'s demo_env \<Rightarrow> User list" where
  "demo_sync E =
     [demo_user E 5 Role_MEMBER ''synced_user_1'' (User_Email ''synced1@example.com''),
      demo_user E 2 Role_ADMIN ''user1_updated'' (User_Email ''user1@example.com'')]"

section \<open>The unary demonstrations\<close>

type_synonym 's demonstration = "'s \<Rightarrow> demo_line list \<times> 's"

definition demonstrateAddUser :: "'s demo_env \<Rightarrow> 's rpc_client \<Rightarrow> outgoing \<Rightarrow> 's demonstration" where
  "demonstrateAddUser E C ctx s = (case rc_AddUser C ctx (demo_admin E) s of
     (Inl err, s') \<Rightarrow> ([Logf ''Failed to add user: %v'' [ArgErr err]], s')
   | (Inr _, s') \<Rightarrow> ([Logf (tick @ '' Successfully added user: %s (ID: %d)'')
       [ArgStr (u_Username (demo_admin E)), ArgInt (uint (u_Id (demo_admin E)))]], s'))"

definition demonstrateGetUser :: "lib \<Rightarrow> 's rpc_client \<Rightarrow> outgoing \<Rightarrow> 's demonstration" where
  "demonstrateGetUser L C ctx s = (case rc_GetUser C ctx \<lparr>gu_Id = 1\<rparr> s of
     (Inl err, s') \<Rightarrow> ([Logf ''Failed to get user: %v'' [ArgErr err]], s')
   | (Inr user, s') \<Rightarrow>
       ([Logf (tick @ '' Retrieved user: %s (ID: %d, Role: %s)'')
           [ArgStr (u_Username user), ArgInt (uint (u_Id user)), ArgStr (Role_String L (u_Role user))],
         Logf ''  Email: %s'' [ArgStr (u_Email user)]] @
        (case u_Profile user of None \<Rightarrow> []
         | Some p \<Rightarrow> [Logf ''  Profile: %s'' [ArgStr (p_DisplayName p)]]) @
        [Logf ''  Tags: %v'' [ArgList (elements (u_Tags user))],
         Logf ''  Metadata: %v'' [ArgMap (u_Metadata user)]], s'))"

definition demonstrateUpdateUser :: "'s demo_env \<Rightarrow> 's rpc_client \<Rightarrow> outgoing \<Rightarrow> 's demonstration" where
  "demonstrateUpdateUser E C ctx s = (case rc_UpdateUser C ctx (demo_update E) s of
     (Inl err, s') \<Rightarrow> ([Logf ''Failed to update user: %v'' [ArgErr err]], s')
   | (Inr user, s') \<Rightarrow>
       ([Logf (tick @ '' Updated user: %s (ID: %d)'') [ArgStr (u_Username user), ArgInt (uint (u_Id user))],
         Logf ''  New email: %s'' [ArgStr (u_Email user)]], s'))"

definition demonstrateDeleteUser :: "'s rpc_client \<Rightarrow> outgoing \<Rightarrow> 's demonstration" where
  "demonstrateDeleteUser C ctx s = (case rc_DeleteUser C ctx \<lparr>du_Id = 5\<rparr> s of
     (Inl err, s') \<Rightarrow> ([Logf ''Failed to delete user: %v'' [ArgErr err]], s')
   | (Inr _, s') \<Rightarrow> ([Logf (tick @ '' Successfully deleted user with ID: %d'') [ArgInt 5]], s'))"

section \<open>The streaming demonstrations\<close>

text \<open>The loop around \<open>stream.Recv\<close>: \<open>io.EOF\<close> ends it quietly, another error is logged.\<close>

fun receive :: "string \<Rightarrow> (int \<Rightarrow> 'm \<Rightarrow> demo_line) \<Rightarrow> int \<Rightarrow> 'm list \<Rightarrow> error \<Rightarrow> demo_line list \<times> int" where
  "receive failed show count [] err =
     ((if err = EOF then [] else [Logf failed [ArgErr err]]), count)"
| "receive failed show count (m # ms) err =
     (case receive failed show (count + 1) ms err of (ls, n) \<Rightarrow> (show (count + 1) m # ls, n))"

definition demonstrateListUsers :: "'s demo_env \<Rightarrow> 's rpc_client \<Rightarrow> outgoing \<Rightarrow> 's demonstration" where
  "demonstrateListUsers E C ctx s = (case rc_ListUsers C ctx (demo_list E) s of
     (Inl err, s') \<Rightarrow> ([Logf ''Failed to list users: %v'' [ArgErr err]], s')
   | (Inr (stream, err), s') \<Rightarrow>
       (case receive ''Error receiving user: %v''
          (\<lambda>count user. Logf (tick @ '' User %d: %s (ID: %d, Role: %s)'') [ArgInt count,
             ArgStr (u_Username user), ArgInt (uint (u_Id user)), ArgStr (Role_String (e_lib E) (u_Role user))])
          0 stream err of
        (ls, count) \<Rightarrow> (ls @ [Logf ''Total users received: %d'' [ArgInt count]], s')))"

definition demonstrateListUsersByRole :: "'s rpc_client \<Rightarrow> outgoing \<Rightarrow> 's demonstration" where
  "demonstrateListUsersByRole C ctx s = (case rc_ListUsersByRole C ctx \<lparr>ur_Role = Role_ADMIN\<rparr> s of
     (Inl err, s') \<Rightarrow> ([Logf ''Failed to list users by role: %v'' [ArgErr err]], s')
   | (Inr (stream, err), s') \<Rightarrow>
       (case receive ''Error receiving user: %v''
          (\<lambda>count user. Logf (tick @ '' Admin user %d: %s (ID: %d)'')
             [ArgInt count, ArgStr (u_Username user), ArgInt (uint (u_Id user))])
          0 stream err of
        (ls, count) \<Rightarrow> (ls @ [Logf ''Total admin users: %d'' [ArgInt count]], s')))"

text \<open>
  The loop around \<open>stream.Send\<close>: the lines, the messages sent, and whether all of them were. The
  batch gives up at a failing send; the bidirectional demonstrations break, close and wait.
\<close>

fun send_each :: "(nat \<Rightarrow> error option) \<Rightarrow> string \<Rightarrow> ('m \<Rightarrow> demo_line) \<Rightarrow> nat \<Rightarrow> 'm list \<Rightarrow>
    demo_line list \<times> 'm list \<times> bool" where
  "send_each send failed show n [] = ([], [], True)"
| "send_each send failed show n (m # ms) = (case send n of
     Some err \<Rightarrow> ([Logf failed [ArgErr err]], [], False)
   | None \<Rightarrow> (case send_each send failed show (Suc n) ms of
       (ls, sent, ok) \<Rightarrow> (show m # ls, m # sent, ok)))"

definition demonstrateBatchAddUsers :: "'s demo_env \<Rightarrow> 's rpc_client \<Rightarrow> outgoing \<Rightarrow> 's demonstration" where
  "demonstrateBatchAddUsers E C ctx s = (case rc_BatchAddUsers C ctx of
     Inl err \<Rightarrow> ([Logf ''Failed to start batch add: %v'' [ArgErr err]], s)
   | Inr stream \<Rightarrow> (case send_each (send_Send stream) ''Failed to send user: %v''
       (\<lambda>user. Logf (right_arrow @ '' Sent user: %s (ID: %d)'')
          [ArgStr (u_Username user), ArgInt (uint (u_Id user))]) 0 (demo_batch E) of
       (ls, sent, False) \<Rightarrow> (ls, give_up stream sent s)
     | (ls, sent, True) \<Rightarrow> (case CloseAndRecv stream sent s of
         (Inl err, _, s') \<Rightarrow> (ls @ [Logf ''Failed to receive response: %v'' [ArgErr err]], s')
       | (Inr resp, _, s') \<Rightarrow>
           (ls @ [Logf (tick @ '' Batch add complete:'') [],
              Logf ''  Total received: %d'' [ArgInt (sint (ba_TotalReceived resp))],
              Logf ''  Total added: %d'' [ArgInt (sint (ba_TotalAdded resp))],
              Logf ''  Total failed: %d'' [ArgInt (sint (ba_TotalFailed resp))]] @
            (if length (ba_Errors resp) > 0 then [Logf ''  Errors: %v'' [ArgList (ba_Errors resp)]] else []),
            s'))))"

definition demonstrateUserActivityStream :: "'s demo_env \<Rightarrow> 's rpc_client \<Rightarrow> outgoing \<Rightarrow> 's demonstration" where
  "demonstrateUserActivityStream E C ctx s = (case rc_UserActivityStream C ctx of
     Inl err \<Rightarrow> ([Logf ''Failed to start activity stream: %v'' [ArgErr err]], s)
   | Inr stream \<Rightarrow> (case send_each (dx_Send stream) ''Failed to send activity: %v''
       (\<lambda>activity. Logf (right_arrow @ '' Sent activity: User %d - %s'') [ArgInt (uint (ac_UserId activity)),
          ArgStr (UserActivity_ActivityType_String (e_lib E) (ac_ActivityType activity))])
       0 (demo_activities E) of
       (ls, sent, _) \<Rightarrow> (case dx_answers stream sent s of
         ((answers, err), s') \<Rightarrow>
           (e_weave E ls (fst (receive ''Error receiving activity response: %v''
              (\<lambda>_ resp. Logf (left_arrow @ '' Response: User %d - %s (Acknowledged: %v)'')
                 [ArgInt (uint (ar_UserId resp)), ArgStr (ar_Message resp), ArgBool (ar_Acknowledged resp)])
              0 answers err)) @
            [Logln (tick @ '' Activity stream completed'')], s'))))"

definition sync_status :: "SyncUserResponse \<Rightarrow> string" where
  "sync_status resp =
     (if sy_Status resp = SyncUserResponse_SUCCESS then ''SUCCESS''
      else if sy_Status resp = SyncUserResponse_FAILED then ''FAILED''
      else if sy_Status resp = SyncUserResponse_PARTIAL then ''PARTIAL''
      else ''UNKNOWN'')"

definition sync_line :: "SyncUserResponse \<Rightarrow> demo_line" where
  "sync_line resp =
     (if sy_Status resp = SyncUserResponse_SUCCESS
      then Logf (left_arrow @ '' Sync response: User %d - %s (Fields: %v)'')
        [ArgInt (uint (sy_UserId resp)), ArgStr (sync_status resp), ArgList (sy_UpdatedFields resp)]
      else Logf (left_arrow @ '' Sync response: User %d - %s (Error: %s)'')
        [ArgInt (uint (sy_UserId resp)), ArgStr (sync_status resp), ArgStr (sy_ErrorMessage resp)])"

definition demonstrateSyncUsers :: "'s demo_env \<Rightarrow> 's rpc_client \<Rightarrow> outgoing \<Rightarrow> 's demonstration" where
  "demonstrateSyncUsers E C ctx s = (case rc_SyncUsers C ctx of
     Inl err \<Rightarrow> ([Logf ''Failed to start sync: %v'' [ArgErr err]], s)
   | Inr stream \<Rightarrow> (case send_each (dx_Send stream) ''Failed to send user for sync: %v''
       (\<lambda>user. Logf (right_arrow @ '' Syncing user: %s (ID: %d)'')
          [ArgStr (u_Username user), ArgInt (uint (u_Id user))]) 0 (demo_sync E) of
       (ls, sent, _) \<Rightarrow> (case dx_answers stream sent s of
         ((answers, err), s') \<Rightarrow>
           (e_weave E ls (fst (receive ''Error receiving sync response: %v'' (\<lambda>_. sync_line) 0 answers err)) @
            [Logln (tick @ '' User sync completed'')], s'))))"

section \<open>The program\<close>

definition separator :: string where
  "separator = ''============================================================''"

definition heading :: "string \<Rightarrow> demo_line list" where
  "heading title = [Out (CHR 0x0A # separator), Out title, Out separator]"

fun run_demonstrations :: "(string \<times> 's demonstration) list \<Rightarrow> 's demonstration" where
  "run_demonstrations [] s = ([], s)"
| "run_demonstrations ((title, demo) # ds) s = (case demo s of
     (ls, s') \<Rightarrow> (case run_demonstrations ds s' of
       (ls', s'') \<Rightarrow> (heading title @ ls @ ls', s'')))"

definition demonstrations :: "'s demo_env \<Rightarrow> 's rpc_client \<Rightarrow> outgoing \<Rightarrow> (string \<times> 's demonstration) list" where
  "demonstrations E C ctx =
     [(''1. Unary RPC: AddUser'', demonstrateAddUser E C ctx),
      (''2. Unary RPC: GetUser'', demonstrateGetUser (e_lib E) C ctx),
      (''3. Unary RPC: UpdateUser (with Field Mask)'', demonstrateUpdateUser E C ctx),
      (''4. Server Streaming RPC: ListUsers'', demonstrateListUsers E C ctx),
      (''5. Server Streaming RPC: ListUsersByRole'', demonstrateListUsersByRole C ctx),
      (''6. Client Streaming RPC: BatchAddUsers'', demonstrateBatchAddUsers E C ctx),
      (''7. Bidirectional Streaming RPC: UserActivityStream'', demonstrateUserActivityStream E C ctx),
      (''8. Bidirectional Streaming RPC: SyncUsers'', demonstrateSyncUsers E C ctx),
      (''9. Unary RPC: DeleteUser'', demonstrateDeleteUser C ctx)]"

definition outgoing_context :: "string \<Rightarrow> demo_line list \<times> outgoing" where
  "outgoing_context token =
     (if token \<noteq> ''''
      then ([Logln ''Using JWT authentication''],
        Some (fmupd ''authorization'' [''Bearer '' @ token] fmempty))
      else ([], None))"

definition client_credentials :: "'s demo_env \<Rightarrow> client_flags \<Rightarrow> (error + client_creds) \<times> demo_line list" where
  "client_credentials E fl =
     (if insecureConn fl then (Inr NoTLS, [])
      else case loadClientTLSConfig E (certFile fl) (skipVerify fl) of
        (Inl err, ls) \<Rightarrow> (Inl err, ls)
      | (Inr tlsConfig, ls) \<Rightarrow> (Inr (WithTLS tlsConfig), ls))"

definition client_main :: "'s demo_env \<Rightarrow> client_flags \<Rightarrow> 's demonstration" where
  "client_main E fl s =
     (let start = [Logln ''=== gRPC Client Example ==='',
            Logf (''Connecting to server: %s'' @ [CHR 0x0A]) [ArgStr (serverAddr fl)]]
      in case client_credentials E fl of
        (Inl err, ls) \<Rightarrow> (start @ ls @ [Fatalf ''Failed to load TLS config: %v'' [ArgErr err]], s)
      | (Inr creds, ls) \<Rightarrow> (case e_NewClient E (serverAddr fl) creds of
          Inl err \<Rightarrow> (start @ ls @ [Fatalf ''Failed to connect: %v'' [ArgErr err]], s)
        | Inr C \<Rightarrow> (case outgoing_context (jwtToken fl) of
            (auth, ctx) \<Rightarrow> (case run_demonstrations (demonstrations E C ctx) s of
              (out, s') \<Rightarrow> (start @ ls @ auth @ out @
                heading ''All demonstrations completed successfully!'', s')))))"

end
