(* ===== verification/ClientService.thy ===== *)
theory ClientService
  imports Client TokenGen
begin

text \<open>
  What the text of the demonstration client says whatever the service behind it answers: the order
  of its demonstrations, what it announces at the end, and the token it sends.
\<close>

text \<open>The demonstrations run one after the other on what the ones before have left.\<close>

lemma run_demonstrations_state:
  "snd (run_demonstrations ds s) = fold (\<lambda>(title, demo) s. snd (demo s)) ds s"
  by (induction ds s rule: run_demonstrations.induct) (auto split: prod.splits)

text \<open>Every title is printed, in order, also those of demonstrations whose calls fail.\<close>

lemma run_demonstrations_titles:
  "\<exists>lines. length lines = length ds \<and>
     fst (run_demonstrations ds s) = concat (map2 (\<lambda>(title, _) ls. heading title @ ls) ds lines)"
proof (induction ds s rule: run_demonstrations.induct)
  case (2 title demo ds s)
  obtain ls s' where d: "demo s = (ls, s')" by fastforce
  obtain rest where "length rest = length ds"
    "fst (run_demonstrations ds s') = concat (map2 (\<lambda>(title, _) ls. heading title @ ls) ds rest)"
    using "2.IH" [OF d [symmetric]] by auto
  then show ?case by (intro exI [of _ "ls # rest"]) (auto simp: d split: prod.splits)
qed simp

text \<open>
  Once connected the client announces success, whatever its calls were answered; a client that
  cannot connect leaves the service as it is.
\<close>

lemma client_announces:
  assumes "client_credentials E fl = (Inr creds, ls)" and "e_NewClient E (serverAddr fl) creds = Inr C"
  shows "\<exists>out. fst (client_main E fl s) = out @ heading ''All demonstrations completed successfully!''"
  unfolding client_main_def Let_def assms prod.case sum.case
  by (auto split: prod.splits)

lemma client_unconnected:
  assumes "client_credentials E fl = (Inr creds, ls)" and "e_NewClient E (serverAddr fl) creds = Inl err"
  shows "snd (client_main E fl s) = s"
  by (simp add: client_main_def assms)

text \<open>
  The token of the flag \<open>-token\<close> arrives as the bearer token of every call, so that with a token
  of \<open>tokengen\<close> the client is who the token says (\<open>tokengen_opens_server\<close>).
\<close>

lemma client_bearer:
  assumes "token \<noteq> ''''" and "incoming c = snd (outgoing_context token)"
  shows "bearer c = Some token"
proof -
  have "incoming c = Some (fmupd ''authorization'' [''Bearer '' @ token] fmempty)"
    using assms by (simp add: outgoing_context_def)
  then show ?thesis using assms(1) by (simp add: bearer_def md_Get_def del: append_Cons)
qed

end
