(* ===== verification/Mux.thy ===== *)
theory Mux
  imports Prelude
begin

text \<open>
  The \<open>ServeMux\<close> of Go's \<open>net/http\<close>, as far as the programs use it: patterns with an optional
  method, literal segments, wildcards that match one segment, and a trailing slash that matches
  everything below. A path is the list of its segments, \<open>/\<close> being the single empty segment, and
  is clean: requests for other paths are redirected before they get here.
\<close>

section \<open>Patterns\<close>

datatype seg = Lit string | Wild string | Rest

record pattern =
  pt_method :: string
  pt_segs :: "seg list"

definition parse_seg :: "string \<Rightarrow> seg" where
  "parse_seg s = (if s = '''' then Rest
     else if hd s = CHR 0x7B \<and> last s = CHR 0x7D then Wild (butlast (tl s))
     else Lit s)"

definition segments :: "string \<Rightarrow> string list" where
  "segments path = split_on CHR ''/'' (drop 1 path)"

definition parse_pattern :: "string \<Rightarrow> pattern" where
  "parse_pattern p = (case split_on CHR '' '' p of
     [m, path] \<Rightarrow> \<lparr>pt_method = m, pt_segs = map parse_seg (segments path)\<rparr>
   | _ \<Rightarrow> \<lparr>pt_method = '''', pt_segs = map parse_seg (segments p)\<rparr>)"

text \<open>An equation for \<open>split_on\<close> that evaluates the rest once.\<close>

lemma split_on_eval:
  "split_on sep (c # cs) = (if c = sep then [] # split_on sep cs
     else case split_on sep cs of [] \<Rightarrow> [[c]] | p # ps \<Rightarrow> (c # p) # ps)"
  by (cases "split_on sep cs") simp_all

lemmas parse_defs = parse_pattern_def parse_seg_def segments_def split_on_eval

type_synonym 'h routes = "(string \<times> 'h) list"

section \<open>Matching\<close>

fun match_segs :: "seg list \<Rightarrow> string list \<Rightarrow> (string \<times> string) list option" where
  "match_segs [] [] = Some []"
| "match_segs (Lit s # ss) (p # ps) = (if s = p then match_segs ss ps else None)"
| "match_segs (Wild n # ss) (p # ps) = (if p = '''' then None else map_option (Cons (n, p)) (match_segs ss ps))"
| "match_segs (Rest # ss) (p # ps) = Some []"
| "match_segs _ _ = None"

text \<open>
  Of several patterns that match the most specific one counts: at the first segment where they
  differ, a literal goes before a wildcard and that before the rest.
\<close>

fun seg_rank :: "seg \<Rightarrow> nat" where
  "seg_rank (Lit s) = 0"
| "seg_rank (Wild n) = 1"
| "seg_rank Rest = 2"

definition more_specific :: "seg list \<Rightarrow> seg list \<Rightarrow> bool" where
  "more_specific a b \<longleftrightarrow> map seg_rank a < map seg_rank b"

type_synonym 'h matched = "seg list \<times> 'h \<times> (string \<times> string) list"

fun best :: "'h matched list \<Rightarrow> 'h matched option" where
  "best [] = None"
| "best (c # cs) = (case best cs of None \<Rightarrow> Some c
     | Some d \<Rightarrow> if more_specific (fst d) (fst c) then Some d else Some c)"

definition candidates :: "'h routes \<Rightarrow> string \<Rightarrow> string list \<Rightarrow> 'h matched list" where
  "candidates rs m ps = concat (map (\<lambda>(p, h). let q = parse_pattern p in
     if pt_method q = m then (case match_segs (pt_segs q) ps of None \<Rightarrow> [] | Some vs \<Rightarrow> [(pt_segs q, h, vs)])
     else []) rs)"

definition find_match :: "'h routes \<Rightarrow> string \<Rightarrow> string list \<Rightarrow> 'h matched option" where
  "find_match rs m ps = (case best (candidates rs m ps) of Some c \<Rightarrow> Some c
     | None \<Rightarrow> (case (if m = ''HEAD'' then best (candidates rs ''GET'' ps) else None) of Some c \<Rightarrow> Some c
       | None \<Rightarrow> best (candidates rs '''' ps)))"

text \<open>
  A match is exact unless the trailing slash of the pattern stands for more than itself. A path
  without an exact match is redirected if it has one with a slash added.
\<close>

definition exact :: "'h matched option \<Rightarrow> string list \<Rightarrow> bool" where
  "exact c ps = (case c of None \<Rightarrow> False
     | Some (segs, _) \<Rightarrow> last segs \<noteq> Rest \<or> last ps = '''' \<and> length segs = length ps)"

datatype 'h mux_reply =
    Served 'h "(string \<times> string) list"
  | RedirectToSlash
  | MethodNotAllowed
  | NoRoute

definition ServeMux :: "'h routes \<Rightarrow> string \<Rightarrow> string list \<Rightarrow> 'h mux_reply" where
  "ServeMux rs m ps =
     (let c = find_match rs m ps
      in if \<not> exact c ps \<and> last ps \<noteq> '''' \<and> exact (find_match rs m (ps @ [''''])) (ps @ ['''']) then RedirectToSlash
         else case c of
           Some (_, h, vs) \<Rightarrow> Served h vs
         | None \<Rightarrow> if \<exists>(p, _)\<in>set rs. match_segs (pt_segs (parse_pattern p)) ps \<noteq> None then MethodNotAllowed
                   else NoRoute)"

section \<open>Lemmas\<close>

lemma match_segs_Nil [simp]: "match_segs ss [] = (if ss = [] then Some [] else None)"
  by (cases "(ss, [] :: string list)" rule: match_segs.cases) auto

lemma match_segs_Lit_Cons:
  "match_segs (Lit s # ss) ps = (case ps of [] \<Rightarrow> None | p # qs \<Rightarrow> if s = p then match_segs ss qs else None)"
  by (cases ps) auto

lemma match_segs_Wild_Cons:
  "match_segs (Wild n # ss) ps = (case ps of [] \<Rightarrow> None | p # qs \<Rightarrow>
     if p = '''' then None else map_option (Cons (n, p)) (match_segs ss qs))"
  by (cases ps) auto

lemma match_segs_Rest_Cons: "match_segs (Rest # ss) ps = (if ps = [] then None else Some [])"
  by (cases ps) auto

lemma match_segs_end: "match_segs [] ps = (if ps = [] then Some [] else None)"
  by (cases ps) auto

lemmas match_segs_unfold = match_segs_Lit_Cons match_segs_Wild_Cons match_segs_Rest_Cons match_segs_end

text \<open>What a list of candidates offers is one of them.\<close>

lemma best_in: "best cs = Some c \<Longrightarrow> c \<in> set cs"
  by (induction cs arbitrary: c) (auto split: option.splits if_splits)

lemma best_None [simp]: "best cs = None \<longleftrightarrow> cs = []"
  by (cases cs) (auto split: option.splits)

text \<open>
  With the patterns parsed, finding a match in a table is a case distinction on the method and
  the segments.
\<close>

definition parsed_candidates :: "(pattern \<times> 'h) list \<Rightarrow> string \<Rightarrow> string list \<Rightarrow> 'h matched list" where
  "parsed_candidates rs m ps = concat (map (\<lambda>(q, h).
     if pt_method q = m then (case match_segs (pt_segs q) ps of None \<Rightarrow> [] | Some vs \<Rightarrow> [(pt_segs q, h, vs)])
     else []) rs)"

lemma candidates_parsed: "candidates rs m ps = parsed_candidates (map (map_prod parse_pattern id) rs) m ps"
  unfolding candidates_def parsed_candidates_def by (induction rs) (auto simp: Let_def split: option.splits)

end
