(* ===== verification/Ux.thy ===== *)
theory Ux
  imports Samples
begin

text \<open>
  \<open>ux/handlers/handlers.go\<close>: the web interface. Its API client (\<open>ux/client\<close>) is not under
  \<open>src/\<close>: the calls are the record \<open>ux_client\<close>, over a state \<open>'s\<close> behind the API, and \<open>ux_user\<close>
  has the fields the handlers use. The templates are the record field \<open>ExecuteTemplate\<close>. The log
  lines, and the span \<open>GetUser\<close> opens, are left out.
\<close>

section \<open>Numbers and names\<close>

text \<open>
  \<open>strconv.ParseUint(s, 10, 32)\<close> and \<open>strconv.ParseInt(s, 10, 32)\<close>: a syntax error comes with 0,
  a value out of range with the nearest one, found before the rest of the text is read.
\<close>

datatype num_error = ErrSyntax | ErrRange

definition maxUint32 :: nat where "maxUint32 = 2 ^ 32 - 1"

fun scan_uint :: "nat \<Rightarrow> string \<Rightarrow> nat \<times> num_error option" where
  "scan_uint n [] = (n, None)"
| "scan_uint n (c # cs) =
     (let v = of_char c :: nat
      in if \<not> (48 \<le> v \<and> v \<le> 57) then (0, Some ErrSyntax)
         else if n * 10 + (v - 48) > maxUint32 then (maxUint32, Some ErrRange)
         else scan_uint (n * 10 + (v - 48)) cs)"

definition ParseUint :: "string \<Rightarrow> nat \<times> num_error option" where
  "ParseUint s = (if s = '''' then (0, Some ErrSyntax) else scan_uint 0 s)"

definition ParseInt :: "string \<Rightarrow> int \<times> num_error option" where
  "ParseInt s = (case s of
     [] \<Rightarrow> (0, Some ErrSyntax)
   | c # cs \<Rightarrow>
       let neg = (c = CHR ''-'');
           digits = (if c = CHR ''+'' \<or> c = CHR ''-'' then cs else s)
       in case ParseUint digits of
         (_, Some ErrSyntax) \<Rightarrow> (0, Some ErrSyntax)
       | (un, _) \<Rightarrow>
           if \<not> neg \<and> un \<ge> 2 ^ 31 then (2 ^ 31 - 1, Some ErrRange)
           else if neg \<and> un > 2 ^ 31 then (- (2 ^ 31), Some ErrRange)
           else (if neg then - int un else int un, None))"

definition IntToRole :: "int32 \<Rightarrow> string" where
  "IntToRole role = (if role = 0 then ''GUEST'' else if role = 1 then ''MEMBER''
     else if role = 2 then ''ADMIN'' else if role = 3 then ''MODERATOR'' else ''GUEST'')"

definition IntToStatus :: "int32 \<Rightarrow> string" where
  "IntToStatus status = (if status = 0 then ''INACTIVE'' else if status = 1 then ''ACTIVE''
     else if status = 2 then ''SUSPENDED'' else if status = 3 then ''DELETED'' else ''INACTIVE'')"

section \<open>Requests, responses, the API\<close>

record http_request =
  PathValue :: "string \<Rightarrow> string"
  ParseForm :: "error option"
  FormValue :: "string \<Rightarrow> string"
  QueryGet :: "string \<Rightarrow> string"

text \<open>
  \<open>http.ResponseWriter\<close>: the header map, and what has been sent. The first write or
  \<open>WriteHeader\<close> fixes the status and sends the headers; later ones change neither.
\<close>

type_synonym header = "(string, string list) fmap"

record response =
  header :: header
  sent :: "(int \<times> header) option"
  body :: string

definition response_new :: response where
  "response_new = \<lparr>header = fmempty, sent = None, body = []\<rparr>"

definition Header_Set :: "string \<Rightarrow> string \<Rightarrow> response \<Rightarrow> response" where
  "Header_Set k v w = w\<lparr>header := fmupd k [v] (header w)\<rparr>"

definition Header_Add :: "string \<Rightarrow> string \<Rightarrow> response \<Rightarrow> response" where
  "Header_Add k v w = w\<lparr>header := fmupd k
     ((case fmlookup (header w) k of None \<Rightarrow> [] | Some vs \<Rightarrow> vs) @ [v]) (header w)\<rparr>"

definition WriteHeader :: "int \<Rightarrow> response \<Rightarrow> response" where
  "WriteHeader code w = (case sent w of None \<Rightarrow> w\<lparr>sent := Some (code, header w)\<rparr> | Some _ \<Rightarrow> w)"

definition Write :: "string \<Rightarrow> response \<Rightarrow> response" where
  "Write s w = (let w' = WriteHeader 200 w in w'\<lparr>body := body w' @ s\<rparr>)"

text \<open>\<open>http.Error\<close>.\<close>

definition http_Error :: "string \<Rightarrow> int \<Rightarrow> response \<Rightarrow> response" where
  "http_Error text code w =
     (let w1 = w\<lparr>header := fmupd ''X-Content-Type-Options'' [''nosniff'']
                 (fmupd ''Content-Type'' [''text/plain; charset=utf-8'']
                   (fmdrop ''Content-Length'' (header w)))\<rparr>
      in Write (text @ [char_of (10 :: nat)]) (WriteHeader code w1))"

record ux_profile =
  x_DisplayName :: string
  x_Bio :: string

record ux_user =
  x_ID :: uint32
  x_Username :: string
  x_Email :: string
  x_Phone :: string
  x_Role :: string
  x_Status :: string
  x_Profile :: "ux_profile option"
  x_RoleInt :: int
  x_StatusInt :: int

datatype template_data =
    Title string
  | Users "ux_user list"
  | OneUser ux_user
  | NoData

text \<open>\<open>ExecuteTemplate\<close> answers what the template has written, in one or more pieces, and its error.\<close>

record 's ux_client =
  x_ListUsers :: "'s \<Rightarrow> (error + ux_user list) \<times> 's"
  x_GetUser :: "uint32 \<Rightarrow> 's \<Rightarrow> (error + ux_user) \<times> 's"
  x_CreateUser :: "ux_user \<Rightarrow> 's \<Rightarrow> error option \<times> 's"
  x_UpdateUser :: "ux_user \<Rightarrow> string list \<Rightarrow> 's \<Rightarrow> (error + ux_user) \<times> 's"
  x_DeleteUser :: "uint32 \<Rightarrow> 's \<Rightarrow> error option \<times> 's"
  x_ListUsersByRole :: "int32 \<Rightarrow> 's \<Rightarrow> (error + ux_user list) \<times> 's"
  RoleToInt :: "string \<Rightarrow> int"
  StatusToInt :: "string \<Rightarrow> int"
  ExecuteTemplate :: "string \<Rightarrow> template_data \<Rightarrow> string list \<times> error option"

section \<open>The handlers\<close>

type_synonym 's ux_handler = "http_request \<Rightarrow> response \<times> 's \<Rightarrow> response \<times> 's"

definition render :: "'s ux_client \<Rightarrow> string \<Rightarrow> template_data \<Rightarrow> response \<Rightarrow> response" where
  "render C name data w = (case ExecuteTemplate C name data of (pieces, err) \<Rightarrow>
     let w' = foldl (\<lambda>w p. Write p w) w pieces
     in case err of None \<Rightarrow> w' | Some _ \<Rightarrow> http_Error ''Internal Server Error'' 500 w')"

definition Ux_Home :: "'s ux_client \<Rightarrow> 's ux_handler" where
  "Ux_Home C r = (\<lambda>(w, s). (render C ''index.html'' (Title ''User Management'') w, s))"

definition Ux_ListUsers :: "'s ux_client \<Rightarrow> 's ux_handler" where
  "Ux_ListUsers C r = (\<lambda>(w, s). case x_ListUsers C s of
     (Inl err, s') \<Rightarrow> (http_Error ''Failed to fetch users'' 500 w, s')
   | (Inr users, s') \<Rightarrow> (render C ''users-list.html'' (Users users) w, s'))"

text \<open>\<open>GetUser\<close> and \<open>EditUserForm\<close> differ in the template alone.\<close>

definition show_user :: "'s ux_client \<Rightarrow> string \<Rightarrow> 's ux_handler" where
  "show_user C template r = (\<lambda>(w, s). case ParseUint (PathValue r ''id'') of
     (_, Some _) \<Rightarrow> (http_Error ''Invalid user ID'' 400 w, s)
   | (n, None) \<Rightarrow> (case x_GetUser C (of_nat n) s of
       (Inl err, s') \<Rightarrow> (http_Error ''Failed to fetch user'' 500 w, s')
     | (Inr user, s') \<Rightarrow> (render C template (OneUser (user\<lparr>
           x_RoleInt := RoleToInt C (x_Role user), x_StatusInt := StatusToInt C (x_Status user)\<rparr>)) w, s')))"

definition Ux_GetUser :: "'s ux_client \<Rightarrow> 's ux_handler" where
  "Ux_GetUser C = show_user C ''user-detail.html''"

definition Ux_EditUserForm :: "'s ux_client \<Rightarrow> 's ux_handler" where
  "Ux_EditUserForm C = show_user C ''user-edit.html''"

definition Ux_NewUserForm :: "'s ux_client \<Rightarrow> 's ux_handler" where
  "Ux_NewUserForm C r = (\<lambda>(w, s). (render C ''user-form.html'' NoData w, s))"

text \<open>The user of a form, under the id given; errors of the numbers are ignored.\<close>

definition form_user :: "http_request \<Rightarrow> uint32 \<Rightarrow> ux_user" where
  "form_user r i = \<lparr>
     x_ID = i,
     x_Username = FormValue r ''username'',
     x_Email = FormValue r ''email'',
     x_Phone = FormValue r ''phone'',
     x_Role = IntToRole (of_int (fst (ParseInt (FormValue r ''role'')))),
     x_Status = IntToStatus (of_int (fst (ParseInt (FormValue r ''status'')))),
     x_Profile = (if FormValue r ''displayName'' \<noteq> ''''
       then Some \<lparr>x_DisplayName = FormValue r ''displayName'', x_Bio = FormValue r ''bio''\<rparr> else None),
     x_RoleInt = 0, x_StatusInt = 0\<rparr>"

text \<open>The page of an error, with the text of the error between two pieces of HTML.\<close>

definition tabs :: "nat \<Rightarrow> string" where
  "tabs n = char_of (10 :: nat) # replicate n (char_of (9 :: nat))"

definition quoted :: "string \<Rightarrow> string" where
  "quoted s = [char_of (34 :: nat)] @ s @ [char_of (34 :: nat)]"

definition error_page :: "string \<Rightarrow> string \<Rightarrow> string \<Rightarrow> string" where
  "error_page title message note =
     ''<div style='' @ quoted ''background-color: #fee; border: 1px solid #fcc; padding: 1rem; margin: 1rem 0; border-radius: 4px;'' @ ''>'' @
     tabs 3 @ ''<strong style='' @ quoted ''color: #c00;'' @ ''>'' @ title @ ''</strong><br>'' @
     tabs 3 @ message @
     tabs 3 @ ''<br><small>'' @ note @ ''</small>'' @
     tabs 2 @ ''</div>''"

definition Ux_CreateUser :: "lib \<Rightarrow> 's ux_client \<Rightarrow> 's ux_handler" where
  "Ux_CreateUser L C r = (\<lambda>(w, s). case ParseForm r of
     Some err \<Rightarrow> (http_Error ''Invalid form data'' 400 w, s)
   | None \<Rightarrow> (case x_CreateUser C (form_user r (of_nat (fst (ParseUint (FormValue r ''id''))))) s of
       (Some err, s') \<Rightarrow>
         (Write (error_page ''Error creating user:'' (error_Error L err)
            ''Note: User IDs and usernames must be unique.'') (WriteHeader 400 w), s')
     | (None, s') \<Rightarrow> Ux_ListUsers C r
         (Header_Add ''HX-Trigger'' ''closeModal'' (Header_Set ''HX-Trigger'' ''userCreated'' w), s')))"

definition update_paths :: "string list" where
  "update_paths = [''username'', ''email'', ''phone'', ''role'', ''status'', ''profile'']"

definition Ux_UpdateUser :: "lib \<Rightarrow> 's ux_client \<Rightarrow> 's ux_handler" where
  "Ux_UpdateUser L C r = (\<lambda>(w, s). case ParseUint (PathValue r ''id'') of
     (_, Some _) \<Rightarrow> (http_Error ''Invalid user ID'' 400 w, s)
   | (n, None) \<Rightarrow> (case ParseForm r of
       Some err \<Rightarrow> (http_Error ''Invalid form data'' 400 w, s)
     | None \<Rightarrow> (case x_UpdateUser C (form_user r (of_nat n)) update_paths s of
         (Inl err, s') \<Rightarrow>
           (Write (error_page ''Error updating user:'' (error_Error L err)
              ''Note: Usernames must be unique. Try a different username.'') (WriteHeader 400 w), s')
       | (Inr _, s') \<Rightarrow> Ux_ListUsers C r
           (Header_Add ''HX-Trigger'' ''closeModal'' (Header_Set ''HX-Trigger'' ''userUpdated'' w), s'))))"

definition Ux_DeleteUser :: "'s ux_client \<Rightarrow> 's ux_handler" where
  "Ux_DeleteUser C r = (\<lambda>(w, s). case ParseUint (PathValue r ''id'') of
     (_, Some _) \<Rightarrow> (http_Error ''Invalid user ID'' 400 w, s)
   | (n, None) \<Rightarrow> (case x_DeleteUser C (of_nat n) s of
       (Some err, s') \<Rightarrow> (http_Error ''Failed to delete user'' 500 w, s')
     | (None, s') \<Rightarrow> Ux_ListUsers C r (Header_Set ''HX-Trigger'' ''userDeleted'' w, s')))"

definition Ux_FilterByRole :: "'s ux_client \<Rightarrow> 's ux_handler" where
  "Ux_FilterByRole C r = (\<lambda>(w, s). let roleStr = QueryGet r ''role''
     in if roleStr = '''' \<or> roleStr = ''all'' then Ux_ListUsers C r (w, s)
        else case ParseInt roleStr of
          (_, Some _) \<Rightarrow> (http_Error ''Invalid role'' 400 w, s)
        | (role, None) \<Rightarrow> (case x_ListUsersByRole C (of_int role) s of
            (Inl err, s') \<Rightarrow> (http_Error ''Failed to filter users'' 500 w, s')
          | (Inr users, s') \<Rightarrow> (render C ''users-list.html'' (Users users) w, s')))"

section \<open>Names\<close>

text \<open>C37. Every role and status a form can submit is one the API knows by name, whatever text is in
  the form: the number of a known value becomes its name in the tables of the protocol, any other
  text becomes the name of the value 0.\<close>

theorem form_names_known:
  "fmlookup Role_value (x_Role (form_user r i)) \<noteq> None \<and>
   fmlookup UserStatus_value (x_Status (form_user r i)) \<noteq> None \<and>
   x_Role (form_user r i) = (case fmlookup Role_name (of_int (fst (ParseInt (FormValue r ''role'')))) of
      Some n \<Rightarrow> n | None \<Rightarrow> ''GUEST'') \<and>
   x_Status (form_user r i) = (case fmlookup UserStatus_name (of_int (fst (ParseInt (FormValue r ''status'')))) of
      Some n \<Rightarrow> n | None \<Rightarrow> ''INACTIVE'')"
  by (simp add: form_user_def IntToRole_def IntToStatus_def Role_value_def Role_name_def
      UserStatus_value_def UserStatus_name_def)

section \<open>Numbers\<close>

definition is_number :: "string \<Rightarrow> bool" where
  "is_number s \<longleftrightarrow> s \<noteq> [] \<and> list_all (\<lambda>c. 48 \<le> (of_char c :: nat) \<and> (of_char c :: nat) \<le> 57) s"

lemma scan_uint_digits:
  "list_all (\<lambda>c. 48 \<le> (of_char c :: nat) \<and> (of_char c :: nat) \<le> 57) s \<Longrightarrow> n \<le> maxUint32 \<Longrightarrow>
   scan_uint n s = (let v = foldl (\<lambda>a c. 10 * a + undigit c) n s
     in if v \<le> maxUint32 then (v, None) else (maxUint32, Some ErrRange))"
proof (induction n s rule: scan_uint.induct)
  case (2 n c cs)
  let ?m = "10 * n + undigit c"
  have grows: "m \<le> foldl (\<lambda>a c. 10 * a + undigit c) m cs" for m
  proof (induction cs arbitrary: m)
    case (Cons d ds)
    from Cons [of "10 * m + undigit d"] show ?case by simp
  qed simp
  show ?case
  proof (cases "?m \<le> maxUint32")
    case True
    with 2 show ?thesis by (simp add: undigit_def Let_def mult.commute)
  next
    case False
    with grows [of ?m] have "\<not> foldl (\<lambda>a c. 10 * a + undigit c) ?m cs \<le> maxUint32" by linarith
    with False 2(2) show ?thesis by (simp add: undigit_def Let_def mult.commute)
  qed
qed (simp add: Let_def)

lemma scan_uint_bound: "n \<le> maxUint32 \<Longrightarrow> fst (scan_uint n s) \<le> maxUint32"
  by (induction n s rule: scan_uint.induct) (auto simp: Let_def)

lemma ParseUint_bound: "ParseUint s = (n, e) \<Longrightarrow> n \<le> maxUint32"
  using scan_uint_bound [of 0 s] by (auto simp: ParseUint_def split: if_splits)

lemma ParseUint_number:
  "is_number s \<Longrightarrow> ParseUint s = (if undec s \<le> maxUint32 then (undec s, None) else (maxUint32, Some ErrRange))"
  using scan_uint_digits [of s 0]
  by (simp add: is_number_def ParseUint_def undec_def Let_def maxUint32_def)

text \<open>A number too large for an id is handled in two ways: as part of the path it is refused
  with 400 and the API is not called, as a field of the form it is accepted, and the user is
  created under the largest id there is.\<close>

lemma oversized_ids:
  assumes "is_number (PathValue r ''id'')" and "is_number (FormValue r ''id'')" and "ParseForm r = None"
    and "undec (PathValue r ''id'') > maxUint32" and "undec (FormValue r ''id'') > maxUint32"
  shows "Ux_GetUser C r (w, s) = (http_Error ''Invalid user ID'' 400 w, s) \<and>
    Ux_EditUserForm C r (w, s) = (http_Error ''Invalid user ID'' 400 w, s) \<and>
    Ux_UpdateUser L C r (w, s) = (http_Error ''Invalid user ID'' 400 w, s) \<and>
    Ux_DeleteUser C r (w, s) = (http_Error ''Invalid user ID'' 400 w, s) \<and>
    (\<exists>u. unat (x_ID u) = maxUint32 \<and> x_Username u = FormValue r ''username'' \<and>
      snd (Ux_CreateUser L C r (w, s)) =
        (case x_CreateUser C u s of (Some _, s') \<Rightarrow> s' | (None, s') \<Rightarrow> snd (x_ListUsers C s')))"
proof (intro conjI)
  have p: "ParseUint (PathValue r ''id'') = (maxUint32, Some ErrRange)"
    using ParseUint_number [OF assms(1)] assms(4) by simp
  then show "Ux_GetUser C r (w, s) = (http_Error ''Invalid user ID'' 400 w, s)"
    "Ux_EditUserForm C r (w, s) = (http_Error ''Invalid user ID'' 400 w, s)"
    "Ux_UpdateUser L C r (w, s) = (http_Error ''Invalid user ID'' 400 w, s)"
    "Ux_DeleteUser C r (w, s) = (http_Error ''Invalid user ID'' 400 w, s)"
    by (simp_all add: Ux_GetUser_def Ux_EditUserForm_def show_user_def Ux_UpdateUser_def Ux_DeleteUser_def)
  have f: "fst (ParseUint (FormValue r ''id'')) = maxUint32"
    using ParseUint_number [OF assms(2)] assms(5) by simp
  show "\<exists>u. unat (x_ID u) = maxUint32 \<and> x_Username u = FormValue r ''username'' \<and>
      snd (Ux_CreateUser L C r (w, s)) =
        (case x_CreateUser C u s of (Some _, s') \<Rightarrow> s' | (None, s') \<Rightarrow> snd (x_ListUsers C s'))"
    by (rule exI [of _ "form_user r (of_nat maxUint32)"])
      (simp add: form_user_def maxUint32_def unat_of_nat f [unfolded maxUint32_def] Ux_CreateUser_def assms(3)
        Ux_ListUsers_def split: option.splits sum.splits prod.splits)
qed

text \<open>An API without users that takes every user it is sent, and a form.\<close>

definition sample_api :: "ux_user list ux_client" where
  "sample_api = \<lparr>x_ListUsers = (\<lambda>s. (Inr s, s)), x_GetUser = (\<lambda>i s. (Inl (Errorf ''missing'' None), s)),
     x_CreateUser = (\<lambda>u s. (None, s @ [u])), x_UpdateUser = (\<lambda>u ps s. (Inr u, s)),
     x_DeleteUser = (\<lambda>i s. (None, s)), x_ListUsersByRole = (\<lambda>ro s. (Inr s, s)),
     RoleToInt = (\<lambda>n. 0), StatusToInt = (\<lambda>n. 0), ExecuteTemplate = (\<lambda>n d. ([n], None))\<rparr>"

definition sample_form :: http_request where
  "sample_form = \<lparr>PathValue = (\<lambda>_. ''99999999999''), ParseForm = None,
     FormValue = (\<lambda>k. if k = ''id'' then ''99999999999'' else ''bob''), QueryGet = (\<lambda>_. [])\<rparr>"

lemma oversized_ids_sample:
  "fst (Ux_GetUser sample_api sample_form (response_new, [])) = http_Error ''Invalid user ID'' 400 response_new \<and>
   (\<exists>u. unat (x_ID u) = maxUint32 \<and> snd (Ux_CreateUser sample_lib sample_api sample_form (response_new, [])) = [u])"
proof -
  have n: "is_number ''99999999999''" by (simp add: is_number_def)
  have v: "undec ''99999999999'' > maxUint32"
    by (simp add: undec_def undigit_def maxUint32_def)
  obtain u where "unat (x_ID u) = maxUint32" "snd (Ux_CreateUser sample_lib sample_api sample_form (response_new, [])) =
      (case x_CreateUser sample_api u [] of (Some _, s') \<Rightarrow> s' | (None, s') \<Rightarrow> snd (x_ListUsers sample_api s'))"
    "fst (Ux_GetUser sample_api sample_form (response_new, [])) = http_Error ''Invalid user ID'' 400 response_new"
    using oversized_ids [of sample_form sample_api response_new "[]" sample_lib] n v
    by (auto simp: sample_form_def)
  then show ?thesis by (auto simp: sample_api_def)
qed

end
