(* ===== verification/Routes.thy ===== *)
theory Routes
  imports Mux Startup Ux
begin

text \<open>
  The HTTP servers of the programs: \<open>ux/main.go\<close>, \<open>control-plane/server.go\<close>, and in \<open>main.go\<close> the
  gateway's mux with \<open>serveOpenAPI\<close> and the profiling server \<open>serverPProf\<close>. Each is its table of
  routes, as the source registers them, and what its \<open>main\<close> does before it listens.
\<close>

section \<open>The web interface\<close>

datatype ux_route =
    HomePage
  | UsersPage
  | H_ListUsers
  | H_NewUserForm
  | H_CreateUser
  | H_GetUser
  | H_EditUserForm
  | H_UpdateUser
  | H_DeleteUser
  | H_FilterByRole

definition ux_routes :: "ux_route routes" where
  "ux_routes =
     [(''GET /'', HomePage),
      (''GET /users'', UsersPage),
      (''GET /users/list'', H_ListUsers),
      (''GET /users/new'', H_NewUserForm),
      (''POST /users'', H_CreateUser),
      (''GET /users/{id}'', H_GetUser),
      (''GET /users/{id}/edit'', H_EditUserForm),
      (''PUT /users/{id}'', H_UpdateUser),
      (''DELETE /users/{id}'', H_DeleteUser),
      (''GET /users/filter'', H_FilterByRole)]"

text \<open>
  The two static pages. \<open>tmpl\<close> is \<open>ExecuteTemplate\<close> with the name of the template and the
  title: what it has written, and its error. A page that fails after its first byte has already
  been answered with \<open>200\<close>, and gets the text of the error appended.
\<close>

record page_response =
  pg_status :: nat
  pg_body :: string
  pg_log :: "string list"

definition execute_page :: "lib \<Rightarrow> string \<times> error option \<Rightarrow> page_response" where
  "execute_page L r = (case r of
     (out, None) \<Rightarrow> \<lparr>pg_status = 200, pg_body = out, pg_log = []\<rparr>
   | (out, Some err) \<Rightarrow> \<lparr>pg_status = (if out = '''' then 500 else 200),
       pg_body = out @ ''Internal Server Error'' @ [CHR 0x0A],
       pg_log = [''template error: '' @ error_Error L err]\<rparr>)"

definition ux_page :: "lib \<Rightarrow> (string \<Rightarrow> string \<Rightarrow> string \<times> error option) \<Rightarrow> ux_route \<Rightarrow> page_response option" where
  "ux_page L tmpl h = (case h of
     HomePage \<Rightarrow> Some (execute_page L (tmpl ''home.html'' ''CrudBox - Home''))
   | UsersPage \<Rightarrow> Some (execute_page L (tmpl ''users-page.html'' ''CrudBox - Users''))
   | _ \<Rightarrow> None)"

record ux_flags =
  ux_port :: string
  ux_apiURL :: string
  ux_jwtToken :: string

definition ux_defaults :: ux_flags where
  "ux_defaults = \<lparr>ux_port = ''8080'', ux_apiURL = ''https://localhost:11000'', ux_jwtToken = ''''\<rparr>"

text \<open>What the process does that the outside sees, in order.\<close>

datatype ux_event =
    SetTracerProvider string
  | SetTextMapPropagator "string list"
  | NewClient string string
  | UxLog string
  | ListenOn string
  | LogFatal string
  | Panic error

text \<open>
  The outside: the trace exporter, the parsing of the embedded templates, and the error with
  which \<open>ListenAndServe\<close> ends, for it never returns nil.
\<close>

record ux_host =
  stdouttrace_New :: "error option"
  ParseFS :: "error option"
  ListenAndServe :: "string \<Rightarrow> error"

definition initTracer :: "lib \<Rightarrow> ux_host \<Rightarrow> ux_event list \<times> bool" where
  "initTracer L H = (case stdouttrace_New H of
     Some err \<Rightarrow> ([LogFatal (error_Error L err)], False)
   | None \<Rightarrow> ([SetTracerProvider ''frontend-service'',
       SetTextMapPropagator [''TraceContext'', ''Baggage'']], True))"

definition ux_token :: "env \<Rightarrow> ux_flags \<Rightarrow> string" where
  "ux_token env fl = (if ux_jwtToken fl = '''' then Getenv env ''JWT_TOKEN'' else ux_jwtToken fl)"

definition ux_main :: "lib \<Rightarrow> ux_host \<Rightarrow> env \<Rightarrow> ux_flags \<Rightarrow> ux_event list" where
  "ux_main L H env fl = (case initTracer L H of
     (evs, False) \<Rightarrow> evs
   | (evs, True) \<Rightarrow>
       let addr = '':'' @ ux_port fl
       in evs @ [SetTextMapPropagator [''TraceContext''], NewClient (ux_apiURL fl) (ux_token env fl)] @
         (case ParseFS H of
            Some err \<Rightarrow> [Panic err]
          | None \<Rightarrow>
              [UxLog (''Starting server on '' @ addr), UxLog (''API URL: '' @ ux_apiURL fl),
               UxLog (if ux_token env fl \<noteq> '''' then ''Using JWT authentication''
                 else ''Warning: No JWT token provided, API requests may fail if authentication is required''),
               ListenOn addr,
               LogFatal (''Server failed to start: '' @ error_Error L (ListenAndServe H addr))]))"

section \<open>The control plane\<close>

datatype plane_handler = Dashboard | Health

definition plane_routes :: "plane_handler routes" where
  "plane_routes = [(''/'', Dashboard), (''/health'', Health)]"

record plane_response =
  pr_status :: nat
  pr_type :: string
  pr_body :: string

definition quote_mark :: char where
  "quote_mark = CHR 0x22"

definition in_quotes :: "string \<Rightarrow> string" where
  "in_quotes s = quote_mark # s @ [quote_mark]"

text \<open>\<open>http.Error\<close> sends its text with a newline.\<close>

definition serve_plane :: "(string \<Rightarrow> error + string) \<Rightarrow> plane_handler \<Rightarrow> plane_response" where
  "serve_plane read h = (case h of
     Dashboard \<Rightarrow> (case read ''dashboard.html'' of
       Inl err \<Rightarrow> \<lparr>pr_status = 500, pr_type = ''text/plain; charset=utf-8'',
         pr_body = ''Dashboard not found'' @ [CHR 0x0A]\<rparr>
     | Inr html \<Rightarrow> \<lparr>pr_status = 200, pr_type = ''text/html; charset=utf-8'', pr_body = html\<rparr>)
   | Health \<Rightarrow> \<lparr>pr_status = 200, pr_type = ''application/json'',
       pr_body = CHR 0x7B # in_quotes ''status'' @ '':'' @ in_quotes ''healthy'' @ '','' @ in_quotes ''service'' @ '':'' @
         in_quotes ''control-plane'' @ [CHR 0x7D]\<rparr>)"

definition plane_main :: "lib \<Rightarrow> ux_host \<Rightarrow> env \<Rightarrow> ux_event list" where
  "plane_main L H env =
     (let p = Getenv env ''PORT''; port = (if p = '''' then ''8080'' else p)
      in [UxLog (''Control Plane Dashboard starting on port '' @ port),
          UxLog (''Access at: http://localhost:'' @ port),
          ListenOn ('':'' @ port),
          LogFatal (error_Error L (ListenAndServe H ('':'' @ port)))])"

section \<open>The gateway's mux and the profiling server\<close>

datatype gateway_handler = GatewayMux | OpenAPIFiles

definition serveOpenAPI :: "lib \<Rightarrow> error option \<Rightarrow> error option \<Rightarrow> error + gateway_handler routes" where
  "serveOpenAPI L AddExtensionType Sub =
     (case AddExtensionType of
        Some err \<Rightarrow> Inl (wrap_error L ''mime add ext fail: '' err)
      | None \<Rightarrow> (case Sub of
          Some err \<Rightarrow> Inl (wrap_error L ''sub dir fail: '' err)
        | None \<Rightarrow> Inr [(''/openapi-ui/'', OpenAPIFiles)]))"

definition gateway_routes :: "lib \<Rightarrow> error option \<Rightarrow> error option \<Rightarrow> gateway_handler routes \<times> string option" where
  "gateway_routes L AddExtensionType Sub =
     (let mux = [(''/'', GatewayMux)]
      in case serveOpenAPI L AddExtensionType Sub of
        Inl err \<Rightarrow> (mux, Some (''Warning: Failed to serve OpenAPI UI: '' @ error_Error L err))
      | Inr rs \<Rightarrow> (mux @ rs, None))"

datatype pprof_handler =
    PprofIndex | PprofCmdline | PprofProfile | PprofSymbol | PprofTrace
  | PprofHandler string
  | RedirectTo string

definition pprofPrefix :: string where
  "pprofPrefix = ''/debug/pprof/''"

definition pprof_routes :: "string \<Rightarrow> pprof_handler routes" where
  "pprof_routes prefix =
     [(prefix, PprofIndex),
      (prefix @ ''cmdline'', PprofCmdline),
      (prefix @ ''profile'', PprofProfile),
      (prefix @ ''symbol'', PprofSymbol),
      (prefix @ ''trace'', PprofTrace),
      (prefix @ ''heap'', PprofHandler ''heap''),
      (prefix @ ''goroutine'', PprofHandler ''goroutine''),
      (prefix @ ''threadcreate'', PprofHandler ''threadcreate''),
      (prefix @ ''block'', PprofHandler ''block''),
      (prefix @ ''mutex'', PprofHandler ''mutex''),
      (prefix @ ''allocs'', PprofHandler ''allocs'')] @
     (if prefix \<noteq> ''/'' then [(''/'', RedirectTo prefix)] else [])"

definition serverPProf :: "lib \<Rightarrow> ux_host \<Rightarrow> string \<Rightarrow> string \<Rightarrow> pprof_handler routes \<times> ux_event list" where
  "serverPProf L H addr prefix = (pprof_routes prefix,
     [UxLog (''Serving pprof services on http://'' @ addr @ prefix), ListenOn addr,
      LogFatal (''pprof server failed: '' @ error_Error L (ListenAndServe H addr))])"

section \<open>Which handler gets a request\<close>

lemma parsed_ux: "map (map_prod parse_pattern id) ux_routes =
    [(\<lparr>pt_method = ''GET'', pt_segs = [Rest]\<rparr>, HomePage),
     (\<lparr>pt_method = ''GET'', pt_segs = [Lit ''users'']\<rparr>, UsersPage),
     (\<lparr>pt_method = ''GET'', pt_segs = [Lit ''users'', Lit ''list'']\<rparr>, H_ListUsers),
     (\<lparr>pt_method = ''GET'', pt_segs = [Lit ''users'', Lit ''new'']\<rparr>, H_NewUserForm),
     (\<lparr>pt_method = ''POST'', pt_segs = [Lit ''users'']\<rparr>, H_CreateUser),
     (\<lparr>pt_method = ''GET'', pt_segs = [Lit ''users'', Wild ''id'']\<rparr>, H_GetUser),
     (\<lparr>pt_method = ''GET'', pt_segs = [Lit ''users'', Wild ''id'', Lit ''edit'']\<rparr>, H_EditUserForm),
     (\<lparr>pt_method = ''PUT'', pt_segs = [Lit ''users'', Wild ''id'']\<rparr>, H_UpdateUser),
     (\<lparr>pt_method = ''DELETE'', pt_segs = [Lit ''users'', Wild ''id'']\<rparr>, H_DeleteUser),
     (\<lparr>pt_method = ''GET'', pt_segs = [Lit ''users'', Lit ''filter'']\<rparr>, H_FilterByRole)]"
  by (simp add: ux_routes_def parse_defs del: split_on.simps(2))

lemmas ux_table = find_match_def candidates_parsed parsed_ux parsed_candidates_def

text \<open>What the table offers for a path, by method.\<close>

lemma ux_get:
  "best (candidates ux_routes ''GET'' ps) = (if ps = [] then None else Some (
     if ps = [''users''] then ([Lit ''users''], UsersPage, [])
     else if ps = [''users'', ''list''] then ([Lit ''users'', Lit ''list''], H_ListUsers, [])
     else if ps = [''users'', ''new''] then ([Lit ''users'', Lit ''new''], H_NewUserForm, [])
     else if ps = [''users'', ''filter''] then ([Lit ''users'', Lit ''filter''], H_FilterByRole, [])
     else if length ps = 2 \<and> ps ! 0 = ''users'' \<and> ps ! 1 \<noteq> ''''
     then ([Lit ''users'', Wild ''id''], H_GetUser, [(''id'', ps ! 1)])
     else if length ps = 3 \<and> ps ! 0 = ''users'' \<and> ps ! 1 \<noteq> '''' \<and> ps ! 2 = ''edit''
     then ([Lit ''users'', Wild ''id'', Lit ''edit''], H_EditUserForm, [(''id'', ps ! 1)])
     else ([Rest], HomePage, [])))"
proof -
  consider "ps = []" | a where "ps = [a]" | a b where "ps = [a, b]" | a b c where "ps = [a, b, c]"
    | a b c d qs where "ps = a # b # c # d # qs" by (metis list.exhaust)
  then show ?thesis
    by cases (simp_all add: ux_table match_segs_unfold more_specific_def)
qed

lemma ux_other:
  "best (candidates ux_routes ''POST'' ps) =
     (if ps = [''users''] then Some ([Lit ''users''], H_CreateUser, []) else None)"
  "best (candidates ux_routes ''PUT'' ps) = (if length ps = 2 \<and> ps ! 0 = ''users'' \<and> ps ! 1 \<noteq> ''''
     then Some ([Lit ''users'', Wild ''id''], H_UpdateUser, [(''id'', ps ! 1)]) else None)"
  "best (candidates ux_routes ''DELETE'' ps) = (if length ps = 2 \<and> ps ! 0 = ''users'' \<and> ps ! 1 \<noteq> ''''
     then Some ([Lit ''users'', Wild ''id''], H_DeleteUser, [(''id'', ps ! 1)]) else None)"
  "m \<notin> {''GET'', ''POST'', ''PUT'', ''DELETE''} \<Longrightarrow> candidates ux_routes m ps = []"
proof -
  consider "ps = []" | a where "ps = [a]" | a b where "ps = [a, b]"
    | a b c qs where "ps = a # b # c # qs" by (metis list.exhaust)
  note cases = this
  from cases show "best (candidates ux_routes ''POST'' ps) =
     (if ps = [''users''] then Some ([Lit ''users''], H_CreateUser, []) else None)"
    by cases (simp_all add: ux_table match_segs_unfold)
  from cases show "best (candidates ux_routes ''PUT'' ps) = (if length ps = 2 \<and> ps ! 0 = ''users'' \<and> ps ! 1 \<noteq> ''''
     then Some ([Lit ''users'', Wild ''id''], H_UpdateUser, [(''id'', ps ! 1)]) else None)"
    by cases (simp_all add: ux_table match_segs_unfold)
  from cases show "best (candidates ux_routes ''DELETE'' ps) = (if length ps = 2 \<and> ps ! 0 = ''users'' \<and> ps ! 1 \<noteq> ''''
     then Some ([Lit ''users'', Wild ''id''], H_DeleteUser, [(''id'', ps ! 1)]) else None)"
    by cases (simp_all add: ux_table match_segs_unfold)
  show "m \<notin> {''GET'', ''POST'', ''PUT'', ''DELETE''} \<Longrightarrow> candidates ux_routes m ps = []"
    by (auto simp: ux_table)
qed

lemma ux_find:
  "find_match ux_routes m ps =
     (if m = ''GET'' \<or> m = ''HEAD'' then best (candidates ux_routes ''GET'' ps) else best (candidates ux_routes m ps))"
  by (auto simp: find_match_def ux_other(4) split: option.splits)

text \<open>A path under the home page only is nowhere exact, with or without a slash.\<close>

lemma ux_no_redirect:
  assumes "ps \<noteq> []"
  shows "\<not> exact (find_match ux_routes m (ps @ [''''])) (ps @ [''''])"
proof (cases "m = ''GET'' \<or> m = ''HEAD''")
  case True
  from assms have "find_match ux_routes m (ps @ ['''']) = Some ([Rest], HomePage, [])"
    using True by (auto simp: ux_find ux_get nth_append length_Suc_conv numeral_2_eq_2 numeral_3_eq_3)
  then show ?thesis using assms by (simp add: exact_def)
next
  case False
  have "candidates ux_routes m (ps @ ['''']) = []"
    using False assms ux_other(1-3) [of "ps @ ['''']"] ux_other(4) [of m "ps @ ['''']"]
    by (cases "m = ''POST'' \<or> m = ''PUT'' \<or> m = ''DELETE''")
      (auto simp: nth_append length_Suc_conv numeral_2_eq_2 split: if_splits simp flip: best_None)
  then show ?thesis using False by (simp add: ux_find exact_def)
qed

text \<open>C29. The routes of the web interface. Every path that a \<open>GET\<close> or \<open>HEAD\<close> request can have
  is served: the six pages of users, with \<open>/users/list\<close>, \<open>/users/new\<close> and \<open>/users/filter\<close> not taken
  for users of that id, and the home page for every other path, so that no request is ever answered
  \<open>404\<close>. The other methods reach exactly the handlers that create, update and delete, with the id
  of the path, and are not allowed anywhere else. Only these three pages reserve their word: the form
  for editing, \<open>PUT\<close> and \<open>DELETE\<close> take \<open>list\<close>, \<open>new\<close> and \<open>filter\<close> as ids like any other.\<close>

theorem ux_dispatch:
  assumes "ps \<noteq> []"
  shows "ServeMux ux_routes m ps =
    (if m = ''GET'' \<or> m = ''HEAD'' then
       (if ps = [''users''] then Served UsersPage []
        else if ps = [''users'', ''list''] then Served H_ListUsers []
        else if ps = [''users'', ''new''] then Served H_NewUserForm []
        else if ps = [''users'', ''filter''] then Served H_FilterByRole []
        else if length ps = 2 \<and> ps ! 0 = ''users'' \<and> ps ! 1 \<noteq> '''' then Served H_GetUser [(''id'', ps ! 1)]
        else if length ps = 3 \<and> ps ! 0 = ''users'' \<and> ps ! 1 \<noteq> '''' \<and> ps ! 2 = ''edit''
        then Served H_EditUserForm [(''id'', ps ! 1)]
        else Served HomePage [])
     else if m = ''POST'' \<and> ps = [''users''] then Served H_CreateUser []
     else if m \<in> {''PUT'', ''DELETE''} \<and> length ps = 2 \<and> ps ! 0 = ''users'' \<and> ps ! 1 \<noteq> ''''
     then Served (if m = ''PUT'' then H_UpdateUser else H_DeleteUser) [(''id'', ps ! 1)]
     else MethodNotAllowed)"
proof -
  have "(''GET /'', HomePage) \<in> set ux_routes" by (simp add: ux_routes_def)
  moreover have "parse_pattern ''GET /'' = \<lparr>pt_method = ''GET'', pt_segs = [Rest]\<rparr>"
    using arg_cong [OF parsed_ux, of hd] by (simp add: ux_routes_def)
  ultimately have "\<exists>(p, _)\<in>set ux_routes. match_segs (pt_segs (parse_pattern p)) ps \<noteq> None"
    using assms by (intro bexI [of _ "(''GET /'', HomePage)"]) (simp_all add: match_segs_Rest_Cons)
  then have serve: "ServeMux ux_routes k ps = (case find_match ux_routes k ps of
      Some (_, h, vs) \<Rightarrow> Served h vs | None \<Rightarrow> MethodNotAllowed)" for k
    using ux_no_redirect [OF assms, of k] by (simp add: ServeMux_def Let_def split: option.splits)
  consider "m = ''GET'' \<or> m = ''HEAD''" | "m = ''POST''" | "m = ''PUT''" | "m = ''DELETE''"
    | "m \<notin> {''GET'', ''HEAD'', ''POST'', ''PUT'', ''DELETE''}" by blast
  then show ?thesis
  proof cases
    case 1
    show ?thesis using assms unfolding serve ux_find if_P [OF 1] ux_get by simp
  next
    case 5
    then show ?thesis using ux_other(4) [of m ps] by (simp add: serve ux_find)
  qed (simp_all add: serve ux_find ux_other(1-3))
qed

theorem ux_dispatch_witness:
  "ServeMux ux_routes ''GET'' [''users'', ''list''] = Served H_ListUsers [] \<and>
   ServeMux ux_routes ''DELETE'' [''users'', ''7''] = Served H_DeleteUser [(''id'', ''7'')] \<and>
   ServeMux ux_routes ''PUT'' [''users'', ''new''] = Served H_UpdateUser [(''id'', ''new'')]"
  using ux_dispatch [of "[''users'', ''list'']" "''GET''"] ux_dispatch [of "[''users'', ''7'']" "''DELETE''"]
    ux_dispatch [of "[''users'', ''new'']" "''PUT''"]
  by simp

section \<open>Before they listen\<close>

text \<open>
  The web interface hands the token of its flag on to the API client, and that of the
  environment without one. The second propagator replaces the one \<open>initTracer\<close> has just set, so
  that baggage is never passed on. Since \<open>log.Fatalf\<close> ends the process, the tracer provider is
  not shut down.
\<close>

lemma ux_main_runs:
  assumes "stdouttrace_New H = None" and "ParseFS H = None"
  shows "NewClient (ux_apiURL fl) (if ux_jwtToken fl \<noteq> '''' then ux_jwtToken fl else Getenv env ''JWT_TOKEN'')
      \<in> set (ux_main L H env fl)"
    and "filter (\<lambda>e. case e of SetTextMapPropagator _ \<Rightarrow> True | _ \<Rightarrow> False) (ux_main L H env fl) =
      [SetTextMapPropagator [''TraceContext'', ''Baggage''], SetTextMapPropagator [''TraceContext'']]"
    and "last (ux_main L H env fl) =
      LogFatal (''Server failed to start: '' @ error_Error L (ListenAndServe H ('':'' @ ux_port fl)))"
  using assms by (simp_all add: ux_main_def initTracer_def ux_token_def Let_def)

lemma plane_dispatch:
  "ps \<noteq> [] \<Longrightarrow> ServeMux plane_routes m ps = Served (if ps = [''health''] then Health else Dashboard) []"
proof -
  have parsed: "map (map_prod parse_pattern id) plane_routes =
      [(\<lparr>pt_method = '''', pt_segs = [Rest]\<rparr>, Dashboard), (\<lparr>pt_method = '''', pt_segs = [Lit ''health'']\<rparr>, Health)]"
    by (simp add: plane_routes_def parse_defs del: split_on.simps(2))
  assume "ps \<noteq> []"
  then show ?thesis
    by (cases ps; cases "tl ps")
      (auto simp: ServeMux_def Let_def exact_def find_match_def candidates_parsed parsed parsed_candidates_def
        match_segs_unfold more_specific_def)
qed

end
