(* ===== verification/Stubs.thy ===== *)
theory Stubs
  imports Gateway AuthChain
begin

text \<open>
  The stubs of \<open>proto/pkg/example_grpc.pb.go\<close>: the names of the methods, the description of the
  service, the client that turns a method into a call over a connection, and the handlers that
  turn such a call into one of the service, through the interceptor of the server. gRPC itself, the
  connection between them, is a parameter with a law.
\<close>

section \<open>Names and descriptions\<close>

definition UserService_AddUser_FullMethodName :: string where
  "UserService_AddUser_FullMethodName = ''/proto.UserService/AddUser''"

definition UserService_ListUsers_FullMethodName :: string where
  "UserService_ListUsers_FullMethodName = ''/proto.UserService/ListUsers''"

definition UserService_ListUsersByRole_FullMethodName :: string where
  "UserService_ListUsersByRole_FullMethodName = ''/proto.UserService/ListUsersByRole''"

definition UserService_UpdateUser_FullMethodName :: string where
  "UserService_UpdateUser_FullMethodName = ''/proto.UserService/UpdateUser''"

definition UserService_GetUser_FullMethodName :: string where
  "UserService_GetUser_FullMethodName = ''/proto.UserService/GetUser''"

definition UserService_DeleteUser_FullMethodName :: string where
  "UserService_DeleteUser_FullMethodName = ''/proto.UserService/DeleteUser''"

definition UserService_BatchAddUsers_FullMethodName :: string where
  "UserService_BatchAddUsers_FullMethodName = ''/proto.UserService/BatchAddUsers''"

definition UserService_UserActivityStream_FullMethodName :: string where
  "UserService_UserActivityStream_FullMethodName = ''/proto.UserService/UserActivityStream''"

definition UserService_SyncUsers_FullMethodName :: string where
  "UserService_SyncUsers_FullMethodName = ''/proto.UserService/SyncUsers''"

lemmas full_names = UserService_AddUser_FullMethodName_def UserService_ListUsers_FullMethodName_def
  UserService_ListUsersByRole_FullMethodName_def UserService_UpdateUser_FullMethodName_def
  UserService_GetUser_FullMethodName_def UserService_DeleteUser_FullMethodName_def
  UserService_BatchAddUsers_FullMethodName_def UserService_UserActivityStream_FullMethodName_def
  UserService_SyncUsers_FullMethodName_def

datatype unary_name = AddUser_Handler | UpdateUser_Handler | GetUser_Handler | DeleteUser_Handler

datatype stream_name =
    ListUsers_Handler | ListUsersByRole_Handler | BatchAddUsers_Handler | UserActivityStream_Handler | SyncUsers_Handler

record stream_desc =
  StreamName :: string
  stream_Handler :: stream_name
  ServerStreams :: bool
  ClientStreams :: bool

record service_desc =
  ServiceName :: string
  Methods :: "(string \<times> unary_name) list"
  Streams :: "stream_desc list"
  desc_Metadata :: string

definition UserService_ServiceDesc :: service_desc where
  "UserService_ServiceDesc = \<lparr>
     ServiceName = ''proto.UserService'',
     Methods = [(''AddUser'', AddUser_Handler), (''UpdateUser'', UpdateUser_Handler),
       (''GetUser'', GetUser_Handler), (''DeleteUser'', DeleteUser_Handler)],
     Streams = [
       \<lparr>StreamName = ''ListUsers'', stream_Handler = ListUsers_Handler, ServerStreams = True, ClientStreams = False\<rparr>,
       \<lparr>StreamName = ''ListUsersByRole'', stream_Handler = ListUsersByRole_Handler, ServerStreams = True, ClientStreams = False\<rparr>,
       \<lparr>StreamName = ''BatchAddUsers'', stream_Handler = BatchAddUsers_Handler, ServerStreams = False, ClientStreams = True\<rparr>,
       \<lparr>StreamName = ''UserActivityStream'', stream_Handler = UserActivityStream_Handler, ServerStreams = True, ClientStreams = True\<rparr>,
       \<lparr>StreamName = ''SyncUsers'', stream_Handler = SyncUsers_Handler, ServerStreams = True, ClientStreams = True\<rparr>],
     desc_Metadata = ''example.proto''\<rparr>"

section \<open>What goes over the wire\<close>

text \<open>
  Interceptors and handlers are untyped in Go (\<open>req interface{}\<close>): one type holds the requests of
  the four unary methods, one their responses, one the requests of the two listings; one what is
  asked of a streaming method in all, and one the messages such a method sends.
\<close>

datatype any_request =
    AddReq User
  | GetReq GetUserRequest
  | UpdateReq UpdateUserRequest
  | DeleteReq DeleteUserRequest

datatype any_response = EmptyResp | UserResp User

datatype list_request = ListReq ListUsersRequest | RoleReq UserRole

datatype stream_request =
    Listing list_request
  | Batch "User list"
  | Activities "UserActivity list"
  | Syncs "User list"

datatype stream_item =
    UserItem User
  | BatchItem BatchAddUsersResponse
  | ActivityItem UserActivityResponse
  | SyncItem SyncUserResponse

text \<open>
  What gRPC makes of the error of a handler: a status error arrives as it is, an error that wraps
  one under its code with the whole text, another error as \<open>Unknown\<close> with its text. A stream ends
  with \<open>io.EOF\<close> when the handler returns nil.
\<close>

fun wrapped_code :: "error \<Rightarrow> code" where
  "wrapped_code (Status c msg) = c"
| "wrapped_code (Errorf msg (Some e)) = wrapped_code e"
| "wrapped_code e = Unknown"

definition wire :: "lib \<Rightarrow> error \<Rightarrow> error" where
  "wire L e = (case e of Status c msg \<Rightarrow> Status c msg | _ \<Rightarrow> Status (wrapped_code e) (error_Error L e))"

definition recv_end :: "lib \<Rightarrow> error option \<Rightarrow> error" where
  "recv_end L r = (case r of None \<Rightarrow> EOF | Some e \<Rightarrow> wire L e)"

lemma wire_status [simp]: "wire L (Status c msg) = Status c msg"
  by (simp add: wire_def)

lemma recv_end_simps [simp]: "recv_end L None = EOF" "recv_end L (Some (Status c msg)) = Status c msg"
  by (simp_all add: recv_end_def)

definition answer :: "lib \<Rightarrow> (error + 'm) \<times> 's \<Rightarrow> (error + 'm) \<times> 's" where
  "answer L r = map_prod (map_sum (wire L) id) id r"

lemma answer_simps [simp]:
  "answer L (Inl e, s) = (Inl (wire L e), s)" "answer L (Inr m, s) = (Inr m, s)"
  by (simp_all add: answer_def)

lemma answer_Inr [simp]: "answer L x = (Inr r, s) \<longleftrightarrow> x = (Inr r, s)"
  by (cases x; cases "fst x") (auto simp: answer_def)

section \<open>The client\<close>

text \<open>
  A stream of the connection: the outcome of \<open>SendMsg\<close> and \<open>CloseSend\<close>, what comes back once the
  request of a listing is sent, and the stream as the clients of the other methods use it.
\<close>

record 's client_stream =
  SendMsg :: "list_request \<Rightarrow> error option"
  CloseSend :: "error option"
  received :: "list_request \<Rightarrow> 's \<Rightarrow> User recv_stream \<times> 's"
  as_batch :: "'s send_stream"
  as_activity :: "(UserActivity, UserActivityResponse, 's) bidi_stream"
  as_sync :: "(User, SyncUserResponse, 's) bidi_stream"

record ('c, 's) ClientConn =
  Invoke :: "'c \<Rightarrow> string \<Rightarrow> any_request \<Rightarrow> 's \<Rightarrow> (error + any_response) \<times> server_md \<times> 's"
  NewStream :: "'c \<Rightarrow> stream_desc \<Rightarrow> string \<Rightarrow> error + 's client_stream"

text \<open>The response is decoded into a message of the type the method has.\<close>

definition out_Empty :: "(error + any_response) \<times> server_md \<times> 's \<Rightarrow> (error + unit) \<times> server_md \<times> 's" where
  "out_Empty r = (case r of (x, md, s) \<Rightarrow> (map_sum id (\<lambda>_. ()) x, md, s))"

definition out_User :: "(error + any_response) \<times> server_md \<times> 's \<Rightarrow> (error + User) \<times> server_md \<times> 's" where
  "out_User r = (case r of (x, md, s) \<Rightarrow> (map_sum id (case_any_response User_zero id) x, md, s))"

definition userServiceClient_AddUser :: "('c, 's) ClientConn \<Rightarrow> 'c \<Rightarrow> User \<Rightarrow> 's \<Rightarrow> (error + unit) \<times> server_md \<times> 's" where
  "userServiceClient_AddUser cc ctx m s =
     out_Empty (Invoke cc ctx UserService_AddUser_FullMethodName (AddReq m) s)"

definition userServiceClient_UpdateUser ::
    "('c, 's) ClientConn \<Rightarrow> 'c \<Rightarrow> UpdateUserRequest \<Rightarrow> 's \<Rightarrow> (error + User) \<times> server_md \<times> 's" where
  "userServiceClient_UpdateUser cc ctx m s =
     out_User (Invoke cc ctx UserService_UpdateUser_FullMethodName (UpdateReq m) s)"

definition userServiceClient_GetUser ::
    "('c, 's) ClientConn \<Rightarrow> 'c \<Rightarrow> GetUserRequest \<Rightarrow> 's \<Rightarrow> (error + User) \<times> server_md \<times> 's" where
  "userServiceClient_GetUser cc ctx m s =
     out_User (Invoke cc ctx UserService_GetUser_FullMethodName (GetReq m) s)"

definition userServiceClient_DeleteUser ::
    "('c, 's) ClientConn \<Rightarrow> 'c \<Rightarrow> DeleteUserRequest \<Rightarrow> 's \<Rightarrow> (error + unit) \<times> server_md \<times> 's" where
  "userServiceClient_DeleteUser cc ctx m s =
     out_Empty (Invoke cc ctx UserService_DeleteUser_FullMethodName (DeleteReq m) s)"

text \<open>The two listings send their request and close their side before they return the stream.\<close>

definition open_list :: "('c, 's) ClientConn \<Rightarrow> 'c \<Rightarrow> nat \<Rightarrow> string \<Rightarrow> list_request \<Rightarrow> 's \<Rightarrow>
    (error + User recv_stream) \<times> 's" where
  "open_list cc ctx i name m s = (case NewStream cc ctx (Streams UserService_ServiceDesc ! i) name of
     Inl err \<Rightarrow> (Inl err, s)
   | Inr stream \<Rightarrow> (case SendMsg stream m of
       Some err \<Rightarrow> (Inl err, s)
     | None \<Rightarrow> (case CloseSend stream of
         Some err \<Rightarrow> (Inl err, s)
       | None \<Rightarrow> (case received stream m s of (x, s') \<Rightarrow> (Inr x, s')))))"

definition userServiceClient_ListUsers ::
    "('c, 's) ClientConn \<Rightarrow> 'c \<Rightarrow> ListUsersRequest \<Rightarrow> 's \<Rightarrow> (error + User recv_stream) \<times> 's" where
  "userServiceClient_ListUsers cc ctx m s = open_list cc ctx 0 UserService_ListUsers_FullMethodName (ListReq m) s"

definition userServiceClient_ListUsersByRole ::
    "('c, 's) ClientConn \<Rightarrow> 'c \<Rightarrow> UserRole \<Rightarrow> 's \<Rightarrow> (error + User recv_stream) \<times> 's" where
  "userServiceClient_ListUsersByRole cc ctx m s =
     open_list cc ctx 1 UserService_ListUsersByRole_FullMethodName (RoleReq m) s"

definition userServiceClient_BatchAddUsers :: "('c, 's) ClientConn \<Rightarrow> 'c \<Rightarrow> error + 's send_stream" where
  "userServiceClient_BatchAddUsers cc ctx = map_sum id as_batch
     (NewStream cc ctx (Streams UserService_ServiceDesc ! 2) UserService_BatchAddUsers_FullMethodName)"

definition userServiceClient_UserActivityStream ::
    "('c, 's) ClientConn \<Rightarrow> 'c \<Rightarrow> error + (UserActivity, UserActivityResponse, 's) bidi_stream" where
  "userServiceClient_UserActivityStream cc ctx = map_sum id as_activity
     (NewStream cc ctx (Streams UserService_ServiceDesc ! 3) UserService_UserActivityStream_FullMethodName)"

definition userServiceClient_SyncUsers ::
    "('c, 's) ClientConn \<Rightarrow> 'c \<Rightarrow> error + (User, SyncUserResponse, 's) bidi_stream" where
  "userServiceClient_SyncUsers cc ctx = map_sum id as_sync
     (NewStream cc ctx (Streams UserService_ServiceDesc ! 4) UserService_SyncUsers_FullMethodName)"

definition NewUserServiceClient :: "('c, 's) ClientConn \<Rightarrow> ('c, 's) client" where
  "NewUserServiceClient cc = \<lparr>
     c_AddUser = userServiceClient_AddUser cc, c_GetUser = userServiceClient_GetUser cc,
     c_UpdateUser = userServiceClient_UpdateUser cc, c_DeleteUser = userServiceClient_DeleteUser cc,
     c_ListUsers = userServiceClient_ListUsers cc, c_ListUsersByRole = userServiceClient_ListUsersByRole cc,
     c_BatchAddUsers = userServiceClient_BatchAddUsers cc,
     c_UserActivityStream = userServiceClient_UserActivityStream cc, c_SyncUsers = userServiceClient_SyncUsers cc\<rparr>"

section \<open>The server\<close>

text \<open>
  What \<open>UnimplementedUserServiceServer\<close> answers for a method that a service lacks. The service of this
  program has all nine.
\<close>

definition UnimplementedUserServiceServer :: "string \<Rightarrow> error" where
  "UnimplementedUserServiceServer name = Status Unimplemented (''method '' @ name @ '' not implemented'')"

text \<open>
  The service as a handler under the interceptor, of a request that is one of the four messages:
  since no interceptor replaces the request, the type assertion of the stub holds.
\<close>

fun serve_any :: "'s Storage \<Rightarrow> time \<Rightarrow> any_request \<Rightarrow> 's \<Rightarrow> (error + any_response) \<times> 's" where
  "serve_any S now (AddReq u) s = map_prod (map_sum id (\<lambda>_. EmptyResp)) id (Server_AddUser S now u s)"
| "serve_any S now (GetReq r) s = map_prod (map_sum id UserResp) id (Server_GetUser S r s)"
| "serve_any S now (UpdateReq r) s = map_prod (map_sum id UserResp) id (Server_UpdateUser S r s)"
| "serve_any S now (DeleteReq r) s = map_prod (map_sum id (\<lambda>_. EmptyResp)) id (Server_DeleteUser S r s)"

definition rpc_handler :: "'s Storage \<Rightarrow> time \<Rightarrow> (any_request, any_response, 's) UnaryHandler" where
  "rpc_handler S now = (\<lambda>(ctx, req) w. case serve_any S now req (backend w) of
     (Inl err, s) \<Rightarrow> ((None, Some err), w\<lparr>backend := s\<rparr>)
   | (Inr resp, s) \<Rightarrow> ((Some resp, None), w\<lparr>backend := s\<rparr>))"

type_synonym ('m, 's) unary_stub =
  "'s Storage \<Rightarrow> time \<Rightarrow> ctx \<Rightarrow> error + 'm \<Rightarrow> (any_request, any_response, 's) UnaryInterceptor option \<Rightarrow>
   's world \<Rightarrow> (any_response option \<times> error option) \<times> 's world"

text \<open>\<open>decoded\<close> is the outcome of decoding the message; a server without interceptors has none.\<close>

definition UserService_AddUser_Handler :: "(User, 's) unary_stub" where
  "UserService_AddUser_Handler S now ctx decoded interceptor w = (case decoded of
     Inl err \<Rightarrow> ((None, Some err), w)
   | Inr m \<Rightarrow> (case interceptor of
       None \<Rightarrow> rpc_handler S now (ctx, AddReq m) w
     | Some icept \<Rightarrow> icept \<lparr>FullMethod = UserService_AddUser_FullMethodName\<rparr> (rpc_handler S now) (ctx, AddReq m) w))"

definition UserService_UpdateUser_Handler :: "(UpdateUserRequest, 's) unary_stub" where
  "UserService_UpdateUser_Handler S now ctx decoded interceptor w = (case decoded of
     Inl err \<Rightarrow> ((None, Some err), w)
   | Inr m \<Rightarrow> (case interceptor of
       None \<Rightarrow> rpc_handler S now (ctx, UpdateReq m) w
     | Some icept \<Rightarrow> icept \<lparr>FullMethod = UserService_UpdateUser_FullMethodName\<rparr> (rpc_handler S now) (ctx, UpdateReq m) w))"

definition UserService_GetUser_Handler :: "(GetUserRequest, 's) unary_stub" where
  "UserService_GetUser_Handler S now ctx decoded interceptor w = (case decoded of
     Inl err \<Rightarrow> ((None, Some err), w)
   | Inr m \<Rightarrow> (case interceptor of
       None \<Rightarrow> rpc_handler S now (ctx, GetReq m) w
     | Some icept \<Rightarrow> icept \<lparr>FullMethod = UserService_GetUser_FullMethodName\<rparr> (rpc_handler S now) (ctx, GetReq m) w))"

definition UserService_DeleteUser_Handler :: "(DeleteUserRequest, 's) unary_stub" where
  "UserService_DeleteUser_Handler S now ctx decoded interceptor w = (case decoded of
     Inl err \<Rightarrow> ((None, Some err), w)
   | Inr m \<Rightarrow> (case interceptor of
       None \<Rightarrow> rpc_handler S now (ctx, DeleteReq m) w
     | Some icept \<Rightarrow> icept \<lparr>FullMethod = UserService_DeleteUser_FullMethodName\<rparr> (rpc_handler S now) (ctx, DeleteReq m) w))"

lemmas unary_handlers = UserService_AddUser_Handler_def UserService_UpdateUser_Handler_def
  UserService_GetUser_Handler_def UserService_DeleteUser_Handler_def

text \<open>The streaming stubs run below the interceptors; the listings first receive their request.\<close>

definition UserService_ListUsers_Handler :: "lib \<Rightarrow> 's Storage \<Rightarrow> time \<Rightarrow> (nat \<Rightarrow> error option) \<Rightarrow>
    error + ListUsersRequest \<Rightarrow> 's \<Rightarrow> User list \<times> error option" where
  "UserService_ListUsers_Handler L S now sends recv s = (case recv of
     Inl err \<Rightarrow> ([], Some err)
   | Inr m \<Rightarrow> Server_ListUsers L S now sends m s)"

definition UserService_ListUsersByRole_Handler :: "lib \<Rightarrow> 's Storage \<Rightarrow> (nat \<Rightarrow> error option) \<Rightarrow>
    error + UserRole \<Rightarrow> 's \<Rightarrow> User list \<times> error option" where
  "UserService_ListUsersByRole_Handler L S sends recv s = (case recv of
     Inl err \<Rightarrow> ([], Some err)
   | Inr m \<Rightarrow> Server_ListUsersByRole L S sends m s)"

definition UserService_BatchAddUsers_Handler :: "lib \<Rightarrow> 's Storage \<Rightarrow> time \<Rightarrow> error option \<Rightarrow> User recv list \<Rightarrow> 's \<Rightarrow>
    BatchAddUsersResponse option \<times> error option \<times> 's" where
  "UserService_BatchAddUsers_Handler L S now close evs s = Server_BatchAddUsers L S now close evs s"

definition UserService_UserActivityStream_Handler :: "lib \<Rightarrow> 's Storage \<Rightarrow> (UserActivity recv \<times> error option) list \<Rightarrow>
    's \<Rightarrow> UserActivityResponse list \<times> error option \<times> 's" where
  "UserService_UserActivityStream_Handler L S evs s = activity_loop L S evs s"

definition UserService_SyncUsers_Handler :: "lib \<Rightarrow> 's Storage \<Rightarrow> (User recv \<times> error option) list \<Rightarrow>
    's \<Rightarrow> SyncUserResponse list \<times> error option \<times> 's" where
  "UserService_SyncUsers_Handler L S evs s = sync_loop L S evs s"

section \<open>The law of the connection\<close>

text \<open>
  A call that is invoked reaches, in the process of the server, the handler registered for its
  method, with the message sent, the context of the client as that of the call, and the
  interceptors chained; its answer comes back over the wire. A stream reaches its handler below the
  chain of stream interceptors, which carries the messages sent beside the storage; they arrive, and
  then the error. \<open>now\<close> is the reading of the clock that a handler makes for itself.
\<close>

fun any_method :: "any_request \<Rightarrow> string" where
  "any_method (AddReq _) = UserService_AddUser_FullMethodName"
| "any_method (GetReq _) = UserService_GetUser_FullMethodName"
| "any_method (UpdateReq _) = UserService_UpdateUser_FullMethodName"
| "any_method (DeleteReq _) = UserService_DeleteUser_FullMethodName"

fun registered :: "'s Storage \<Rightarrow> time \<Rightarrow> ctx \<Rightarrow> any_request \<Rightarrow>
    (any_request, any_response, 's) UnaryInterceptor option \<Rightarrow> 's world \<Rightarrow>
    (any_response option \<times> error option) \<times> 's world" where
  "registered S now ctx (AddReq m) i w = UserService_AddUser_Handler S now ctx (Inr m) i w"
| "registered S now ctx (GetReq m) i w = UserService_GetUser_Handler S now ctx (Inr m) i w"
| "registered S now ctx (UpdateReq m) i w = UserService_UpdateUser_Handler S now ctx (Inr m) i w"
| "registered S now ctx (DeleteReq m) i w = UserService_DeleteUser_Handler S now ctx (Inr m) i w"

definition rpc_answer :: "lib \<Rightarrow> any_response option \<times> error option \<Rightarrow> error + any_response" where
  "rpc_answer L r = (case snd r of Some err \<Rightarrow> Inl (wire L err) | None \<Rightarrow> Inr (the (fst r)))"

type_synonym 's unary_chain =
  "(any_request, any_response, 's) UnaryInterceptor list \<Rightarrow> (any_request, any_response, 's) UnaryInterceptor"

definition call_through ::
    "'s unary_chain \<Rightarrow> (any_request, any_response, 's) UnaryInterceptor list \<Rightarrow> lib \<Rightarrow> 's Storage \<Rightarrow> time \<Rightarrow>
     any_request \<Rightarrow> ctx \<Rightarrow> 's world \<Rightarrow> (error + any_response) \<times> 's world" where
  "call_through Chain is L S now q ctx w =
     (case registered S now ctx q (Some (Chain is)) w of (r, w') \<Rightarrow> (rpc_answer L r, w'))"

fun list_method :: "list_request \<Rightarrow> string" where
  "list_method (ListReq _) = UserService_ListUsers_FullMethodName"
| "list_method (RoleReq _) = UserService_ListUsersByRole_FullMethodName"

fun list_index :: "list_request \<Rightarrow> nat" where
  "list_index (ListReq _) = 0"
| "list_index (RoleReq _) = 1"

fun stream_method :: "stream_request \<Rightarrow> string" where
  "stream_method (Listing m) = list_method m"
| "stream_method (Batch _) = UserService_BatchAddUsers_FullMethodName"
| "stream_method (Activities _) = UserService_UserActivityStream_FullMethodName"
| "stream_method (Syncs _) = UserService_SyncUsers_FullMethodName"

fun stream_index :: "stream_request \<Rightarrow> nat" where
  "stream_index (Listing m) = list_index m"
| "stream_index (Batch _) = 2"
| "stream_index (Activities _) = 3"
| "stream_index (Syncs _) = 4"

fun serve_list :: "lib \<Rightarrow> 's Storage \<Rightarrow> time \<Rightarrow> (nat \<Rightarrow> error option) \<Rightarrow> list_request \<Rightarrow> 's \<Rightarrow>
    User list \<times> error option" where
  "serve_list L S now sends (ListReq m) s = UserService_ListUsers_Handler L S now sends (Inr m) s"
| "serve_list L S now sends (RoleReq m) s = UserService_ListUsersByRole_Handler L S sends (Inr m) s"

text \<open>
  What the process of the server adds to a streaming call: its readings of the clock, what its
  transport says of the messages it sends, and after how many messages of the caller the call
  breaks off with which error, if it does.
\<close>

record server_side =
  at_time :: "nat \<Rightarrow> time"
  at_send :: "nat \<Rightarrow> error option"
  breaks_off :: "(nat \<times> error) option"

definition arriving :: "server_side \<Rightarrow> 'm list \<Rightarrow> 'm recv list" where
  "arriving v ms = (let evs = map (\<lambda>(i, m). Msg (at_time v (Suc i)) m) (enumerate 0 ms)
     in case breaks_off v of None \<Rightarrow> evs | Some (k, err) \<Rightarrow> take k evs @ [RecvErr err])"

definition conversing :: "server_side \<Rightarrow> 'm list \<Rightarrow> ('m recv \<times> error option) list" where
  "conversing v ms = map (\<lambda>(i, ev). (ev, at_send v i)) (enumerate 0 (arriving v ms))"

fun serve_stream :: "lib \<Rightarrow> 's Storage \<Rightarrow> server_side \<Rightarrow> stream_request \<Rightarrow> 's \<Rightarrow>
    (stream_item list \<times> error option) \<times> 's" where
  "serve_stream L S v (Listing m) s = (case serve_list L S (at_time v 0) (at_send v) m s of
     (us, err) \<Rightarrow> ((map UserItem us, err), s))"
| "serve_stream L S v (Batch us) s =
     (case UserService_BatchAddUsers_Handler L S (at_time v 0) (at_send v 0) (arriving v us) s of
        (None, err, s') \<Rightarrow> (([], err), s')
      | (Some resp, err, s') \<Rightarrow> (([BatchItem resp], err), s'))"
| "serve_stream L S v (Activities acts) s = (case UserService_UserActivityStream_Handler L S (conversing v acts) s of
     (rs, err, s') \<Rightarrow> ((map ActivityItem rs, err), s'))"
| "serve_stream L S v (Syncs us) s = (case UserService_SyncUsers_Handler L S (conversing v us) s of
     (rs, err, s') \<Rightarrow> ((map SyncItem rs, err), s'))"

definition stream_handler :: "lib \<Rightarrow> 's Storage \<Rightarrow> server_side \<Rightarrow> stream_request \<Rightarrow>
    (unit, 's \<times> stream_item list) StreamHandler" where
  "stream_handler L S v q = (\<lambda>ss w. case serve_stream L S v q (fst (backend w)) of
     ((sent, err), s) \<Rightarrow> (err, w\<lparr>backend := (s, snd (backend w) @ sent)\<rparr>))"

definition with_backend :: "'b \<Rightarrow> 's world \<Rightarrow> 'b world" where
  "with_backend b w = \<lparr>backend = b, clock = clock w, ticks = ticks w, logs = logs w,
     globalMetrics = globalMetrics w, globalOtelMetrics = globalOtelMetrics w, otel = otel w\<rparr>"

lemma with_backend_simps [simp]: "backend (with_backend b w) = b" "clock (with_backend b w) = clock w"
  by (simp_all add: with_backend_def)

type_synonym 's stream_chain =
  "(unit, 's \<times> stream_item list) StreamInterceptor list \<Rightarrow> (unit, 's \<times> stream_item list) StreamInterceptor"

definition stream_through ::
    "'s stream_chain \<Rightarrow> (unit, 's \<times> stream_item list) StreamInterceptor list \<Rightarrow> lib \<Rightarrow> 's Storage \<Rightarrow> server_side \<Rightarrow>
     stream_request \<Rightarrow> ctx \<Rightarrow> 's world \<Rightarrow> stream_item list \<times> error \<times> 's world" where
  "stream_through Chain is L S v q ctx w =
     (let d = Streams UserService_ServiceDesc ! stream_index q;
          info = \<lparr>s_FullMethod = stream_method q, IsClientStream = ClientStreams d, IsServerStream = ServerStreams d\<rparr>;
          (err, w') = Chain is info (stream_handler L S v q) \<lparr>ss_Context = ctx, transport = ()\<rparr>
            (with_backend (backend w, []) w)
      in (snd (backend w'), recv_end L err, with_backend (fst (backend w')) w'))"

text \<open>
  The client of a stream decodes what arrives as the messages its method sends. A call that
  answers once has its message if the stream ends well, and the error otherwise.
\<close>

definition users_in :: "stream_item list \<Rightarrow> User list" where
  "users_in = List.map_filter (\<lambda>i. case i of UserItem u \<Rightarrow> Some u | _ \<Rightarrow> None)"

definition activities_in :: "stream_item list \<Rightarrow> UserActivityResponse list" where
  "activities_in = List.map_filter (\<lambda>i. case i of ActivityItem r \<Rightarrow> Some r | _ \<Rightarrow> None)"

definition syncs_in :: "stream_item list \<Rightarrow> SyncUserResponse list" where
  "syncs_in = List.map_filter (\<lambda>i. case i of SyncItem r \<Rightarrow> Some r | _ \<Rightarrow> None)"

definition one_in :: "stream_item list \<Rightarrow> error \<Rightarrow> error + BatchAddUsersResponse" where
  "one_in items err = (if err = EOF then (case items of BatchItem r # _ \<Rightarrow> Inr r | _ \<Rightarrow> Inl EOF) else Inl err)"

lemma map_filter_map: "(\<And>x. f (g x) = Some x) \<Longrightarrow> List.map_filter f (map g xs) = xs"
  by (induction xs) (simp_all add: List.map_filter_simps)

lemma items_in [simp]:
  "users_in (map UserItem us) = us" "activities_in (map ActivityItem rs) = rs" "syncs_in (map SyncItem ss) = ss"
  "users_in [] = []" "activities_in [] = []" "syncs_in [] = []"
  by (simp_all add: users_in_def activities_in_def syncs_in_def map_filter_map List.map_filter_simps)

definition unary_wired ::
    "'s unary_chain \<Rightarrow> (any_request, any_response, 's) UnaryInterceptor list \<Rightarrow> lib \<Rightarrow> 's Storage \<Rightarrow> server_md \<Rightarrow>
     (ctx, 's world) ClientConn \<Rightarrow> bool" where
  "unary_wired Chain is L S md cc \<longleftrightarrow> (\<forall>ctx q w. \<exists>now. Invoke cc ctx (any_method q) q w =
     (case call_through Chain is L S now q ctx w of (r, w') \<Rightarrow> (r, md, w')))"

text \<open>
  A stream that is opened works: what is sent on it arrives, until the server ends the call, which
  makes \<open>Send\<close> fail, or the client gives it up, which breaks it off at some point.
\<close>

definition list_wired ::
    "'s stream_chain \<Rightarrow> (unit, 's \<times> stream_item list) StreamInterceptor list \<Rightarrow> lib \<Rightarrow> 's Storage \<Rightarrow> md \<Rightarrow>
     ctx \<Rightarrow> 's world client_stream \<Rightarrow> list_request \<Rightarrow> bool" where
  "list_wired Chain is L S hdr ctx st q \<longleftrightarrow> SendMsg st q = None \<and> CloseSend st = None \<and>
     (\<forall>w. \<exists>v. breaks_off v = None \<and> received st q w = (case stream_through Chain is L S v (Listing q) ctx w of
        (items, e, w') \<Rightarrow> (\<lparr>stream_Header = Inr hdr, stream_messages = users_in items, stream_end = e\<rparr>, w')))"

definition batch_wired ::
    "'s stream_chain \<Rightarrow> (unit, 's \<times> stream_item list) StreamInterceptor list \<Rightarrow> lib \<Rightarrow> 's Storage \<Rightarrow> md \<Rightarrow>
     ctx \<Rightarrow> 's world send_stream \<Rightarrow> bool" where
  "batch_wired Chain is L S hdr ctx st \<longleftrightarrow> send_CloseSend st = None \<and> send_Header st = Inr hdr \<and>
     (\<forall>us w. \<exists>v trailer. breaks_off v = None \<and> CloseAndRecv st us w = (case stream_through Chain is L S v (Batch us) ctx w of
        (items, e, w') \<Rightarrow> (one_in items e, trailer, w'))) \<and>
     (\<forall>us w. \<exists>v. give_up st us w = snd (snd (stream_through Chain is L S v (Batch us) ctx w)))"

definition bidi_wired ::
    "'s stream_chain \<Rightarrow> (unit, 's \<times> stream_item list) StreamInterceptor list \<Rightarrow> lib \<Rightarrow> 's Storage \<Rightarrow> md \<Rightarrow>
     ctx \<Rightarrow> ('m list \<Rightarrow> stream_request) \<Rightarrow> (stream_item list \<Rightarrow> 'r list) \<Rightarrow> ('m, 'r, 's world) bidi_stream \<Rightarrow> bool" where
  "bidi_wired Chain is L S hdr ctx ask unpack st \<longleftrightarrow> bidi_Header st = Inr hdr \<and>
     (\<forall>ms w. \<exists>v. breaks_off v = None \<and> bidi_answers st ms w = (case stream_through Chain is L S v (ask ms) ctx w of
        (items, e, w') \<Rightarrow> (unpack items, e, w')))"

definition stream_wired ::
    "'s stream_chain \<Rightarrow> (unit, 's \<times> stream_item list) StreamInterceptor list \<Rightarrow> lib \<Rightarrow> 's Storage \<Rightarrow> md \<Rightarrow>
     (ctx, 's world) ClientConn \<Rightarrow> bool" where
  "stream_wired Chain is L S hdr cc \<longleftrightarrow> (\<forall>ctx q. \<exists>st.
     NewStream cc ctx (Streams UserService_ServiceDesc ! stream_index q) (stream_method q) = Inr st \<and>
     (case q of
        Listing m \<Rightarrow> list_wired Chain is L S hdr ctx st m
      | Batch _ \<Rightarrow> batch_wired Chain is L S hdr ctx (as_batch st)
      | Activities _ \<Rightarrow> bidi_wired Chain is L S hdr ctx Activities activities_in (as_activity st)
      | Syncs _ \<Rightarrow> bidi_wired Chain is L S hdr ctx Syncs syncs_in (as_sync st)))"

section \<open>The stubs fit together\<close>

text \<open>
  The nine names are those of the description, in two groups; the clients of the streams pick the
  entry of their own name, with the directions that the handlers have.
\<close>

lemma described_names:
  "map (\<lambda>(n, h). ''/'' @ ServiceName UserService_ServiceDesc @ ''/'' @ n) (Methods UserService_ServiceDesc) =
    [UserService_AddUser_FullMethodName, UserService_UpdateUser_FullMethodName, UserService_GetUser_FullMethodName,
     UserService_DeleteUser_FullMethodName]"
  "map (\<lambda>d. ''/'' @ ServiceName UserService_ServiceDesc @ ''/'' @ StreamName d) (Streams UserService_ServiceDesc) =
    [UserService_ListUsers_FullMethodName, UserService_ListUsersByRole_FullMethodName,
     UserService_BatchAddUsers_FullMethodName, UserService_UserActivityStream_FullMethodName,
     UserService_SyncUsers_FullMethodName]"
  by (simp_all add: UserService_ServiceDesc_def full_names)

lemma call_through_chain:
  "call_through Chain is L S now q ctx w =
    (case Chain is \<lparr>FullMethod = any_method q\<rparr> (rpc_handler S now) (ctx, q) w of (r, w') \<Rightarrow> (rpc_answer L r, w'))"
  by (cases q) (simp_all add: call_through_def unary_handlers)

lemma rpc_handler_answer:
  "(rpc_answer L (fst (rpc_handler S now (ctx, q) w)), backend (snd (rpc_handler S now (ctx, q) w))) =
     answer L (serve_any S now q (backend w))"
  by (auto simp: rpc_handler_def rpc_answer_def answer_def split: prod.splits sum.splits)

text \<open>The client of the stubs over a connection that obeys the law.\<close>

lemma client_unary:
  assumes "unary_wired Chain is L S md cc"
  shows "\<exists>now. c_AddUser (NewUserServiceClient cc) ctx u w =
      (case call_through Chain is L S now (AddReq u) ctx w of (r, w') \<Rightarrow> (map_sum id (\<lambda>_. ()) r, md, w'))"
    and "\<exists>now. c_GetUser (NewUserServiceClient cc) ctx g w =
      (case call_through Chain is L S now (GetReq g) ctx w of
         (r, w') \<Rightarrow> (map_sum id (case_any_response User_zero id) r, md, w'))"
    and "\<exists>now. c_UpdateUser (NewUserServiceClient cc) ctx uu w =
      (case call_through Chain is L S now (UpdateReq uu) ctx w of
         (r, w') \<Rightarrow> (map_sum id (case_any_response User_zero id) r, md, w'))"
    and "\<exists>now. c_DeleteUser (NewUserServiceClient cc) ctx d w =
      (case call_through Chain is L S now (DeleteReq d) ctx w of (r, w') \<Rightarrow> (map_sum id (\<lambda>_. ()) r, md, w'))"
proof -
  have inv: "\<exists>now r w'. call_through Chain is L S now q ctx w = (r, w') \<and> Invoke cc ctx (any_method q) q w = (r, md, w')" for q
    using assms unfolding unary_wired_def by (metis (no_types, lifting) prod.case surj_pair)
  note client = NewUserServiceClient_def userServiceClient_AddUser_def userServiceClient_GetUser_def
    userServiceClient_UpdateUser_def userServiceClient_DeleteUser_def out_Empty_def out_User_def
  show "\<exists>now. c_AddUser (NewUserServiceClient cc) ctx u w =
      (case call_through Chain is L S now (AddReq u) ctx w of (r, w') \<Rightarrow> (map_sum id (\<lambda>_. ()) r, md, w'))"
    using inv [of "AddReq u"] by (elim exE) (rename_tac now r w', rule_tac x = now in exI, auto simp: client)
  show "\<exists>now. c_GetUser (NewUserServiceClient cc) ctx g w =
      (case call_through Chain is L S now (GetReq g) ctx w of
         (r, w') \<Rightarrow> (map_sum id (case_any_response User_zero id) r, md, w'))"
    using inv [of "GetReq g"] by (elim exE) (rename_tac now r w', rule_tac x = now in exI, auto simp: client)
  show "\<exists>now. c_UpdateUser (NewUserServiceClient cc) ctx uu w =
      (case call_through Chain is L S now (UpdateReq uu) ctx w of
         (r, w') \<Rightarrow> (map_sum id (case_any_response User_zero id) r, md, w'))"
    using inv [of "UpdateReq uu"] by (elim exE) (rename_tac now r w', rule_tac x = now in exI, auto simp: client)
  show "\<exists>now. c_DeleteUser (NewUserServiceClient cc) ctx d w =
      (case call_through Chain is L S now (DeleteReq d) ctx w of (r, w') \<Rightarrow> (map_sum id (\<lambda>_. ()) r, md, w'))"
    using inv [of "DeleteReq d"] by (elim exE) (rename_tac now r w', rule_tac x = now in exI, auto simp: client)
qed

lemma client_list:
  assumes "stream_wired Chain is L S hdr cc"
  shows "\<exists>v. breaks_off v = None \<and> open_list cc ctx (list_index q) (list_method q) q w =
    (case stream_through Chain is L S v (Listing q) ctx w of
       (items, e, w') \<Rightarrow> (Inr \<lparr>stream_Header = Inr hdr, stream_messages = users_in items, stream_end = e\<rparr>, w'))"
proof -
  from assms obtain st where st:
    "NewStream cc ctx (Streams UserService_ServiceDesc ! stream_index (Listing q)) (stream_method (Listing q)) = Inr st"
    and "case Listing q of Listing m \<Rightarrow> list_wired Chain is L S hdr ctx st m
      | Batch _ \<Rightarrow> batch_wired Chain is L S hdr ctx (as_batch st)
      | Activities _ \<Rightarrow> bidi_wired Chain is L S hdr ctx Activities activities_in (as_activity st)
      | Syncs _ \<Rightarrow> bidi_wired Chain is L S hdr ctx Syncs syncs_in (as_sync st)"
    unfolding stream_wired_def by blast
  then have "list_wired Chain is L S hdr ctx st q" by simp
  then obtain v where "SendMsg st q = None" "CloseSend st = None" "breaks_off v = None"
    "received st q w = (case stream_through Chain is L S v (Listing q) ctx w of
        (items, e, w') \<Rightarrow> (\<lparr>stream_Header = Inr hdr, stream_messages = users_in items, stream_end = e\<rparr>, w'))"
    unfolding list_wired_def by blast
  then show ?thesis using st
    by (intro exI [of _ v]) (simp add: open_list_def split: prod.splits)
qed

lemma client_streams:
  assumes "stream_wired Chain is L S hdr cc"
  shows "\<exists>st. c_BatchAddUsers (NewUserServiceClient cc) ctx = Inr st \<and> batch_wired Chain is L S hdr ctx st"
    and "\<exists>st. c_UserActivityStream (NewUserServiceClient cc) ctx = Inr st \<and>
      bidi_wired Chain is L S hdr ctx Activities activities_in st"
    and "\<exists>st. c_SyncUsers (NewUserServiceClient cc) ctx = Inr st \<and> bidi_wired Chain is L S hdr ctx Syncs syncs_in st"
proof -
  note law = assms [unfolded stream_wired_def, rule_format, of ctx]
  show "\<exists>st. c_BatchAddUsers (NewUserServiceClient cc) ctx = Inr st \<and> batch_wired Chain is L S hdr ctx st"
    using law [of "Batch []"] by (auto simp: NewUserServiceClient_def userServiceClient_BatchAddUsers_def)
  show "\<exists>st. c_UserActivityStream (NewUserServiceClient cc) ctx = Inr st \<and>
      bidi_wired Chain is L S hdr ctx Activities activities_in st"
    using law [of "Activities []"] by (auto simp: NewUserServiceClient_def userServiceClient_UserActivityStream_def)
  show "\<exists>st. c_SyncUsers (NewUserServiceClient cc) ctx = Inr st \<and> bidi_wired Chain is L S hdr ctx Syncs syncs_in st"
    using law [of "Syncs []"] by (auto simp: NewUserServiceClient_def userServiceClient_SyncUsers_def)
qed

end
