(* ===== verification/RestAuth.thy ===== *)
theory RestAuth
  imports GatewayService Stubs
begin

text \<open>
  A REST call on its whole way, as \<open>main\<close> lays it: the gateway's handler, the gRPC connection back
  into the process, the chain of interceptors, the handler of \<open>server.go\<close> over a storage, and back.
  The process is a \<open>world\<close> whose backend is the storage.
\<close>

section \<open>The four routes\<close>

datatype rest_route = RestAdd | RestGet | RestUpdate | RestDelete

fun rest_rpc :: "rest_route \<Rightarrow> string" where
  "rest_rpc RestAdd = ''/proto.UserService/AddUser''"
| "rest_rpc RestGet = ''/proto.UserService/GetUser''"
| "rest_rpc RestUpdate = ''/proto.UserService/UpdateUser''"
| "rest_rpc RestDelete = ''/proto.UserService/DeleteUser''"

fun rest_path :: "rest_route \<Rightarrow> string" where
  "rest_path RestAdd = ''/api/v1/users''"
| "rest_path RestGet = ''/api/v1/users/{id}''"
| "rest_path RestUpdate = ''/api/v1/users/{user.id}''"
| "rest_path RestDelete = ''/api/v1/users/{id}''"

text \<open>The message the gateway makes of a request, or the error with which it refuses to.\<close>

fun rest_message :: "lib \<Rightarrow> ctx gateway_runtime \<Rightarrow> rest_route \<Rightarrow> gateway_request \<Rightarrow>
    (string \<Rightarrow> string option) \<Rightarrow> error + any_request" where
  "rest_message L R RestAdd req pp = map_sum id AddReq (decode_one L (decode_User R) User_zero (req_body req))"
| "rest_message L R RestGet req pp =
     map_sum id (\<lambda>i. GetReq (GetUserRequest_zero\<lparr>gu_Id := i\<rparr>)) (path_param L (Uint32 R) pp ''id'')"
| "rest_message L R RestUpdate req pp = map_sum id UpdateReq (update_message L R req pp)"
| "rest_message L R RestDelete req pp =
     map_sum id (\<lambda>i. DeleteReq (DeleteUserRequest_zero\<lparr>du_Id := i\<rparr>)) (path_param L (Uint32 R) pp ''id'')"

text \<open>What the caller sees of a route of the gateway.\<close>

fun rest_page :: "lib \<Rightarrow> ctx gateway_runtime \<Rightarrow> (ctx, 's world) client \<Rightarrow> rest_route \<Rightarrow> gateway_request \<Rightarrow>
    (string \<Rightarrow> string option) \<Rightarrow> ctx \<Rightarrow> 's world \<Rightarrow> (error + any_response) \<times> 's world" where
  "rest_page L R C RestAdd req pp ctx w =
     map_prod (map_sum id (\<lambda>_. EmptyResp)) id (shown (client_AddUser L R C req pp ctx w))"
| "rest_page L R C RestGet req pp ctx w =
     map_prod (map_sum id UserResp) id (shown (client_GetUser L R C req pp ctx w))"
| "rest_page L R C RestUpdate req pp ctx w =
     map_prod (map_sum id UserResp) id (shown (client_UpdateUser L R C req pp ctx w))"
| "rest_page L R C RestDelete req pp ctx w =
     map_prod (map_sum id (\<lambda>_. EmptyResp)) id (shown (client_DeleteUser L R C req pp ctx w))"

text \<open>The type of the response fits the request.\<close>

fun fits :: "any_request \<Rightarrow> any_response \<Rightarrow> bool" where
  "fits (AddReq _) r \<longleftrightarrow> r = EmptyResp"
| "fits (DeleteReq _) r \<longleftrightarrow> r = EmptyResp"
| "fits _ r \<longleftrightarrow> (\<exists>u. r = UserResp u)"

lemma map_sum_Inr_iff: "map_sum f g x = Inr b \<longleftrightarrow> (\<exists>a. x = Inr a \<and> b = g a)"
  by (cases x) auto

lemma serve_any_fits: "serve_any S now q s = (Inr r, s') \<Longrightarrow> fits q r"
  by (cases q) (auto simp: map_prod_def map_sum_Inr_iff split: prod.splits)

section \<open>Through the chain\<close>

lemma call_decided:
  assumes "chain_law Chain" and "span_law T" and "enableAuth flags"
  obtains n r w' where "call_through Chain (unary_interceptors T J L env flags) L S now q ctx w = (r, w')"
    and "case caller J L (server_jwt env) (any_method q) ctx (clock w n) of
        Inl code \<Rightarrow> backend w' = backend w \<and> (\<exists>msg. r = Inl (Status code msg))
      | Inr c \<Rightarrow> (r, backend w') = answer L (serve_any S now q (backend w))"
proof -
  let ?h = "rpc_handler S now" and ?info = "\<lparr>FullMethod = any_method q\<rparr>"
  obtain n ctx' w1 where b: "backend w1 = backend w" "incoming ctx' = incoming ctx"
    and run: "\<forall>h. let r = Chain (unary_interceptors T J L env flags) ?info h (ctx, q) w;
             served = (fst r = fst (h (ctx', q) w1) \<and> backend (snd r) = backend (snd (h (ctx', q) w1)))
         in if enableAuth flags
            then (case caller J L (server_jwt env) (FullMethod ?info) ctx (clock w n) of
                Inl code \<Rightarrow> backend (snd r) = backend w \<and> (\<exists>msg. fst r = (None, Some (Status code msg)))
              | Inr c \<Rightarrow> GetClaimsFromContext ctx' = Some c \<and> served)
            else GetClaimsFromContext ctx' = GetClaimsFromContext ctx \<and> served"
    by (rule unary_decided [OF assms(1,2), where J = J and L = L and env = env and flags = flags and
        info = ?info and ctx = ctx and req = q and w = w])
  obtain r w' where r: "Chain (unary_interceptors T J L env flags) ?info ?h (ctx, q) w = (r, w')" by fastforce
  show thesis
  proof (rule that [of "rpc_answer L r" w' n])
    show "call_through Chain (unary_interceptors T J L env flags) L S now q ctx w = (rpc_answer L r, w')"
      by (simp add: call_through_chain r)
    show "case caller J L (server_jwt env) (any_method q) ctx (clock w n) of
        Inl code \<Rightarrow> backend w' = backend w \<and> (\<exists>msg. rpc_answer L r = Inl (Status code msg))
      | Inr c \<Rightarrow> (rpc_answer L r, backend w') = answer L (serve_any S now q (backend w))"
      using run [rule_format, of ?h] rpc_handler_answer [of L S now ctx' q w1] assms(3)
      by (auto simp: r b Let_def rpc_answer_def split: sum.splits)
  qed
qed

text \<open>What the gateway shows of an answer is the answer, as far as its type fits the request.\<close>

lemma call_fits:
  assumes "case d of Inl code \<Rightarrow> B \<and> (\<exists>msg. r = Inl (Status code msg))
      | Inr c \<Rightarrow> (r, s') = answer L (serve_any S now q s)" and "r = Inr resp"
  shows "fits q resp"
proof -
  have "answer L (serve_any S now q s) = (Inr resp, s')"
    by (rule sym) (use assms in \<open>cases d; simp\<close>)
  then have "serve_any S now q s = (Inr resp, s')" by (simp only: answer_Inr)
  then show ?thesis by (rule serve_any_fits)
qed

lemma handle_shown:
  "AnnotateContext R ctx rpc path = Inr c \<Longrightarrow> shown (handle_client R rpc path f ctx w) =
    (case f c w of (x, md, w') \<Rightarrow> (x, w'))"
  by (cases "f c w") (simp add: handle_client_def)

lemma empty_back: "(\<forall>resp. r = Inr resp \<longrightarrow> resp = EmptyResp) \<Longrightarrow>
    map_sum id (\<lambda>_. EmptyResp) (map_sum id (\<lambda>_. ()) r) = r"
  by (cases r) auto

lemma user_back: "(\<forall>resp. r = Inr resp \<longrightarrow> (\<exists>u. resp = UserResp u)) \<Longrightarrow>
    map_sum id UserResp (map_sum id (case_any_response User_zero id) r) = r"
  by (cases r) auto

lemma rest_page_calls:
  assumes "unary_wired Chain is L S md cc" and "AnnotateContext R ctx (rest_rpc route) (rest_path route) = Inr c"
  shows "case rest_message L' R route req pp of
      Inl e \<Rightarrow> rest_page L' R (NewUserServiceClient cc) route req pp ctx w = (Inl e, w)
    | Inr q \<Rightarrow> any_method q = rest_rpc route \<and> (\<exists>now. \<forall>r w'. call_through Chain is L S now q c w = (r, w') \<longrightarrow>
        (\<forall>resp. r = Inr resp \<longrightarrow> fits q resp) \<longrightarrow> rest_page L' R (NewUserServiceClient cc) route req pp ctx w = (r, w'))"
proof (cases route)
  case RestAdd
  note run = handle_shown [OF assms(2) [unfolded RestAdd rest_rpc.simps rest_path.simps]]
    full_names client_AddUser_def request_UserService_AddUser_0_def
  show ?thesis
  proof (cases "decode_one L' (decode_User R) User_zero (req_body req)")
    case (Inr u)
    obtain now where "c_AddUser (NewUserServiceClient cc) c u w = (case call_through Chain is L S now (AddReq u) c w of
        (r, w') \<Rightarrow> (map_sum id (\<lambda>_. ()) r, md, w'))"
      using client_unary [OF assms(1)] by blast
    then show ?thesis by (auto simp: RestAdd Inr run empty_back intro!: exI [of _ now])
  qed (simp add: RestAdd run)
next
  case RestGet
  note run = handle_shown [OF assms(2) [unfolded RestGet rest_rpc.simps rest_path.simps]]
    full_names client_GetUser_def request_UserService_GetUser_0_def
  show ?thesis
  proof (cases "path_param L' (Uint32 R) pp ''id''")
    case (Inr i)
    obtain now where "c_GetUser (NewUserServiceClient cc) c (GetUserRequest_zero\<lparr>gu_Id := i\<rparr>) w =
        (case call_through Chain is L S now (GetReq (GetUserRequest_zero\<lparr>gu_Id := i\<rparr>)) c w of
        (r, w') \<Rightarrow> (map_sum id (case_any_response User_zero id) r, md, w'))"
      using client_unary [OF assms(1)] by blast
    then show ?thesis by (auto simp: RestGet Inr run user_back intro!: exI [of _ now])
  qed (simp add: RestGet run)
next
  case RestUpdate
  note run = handle_shown [OF assms(2) [unfolded RestUpdate rest_rpc.simps rest_path.simps]]
    full_names client_UpdateUser_def request_UserService_UpdateUser_0_def
  show ?thesis
  proof (cases "update_message L' R req pp")
    case (Inr q)
    obtain now where "c_UpdateUser (NewUserServiceClient cc) c q w = (case call_through Chain is L S now (UpdateReq q) c w of
        (r, w') \<Rightarrow> (map_sum id (case_any_response User_zero id) r, md, w'))"
      using client_unary [OF assms(1)] by blast
    then show ?thesis by (auto simp: RestUpdate Inr run user_back intro!: exI [of _ now])
  qed (simp add: RestUpdate run)
next
  case RestDelete
  note run = handle_shown [OF assms(2) [unfolded RestDelete rest_rpc.simps rest_path.simps]]
    full_names client_DeleteUser_def request_UserService_DeleteUser_0_def
  show ?thesis
  proof (cases "path_param L' (Uint32 R) pp ''id''")
    case (Inr i)
    obtain now where "c_DeleteUser (NewUserServiceClient cc) c (DeleteUserRequest_zero\<lparr>du_Id := i\<rparr>) w =
        (case call_through Chain is L S now (DeleteReq (DeleteUserRequest_zero\<lparr>du_Id := i\<rparr>)) c w of
        (r, w') \<Rightarrow> (map_sum id (\<lambda>_. ()) r, md, w'))"
      using client_unary [OF assms(1)] by blast
    then show ?thesis by (auto simp: RestDelete Inr run empty_back intro!: exI [of _ now])
  qed (simp add: RestDelete run)
qed

text \<open>The decision, for one call.\<close>

lemma rest_decided:
  assumes "chain_law Chain" and "span_law T" and "enableAuth flags"
    and "unary_wired Chain (unary_interceptors T J L env flags) L S md cc"
    and "AnnotateContext R ctx (rest_rpc route) (rest_path route) = Inr c"
  shows "case rest_message L' R route req pp of
      Inl e \<Rightarrow> rest_page L' R (NewUserServiceClient cc) route req pp ctx w = (Inl e, w)
    | Inr q \<Rightarrow> \<exists>n now page w'. rest_page L' R (NewUserServiceClient cc) route req pp ctx w = (page, w') \<and>
        (case caller J L (server_jwt env) (rest_rpc route) c (clock w n) of
           Inl code \<Rightarrow> backend w' = backend w \<and> (\<exists>msg. page = Inl (Status code msg))
         | Inr claims \<Rightarrow> (page, backend w') = answer L (serve_any S now q (backend w)))"
proof (cases "rest_message L' R route req pp")
  case (Inl e)
  then show ?thesis using rest_page_calls [OF assms(4,5), of L' req pp w] by simp
next
  case (Inr q)
  then obtain now where meth: "any_method q = rest_rpc route"
    and page: "\<And>r w'. call_through Chain (unary_interceptors T J L env flags) L S now q c w = (r, w') \<Longrightarrow>
        (\<forall>resp. r = Inr resp \<longrightarrow> fits q resp) \<Longrightarrow> rest_page L' R (NewUserServiceClient cc) route req pp ctx w = (r, w')"
    using rest_page_calls [OF assms(4,5), of L' req pp w] by auto
  obtain n r w' where call: "call_through Chain (unary_interceptors T J L env flags) L S now q c w = (r, w')"
    and d: "case caller J L (server_jwt env) (any_method q) c (clock w n) of
        Inl code \<Rightarrow> backend w' = backend w \<and> (\<exists>msg. r = Inl (Status code msg))
      | Inr claims \<Rightarrow> (r, backend w') = answer L (serve_any S now q (backend w))"
    by (rule call_decided [OF assms(1-3)])
  have "rest_page L' R (NewUserServiceClient cc) route req pp ctx w = (r, w')"
    using page [OF call] call_fits [OF d] by blast
  then show ?thesis using d meth Inr
    by (auto intro!: exI [of _ n] exI [of _ now])
qed

text \<open>C3. A REST call on its whole way, over any storage, to a server with authentication. A request
  that the gateway cannot read is refused by the gateway, before anybody has asked for a token.
  Any other is decided by the bearer token that arrives with the call, at one reading of the
  clock: without an acceptable one the page is an error \<open>Unauthenticated\<close> or \<open>PermissionDenied\<close>
  and nothing has changed; with one, page and storage are exactly those of the handler on the
  message.\<close>

theorem rest_admission:
  assumes "chain_law Chain" and "span_law T" and "enableAuth flags"
    and "unary_wired Chain (unary_interceptors T J L env flags) L S md cc"
    and "AnnotateContext R ctx (rest_rpc route) (rest_path route) = Inr c"
  shows "case rest_message L' R route req pp of
      Inl e \<Rightarrow> rest_page L' R (NewUserServiceClient cc) route req pp ctx w = (Inl e, w)
    | Inr q \<Rightarrow> \<exists>n now page w'. rest_page L' R (NewUserServiceClient cc) route req pp ctx w = (page, w') \<and>
        (case caller J L (server_jwt env) (rest_rpc route) c (clock w n) of
           Inl code \<Rightarrow> backend w' = backend w \<and> (\<exists>msg. page = Inl (Status code msg))
         | Inr claims \<Rightarrow> (page, backend w') = answer L (serve_any S now q (backend w)))"
  by (rule rest_decided [OF assms])

section \<open>The five streams\<close>

datatype stream_route = RestList | RestByRole | RestBatch | RestActivity | RestSync

fun stream_rpc :: "stream_route \<Rightarrow> string" where
  "stream_rpc RestList = ''/proto.UserService/ListUsers''"
| "stream_rpc RestByRole = ''/proto.UserService/ListUsersByRole''"
| "stream_rpc RestBatch = ''/proto.UserService/BatchAddUsers''"
| "stream_rpc RestActivity = ''/proto.UserService/UserActivityStream''"
| "stream_rpc RestSync = ''/proto.UserService/SyncUsers''"

fun stream_path :: "stream_route \<Rightarrow> string" where
  "stream_path RestList = ''/api/v1/users''"
| "stream_path RestByRole = ''/api/v1/users/role/{role}''"
| "stream_path RestBatch = ''/api/v1/users/batch''"
| "stream_path RestActivity = ''/proto.UserService/UserActivityStream''"
| "stream_path RestSync = ''/proto.UserService/SyncUsers''"

text \<open>What \<open>Send\<close> answers on the stream that the gateway opens for a route.\<close>

fun sends_on :: "(ctx, 's) ClientConn \<Rightarrow> ctx \<Rightarrow> stream_route \<Rightarrow> nat \<Rightarrow> error option" where
  "sends_on cc c RestBatch = (case userServiceClient_BatchAddUsers cc c of Inl _ \<Rightarrow> (\<lambda>_. None) | Inr st \<Rightarrow> send_Send st)"
| "sends_on cc c RestActivity = (case userServiceClient_UserActivityStream cc c of Inl _ \<Rightarrow> (\<lambda>_. None) | Inr st \<Rightarrow> bidi_Send st)"
| "sends_on cc c RestSync = (case userServiceClient_SyncUsers cc c of Inl _ \<Rightarrow> (\<lambda>_. None) | Inr st \<Rightarrow> bidi_Send st)"
| "sends_on cc c _ = (\<lambda>_. None)"

text \<open>
  What the gateway asks of the service for a request, with the error with which it gives up a
  batch it cannot read to the end, or the error with which it refuses a listing.
\<close>

fun stream_question :: "lib \<Rightarrow> ctx gateway_runtime \<Rightarrow> (nat \<Rightarrow> error option) \<Rightarrow> stream_route \<Rightarrow> gateway_request \<Rightarrow>
    (string \<Rightarrow> string option) \<Rightarrow> error + stream_request \<times> error option" where
  "stream_question L R send RestList req pp = map_sum id (\<lambda>m. (Listing (ListReq m), None)) (list_message L R req)"
| "stream_question L R send RestByRole req pp = map_sum id (\<lambda>e. (Listing (RoleReq (UserRole_zero\<lparr>ur_Role := e\<rparr>)), None))
     (path_param L (\<lambda>val. Enum R val Role_value) pp ''role'')"
| "stream_question L R send RestBatch req pp =
     Inr (map_prod Batch id (batch_sends L (decode_User R) send (req_body req) []))"
| "stream_question L R send RestActivity req pp =
     Inr (Activities (bidi_sends (decode_UserActivity R) send (req_body req) []), None)"
| "stream_question L R send RestSync req pp =
     Inr (Syncs (bidi_sends (decode_User R) send (req_body req) []), None)"

text \<open>What the caller sees: an error, or messages and the error they end with.\<close>

definition streamed :: "('m \<Rightarrow> stream_item) \<Rightarrow> (error + 'm recv_stream) \<times> 's \<Rightarrow> (error + stream_item list \<times> error) \<times> 's" where
  "streamed wrap r = map_prod (map_sum id (\<lambda>st. (map wrap (stream_messages st), stream_end st))) id r"

lemma streamed_simps [simp]:
  "streamed wrap (Inl e, s) = (Inl e, s)"
  "streamed wrap (Inr \<lparr>stream_Header = h, stream_messages = ms, stream_end = e\<rparr>, s) = (Inr (map wrap ms, e), s)"
  by (simp_all add: streamed_def)

fun stream_page :: "lib \<Rightarrow> ctx gateway_runtime \<Rightarrow> (ctx, 's world) client \<Rightarrow> stream_route \<Rightarrow> gateway_request \<Rightarrow>
    (string \<Rightarrow> string option) \<Rightarrow> ctx \<Rightarrow> 's world \<Rightarrow> (error + stream_item list \<times> error) \<times> 's world" where
  "stream_page L R C RestList req pp ctx w = streamed UserItem (shown (client_ListUsers L R C req pp ctx w))"
| "stream_page L R C RestByRole req pp ctx w = streamed UserItem (shown (client_ListUsersByRole L R C req pp ctx w))"
| "stream_page L R C RestBatch req pp ctx w =
     map_prod (map_sum id (\<lambda>r. ([BatchItem r], EOF))) id (shown (client_BatchAddUsers L R C req pp ctx w))"
| "stream_page L R C RestActivity req pp ctx w = streamed ActivityItem (shown (client_UserActivityStream R C req pp ctx w))"
| "stream_page L R C RestSync req pp ctx w = streamed SyncItem (shown (client_SyncUsers R C req pp ctx w))"

text \<open>A batch has a page of its own; the other calls hand on their stream.\<close>

fun stream_answer :: "stream_request \<Rightarrow> stream_item list \<Rightarrow> error \<Rightarrow> error + stream_item list \<times> error" where
  "stream_answer (Batch _) items e = (if e = EOF then Inr (items, EOF) else Inl e)"
| "stream_answer _ items e = Inr (items, e)"

text \<open>The messages of an answer are those of the method; a batch that ends well has one.\<close>

fun sound :: "stream_request \<Rightarrow> stream_item list \<Rightarrow> error \<Rightarrow> bool" where
  "sound (Listing _) items e \<longleftrightarrow> map UserItem (users_in items) = items"
| "sound (Batch _) items e \<longleftrightarrow> (e = EOF \<longrightarrow> (\<exists>r. items = [BatchItem r]))"
| "sound (Activities _) items e \<longleftrightarrow> map ActivityItem (activities_in items) = items"
| "sound (Syncs _) items e \<longleftrightarrow> map SyncItem (syncs_in items) = items"

lemma recv_end_EOF: "recv_end L err = EOF \<longleftrightarrow> err = None"
  by (auto simp: recv_end_def wire_def split: option.splits error.splits)

lemma batch_loop_answers: "batch_loop L S now close evs bs = (resp, None, s) \<Longrightarrow> resp \<noteq> None"
  by (induction L S now close evs bs rule: batch_loop.induct) auto

lemma serve_sound: "serve_stream L S v q s = ((items, err), s') \<Longrightarrow> sound q items (recv_end L err)"
  using batch_loop_answers
  by (cases q) (fastforce simp: recv_end_EOF UserService_BatchAddUsers_Handler_def Server_BatchAddUsers_def
      split: prod.splits option.splits)+


text \<open>Each page is what comes back through the chain for the question.\<close>

definition page_of :: "stream_request \<times> error option \<Rightarrow> stream_item list \<Rightarrow> error \<Rightarrow> error + stream_item list \<times> error" where
  "page_of qb items e = (case qb of (q, bad) \<Rightarrow> (case bad of Some err \<Rightarrow> Inl err | None \<Rightarrow> stream_answer q items e))"

lemma list_page_calls:
  assumes "stream_wired Chain is L S hdr cc"
  shows "\<exists>v. breaks_off v = None \<and> (\<forall>items e w'. stream_through Chain is L S v (Listing q) c w = (items, e, w') \<longrightarrow>
      sound (Listing q) items e \<longrightarrow>
      streamed UserItem (case opened (open_list cc c (list_index q) (list_method q) q w) of (x, md, w') \<Rightarrow> (x, w')) =
        (page_of (Listing q, None) items e, w'))"
proof -
  obtain v where "breaks_off v = None" "open_list cc c (list_index q) (list_method q) q w =
      (case stream_through Chain is L S v (Listing q) c w of
       (items, e, w') \<Rightarrow> (Inr \<lparr>stream_Header = Inr hdr, stream_messages = users_in items, stream_end = e\<rparr>, w'))"
    using client_list [OF assms] by blast
  then show ?thesis by (intro exI [of _ v]) (auto simp: opened_def page_of_def)
qed

lemma bidi_page_calls:
  assumes "bidi_wired Chain is L S hdr c ask unpack st"
    and "\<And>ms items e. sound (ask ms) items e \<Longrightarrow> map wrap (unpack items) = items"
    and "\<And>ms items e. stream_answer (ask ms) items e = Inr (items, e)"
  shows "\<exists>v. breaks_off v = None \<and> (\<forall>items e w'.
      stream_through Chain is L S v (ask (bidi_sends decode (bidi_Send st) b [])) c w = (items, e, w') \<longrightarrow>
      sound (ask (bidi_sends decode (bidi_Send st) b [])) items e \<longrightarrow>
      streamed wrap (case bidi_request decode (Inr st) b w of (x, md, w') \<Rightarrow> (x, w')) =
        (page_of (ask (bidi_sends decode (bidi_Send st) b []), None) items e, w'))"
proof -
  let ?ms = "bidi_sends decode (bidi_Send st) b []"
  obtain v where "breaks_off v = None" "bidi_answers st ?ms w = (case stream_through Chain is L S v (ask ?ms) c w of
        (items, e, w') \<Rightarrow> (unpack items, e, w'))" and "bidi_Header st = Inr hdr"
    using assms(1) unfolding bidi_wired_def by blast
  then show ?thesis
    using assms(2,3) by (intro exI [of _ v]) (auto simp: bidi_request_def page_of_def)
qed

lemma batch_page_calls:
  assumes "batch_wired Chain is L S hdr c st" and "c_BatchAddUsers C c = Inr st"
    and "batch_sends L' (decode_User R) (send_Send st) (req_body req) [] = (us, bad)"
  shows "\<exists>v. (bad = None \<longrightarrow> breaks_off v = None) \<and> (\<forall>items e w'. stream_through Chain is L S v (Batch us) c w = (items, e, w') \<longrightarrow>
      sound (Batch us) items e \<longrightarrow>
      map_prod (map_sum id (\<lambda>r. ([BatchItem r], EOF))) id
        (case request_UserService_BatchAddUsers_0 L' R C c req pp w of (x, md, w') \<Rightarrow> (x, w')) =
        (page_of (Batch us, bad) items e, w'))"
proof (cases bad)
  case None
  obtain v trailer where "breaks_off v = None" "CloseAndRecv st us w = (case stream_through Chain is L S v (Batch us) c w of
        (items, e, w') \<Rightarrow> (one_in items e, trailer, w'))"
    and "send_CloseSend st = None" "send_Header st = Inr hdr"
    using assms(1) unfolding batch_wired_def by blast
  then show ?thesis
    by (intro exI [of _ v]) (auto simp: request_UserService_BatchAddUsers_0_def assms(2,3) None page_of_def one_in_def)
next
  case (Some err)
  obtain v where "give_up st us w = snd (snd (stream_through Chain is L S v (Batch us) c w))"
    using assms(1) unfolding batch_wired_def by blast
  then show ?thesis
    by (intro exI [of _ v]) (auto simp: request_UserService_BatchAddUsers_0_def assms(2,3) Some page_of_def)
qed

lemma stream_page_calls:
  assumes wired: "stream_wired Chain is L S hdr cc"
    and c: "AnnotateContext R ctx (stream_rpc route) (stream_path route) = Inr c"
  shows "case stream_question L' R (sends_on cc c route) route req pp of
      Inl e \<Rightarrow> stream_page L' R (NewUserServiceClient cc) route req pp ctx w = (Inl e, w)
    | Inr qb \<Rightarrow> stream_method (fst qb) = stream_rpc route \<and> (\<exists>v. (snd qb = None \<longrightarrow> breaks_off v = None) \<and>
        (\<forall>items e w'. stream_through Chain is L S v (fst qb) c w = (items, e, w') \<longrightarrow> sound (fst qb) items e \<longrightarrow>
          stream_page L' R (NewUserServiceClient cc) route req pp ctx w = (page_of qb items e, w')))"
proof (cases route)
  case RestList
  note run = handle_shown [OF c [unfolded RestList stream_rpc.simps stream_path.simps]]
    full_names client_ListUsers_def request_UserService_ListUsers_0_def
  have open_it: "c_ListUsers (NewUserServiceClient cc) c m = open_list cc c (list_index (ListReq m)) (list_method (ListReq m)) (ListReq m)" for m
    by (simp add: NewUserServiceClient_def userServiceClient_ListUsers_def fun_eq_iff)
  show ?thesis
  proof (cases "list_message L' R req")
    case (Inr m)
    then show ?thesis using list_page_calls [OF wired, of "ListReq m" c w]
      by (simp add: RestList run open_it full_names)
  qed (simp add: RestList run)
next
  case RestByRole
  note run = handle_shown [OF c [unfolded RestByRole stream_rpc.simps stream_path.simps]]
    full_names client_ListUsersByRole_def request_UserService_ListUsersByRole_0_def
  have open_it: "c_ListUsersByRole (NewUserServiceClient cc) c m = open_list cc c (list_index (RoleReq m)) (list_method (RoleReq m)) (RoleReq m)" for m
    by (simp add: NewUserServiceClient_def userServiceClient_ListUsersByRole_def fun_eq_iff)
  show ?thesis
  proof (cases "path_param L' (\<lambda>val. Enum R val Role_value) pp ''role''")
    case (Inr e)
    then show ?thesis using list_page_calls [OF wired, of "RoleReq (UserRole_zero\<lparr>ur_Role := e\<rparr>)" c w]
      by (simp add: RestByRole run open_it full_names)
  qed (simp add: RestByRole run)
next
  case RestBatch
  note run = handle_shown [OF c [unfolded RestBatch stream_rpc.simps stream_path.simps]] full_names client_BatchAddUsers_def
  obtain st where st: "c_BatchAddUsers (NewUserServiceClient cc) c = Inr st" "batch_wired Chain is L S hdr c st"
    using client_streams(1) [OF wired] by blast
  obtain us bad where sent: "batch_sends L' (decode_User R) (send_Send st) (req_body req) [] = (us, bad)" by fastforce
  have "sends_on cc c RestBatch = send_Send st"
    using st(1) by (simp add: NewUserServiceClient_def)
  then show ?thesis using batch_page_calls [OF st(2,1) sent, of w pp]
    by (simp add: RestBatch run sent full_names)
next
  case RestActivity
  note run = handle_shown [OF c [unfolded RestActivity stream_rpc.simps stream_path.simps]]
    full_names client_UserActivityStream_def request_UserService_UserActivityStream_0_def
  obtain st where st: "c_UserActivityStream (NewUserServiceClient cc) c = Inr st"
      "bidi_wired Chain is L S hdr c Activities activities_in st"
    using client_streams(2) [OF wired] by blast
  have "sends_on cc c RestActivity = bidi_Send st"
    using st(1) by (simp add: NewUserServiceClient_def)
  then show ?thesis
    using bidi_page_calls [OF st(2), of ActivityItem "decode_UserActivity R" "req_body req" w] st(1)
    by (simp add: RestActivity run full_names)
next
  case RestSync
  note run = handle_shown [OF c [unfolded RestSync stream_rpc.simps stream_path.simps]]
    full_names client_SyncUsers_def request_UserService_SyncUsers_0_def
  obtain st where st: "c_SyncUsers (NewUserServiceClient cc) c = Inr st" "bidi_wired Chain is L S hdr c Syncs syncs_in st"
    using client_streams(3) [OF wired] by blast
  have "sends_on cc c RestSync = bidi_Send st"
    using st(1) by (simp add: NewUserServiceClient_def)
  then show ?thesis
    using bidi_page_calls [OF st(2), of SyncItem "decode_User R" "req_body req" w] st(1)
    by (simp add: RestSync run full_names)
qed

lemma streaming_decided:
  assumes "chain_law Chain" and "span_law T" and "enableAuth flags"
    and run: "stream_through Chain (stream_interceptors T J L env flags) L S v q ctx w = (items, e, w')"
  obtains n where "case caller J L (server_jwt env) (stream_method q) ctx (clock w n) of
      Inl code \<Rightarrow> backend w' = backend w \<and> items = [] \<and> (\<exists>msg. e = Status code msg)
    | Inr claims \<Rightarrow> ((items, e), backend w') = map_prod (map_prod id (recv_end L)) id (serve_stream L S v q (backend w))"
proof -
  let ?d = "Streams UserService_ServiceDesc ! stream_index q"
  let ?info = "\<lparr>s_FullMethod = stream_method q, IsClientStream = ClientStreams ?d, IsServerStream = ServerStreams ?d\<rparr>"
  let ?h = "stream_handler L S v q" and ?ss = "\<lparr>ss_Context = ctx, transport = ()\<rparr>"
  let ?w = "with_backend (backend w, [] :: stream_item list) w"
  obtain n ss' w1 where b: "backend w1 = backend ?w" and "transport ss' = transport ?ss"
    and "incoming (ss_Context ss') = incoming (ss_Context ?ss)"
    and all: "\<forall>h. let r = Chain (stream_interceptors T J L env flags) ?info h ?ss ?w;
             served = (fst r = fst (h ss' w1) \<and> backend (snd r) = backend (snd (h ss' w1)))
         in if enableAuth flags
            then (case caller J L (server_jwt env) (s_FullMethod ?info) (ss_Context ?ss) (clock ?w n) of
                Inl code \<Rightarrow> backend (snd r) = backend ?w \<and> (\<exists>msg. fst r = Some (Status code msg))
              | Inr c \<Rightarrow> GetClaimsFromContext (ss_Context ss') = Some c \<and> served)
            else GetClaimsFromContext (ss_Context ss') = GetClaimsFromContext (ss_Context ?ss) \<and> served"
    by (rule stream_decided [OF assms(1,2), where J = J and L = L and env = env and flags = flags and
        info = ?info and ss = ?ss and w = ?w])
  obtain err w2 where r: "Chain (stream_interceptors T J L env flags) ?info ?h ?ss ?w = (err, w2)" by fastforce
  have e: "items = snd (backend w2)" "e = recv_end L err" "backend w' = fst (backend w2)"
    using run by (auto simp: stream_through_def Let_def r)
  obtain sent serr s' where s: "serve_stream L S v q (backend w) = ((sent, serr), s')"
    by (metis surj_pair)
  have h: "fst (?h ss' w1) = serr" "backend (snd (?h ss' w1)) = (s', sent)"
    using b by (simp_all add: stream_handler_def s)
  show thesis
    by (rule that [of n]) (use all [rule_format, of ?h] assms(3) in \<open>auto simp: r e h s Let_def split: sum.splits\<close>)
qed

text \<open>Whatever comes through the chain is sound: a refusal has no messages.\<close>

lemma streaming_sound:
  assumes "case d of
      Inl code \<Rightarrow> B \<and> items = [] \<and> (\<exists>msg. e = Status code msg)
    | Inr claims \<Rightarrow> ((items, e), s') = map_prod (map_prod id (recv_end L)) id (serve_stream L S v q s)"
  shows "sound q items e"
proof (cases d)
  case (Inl code)
  then show ?thesis using assms by (cases q) auto
next
  case (Inr claims)
  obtain sent err s1 where "serve_stream L S v q s = ((sent, err), s1)" by (metis surj_pair)
  with serve_sound [OF this] Inr assms show ?thesis by simp
qed

text \<open>The decision, for one stream.\<close>

lemma rest_stream_decided:
  assumes "chain_law Chain" and "span_law T" and "enableAuth flags"
    and "stream_wired Chain (stream_interceptors T J L env flags) L S hdr cc"
    and "AnnotateContext R ctx (stream_rpc route) (stream_path route) = Inr c"
  shows "case stream_question L' R (sends_on cc c route) route req pp of
      Inl e \<Rightarrow> stream_page L' R (NewUserServiceClient cc) route req pp ctx w = (Inl e, w)
    | Inr (q, bad) \<Rightarrow> \<exists>n v items e w'. (bad = None \<longrightarrow> breaks_off v = None) \<and>
        stream_page L' R (NewUserServiceClient cc) route req pp ctx w =
          ((case bad of Some err \<Rightarrow> Inl err | None \<Rightarrow> stream_answer q items e), w') \<and>
        (case caller J L (server_jwt env) (stream_rpc route) c (clock w n) of
           Inl code \<Rightarrow> backend w' = backend w \<and> items = [] \<and> (\<exists>msg. e = Status code msg)
         | Inr claims \<Rightarrow> ((items, e), backend w') =
             map_prod (map_prod id (recv_end L)) id (serve_stream L S v q (backend w)))"
proof (cases "stream_question L' R (sends_on cc c route) route req pp")
  case (Inl e)
  then show ?thesis using stream_page_calls [OF assms(4,5), of L' req pp w] by simp
next
  case (Inr qb)
  obtain q bad where qb: "qb = (q, bad)" by (cases qb)
  note calls = stream_page_calls [OF assms(4,5), of L' req pp w, unfolded Inr qb sum.case fst_conv snd_conv]
  obtain v where v: "bad = None \<longrightarrow> breaks_off v = None"
    and page: "\<forall>items e w'. stream_through Chain (stream_interceptors T J L env flags) L S v q c w = (items, e, w') \<longrightarrow>
      sound q items e \<longrightarrow> stream_page L' R (NewUserServiceClient cc) route req pp ctx w = (page_of (q, bad) items e, w')"
    using conjunct2 [OF calls] by (elim exE conjE)
  obtain items e w' where run: "stream_through Chain (stream_interceptors T J L env flags) L S v q c w = (items, e, w')"
    by (metis surj_pair)
  obtain n where d: "case caller J L (server_jwt env) (stream_method q) c (clock w n) of
      Inl code \<Rightarrow> backend w' = backend w \<and> items = [] \<and> (\<exists>msg. e = Status code msg)
    | Inr claims \<Rightarrow> ((items, e), backend w') = map_prod (map_prod id (recv_end L)) id (serve_stream L S v q (backend w))"
    by (rule streaming_decided [OF assms(1-3) run])
  have "stream_page L' R (NewUserServiceClient cc) route req pp ctx w = (page_of (q, bad) items e, w')"
    using page [rule_format, OF run streaming_sound [OF d]] .
  then show ?thesis
    unfolding Inr qb sum.case prod.case
    using d v conjunct1 [OF calls] by (intro exI conjI) (simp_all add: page_of_def)
qed

text \<open>C15. A REST call that streams, on its whole way, over any storage, to a server with
  authentication: the two listings, a batch, a stream of activities and one of users. A listing that
  cannot be read is refused by the gateway. Any other call is decided by the token that arrives with
  it, at one reading of the clock: if that is not acceptable, nothing changes and no message comes
  back, only the error \<open>Unauthenticated\<close> or \<open>PermissionDenied\<close>; otherwise messages, error and storage
  are exactly those of the handler on what was sent. A batch that cannot be read to its end is
  answered with the error of the gateway, whatever became of it.\<close>

theorem rest_stream_admission:
  assumes "chain_law Chain" and "span_law T" and "enableAuth flags"
    and "stream_wired Chain (stream_interceptors T J L env flags) L S hdr cc"
    and "AnnotateContext R ctx (stream_rpc route) (stream_path route) = Inr c"
  shows "case stream_question L' R (sends_on cc c route) route req pp of
      Inl e \<Rightarrow> stream_page L' R (NewUserServiceClient cc) route req pp ctx w = (Inl e, w)
    | Inr (q, bad) \<Rightarrow> \<exists>n v items e w'. (bad = None \<longrightarrow> breaks_off v = None) \<and>
        stream_page L' R (NewUserServiceClient cc) route req pp ctx w =
          ((case bad of Some err \<Rightarrow> Inl err | None \<Rightarrow> stream_answer q items e), w') \<and>
        (case caller J L (server_jwt env) (stream_rpc route) c (clock w n) of
           Inl code \<Rightarrow> backend w' = backend w \<and> items = [] \<and> (\<exists>msg. e = Status code msg)
         | Inr claims \<Rightarrow> ((items, e), backend w') =
             map_prod (map_prod id (recv_end L)) id (serve_stream L S v q (backend w)))"
  by (rule rest_stream_decided [OF assms])

section \<open>A process to test on\<close>

text \<open>A process with authentication and two users, and requests without a token.\<close>

definition sample_side :: server_side where
  "sample_side = \<lparr>at_time = (\<lambda>_. 0), at_send = (\<lambda>_. None), breaks_off = None\<rparr>"

definition sample_through :: "stream_request \<Rightarrow> ctx \<Rightarrow> MemoryStorage world \<Rightarrow> stream_item list \<times> error \<times> MemoryStorage world" where
  "sample_through q = stream_through sample_chain
     (stream_interceptors sample_otel sample_jwt sample_lib (\<lambda>_. None) auth_flags) sample_lib sample_store sample_side q"

definition sample_bidi :: "ctx \<Rightarrow> ('m list \<Rightarrow> stream_request) \<Rightarrow> (stream_item list \<Rightarrow> 'r list) \<Rightarrow>
    ('m, 'r, MemoryStorage world) bidi_stream" where
  "sample_bidi ctx ask unpack = \<lparr>bidi_Send = (\<lambda>n. None), bidi_Header = Inr fmempty,
     bidi_answers = (\<lambda>ms w. case sample_through (ask ms) ctx w of (items, e, w') \<Rightarrow> (unpack items, e, w')),
     bidi_give_up = (\<lambda>ms w. w)\<rparr>"

definition sample_conn :: "(ctx, MemoryStorage world) ClientConn" where
  "sample_conn = \<lparr>
     Invoke = (\<lambda>ctx m q w. case call_through sample_chain
         (unary_interceptors sample_otel sample_jwt sample_lib (\<lambda>_. None) auth_flags) sample_lib sample_store 0 q ctx w of
       (r, w') \<Rightarrow> (r, no_md, w')),
     NewStream = (\<lambda>ctx d name. Inr \<lparr>
       SendMsg = (\<lambda>q. None), CloseSend = None,
       received = (\<lambda>q w. case sample_through (Listing q) ctx w of
         (items, e, w') \<Rightarrow> (\<lparr>stream_Header = Inr fmempty, stream_messages = users_in items, stream_end = e\<rparr>, w')),
       as_batch = \<lparr>send_Send = (\<lambda>n. None), send_CloseSend = None, send_Header = Inr fmempty,
         CloseAndRecv = (\<lambda>us w. case sample_through (Batch us) ctx w of (items, e, w') \<Rightarrow> (one_in items e, fmempty, w')),
         give_up = (\<lambda>us w. snd (snd (sample_through (Batch us) ctx w)))\<rparr>,
       as_activity = sample_bidi ctx Activities activities_in, as_sync = sample_bidi ctx Syncs syncs_in\<rparr>)\<rparr>"

lemma sample_bidi_wired:
  "bidi_wired sample_chain (stream_interceptors sample_otel sample_jwt sample_lib (\<lambda>_. None) auth_flags) sample_lib
     sample_store fmempty ctx ask unpack (sample_bidi ctx ask unpack)"
  unfolding bidi_wired_def
  by (auto simp: sample_bidi_def sample_through_def intro!: exI [of _ sample_side]) (simp add: sample_side_def)

lemma sample_wired:
  "unary_wired sample_chain (unary_interceptors sample_otel sample_jwt sample_lib (\<lambda>_. None) auth_flags) sample_lib
     sample_store no_md sample_conn"
  "stream_wired sample_chain (stream_interceptors sample_otel sample_jwt sample_lib (\<lambda>_. None) auth_flags) sample_lib
     sample_store fmempty sample_conn"
proof -
  show "unary_wired sample_chain (unary_interceptors sample_otel sample_jwt sample_lib (\<lambda>_. None) auth_flags) sample_lib
     sample_store no_md sample_conn"
    by (auto simp: unary_wired_def sample_conn_def)
  have side: "breaks_off sample_side = None" by (simp add: sample_side_def)
  show "stream_wired sample_chain (stream_interceptors sample_otel sample_jwt sample_lib (\<lambda>_. None) auth_flags) sample_lib
     sample_store fmempty sample_conn"
    unfolding stream_wired_def
    by (auto simp: sample_conn_def sample_through_def list_wired_def batch_wired_def side sample_bidi_wired
        intro!: exI [of _ sample_side] split: stream_request.splits prod.splits)
qed

definition plain_runtime :: "ctx gateway_runtime" where
  "plain_runtime = \<lparr>
     AnnotateContext = (\<lambda>c rpc path. Inr c), AnnotateIncomingContext = (\<lambda>c rpc path. Inr c),
     decode_User = (\<lambda>v. Inr guest), decode_UpdateUserRequest = (\<lambda>v. Inl EOF),
     decode_UserActivity = (\<lambda>v. Inl EOF), Uint32 = (\<lambda>v. Inr 2), Enum = (\<lambda>v names. Inr 0),
     PopulateFieldFromPath = (\<lambda>r f p. Inr r), PopulateQueryParameters = (\<lambda>r form. Inr r)\<rparr>"

theorem rest_admission_witness:
  "\<exists>msg. fst (rest_page sample_lib plain_runtime (NewUserServiceClient sample_conn) RestDelete
      \<lparr>req_body = [], req_form = Inr fmempty\<rparr> [''id'' \<mapsto> ''2''] anonymous (idle sample_mem)) =
      Inl (Status Unauthenticated msg) \<and>
    backend (snd (rest_page sample_lib plain_runtime (NewUserServiceClient sample_conn) RestDelete
      \<lparr>req_body = [], req_form = Inr fmempty\<rparr> [''id'' \<mapsto> ''2''] anonymous (idle sample_mem))) = sample_mem"
proof -
  have c: "AnnotateContext plain_runtime anonymous (rest_rpc RestDelete) (rest_path RestDelete) = Inr anonymous"
    by (simp add: plain_runtime_def)
  let ?req = "\<lparr>req_body = [], req_form = Inr fmempty\<rparr>"
  let ?pp = "[''id'' \<mapsto> ''2'']"
  have kept: "backend (idle sample_mem) = sample_mem" by (simp add: idle_def)
  have message: "rest_message sample_lib plain_runtime RestDelete ?req ?pp =
      Inr (DeleteReq (DeleteUserRequest_zero\<lparr>du_Id := 2\<rparr>))"
    by (simp add: plain_runtime_def path_param_def)
  obtain page w' where run: "rest_page sample_lib plain_runtime (NewUserServiceClient sample_conn) RestDelete ?req ?pp anonymous
      (idle sample_mem) = (page, w')" by fastforce
  have "backend w' = sample_mem \<and> (\<exists>msg. page = Inl (Status Unauthenticated msg))"
    using rest_admission [OF sample_chain_law sample_span_law auth_flags_simps(1) sample_wired(1) c, of sample_lib
        ?req ?pp "idle sample_mem"]
    unfolding message run by (simp add: kept)
  then show ?thesis unfolding run by auto
qed

theorem rest_stream_admission_witness:
  "\<exists>msg w'. stream_page sample_lib plain_runtime (NewUserServiceClient sample_conn) RestSync
      \<lparr>req_body = [''guest''], req_form = Inr fmempty\<rparr> Map.empty anonymous (idle sample_mem) =
    (Inr ([], Status Unauthenticated msg), w') \<and> backend w' = sample_mem"
proof -
  have c: "AnnotateContext plain_runtime anonymous (stream_rpc RestSync) (stream_path RestSync) = Inr anonymous"
    by (simp add: plain_runtime_def)
  let ?req = "\<lparr>req_body = [''guest''], req_form = Inr fmempty\<rparr>"
  have q: "stream_question sample_lib plain_runtime (sends_on sample_conn anonymous RestSync) RestSync ?req Map.empty =
      Inr (Syncs [guest], None)"
    by (simp add: plain_runtime_def userServiceClient_SyncUsers_def sample_conn_def sample_bidi_def)
  have kept: "backend (idle sample_mem) = sample_mem" by (simp add: idle_def)
  show ?thesis
    using rest_stream_admission [OF sample_chain_law sample_span_law auth_flags_simps(1) sample_wired(2) c, of sample_lib
        ?req Map.empty "idle sample_mem"]
    unfolding q by (auto simp: kept)
qed

end
