(* ===== verification/GatewayRoutes.thy ===== *)
theory GatewayRoutes
  imports Routes Gateway
begin

text \<open>
  Which handler of the gateway gets an HTTP request: the URL patterns of \<open>proto/pkg/example.pb.gw.go\<close>,
  the tables the two registrations make of them, the HTTP mux of \<open>main.go\<close> in front, and the
  registration that dials for itself. The multiplexer of the gateway's runtime, which picks an
  entry of the table, is a parameter.
\<close>

section \<open>The patterns\<close>

text \<open>
  \<open>runtime.NewPattern(1, ops, pool, verb)\<close>: a pattern is a program for a stack machine, its
  instructions in pairs of operation and operand, over a pool of strings.
\<close>

record gw_pattern =
  g_ops :: "nat list"
  g_pool :: "string list"
  g_verb :: string

definition pattern_UserService_AddUser_0 :: gw_pattern where
  "pattern_UserService_AddUser_0 =
     \<lparr>g_ops = [2, 0, 2, 1, 2, 2], g_pool = [''api'', ''v1'', ''users''], g_verb = ''''\<rparr>"

definition pattern_UserService_ListUsers_0 :: gw_pattern where
  "pattern_UserService_ListUsers_0 =
     \<lparr>g_ops = [2, 0, 2, 1, 2, 2], g_pool = [''api'', ''v1'', ''users''], g_verb = ''''\<rparr>"

definition pattern_UserService_ListUsersByRole_0 :: gw_pattern where
  "pattern_UserService_ListUsersByRole_0 =
     \<lparr>g_ops = [2, 0, 2, 1, 2, 2, 2, 3, 1, 0, 4, 1, 5, 3], g_pool = [''api'', ''v1'', ''users'', ''role''], g_verb = ''''\<rparr>"

definition pattern_UserService_UpdateUser_0 :: gw_pattern where
  "pattern_UserService_UpdateUser_0 =
     \<lparr>g_ops = [2, 0, 2, 1, 2, 2, 1, 0, 4, 1, 5, 3], g_pool = [''api'', ''v1'', ''users'', ''user.id''], g_verb = ''''\<rparr>"

definition pattern_UserService_GetUser_0 :: gw_pattern where
  "pattern_UserService_GetUser_0 =
     \<lparr>g_ops = [2, 0, 2, 1, 2, 2, 1, 0, 4, 1, 5, 3], g_pool = [''api'', ''v1'', ''users'', ''id''], g_verb = ''''\<rparr>"

definition pattern_UserService_DeleteUser_0 :: gw_pattern where
  "pattern_UserService_DeleteUser_0 =
     \<lparr>g_ops = [2, 0, 2, 1, 2, 2, 1, 0, 4, 1, 5, 3], g_pool = [''api'', ''v1'', ''users'', ''id''], g_verb = ''''\<rparr>"

definition pattern_UserService_BatchAddUsers_0 :: gw_pattern where
  "pattern_UserService_BatchAddUsers_0 =
     \<lparr>g_ops = [2, 0, 2, 1, 2, 2, 2, 3], g_pool = [''api'', ''v1'', ''users'', ''batch''], g_verb = ''''\<rparr>"

definition pattern_UserService_UserActivityStream_0 :: gw_pattern where
  "pattern_UserService_UserActivityStream_0 =
     \<lparr>g_ops = [2, 0, 2, 1], g_pool = [''proto.UserService'', ''UserActivityStream''], g_verb = ''''\<rparr>"

definition pattern_UserService_SyncUsers_0 :: gw_pattern where
  "pattern_UserService_SyncUsers_0 =
     \<lparr>g_ops = [2, 0, 2, 1], g_pool = [''proto.UserService'', ''SyncUsers''], g_verb = ''''\<rparr>"

lemmas gw_patterns = pattern_UserService_AddUser_0_def pattern_UserService_ListUsers_0_def
  pattern_UserService_ListUsersByRole_0_def pattern_UserService_UpdateUser_0_def
  pattern_UserService_GetUser_0_def pattern_UserService_DeleteUser_0_def
  pattern_UserService_BatchAddUsers_0_def pattern_UserService_UserActivityStream_0_def
  pattern_UserService_SyncUsers_0_def

section \<open>The two registrations\<close>

text \<open>A handler is named by the method it calls; in process the streaming ones only answer an error.\<close>

datatype rest_method =
    ToAddUser | ToListUsers | ToListUsersByRole | ToUpdateUser | ToGetUser | ToDeleteUser
  | ToBatchAddUsers | ToUserActivityStream | ToSyncUsers

datatype local_method = Local rest_method | Unsupported

type_synonym 'h gw_table = "(string \<times> gw_pattern \<times> 'h) list"

definition RegisterUserServiceHandlerClient :: "rest_method gw_table" where
  "RegisterUserServiceHandlerClient =
     [(''POST'', pattern_UserService_AddUser_0, ToAddUser),
      (''GET'', pattern_UserService_ListUsers_0, ToListUsers),
      (''GET'', pattern_UserService_ListUsersByRole_0, ToListUsersByRole),
      (''PATCH'', pattern_UserService_UpdateUser_0, ToUpdateUser),
      (''GET'', pattern_UserService_GetUser_0, ToGetUser),
      (''DELETE'', pattern_UserService_DeleteUser_0, ToDeleteUser),
      (''POST'', pattern_UserService_BatchAddUsers_0, ToBatchAddUsers),
      (''POST'', pattern_UserService_UserActivityStream_0, ToUserActivityStream),
      (''POST'', pattern_UserService_SyncUsers_0, ToSyncUsers)]"

definition RegisterUserServiceHandlerServer :: "local_method gw_table" where
  "RegisterUserServiceHandlerServer =
     [(''POST'', pattern_UserService_AddUser_0, Local ToAddUser),
      (''GET'', pattern_UserService_ListUsers_0, Unsupported),
      (''GET'', pattern_UserService_ListUsersByRole_0, Unsupported),
      (''PATCH'', pattern_UserService_UpdateUser_0, Local ToUpdateUser),
      (''GET'', pattern_UserService_GetUser_0, Local ToGetUser),
      (''DELETE'', pattern_UserService_DeleteUser_0, Local ToDeleteUser),
      (''POST'', pattern_UserService_BatchAddUsers_0, Unsupported),
      (''POST'', pattern_UserService_UserActivityStream_0, Unsupported),
      (''POST'', pattern_UserService_SyncUsers_0, Unsupported)]"

text \<open>
  \<open>RegisterUserServiceHandler\<close> registers over a connection and never fails.
  \<open>RegisterUserServiceHandlerFromEndpoint\<close> makes that connection: it closes it at once if the
  registration fails and otherwise leaves it to a goroutine that waits for the context. \<open>close\<close> is
  what closing the connection returns; the log is that of the moment the connection is closed.
\<close>

definition RegisterUserServiceHandler :: "'conn \<Rightarrow> error option \<times> rest_method gw_table" where
  "RegisterUserServiceHandler conn = (None, RegisterUserServiceHandlerClient)"

datatype 'conn dialled = NotDialled | ClosedNow 'conn "string list" | ClosedWhenDone 'conn "string list"

definition close_log :: "lib \<Rightarrow> string \<Rightarrow> error option \<Rightarrow> string list" where
  "close_log L endpoint cerr = (case cerr of None \<Rightarrow> []
     | Some e \<Rightarrow> [''Failed to close conn to '' @ endpoint @ '': '' @ error_Error L e])"

definition RegisterUserServiceHandlerFromEndpoint ::
    "lib \<Rightarrow> (string \<Rightarrow> error + 'conn) \<Rightarrow> ('conn \<Rightarrow> error option) \<Rightarrow> string \<Rightarrow>
     error option \<times> rest_method gw_table \<times> 'conn dialled" where
  "RegisterUserServiceHandlerFromEndpoint L dial close endpoint = (case dial endpoint of
     Inl err \<Rightarrow> (Some err, [], NotDialled)
   | Inr conn \<Rightarrow> (case RegisterUserServiceHandler conn of
       (Some err, t) \<Rightarrow> (Some err, t, ClosedNow conn (close_log L endpoint (close conn)))
     | (None, t) \<Rightarrow> (None, t, ClosedWhenDone conn (close_log L endpoint (close conn)))))"

section \<open>The multiplexer of the runtime\<close>

text \<open>
  What the runtime documents of its opcodes: \<open>1\<close> pushes a component, \<open>2\<close> pushes it if it is the
  literal of the operand, \<open>4\<close> joins as many as the operand says, \<open>5\<close> binds the top of the stack to
  the variable of the operand. No pattern here has another operation.
\<close>

fun join_slash :: "string list \<Rightarrow> string" where
  "join_slash [] = []"
| "join_slash [c] = c"
| "join_slash (c # d # cs) = c @ ''/'' @ join_slash (d # cs)"

fun run_ops :: "string list \<Rightarrow> nat list \<Rightarrow> string list \<Rightarrow> string list \<Rightarrow> (string \<times> string) list \<Rightarrow>
    (string \<times> string) list option" where
  "run_ops pool [] cs st vs = (if cs = [] then Some vs else None)"
| "run_ops pool [x] cs st vs = None"
| "run_ops pool (c # k # ops) cs st vs =
     (if c = 1 then (case cs of [] \<Rightarrow> None | x # xs \<Rightarrow> run_ops pool ops xs (x # st) vs)
      else if c = 2 then (case cs of [] \<Rightarrow> None
        | x # xs \<Rightarrow> if x = pool ! k then run_ops pool ops xs (x # st) vs else None)
      else if c = 4 then run_ops pool ops cs (join_slash (rev (take k st)) # drop k st) vs
      else if c = 5 then (case st of [] \<Rightarrow> None | x # st' \<Rightarrow> run_ops pool ops cs st' (vs @ [(pool ! k, x)]))
      else None)"

definition run_pattern :: "gw_pattern \<Rightarrow> string list \<Rightarrow> (string \<times> string) list option" where
  "run_pattern p cs = run_ops (g_pool p) (g_ops p) cs [] []"

text \<open>
  What the multiplexer reads of a request beside its path: the method, the method that the header
  \<open>X-HTTP-Method-Override\<close> names (in capitals), whether the content is an HTML form, and whether
  \<open>ParseForm\<close> reads it. The override counts for a POST of a form only.
\<close>

record mux_request =
  mr_method :: string
  mr_override :: "string option"
  mr_form :: bool
  mr_parses :: bool

definition form_post :: "mux_request \<Rightarrow> bool" where
  "form_post r \<longleftrightarrow> mr_method r = ''POST'' \<and> mr_form r"

definition unreadable :: "mux_request \<Rightarrow> bool" where
  "unreadable r \<longleftrightarrow> form_post r \<and> mr_override r \<noteq> None \<and> \<not> mr_parses r"

definition effective_method :: "mux_request \<Rightarrow> string" where
  "effective_method r = (if form_post r then (case mr_override r of Some m \<Rightarrow> m | None \<Rightarrow> ''POST'') else mr_method r)"

text \<open>A form that is still a POST can fall back to a GET (a GET whose address would be too long).\<close>

definition falls_back :: "mux_request \<Rightarrow> bool" where
  "falls_back r \<longleftrightarrow> form_post r \<and> effective_method r = ''POST'' \<and> mr_parses r"

text \<open>
  The law of the multiplexer. It picks an entry of the effective method whose pattern matches, with
  the variables the pattern binds. If there is none it can fall back to a matching entry for GET;
  it visits the other methods in any order and stops at the first whose pattern matches, so that it
  answers an error instead if an entry of yet another method matches and comes first.
\<close>

type_synonym 'h gw_mux = "'h gw_table \<Rightarrow> mux_request \<Rightarrow> string list \<Rightarrow> ('h \<times> (string \<times> string) list) option"

definition entry_matches :: "'h gw_table \<Rightarrow> string \<Rightarrow> string list \<Rightarrow> 'h \<Rightarrow> (string \<times> string) list \<Rightarrow> bool" where
  "entry_matches t m ps h vs \<longleftrightarrow> (\<exists>p. (m, p, h) \<in> set t \<and> run_pattern p ps = Some vs)"

definition matched :: "'h gw_table \<Rightarrow> string \<Rightarrow> string list \<Rightarrow> bool" where
  "matched t m ps \<longleftrightarrow> (\<exists>h vs. entry_matches t m ps h vs)"

definition mux_law :: "'h gw_mux \<Rightarrow> bool" where
  "mux_law Serve \<longleftrightarrow> (\<forall>t r ps. if unreadable r then Serve t r ps = None else
     (case Serve t r ps of
        Some (h, vs) \<Rightarrow> entry_matches t (effective_method r) ps h vs \<or>
          falls_back r \<and> \<not> matched t (effective_method r) ps \<and> entry_matches t ''GET'' ps h vs
      | None \<Rightarrow> \<not> matched t (effective_method r) ps \<and>
          (falls_back r \<longrightarrow> \<not> matched t ''GET'' ps \<or> (\<exists>m. m \<notin> {''GET'', ''POST''} \<and> matched t m ps))))"

section \<open>Which handler gets a request\<close>

text \<open>The way of a request through the mux of \<open>main\<close> and that of the runtime.\<close>

datatype api_target =
    RestCall rest_method "(string \<times> string) list"
  | OpenAPIPage
  | SlashAdded
  | NotRouted

definition api_target :: "lib \<Rightarrow> error option \<Rightarrow> error option \<Rightarrow> rest_method gw_mux \<Rightarrow> mux_request \<Rightarrow>
    string list \<Rightarrow> api_target" where
  "api_target L AddExtensionType Sub Serve r ps =
     (case ServeMux (fst (gateway_routes L AddExtensionType Sub)) (mr_method r) ps of
        Served GatewayMux _ \<Rightarrow> (case Serve RegisterUserServiceHandlerClient r ps of
          Some (h, vs) \<Rightarrow> RestCall h vs
        | None \<Rightarrow> NotRouted)
      | Served OpenAPIFiles _ \<Rightarrow> OpenAPIPage
      | RedirectToSlash \<Rightarrow> SlashAdded
      | _ \<Rightarrow> NotRouted)"

definition rest_table :: "string \<Rightarrow> string list \<Rightarrow> (rest_method \<times> (string \<times> string) list) option" where
  "rest_table m ps =
     (if take 3 ps = [''api'', ''v1'', ''users''] then
        (case drop 3 ps of
           [] \<Rightarrow> if m = ''POST'' then Some (ToAddUser, []) else if m = ''GET'' then Some (ToListUsers, []) else None
         | [i] \<Rightarrow>
             if m = ''PATCH'' then Some (ToUpdateUser, [(''user.id'', i)])
             else if m = ''GET'' then Some (ToGetUser, [(''id'', i)])
             else if m = ''DELETE'' then Some (ToDeleteUser, [(''id'', i)])
             else if m = ''POST'' \<and> i = ''batch'' then Some (ToBatchAddUsers, []) else None
         | [a, ro] \<Rightarrow> if m = ''GET'' \<and> a = ''role'' then Some (ToListUsersByRole, [(''role'', ro)]) else None
         | _ \<Rightarrow> None)
      else if m = ''POST'' \<and> ps = [''proto.UserService'', ''UserActivityStream''] then Some (ToUserActivityStream, [])
      else if m = ''POST'' \<and> ps = [''proto.UserService'', ''SyncUsers''] then Some (ToSyncUsers, [])
      else None)"

lemma runs:
  "run_pattern pattern_UserService_AddUser_0 ps = (if ps = [''api'', ''v1'', ''users''] then Some [] else None)"
  "run_pattern pattern_UserService_ListUsers_0 ps = (if ps = [''api'', ''v1'', ''users''] then Some [] else None)"
  "run_pattern pattern_UserService_BatchAddUsers_0 ps =
     (if ps = [''api'', ''v1'', ''users'', ''batch''] then Some [] else None)"
  "run_pattern pattern_UserService_UserActivityStream_0 ps =
     (if ps = [''proto.UserService'', ''UserActivityStream''] then Some [] else None)"
  "run_pattern pattern_UserService_SyncUsers_0 ps =
     (if ps = [''proto.UserService'', ''SyncUsers''] then Some [] else None)"
  "run_pattern pattern_UserService_GetUser_0 ps =
     (if take 3 ps = [''api'', ''v1'', ''users''] \<and> length ps = 4 then Some [(''id'', ps ! 3)] else None)"
  "run_pattern pattern_UserService_DeleteUser_0 ps =
     (if take 3 ps = [''api'', ''v1'', ''users''] \<and> length ps = 4 then Some [(''id'', ps ! 3)] else None)"
  "run_pattern pattern_UserService_UpdateUser_0 ps =
     (if take 3 ps = [''api'', ''v1'', ''users''] \<and> length ps = 4 then Some [(''user.id'', ps ! 3)] else None)"
  "run_pattern pattern_UserService_ListUsersByRole_0 ps =
     (if take 4 ps = [''api'', ''v1'', ''users'', ''role''] \<and> length ps = 5 then Some [(''role'', ps ! 4)] else None)"
  by (auto simp: run_pattern_def gw_patterns split: list.splits)

text \<open>Whatever matches is the entry of the table, so that the order of registration does not matter.\<close>

lemma table_each:
  "run_pattern pattern_UserService_AddUser_0 ps = Some vs \<Longrightarrow> rest_table ''POST'' ps = Some (ToAddUser, vs)"
  "run_pattern pattern_UserService_ListUsers_0 ps = Some vs \<Longrightarrow> rest_table ''GET'' ps = Some (ToListUsers, vs)"
  "run_pattern pattern_UserService_ListUsersByRole_0 ps = Some vs \<Longrightarrow>
     rest_table ''GET'' ps = Some (ToListUsersByRole, vs)"
  "run_pattern pattern_UserService_UpdateUser_0 ps = Some vs \<Longrightarrow> rest_table ''PATCH'' ps = Some (ToUpdateUser, vs)"
  "run_pattern pattern_UserService_GetUser_0 ps = Some vs \<Longrightarrow> rest_table ''GET'' ps = Some (ToGetUser, vs)"
  "run_pattern pattern_UserService_DeleteUser_0 ps = Some vs \<Longrightarrow> rest_table ''DELETE'' ps = Some (ToDeleteUser, vs)"
  "run_pattern pattern_UserService_BatchAddUsers_0 ps = Some vs \<Longrightarrow> rest_table ''POST'' ps = Some (ToBatchAddUsers, vs)"
  "run_pattern pattern_UserService_UserActivityStream_0 ps = Some vs \<Longrightarrow>
     rest_table ''POST'' ps = Some (ToUserActivityStream, vs)"
  "run_pattern pattern_UserService_SyncUsers_0 ps = Some vs \<Longrightarrow> rest_table ''POST'' ps = Some (ToSyncUsers, vs)"
proof -
  have four: "\<exists>i. ps = [a, b, c, i]" if "take 3 ps = [a, b, c]" "length ps = 4" for a b c
    using that by (auto simp: length_Suc_conv eval_nat_numeral)
  have five: "\<exists>i. ps = [a, b, c, d, i]" if "take 4 ps = [a, b, c, d]" "length ps = 5" for a b c d
    using that by (auto simp: length_Suc_conv eval_nat_numeral)
  show "run_pattern pattern_UserService_AddUser_0 ps = Some vs \<Longrightarrow> rest_table ''POST'' ps = Some (ToAddUser, vs)"
    "run_pattern pattern_UserService_ListUsers_0 ps = Some vs \<Longrightarrow> rest_table ''GET'' ps = Some (ToListUsers, vs)"
    "run_pattern pattern_UserService_BatchAddUsers_0 ps = Some vs \<Longrightarrow> rest_table ''POST'' ps = Some (ToBatchAddUsers, vs)"
    "run_pattern pattern_UserService_UserActivityStream_0 ps = Some vs \<Longrightarrow>
       rest_table ''POST'' ps = Some (ToUserActivityStream, vs)"
    "run_pattern pattern_UserService_SyncUsers_0 ps = Some vs \<Longrightarrow> rest_table ''POST'' ps = Some (ToSyncUsers, vs)"
    by (simp_all add: runs rest_table_def split: if_splits)
  show "run_pattern pattern_UserService_UpdateUser_0 ps = Some vs \<Longrightarrow> rest_table ''PATCH'' ps = Some (ToUpdateUser, vs)"
    "run_pattern pattern_UserService_GetUser_0 ps = Some vs \<Longrightarrow> rest_table ''GET'' ps = Some (ToGetUser, vs)"
    "run_pattern pattern_UserService_DeleteUser_0 ps = Some vs \<Longrightarrow> rest_table ''DELETE'' ps = Some (ToDeleteUser, vs)"
    using four [of "''api''" "''v1''" "''users''"]
    by (auto simp: runs rest_table_def split: if_splits)
  show "run_pattern pattern_UserService_ListUsersByRole_0 ps = Some vs \<Longrightarrow>
     rest_table ''GET'' ps = Some (ToListUsersByRole, vs)"
    using five [of "''api''" "''v1''" "''users''" "''role''"]
    by (auto simp: runs rest_table_def split: if_splits)
qed

lemma table_entry:
  assumes "(m, p, h) \<in> set RegisterUserServiceHandlerClient" and "run_pattern p ps = Some vs"
  shows "rest_table m ps = Some (h, vs)"
  using assms unfolding RegisterUserServiceHandlerClient_def by (auto simp: table_each)

lemma table_complete:
  assumes "rest_table m ps = Some (h, vs)"
  shows "\<exists>e \<in> set RegisterUserServiceHandlerClient. snd (snd e) = h \<and> fst e = m \<and> run_pattern (fst (snd e)) ps = Some vs"
proof (cases "take 3 ps = [''api'', ''v1'', ''users'']")
  case True
  then obtain xs where ps: "ps = ''api'' # ''v1'' # ''users'' # xs"
    using append_take_drop_id [of 3 ps] by (metis append_Cons append_Nil)
  consider "xs = []" | i where "xs = [i]" | a b where "xs = [a, b]" | a b c ys where "xs = a # b # c # ys"
    by (metis list.exhaust)
  then show ?thesis
    using assms by cases (auto simp: ps rest_table_def RegisterUserServiceHandlerClient_def runs split: if_splits)
next
  case False
  with assms have "m = ''POST''" "vs = []"
    and "h = ToUserActivityStream \<and> ps = [''proto.UserService'', ''UserActivityStream''] \<or>
      h = ToSyncUsers \<and> ps = [''proto.UserService'', ''SyncUsers'']"
    by (simp_all add: rest_table_def split: if_splits)
  then show ?thesis
    by (auto simp: RegisterUserServiceHandlerClient_def runs)
qed

lemma client_entries:
  "entry_matches RegisterUserServiceHandlerClient m ps h vs \<longleftrightarrow> rest_table m ps = Some (h, vs)"
  unfolding entry_matches_def using table_entry table_complete by (metis prod.collapse)

lemma client_matched:
  "matched RegisterUserServiceHandlerClient m ps \<longleftrightarrow> rest_table m ps \<noteq> None"
  by (auto simp: matched_def client_entries)

text \<open>The other methods that a path which \<open>GET\<close> knows can have.\<close>

lemma other_methods:
  assumes "rest_table m ps \<noteq> None" and "m \<notin> {''GET'', ''POST''}"
  shows "rest_table ''DELETE'' ps \<noteq> None"
  using assms by (auto simp: rest_table_def split: list.splits if_splits)

text \<open>
  Where a request for the service can go. There is a choice only for a form posted to the path of
  one user: it is read as a GET of that user, or refused.
\<close>

definition rest_targets :: "mux_request \<Rightarrow> string list \<Rightarrow> api_target set" where
  "rest_targets r ps =
     (if unreadable r then {NotRouted} else
      case rest_table (effective_method r) ps of
        Some (h, vs) \<Rightarrow> {RestCall h vs}
      | None \<Rightarrow> (case if falls_back r then rest_table ''GET'' ps else None of
          None \<Rightarrow> {NotRouted}
        | Some (h, vs) \<Rightarrow> insert (RestCall h vs) (if rest_table ''DELETE'' ps = None then {} else {NotRouted})))"

lemma mux_picks:
  assumes "mux_law Serve"
  shows "(case Serve RegisterUserServiceHandlerClient r ps of Some (h, vs) \<Rightarrow> RestCall h vs | None \<Rightarrow> NotRouted)
    \<in> rest_targets r ps"
proof -
  let ?S = "Serve RegisterUserServiceHandlerClient r ps"
  have law: "if unreadable r then ?S = None else
     (case ?S of
        Some (h, vs) \<Rightarrow> rest_table (effective_method r) ps = Some (h, vs) \<or>
          falls_back r \<and> rest_table (effective_method r) ps = None \<and> rest_table ''GET'' ps = Some (h, vs)
      | None \<Rightarrow> rest_table (effective_method r) ps = None \<and>
          (falls_back r \<longrightarrow> rest_table ''GET'' ps = None \<or> (\<exists>m. m \<notin> {''GET'', ''POST''} \<and> rest_table m ps \<noteq> None)))"
    using assms [unfolded mux_law_def, rule_format, where t = RegisterUserServiceHandlerClient and r = r and ps = ps]
    unfolding client_entries client_matched not_not .
  show ?thesis
  proof (cases ?S)
    case None
    have "rest_table ''DELETE'' ps \<noteq> None"
      if "falls_back r" "rest_table ''GET'' ps \<noteq> None" "\<not> unreadable r"
      using law that other_methods [of _ ps] unfolding None by (auto simp del: insert_iff)
    then show ?thesis using law unfolding None by (auto simp: rest_targets_def split: if_splits option.splits)
  next
    case (Some hv)
    then show ?thesis using law by (cases hv) (auto simp: rest_targets_def split: if_splits)
  qed
qed

lemma plain_target: "\<not> mr_form r \<Longrightarrow> rest_targets r ps =
    {case rest_table (mr_method r) ps of Some (h, vs) \<Rightarrow> RestCall h vs | None \<Rightarrow> NotRouted}"
  by (auto simp: rest_targets_def unreadable_def falls_back_def form_post_def effective_method_def
      split: option.splits)

lemma outer_mux:
  assumes "ps \<noteq> []"
  shows "ServeMux (fst (gateway_routes L e1 e2)) m ps =
    (if e1 = None \<and> e2 = None \<and> hd ps = ''openapi-ui''
     then (if tl ps = [] then RedirectToSlash else Served OpenAPIFiles []) else Served GatewayMux [])"
proof -
  define rs where rs: "rs = fst (gateway_routes L e1 e2)"
  obtain p qs where ps: "ps = p # qs" using assms by (cases ps) auto
  let ?mounted = "e1 = None \<and> e2 = None"
  have parsed: "map (map_prod parse_pattern id) rs =
      (\<lparr>pt_method = '''', pt_segs = [Rest]\<rparr>, GatewayMux) #
      (if ?mounted then [(\<lparr>pt_method = '''', pt_segs = [Lit ''openapi-ui'', Rest]\<rparr>, OpenAPIFiles)] else [])"
    by (simp add: rs gateway_routes_def serveOpenAPI_def parse_defs del: split_on.simps(2) split: option.splits)
  have "best (candidates rs me (p # xs)) = (if me \<noteq> '''' then None
      else if ?mounted \<and> p = ''openapi-ui'' \<and> xs \<noteq> [] then Some ([Lit ''openapi-ui'', Rest], OpenAPIFiles, [])
      else Some ([Rest], GatewayMux, []))" for me xs
    by (cases xs) (auto simp: candidates_parsed parsed parsed_candidates_def match_segs_unfold more_specific_def)
  note tab = this
  have find: "find_match rs m (p # xs) =
      (if ?mounted \<and> p = ''openapi-ui'' \<and> xs \<noteq> [] then Some ([Lit ''openapi-ui'', Rest], OpenAPIFiles, [])
       else Some ([Rest], GatewayMux, []))" for xs
    unfolding find_match_def tab by simp
  show ?thesis
    by (cases qs) (auto simp: ps rs [symmetric] ServeMux_def Let_def exact_def find)
qed

text \<open>C19. The REST interface as a whole. A path below \<open>/openapi-ui/\<close> goes to the documentation, if its
  files could be mounted. Any other request is for one of nine registered routes, each with exactly
  the parameters its handler reads, or is not routed: \<open>/api/v1/users\<close> to add and list, one more
  segment to get, update and delete a user or to add a batch, \<open>role\<close> and a role to list by role, and
  the two bidirectional streams under the names of their methods. The method that counts is that of
  the request, or the one a posted form overrides it with; a posted form for which there is no POST
  is read as a GET of the same path, except that on the path of one user it may be refused instead.
  No path that begins otherwise, like the \<open>/v1/users\<close> of the scripts and guides, reaches a handler, and
  the order in which the routes are registered decides nothing.\<close>

theorem rest_dispatch:
  assumes "mux_law Serve" and "ps \<noteq> []"
  shows "api_target L e1 e2 Serve r ps \<in>
    (if e1 = None \<and> e2 = None \<and> hd ps = ''openapi-ui'' then {if tl ps = [] then SlashAdded else OpenAPIPage}
     else rest_targets r ps)"
  unfolding api_target_def outer_mux [OF assms(2)] using mux_picks [OF assms(1)] by simp

text \<open>
  A multiplexer that obeys the law: it takes the first entry that matches, and falls back to GET
  whenever it may.
\<close>

fun first_match :: "'h gw_table \<Rightarrow> string \<Rightarrow> string list \<Rightarrow> ('h \<times> (string \<times> string) list) option" where
  "first_match [] m ps = None"
| "first_match ((m', p, h) # t) m ps =
     (case (if m' = m then run_pattern p ps else None) of Some vs \<Rightarrow> Some (h, vs) | None \<Rightarrow> first_match t m ps)"

definition sample_serve :: "'h gw_mux" where
  "sample_serve t r ps = (if unreadable r then None else
     case first_match t (effective_method r) ps of
       Some hv \<Rightarrow> Some hv
     | None \<Rightarrow> if falls_back r then first_match t ''GET'' ps else None)"

lemma first_match_some: "first_match t m ps = Some (h, vs) \<Longrightarrow> entry_matches t m ps h vs"
  by (induction t m ps rule: first_match.induct) (fastforce simp: entry_matches_def split: option.splits if_splits)+

lemma first_match_none: "first_match t m ps = None \<Longrightarrow> \<not> matched t m ps"
  by (induction t m ps rule: first_match.induct)
    (auto simp: matched_def entry_matches_def split: option.splits if_splits)

lemma sample_mux_law: "mux_law sample_serve"
  unfolding mux_law_def
  by (auto simp: sample_serve_def split: option.splits dest: first_match_some first_match_none)

text \<open>A request without a form, and a posted form.\<close>

definition plain :: "string \<Rightarrow> mux_request" where
  "plain m = \<lparr>mr_method = m, mr_override = None, mr_form = False, mr_parses = True\<rparr>"

definition posted_form :: mux_request where
  "posted_form = \<lparr>mr_method = ''POST'', mr_override = None, mr_form = True, mr_parses = True\<rparr>"

theorem rest_dispatch_witness:
  "api_target sample_lib None None sample_serve (plain ''GET'') [''api'', ''v1'', ''users'', ''7''] = RestCall ToGetUser [(''id'', ''7'')] \<and>
   api_target sample_lib None None sample_serve (plain ''GET'') [''v1'', ''users''] = NotRouted \<and>
   api_target sample_lib None None sample_serve posted_form [''api'', ''v1'', ''users'', ''role'', ''1''] =
     RestCall ToListUsersByRole [(''role'', ''1'')]"
  using rest_dispatch [OF sample_mux_law, of "[''api'', ''v1'', ''users'', ''7'']" sample_lib None None "plain ''GET''"]
    rest_dispatch [OF sample_mux_law, of "[''v1'', ''users'']" sample_lib None None "plain ''GET''"]
    rest_dispatch [OF sample_mux_law, of "[''api'', ''v1'', ''users'', ''role'', ''1'']" sample_lib None None posted_form]
  by (simp add: plain_target plain_def)
    (simp add: rest_table_def rest_targets_def posted_form_def unreadable_def falls_back_def form_post_def
      effective_method_def)

text \<open>The choice is real: a form posted to the path of a user reaches \<open>GetUser\<close>, or nothing.\<close>

lemma form_to_user:
  "rest_targets posted_form [''api'', ''v1'', ''users'', ''7''] = {RestCall ToGetUser [(''id'', ''7'')], NotRouted}"
  by (simp add: rest_table_def rest_targets_def posted_form_def unreadable_def falls_back_def form_post_def
      effective_method_def)

section \<open>Registrations\<close>

text \<open>Both registrations serve the same routes; in process the streaming ones answer an error.\<close>

lemma registered_alike:
  "map (\<lambda>(m, p, h). (m, p)) RegisterUserServiceHandlerServer = map (\<lambda>(m, p, h). (m, p)) RegisterUserServiceHandlerClient"
  "\<forall>(a, b) \<in> set (zip RegisterUserServiceHandlerServer RegisterUserServiceHandlerClient).
     snd (snd a) = Unsupported \<or> snd (snd a) = Local (snd (snd b))"
  by (simp_all add: RegisterUserServiceHandlerServer_def RegisterUserServiceHandlerClient_def)

text \<open>
  A connection that was opened is closed, once, when the context is done: since the registration
  cannot fail, the branch that closes it at once is never taken.
\<close>

lemma endpoint_connection:
  "RegisterUserServiceHandlerFromEndpoint L dial close endpoint = (case dial endpoint of
     Inl err \<Rightarrow> (Some err, [], NotDialled)
   | Inr conn \<Rightarrow> (None, RegisterUserServiceHandlerClient, ClosedWhenDone conn (close_log L endpoint (close conn))))"
  by (simp add: RegisterUserServiceHandlerFromEndpoint_def RegisterUserServiceHandler_def split: sum.splits)

end
