(* ===== verification/RestApi.thy ===== *)
theory RestApi
  imports RestAuth GatewayRoutes
begin

text \<open>
  The REST interface of a server as one function: from the method and path of an HTTP request,
  through the mux of \<open>main.go\<close>, that of the gateway, the handler it picks, the connection and the
  interceptors, to the storage and back; and what it discloses.
\<close>

section \<open>The interface\<close>

datatype api_page =
    Answer "error + any_response"
  | Stream "error + stream_item list \<times> error"
  | Documentation
  | Redirected
  | NotFound

text \<open>A handler of the gateway, with the parameters its pattern has bound.\<close>

fun rest_serve :: "lib \<Rightarrow> ctx gateway_runtime \<Rightarrow> (ctx, 's world) client \<Rightarrow> rest_method \<Rightarrow> gateway_request \<Rightarrow>
    (string \<Rightarrow> string option) \<Rightarrow> ctx \<Rightarrow> 's world \<Rightarrow> api_page \<times> 's world" where
  "rest_serve L R C ToAddUser req pp ctx w = map_prod Answer id (rest_page L R C RestAdd req pp ctx w)"
| "rest_serve L R C ToGetUser req pp ctx w = map_prod Answer id (rest_page L R C RestGet req pp ctx w)"
| "rest_serve L R C ToUpdateUser req pp ctx w = map_prod Answer id (rest_page L R C RestUpdate req pp ctx w)"
| "rest_serve L R C ToDeleteUser req pp ctx w = map_prod Answer id (rest_page L R C RestDelete req pp ctx w)"
| "rest_serve L R C ToListUsers req pp ctx w = map_prod Stream id (stream_page L R C RestList req pp ctx w)"
| "rest_serve L R C ToListUsersByRole req pp ctx w = map_prod Stream id (stream_page L R C RestByRole req pp ctx w)"
| "rest_serve L R C ToBatchAddUsers req pp ctx w = map_prod Stream id (stream_page L R C RestBatch req pp ctx w)"
| "rest_serve L R C ToUserActivityStream req pp ctx w = map_prod Stream id (stream_page L R C RestActivity req pp ctx w)"
| "rest_serve L R C ToSyncUsers req pp ctx w = map_prod Stream id (stream_page L R C RestSync req pp ctx w)"

text \<open>A request to the HTTP server of \<open>main\<close>: its method, the segments of its path, the rest of it.\<close>

definition rest_api :: "lib \<Rightarrow> ctx gateway_runtime \<Rightarrow> (ctx, 's world) client \<Rightarrow> rest_method gw_mux \<Rightarrow>
    error option \<Rightarrow> error option \<Rightarrow> mux_request \<Rightarrow> string list \<Rightarrow> gateway_request \<Rightarrow> ctx \<Rightarrow> 's world \<Rightarrow>
    api_page \<times> 's world" where
  "rest_api L R C Serve e1 e2 r ps req ctx w = (case api_target L e1 e2 Serve r ps of
     RestCall h vs \<Rightarrow> rest_serve L R C h req (map_of vs) ctx w
   | OpenAPIPage \<Rightarrow> (Documentation, w)
   | SlashAdded \<Rightarrow> (Redirected, w)
   | NotRouted \<Rightarrow> (NotFound, w))"

text \<open>A page with something from the service: a response, or a stream with a message in it.\<close>

fun discloses :: "api_page \<Rightarrow> bool" where
  "discloses (Answer r) \<longleftrightarrow> (\<exists>resp. r = Inr resp)"
| "discloses (Stream r) \<longleftrightarrow> (case r of Inl _ \<Rightarrow> False | Inr (items, e) \<Rightarrow> items \<noteq> [])"
| "discloses _ \<longleftrightarrow> False"

section \<open>A gateway that cannot annotate\<close>

text \<open>A context that the runtime refuses to annotate ends the request before anything is called.\<close>

lemma handle_unannotated:
  "AnnotateContext R ctx rpc path = Inl e \<Longrightarrow> shown (handle_client R rpc path f ctx w) = (Inl e, w)"
  by (simp add: handle_client_def)

lemma rest_page_unannotated:
  "AnnotateContext R ctx (rest_rpc route) (rest_path route) = Inl e \<Longrightarrow>
   rest_page L R C route req pp ctx w = (Inl e, w)"
  by (cases route) (simp_all add: client_AddUser_def client_GetUser_def client_UpdateUser_def client_DeleteUser_def
      handle_unannotated)

lemma stream_page_unannotated:
  "AnnotateContext R ctx (stream_rpc route) (stream_path route) = Inl e \<Longrightarrow>
   stream_page L R C route req pp ctx w = (Inl e, w)"
  by (cases route) (simp_all add: client_ListUsers_def client_ListUsersByRole_def client_BatchAddUsers_def
      client_UserActivityStream_def client_SyncUsers_def handle_unannotated)

section \<open>Nothing without a token\<close>

text \<open>The gRPC method behind a handler, and the path it annotates its context with.\<close>

fun rest_method_rpc :: "rest_method \<Rightarrow> string" where
  "rest_method_rpc ToAddUser = rest_rpc RestAdd"
| "rest_method_rpc ToGetUser = rest_rpc RestGet"
| "rest_method_rpc ToUpdateUser = rest_rpc RestUpdate"
| "rest_method_rpc ToDeleteUser = rest_rpc RestDelete"
| "rest_method_rpc ToListUsers = stream_rpc RestList"
| "rest_method_rpc ToListUsersByRole = stream_rpc RestByRole"
| "rest_method_rpc ToBatchAddUsers = stream_rpc RestBatch"
| "rest_method_rpc ToUserActivityStream = stream_rpc RestActivity"
| "rest_method_rpc ToSyncUsers = stream_rpc RestSync"

fun rest_method_path :: "rest_method \<Rightarrow> string" where
  "rest_method_path ToAddUser = rest_path RestAdd"
| "rest_method_path ToGetUser = rest_path RestGet"
| "rest_method_path ToUpdateUser = rest_path RestUpdate"
| "rest_method_path ToDeleteUser = rest_path RestDelete"
| "rest_method_path ToListUsers = stream_path RestList"
| "rest_method_path ToListUsersByRole = stream_path RestByRole"
| "rest_method_path ToBatchAddUsers = stream_path RestBatch"
| "rest_method_path ToUserActivityStream = stream_path RestActivity"
| "rest_method_path ToSyncUsers = stream_path RestSync"

text \<open>
  \<open>admitted\<close>: the context arrives at the server with a token that the method accepts at some
  reading of the clock.
\<close>

definition admitted_call :: "jwt \<Rightarrow> lib \<Rightarrow> (string \<Rightarrow> string option) \<Rightarrow> ctx gateway_runtime \<Rightarrow> ctx \<Rightarrow> 's world \<Rightarrow>
    string \<Rightarrow> string \<Rightarrow> bool" where
  "admitted_call J L env R ctx w rpc path \<longleftrightarrow> (\<exists>c n claims. AnnotateContext R ctx rpc path = Inr c \<and>
     caller J L (server_jwt env) rpc c (clock w n) = Inr claims)"

lemma refused_call:
  assumes "\<not> admitted_call J L env R ctx w rpc path" and "AnnotateContext R ctx rpc path = Inr c"
  obtains code where "caller J L (server_jwt env) rpc c (clock w n) = Inl code"
  using assms unfolding admitted_call_def by (cases "caller J L (server_jwt env) rpc c (clock w n)") auto

lemma rest_page_closed:
  assumes "chain_law Chain" and "span_law T" and "enableAuth flags"
    and "unary_wired Chain (unary_interceptors T J L env flags) L S md cc"
    and no: "\<not> admitted_call J L env R ctx w (rest_rpc route) (rest_path route)"
  shows "\<exists>e w'. rest_page L' R (NewUserServiceClient cc) route req pp ctx w = (Inl e, w') \<and> backend w' = backend w"
proof (cases "AnnotateContext R ctx (rest_rpc route) (rest_path route)")
  case (Inl e)
  then show ?thesis by (simp add: rest_page_unannotated)
next
  case c: (Inr c)
  note page = rest_decided [OF assms(1-4) c, of L' req pp w]
  show ?thesis
  proof (cases "rest_message L' R route req pp")
    case (Inr q)
    obtain n now page w' where run: "rest_page L' R (NewUserServiceClient cc) route req pp ctx w = (page, w')"
      and d: "case caller J L (server_jwt env) (rest_rpc route) c (clock w n) of
          Inl code \<Rightarrow> backend w' = backend w \<and> (\<exists>msg. page = Inl (Status code msg))
        | Inr claims \<Rightarrow> (page, backend w') = answer L (serve_any S now q (backend w))"
      using page unfolding Inr sum.case by (elim exE conjE)
    obtain code where "caller J L (server_jwt env) (rest_rpc route) c (clock w n) = Inl code"
      by (rule refused_call [OF no c])
    with d run show ?thesis by auto
  qed (use page in simp)
qed

lemma stream_page_closed:
  assumes "chain_law Chain" and "span_law T" and "enableAuth flags"
    and "stream_wired Chain (stream_interceptors T J L env flags) L S hdr cc"
    and no: "\<not> admitted_call J L env R ctx w (stream_rpc route) (stream_path route)"
  shows "\<exists>r w'. stream_page L' R (NewUserServiceClient cc) route req pp ctx w = (r, w') \<and> backend w' = backend w \<and>
    \<not> discloses (Stream r)"
proof (cases "AnnotateContext R ctx (stream_rpc route) (stream_path route)")
  case (Inl e)
  then show ?thesis by (simp add: stream_page_unannotated)
next
  case c: (Inr c)
  note page = rest_stream_decided [OF assms(1-4) c, of L' req pp w]
  show ?thesis
  proof (cases "stream_question L' R (sends_on cc c route) route req pp")
    case (Inr qb)
    obtain q bad where qb: "qb = (q, bad)" by (cases qb)
    obtain n v items e w' where run: "stream_page L' R (NewUserServiceClient cc) route req pp ctx w =
          ((case bad of Some err \<Rightarrow> Inl err | None \<Rightarrow> stream_answer q items e), w')"
      and d: "case caller J L (server_jwt env) (stream_rpc route) c (clock w n) of
           Inl code \<Rightarrow> backend w' = backend w \<and> items = [] \<and> (\<exists>msg. e = Status code msg)
         | Inr claims \<Rightarrow> ((items, e), backend w') =
             map_prod (map_prod id (recv_end L)) id (serve_stream L S v q (backend w))"
      using page unfolding Inr qb sum.case prod.case by (elim exE conjE)
    obtain code where "caller J L (server_jwt env) (stream_rpc route) c (clock w n) = Inl code"
      by (rule refused_call [OF no c])
    with d have "backend w' = backend w" "items = []" "\<exists>msg. e = Status code msg" by simp_all
    then show ?thesis using run by (cases q) (auto split: option.splits)
  qed (use page in simp)
qed

lemma rest_serve_closed:
  assumes "chain_law UnaryChain" and "chain_law StreamChain" and "span_law T" and "enableAuth flags"
    and "unary_wired UnaryChain (unary_interceptors T J L env flags) L S md cc"
    and "stream_wired StreamChain (stream_interceptors T J L env flags) L S hdr cc"
    and no: "\<not> admitted_call J L env R ctx w (rest_method_rpc h) (rest_method_path h)"
  shows "\<exists>page w'. rest_serve L' R (NewUserServiceClient cc) h req pp ctx w = (page, w') \<and> backend w' = backend w \<and>
    \<not> discloses page"
proof -
  note unary = rest_page_closed [OF assms(1,3,4,5), of R ctx w _ L' req pp]
    and stream = stream_page_closed [OF assms(2,3,4,6), of R ctx w _ L' req pp]
  consider (u) route where "h \<in> {ToAddUser, ToGetUser, ToUpdateUser, ToDeleteUser}"
      "rest_method_rpc h = rest_rpc route" "rest_method_path h = rest_path route"
      "rest_serve L' R (NewUserServiceClient cc) h req pp ctx w =
         map_prod Answer id (rest_page L' R (NewUserServiceClient cc) route req pp ctx w)"
    | (s) route where "rest_method_rpc h = stream_rpc route" "rest_method_path h = stream_path route"
      "rest_serve L' R (NewUserServiceClient cc) h req pp ctx w =
         map_prod Stream id (stream_page L' R (NewUserServiceClient cc) route req pp ctx w)"
    by (cases h) (force simp del: rest_rpc.simps rest_path.simps stream_rpc.simps stream_path.simps)+
  then show ?thesis
  proof cases
    case u
    then show ?thesis using unary [of route] no by auto
  next
    case s
    then show ?thesis using stream [of route] no by auto
  qed
qed

text \<open>C2. The REST interface of a server that was started with authentication (the default is
  without): whatever the method, headers, path, body and parameters of a request, and whichever
  handler the multiplexer of the gateway picks for it, the request changes nothing and is answered
  with an error, a stream without a message or a page that has nothing to do with the service,
  unless it goes to one of the nine handlers and the context it arrives with carries a token that
  the gRPC method of that handler accepts at some reading of the clock.\<close>

theorem rest_closed:
  assumes "chain_law UnaryChain" and "chain_law StreamChain" and "span_law T" and "enableAuth flags"
    and "unary_wired UnaryChain (unary_interceptors T J L env flags) L S md cc"
    and "stream_wired StreamChain (stream_interceptors T J L env flags) L S hdr cc"
    and "rest_api L' R (NewUserServiceClient cc) Serve e1 e2 r ps req ctx w = (page, w')"
  shows "backend w' = backend w \<and> \<not> discloses page \<or>
    (\<exists>h vs. api_target L' e1 e2 Serve r ps = RestCall h vs \<and>
       admitted_call J L env R ctx w (rest_method_rpc h) (rest_method_path h))"
proof (cases "api_target L' e1 e2 Serve r ps")
  case target: (RestCall h vs)
  have "backend w' = backend w \<and> \<not> discloses page"
    if "\<not> admitted_call J L env R ctx w (rest_method_rpc h) (rest_method_path h)"
    using rest_serve_closed [OF assms(1-6) that, of L' req "map_of vs"] assms(7) by (auto simp: rest_api_def target)
  then show ?thesis using target by auto
qed (use assms(7) in \<open>simp_all add: rest_api_def\<close>)

text \<open>A multiplexer that keeps no law at all, and a request that overrides its method.\<close>

definition wild_serve :: "rest_method gw_mux" where
  "wild_serve t r ps = Some (ToSyncUsers, [])"

definition override_request :: mux_request where
  "override_request = \<lparr>mr_method = ''POST'', mr_override = Some ''DELETE'', mr_form = True, mr_parses = True\<rparr>"

theorem rest_closed_witness:
  "\<exists>page w'. rest_api sample_lib plain_runtime (NewUserServiceClient sample_conn) wild_serve None None
      override_request [''any''] \<lparr>req_body = [''guest''], req_form = Inr fmempty\<rparr> anonymous
      (idle sample_mem) = (page, w') \<and> backend w' = sample_mem \<and> \<not> discloses page"
proof -
  let ?run = "rest_api sample_lib plain_runtime (NewUserServiceClient sample_conn) wild_serve None None
      override_request [''any''] \<lparr>req_body = [''guest''], req_form = Inr fmempty\<rparr> anonymous
      (idle sample_mem)"
  obtain page w' where run: "?run = (page, w')" by (cases ?run)
  have no: "\<not> admitted_call sample_jwt sample_lib (\<lambda>_. None) plain_runtime anonymous (idle sample_mem) rpc p" for rpc p
    by (simp add: admitted_call_def plain_runtime_def)
  have kept: "backend (idle sample_mem) = sample_mem" by (simp add: idle_def)
  have "backend w' = backend (idle sample_mem) \<and> \<not> discloses page"
    using rest_closed [OF sample_chain_law sample_chain_law sample_span_law auth_flags_simps(1) sample_wired
        run] no by blast
  with run kept show ?thesis by auto
qed

end
