(* ===== verification/Interleaving.thy ===== *)
theory Interleaving
  imports Concurrency UserStreams
begin

text \<open>
  All nine handlers of \<open>server.go\<close> at once, each in steps of one storage call, as
  \<open>MemoryStorage\<close> locks them: the streaming handlers join the unary ones of \<open>Concurrency\<close>. What
  holds of the storage however the steps of any number of calls are interleaved.
\<close>

section \<open>Streaming handlers in steps\<close>

text \<open>
  A call under way: what is left of its stream, where it is within the message it handles, and
  what it has answered. A batch answers once, at the end of its stream: \<open>None\<close> while it reads,
  then what became of its response (or the error that broke the stream before it). A stream in
  both directions returns as soon as a response cannot be sent; the response that \<open>SyncUsers\<close>
  could not send is kept apart from those it has sent. Between two storage calls \<open>UserActivityStream\<close> holds the activity it is
  about to record or the user it is about to write, \<open>SyncUsers\<close> the user it is about to write.
\<close>

datatype activity_phase =
    ANext
  | AReading UserActivity UserActivityResponse
  | AWriting User UserActivityResponse

datatype sync_phase =
    SNext
  | SUpdating User
  | SAdding User

datatype task =
    UnaryTask call phase
  | ListTask ListUsersRequest "(User list \<times> error option) option"
  | RoleTask UserRole "(User list \<times> error option) option"
  | BatchTask "User list" batch "error option option"
  | ActivityTask "UserActivity list" activity_phase "UserActivityResponse list"
  | SyncTask "User list" sync_phase "SyncUserResponse list" "SyncUserResponse option"

definition activity_response :: "lib \<Rightarrow> time \<Rightarrow> UserActivity \<Rightarrow> bool \<Rightarrow> UserActivityResponse" where
  "activity_response L now activity exists =
     \<lparr>ar_UserId = ac_UserId activity, ar_Acknowledged = exists,
      ar_Message = (if exists
        then ''Activity '' @ UserActivity_ActivityType_String L (ac_ActivityType activity) @
          '' recorded for user '' @ dec (unat (ac_UserId activity))
        else ''User '' @ dec (unat (ac_UserId activity)) @ '' not found''),
      ar_ProcessedAt = Some (timestamppb_New L now)\<rparr>"

definition sync_failed :: "User \<Rightarrow> string \<Rightarrow> SyncUserResponse" where
  "sync_failed user msg = SyncUserResponse_zero\<lparr>sy_UserId := u_Id user,
     sy_Status := SyncUserResponse_FAILED, sy_ErrorMessage := msg\<rparr>"

definition sync_success :: "User \<Rightarrow> string list \<Rightarrow> SyncUserResponse" where
  "sync_success user names = SyncUserResponse_zero\<lparr>sy_UserId := u_Id user,
     sy_Status := SyncUserResponse_SUCCESS, sy_UpdatedFields := names\<rparr>"

text \<open>\<open>stream.Send\<close>, and the return of the handler if it fails.\<close>

definition activity_send :: "error option \<Rightarrow> UserActivity list \<Rightarrow> UserActivityResponse list \<Rightarrow>
    UserActivityResponse \<Rightarrow> task" where
  "activity_send err as rs r = (case err of
     None \<Rightarrow> ActivityTask as ANext (rs @ [r]) | Some _ \<Rightarrow> ActivityTask [] ANext rs)"

definition sync_send :: "error option \<Rightarrow> User list \<Rightarrow> SyncUserResponse list \<Rightarrow> SyncUserResponse \<Rightarrow> task" where
  "sync_send err us rs r = (case err of
     None \<Rightarrow> SyncTask us SNext (rs @ [r]) None | Some _ \<Rightarrow> SyncTask [] SNext rs (Some r))"

fun activity_advance :: "lib \<Rightarrow> 's Storage \<Rightarrow> time \<Rightarrow> error option \<Rightarrow> UserActivity list \<Rightarrow>
    activity_phase \<Rightarrow> UserActivityResponse list \<Rightarrow> 's \<Rightarrow> task \<times> 's" where
  "activity_advance L S now err [] ANext rs s = (ActivityTask [] ANext rs, s)"
| "activity_advance L S now err (a # as) ANext rs s = (case UserExists S (ac_UserId a) s of
     Inl _ \<Rightarrow> (ActivityTask [] ANext rs, s)
   | Inr exists \<Rightarrow> let r = activity_response L now a exists
       in if exists \<and> ac_ActivityType a = UserActivity_LOGIN then (ActivityTask as (AReading a r) rs, s)
          else (activity_send err as rs r, s))"
| "activity_advance L S now err as (AReading a r) rs s = (case GetUser S (ac_UserId a) s of
     Inl _ \<Rightarrow> (activity_send err as rs r, s)
   | Inr user \<Rightarrow> (ActivityTask as (AWriting (user\<lparr>u_LastLogin := ac_Timestamp a\<rparr>) r) rs, s))"
| "activity_advance L S now err as (AWriting user r) rs s =
     (activity_send err as rs r, snd (UpdateUser S user s))"

fun sync_advance :: "lib \<Rightarrow> 's Storage \<Rightarrow> time \<Rightarrow> error option \<Rightarrow> User list \<Rightarrow> sync_phase \<Rightarrow>
    SyncUserResponse list \<Rightarrow> SyncUserResponse option \<Rightarrow> 's \<Rightarrow> task \<times> 's" where
  "sync_advance L S now err [] SNext rs lost s = (SyncTask [] SNext rs lost, s)"
| "sync_advance L S now err (u # us) SNext rs lost s =
     (if u_Id u = 0 then (sync_send err us rs (sync_failed u ''user ID must be greater than 0''), s)
      else case UserExists S (u_Id u) s of
        Inl e \<Rightarrow> (sync_send err us rs (sync_failed u (error_Error L e)), s)
      | Inr exists \<Rightarrow> (SyncTask us (if exists then SUpdating u else SAdding u) rs lost, s))"
| "sync_advance L S now err us (SUpdating u) rs lost s = (case UpdateUser S u s of
     (Some e, s') \<Rightarrow> (sync_send err us rs (sync_failed u (error_Error L e)), s')
   | (None, s') \<Rightarrow>
       (sync_send err us rs (sync_success u [''role'', ''username'', ''profile'', ''status'']), s'))"
| "sync_advance L S now err us (SAdding u) rs lost s = (case AddUser S now u s of
     (Some e, _, s') \<Rightarrow> (sync_send err us rs (sync_failed u (error_Error L e)), s')
   | (None, _, s') \<Rightarrow> (sync_send err us rs (sync_success u [''created'']), s'))"

text \<open>One step of a call. \<open>sends\<close> is what the transport answers to each message the step sends.\<close>

fun task_advance :: "lib \<Rightarrow> 's Storage \<Rightarrow> time \<Rightarrow> (nat \<Rightarrow> error option) \<Rightarrow> task \<Rightarrow> 's \<Rightarrow> task \<times> 's" where
  "task_advance L S now sends (UnaryTask c ph) s = map_prod (UnaryTask c) id (advance S now c ph s)"
| "task_advance L S now sends (ListTask req None) s =
     (ListTask req (Some (Server_ListUsers L S now sends req s)), s)"
| "task_advance L S now sends (RoleTask req None) s =
     (RoleTask req (Some (Server_ListUsersByRole L S sends req s)), s)"
| "task_advance L S now sends (BatchTask (u # us) b None) s =
     map_prod (\<lambda>b'. BatchTask us b' None) id (batch_step L S now u (b, s))"
| "task_advance L S now sends (BatchTask [] b None) s = (BatchTask [] b (Some (sends 0)), s)"
| "task_advance L S now sends (ActivityTask as ph rs) s = activity_advance L S now (sends 0) as ph rs s"
| "task_advance L S now sends (SyncTask us ph rs lost) s = sync_advance L S now (sends 0) us ph rs lost s"
| "task_advance L S now sends t s = (t, s)"

text \<open>
  A stream can break at any message: the handler returns the error of \<open>Recv\<close>, and what is left is
  never read. A batch that breaks sends no response.
\<close>

fun cut_off :: "error \<Rightarrow> task \<Rightarrow> task" where
  "cut_off e (BatchTask us b None) = BatchTask [] b (Some (Some e))"
| "cut_off e (ActivityTask as ANext rs) = ActivityTask [] ANext rs"
| "cut_off e (SyncTask us SNext rs lost) = SyncTask [] SNext rs lost"
| "cut_off e t = t"

section \<open>A call on its own is its handler\<close>

lemma activity_alone:
  assumes "activity_step L S now a s = (Inr r, s')"
  shows "\<exists>k\<in>{1, 2, 3}. ((\<lambda>(t, s). task_advance L S now sends t s) ^^ k) (ActivityTask (a # as) ANext rs, s) =
    (activity_send (sends 0) as rs r, s')"
proof -
  obtain ex where ex: "UserExists S (ac_UserId a) s = Inr ex"
    using assms by (auto simp: activity_step_def split: sum.splits)
  show ?thesis
  proof (cases "ex \<and> ac_ActivityType a = UserActivity_LOGIN")
    case False
    then show ?thesis using assms ex
      by (auto simp: activity_step_def activity_response_def Let_def)
  next
    case True
    then show ?thesis
      using assms ex by (cases "GetUser S (ac_UserId a) s")
        (auto simp: activity_step_def activity_response_def Let_def eval_nat_numeral)
  qed
qed

lemma sync_alone:
  assumes "sync_step L S now u s = (r, s')"
  shows "\<exists>k\<in>{1, 2}. ((\<lambda>(t, s). task_advance L S now sends t s) ^^ k) (SyncTask (u # us) SNext rs None, s) =
    (sync_send (sends 0) us rs r, s')"
  using assms
  by (auto simp: sync_step_def sync_failed_def sync_success_def Let_def eval_nat_numeral
      split: if_splits sum.splits option.splits prod.splits)

section \<open>Interleavings of all calls\<close>

type_synonym 's tasks = "task list \<times> 's"

fun fresh_task :: "task \<Rightarrow> bool" where
  "fresh_task (UnaryTask c ph) \<longleftrightarrow> ph = Called"
| "fresh_task (ListTask req r) \<longleftrightarrow> r = None"
| "fresh_task (RoleTask req r) \<longleftrightarrow> r = None"
| "fresh_task (BatchTask us b r) \<longleftrightarrow> b = batch_init \<and> r = None \<and> length us < 2 ^ 32"
| "fresh_task (ActivityTask as ph rs) \<longleftrightarrow> ph = ANext \<and> rs = []"
| "fresh_task (SyncTask us ph rs lost) \<longleftrightarrow> ph = SNext \<and> rs = [] \<and> lost = None"

text \<open>A call comes in, a call makes a step, or the stream of a call breaks.\<close>

inductive tasks_reach :: "lib \<Rightarrow> 's Storage \<Rightarrow> 's \<Rightarrow> 's tasks \<Rightarrow> bool" for L S s0 where
  none: "tasks_reach L S s0 ([], s0)"
| arrives: "tasks_reach L S s0 (ts, s) \<Longrightarrow> fresh_task t \<Longrightarrow> tasks_reach L S s0 (ts @ [t], s)"
| steps: "tasks_reach L S s0 (ts, s) \<Longrightarrow> i < length ts \<Longrightarrow>
    task_advance L S now sends (ts ! i) s = (t, s') \<Longrightarrow> tasks_reach L S s0 (ts[i := t], s')"
| breaks: "tasks_reach L S s0 (ts, s) \<Longrightarrow> i < length ts \<Longrightarrow> 
    tasks_reach L S s0 (ts[i := cut_off e (ts ! i)], s)"

section \<open>What every interleaving keeps\<close>

text \<open>
  The additions and deletions a call has carried out so far, whether or not its caller hears of
  them: a batch that breaks has stored users and sends no response, and the last response of a
  synchronisation can be lost.
\<close>

fun created :: "SyncUserResponse \<Rightarrow> bool" where
  "created r \<longleftrightarrow> sy_UpdatedFields r = [''created'']"

fun adds_of :: "task \<Rightarrow> nat" where
  "adds_of (UnaryTask (CallAdd u) (Returned (Inr r))) = 1"
| "adds_of (BatchTask us b r) = unat (totalAdded b)"
| "adds_of (SyncTask us ph rs lost) = length (filter created (rs @ (case lost of None \<Rightarrow> [] | Some r \<Rightarrow> [r])))"
| "adds_of _ = 0"

fun dels_of :: "task \<Rightarrow> nat" where
  "dels_of (UnaryTask (CallDelete req) (Returned (Inr r))) = 1"
| "dels_of _ = 0"

text \<open>
  The additions a call has acknowledged: \<open>AddUser\<close> by its answer, a batch by its one response, if
  it was sent, a synchronisation by the responses it has sent. \<open>told\<close> says that nothing a call has
  carried out is still, or for ever, unacknowledged.
\<close>

fun acks_of :: "task \<Rightarrow> nat" where
  "acks_of (UnaryTask (CallAdd u) (Returned (Inr r))) = 1"
| "acks_of (BatchTask us b (Some None)) = unat (totalAdded b)"
| "acks_of (SyncTask us ph rs lost) = length (filter created rs)"
| "acks_of _ = 0"

fun told :: "task \<Rightarrow> bool" where
  "told (BatchTask us b r) \<longleftrightarrow> r = Some None"
| "told (SyncTask us ph rs lost) \<longleftrightarrow> lost = None"
| "told _ \<longleftrightarrow> True"

lemma acks_adds: "acks_of t \<le> adds_of t" "told t \<Longrightarrow> acks_of t = adds_of t"
  by (cases t rule: acks_of.cases; simp split: option.splits)+

lemma sum_acks_adds:
  "sum_list (map acks_of ts) \<le> sum_list (map adds_of ts)"
  "list_all told ts \<Longrightarrow> sum_list (map acks_of ts) = sum_list (map adds_of ts)"
  by (induction ts) (simp_all add: acks_adds add_mono)

text \<open>What a call under way may hold: never the id 0, and counters that have not wrapped.\<close>

definition batch_fits :: "User list \<Rightarrow> batch \<Rightarrow> bool" where
  "batch_fits us b \<longleftrightarrow> (\<exists>n a f. batch_counts n a f b \<and> n + length us < 2 ^ 32)"

fun task_ok :: "task \<Rightarrow> bool" where
  "task_ok (UnaryTask (CallAdd u) Adding) \<longleftrightarrow> u_Id u \<noteq> 0"
| "task_ok (UnaryTask c (Updating u)) \<longleftrightarrow> u_Id u \<noteq> 0"
| "task_ok (BatchTask us b r) \<longleftrightarrow> batch_fits us b"
| "task_ok (ActivityTask as (AWriting u r) rs) \<longleftrightarrow> u_Id u \<noteq> 0"
| "task_ok (SyncTask us ph rs lost) \<longleftrightarrow> (lost = None \<or> us = [] \<and> ph = SNext) \<and>
     (case ph of SNext \<Rightarrow> True | SUpdating u \<Rightarrow> u_Id u \<noteq> 0 | SAdding u \<Rightarrow> u_Id u \<noteq> 0)"
| "task_ok _ \<longleftrightarrow> True"

lemma fresh_task_facts: "fresh_task t \<Longrightarrow> task_ok t \<and> adds_of t = 0 \<and> dels_of t = 0"
proof (cases t)
  case (BatchTask us b r)
  moreover assume "fresh_task t"
  ultimately have b: "b = batch_init" "batch_counts 0 0 0 b \<and> 0 + length us < 2 ^ 32" by simp_all
  then have "task_ok t" unfolding BatchTask task_ok.simps batch_fits_def by blast
  then show ?thesis using b(1) by (simp add: BatchTask batch_init_def)
qed auto

lemma cut_off_facts: 
  "task_ok t \<Longrightarrow> task_ok (cut_off e t) \<and> adds_of (cut_off e t) = adds_of t \<and> dels_of (cut_off e t) = dels_of t"
  by (cases "(e, t)" rule: cut_off.cases) (auto simp: batch_fits_def intro: le_less_trans [OF le_add1])

lemma fcard_fmdrop: "fmlookup m i = Some v \<Longrightarrow> Suc (fcard (fmdom (fmdrop i m))) = fcard (fmdom m)"
  using fcard_fmupd [of i "fmdrop i m"] by (simp add: finsert_absorb fmdomI)

text \<open>One step: the storage keeps its invariant and has no user 0, and has gained what the call has
  added and lost what it has deleted.\<close>

definition moved :: "('s \<Rightarrow> bool) \<Rightarrow> ('s \<Rightarrow> (uint32, User) fmap) \<Rightarrow> task \<Rightarrow> 's \<Rightarrow> task \<Rightarrow> 's \<Rightarrow> bool" where
  "moved keeps look t s t' s' \<longleftrightarrow> keeps s' \<and> fmlookup (look s') 0 = None \<and> task_ok t' \<and>
     fcard (fmdom (look s')) + dels_of t' + adds_of t = fcard (fmdom (look s)) + dels_of t + adds_of t'"

lemma moved_still: "moved keeps look t s t' s \<longleftrightarrow> keeps s \<and> fmlookup (look s) 0 = None \<and> task_ok t' \<and>
    dels_of t' + adds_of t = dels_of t + adds_of t'"
  by (auto simp: moved_def)

context strict_store begin

lemma store_add:
  assumes "inv s" and "AddUser S now u s = (r, u', s')" and "u_Id u \<noteq> 0"
  shows "inv s'" and "fmlookup (look s') 0 = fmlookup (look s) 0"
    and "fcard (fmdom (look s')) = (if r = None then Suc (fcard (fmdom (look s))) else fcard (fmdom (look s)))"
proof -
  show "inv s'" using add_inv [OF assms(1,2)] .
  have r: "r = (if fmlookup (look s) (u_Id u) = None then None
      else Some (Status AlreadyExists ''user already exists''))"
    using add_total [OF assms(1), of now u] assms(2) by simp
  have "look s' = (if r = None then fmupd (u_Id u) (keep (fmlookup (look s) (u_Id u)) (fill now u)) (look s) else look s)"
    using add_ok [OF assms(1)] add_kept [OF assms(1)] assms(2) by (cases r) auto
  then show "fmlookup (look s') 0 = fmlookup (look s) 0"
    and "fcard (fmdom (look s')) = (if r = None then Suc (fcard (fmdom (look s))) else fcard (fmdom (look s)))"
    using assms(3) r by (auto simp: fcard_fmupd)
qed

lemma store_upd:
  assumes "inv s" and "UpdateUser S u s = (r, s')" and "u_Id u \<noteq> 0"
  shows "inv s'" and "fmlookup (look s') 0 = fmlookup (look s) 0"
    and "fcard (fmdom (look s')) = fcard (fmdom (look s))"
proof -
  show "inv s'" using upd_inv [OF assms(1,2)] .
  have "look s' = look s \<or> fmlookup (look s) (u_Id u) \<noteq> None \<and>
      look s' = fmupd (u_Id u) (keep (fmlookup (look s) (u_Id u)) u) (look s)"
    using upd_ok [OF assms(1)] upd_kept [OF assms(1)] assms(2) by (cases r) auto
  then show "fmlookup (look s') 0 = fmlookup (look s) 0" and "fcard (fmdom (look s')) = fcard (fmdom (look s))"
    using assms(3) by (auto simp: fcard_fmupd)
qed

lemma read_nonzero:
  assumes "inv s" and "fmlookup (look s) 0 = None" and "GetUser S i s = Inr u"
  shows "u_Id u \<noteq> 0"
proof -
  have "fmlookup (look s) i = Some u" using get_ok [OF assms(1,3)] .
  then show ?thesis using look_Id [OF assms(1)] assms(2) by (metis option.distinct(1))
qed

lemma unary_moves:
  assumes "inv s" and "fmlookup (look s) 0 = None" and "task_ok (UnaryTask c ph)"
    and "advance S now c ph s = (ph', s')"
  shows "moved inv look (UnaryTask c ph) s (UnaryTask c ph') s'"
proof (cases c)
  case (CallAdd u)
  obtain r u' s1 where a: "AddUser S now u s = (r, u', s1)" by (cases "AddUser S now u s")
  show ?thesis
  proof (cases ph)
    case Called
    then show ?thesis using assms CallAdd
      by (auto simp: moved_still add_check_def split: sum.splits)
  next
    case Adding
    with assms(3) CallAdd have "u_Id u \<noteq> 0" by simp
    from store_add [OF assms(1) a this] show ?thesis
      using assms a CallAdd Adding by (auto simp: moved_def add_store_def split: option.splits)
  qed (use assms CallAdd in \<open>auto simp: moved_still\<close>)
next
  case (CallGet req)
  then show ?thesis using assms serve_get_state [of req s]
    by (cases ph) (auto simp: moved_still split: prod.splits)
next
  case (CallUpdate req)
  show ?thesis
  proof (cases ph)
    case Called
    have "u_Id w \<noteq> 0" if "update_read S req s = Updating w" for w
    proof -
      from that obtain u old where "uu_User req = Some u" and g: "GetUser S (u_Id u) s = Inr old"
        and a: "apply_update u (uu_UpdateMask req) old = Inr w"
        by (auto simp: update_read_def split: option.splits if_splits sum.splits)
      then show ?thesis using read_nonzero [OF assms(1,2) g] apply_update_ok [OF a] by simp
    qed
    then show ?thesis using assms CallUpdate Called
      by (cases ph') (auto simp: moved_still update_read_def split: option.splits if_splits sum.splits)
  next
    case (Updating u)
    obtain r s1 where a: "UpdateUser S u s = (r, s1)" by fastforce
    from assms(3) Updating have "u_Id u \<noteq> 0" by simp
    from store_upd [OF assms(1) a this] show ?thesis
      using assms a CallUpdate Updating by (auto simp: moved_def update_store_def split: option.splits)
  qed (use assms CallUpdate in \<open>auto simp: moved_still\<close>)
next
  case (CallDelete req)
  obtain r s1 where d: "Server_DeleteUser S req s = (r, s1)" by fastforce
  show ?thesis
  proof (cases ph)
    case Called
    show ?thesis
    proof (cases r)
      case (Inl e)
      from serve_delete_kept [OF assms(1) d [unfolded Inl]] show ?thesis
        using assms d CallDelete Called Inl by (auto simp: moved_def)
    next
      case (Inr v)
      then have "Server_DeleteUser S req s = (Inr (), s1)" using d by simp
      from serve_delete_ok [OF assms(1) this] show ?thesis
        using assms d CallDelete Called Inr fcard_fmdrop [of "look s" "du_Id req"]
        by (auto simp: moved_def)
    qed
  qed (use assms CallDelete in \<open>auto simp: moved_still\<close>)
qed

lemma batch_moves:
  assumes "inv s" and "fmlookup (look s) 0 = None" and "task_ok (BatchTask (u # us) b None)"
    and "batch_step L S now u (b, s) = (b', s')"
  shows "moved inv look (BatchTask (u # us) b None) s (BatchTask us b' None) s'"
proof -
  obtain n a f where c: "batch_counts n a f b" and n: "Suc n + length us < 2 ^ 32"
    using assms(3) by (auto simp: batch_fits_def)
  have cnt: "unat (totalAdded x) = k" if "batch_counts m k j x" and "m \<le> Suc n" for m k j x
    using that n by (auto simp: batch_counts_def unat_of_nat take_bit_nat_eq_self)
  from assms(1) show ?thesis
  proof (cases rule: batch_step_cases [of s u L now b])
    case (added s1)
    note c' = batch_counts_added [OF c]
    have "task_ok (BatchTask us b' None)" using c' n added(3) assms(4) unfolding task_ok.simps batch_fits_def by force
    then show ?thesis
      using added assms cnt [OF c] cnt [OF c'] by (auto simp: moved_def fcard_fmupd batch_valid_def)
  next
    case (refused why s1)
    note c' = batch_counts_fail [OF c, where why = why]
    have "task_ok (BatchTask us b' None)" using c' n refused(2) assms(4) unfolding task_ok.simps batch_fits_def by force
    then show ?thesis
      using refused assms cnt [OF c] cnt [OF c'] by (auto simp: moved_def)
  qed
qed

lemma activity_moves:
  assumes "inv s" and "fmlookup (look s) 0 = None" and "task_ok (ActivityTask as ph rs)"
    and "activity_advance L S now err as ph rs s = (t, s')"
  shows "moved inv look (ActivityTask as ph rs) s t s'"
proof (cases ph)
  case ANext
  then show ?thesis using assms
    by (cases as) (auto simp: moved_still activity_send_def Let_def split: sum.splits if_splits option.splits)
next
  case (AReading a r)
  then show ?thesis using assms read_nonzero [OF assms(1,2), of "ac_UserId a"]
    by (cases "GetUser S (ac_UserId a) s") (auto simp: moved_still activity_send_def split: option.splits)
next
  case (AWriting u r)
  obtain e s1 where a: "UpdateUser S u s = (e, s1)" by fastforce
  from assms(3) AWriting have "u_Id u \<noteq> 0" by simp
  from store_upd [OF assms(1) a this] show ?thesis
    using assms a AWriting by (auto simp: moved_def activity_send_def split: option.splits)
qed

lemma sync_send_facts:
  "task_ok (sync_send err us rs r)" "dels_of (sync_send err us rs r) = 0"
  "adds_of (sync_send err us rs r) = length (filter created (rs @ [r]))"
  by (simp_all add: sync_send_def split: option.splits)

lemma sync_created [simp]:
  "\<not> created (sync_failed u msg)" "created (sync_success u names) \<longleftrightarrow> names = [''created'']"
  by (simp_all add: sync_failed_def sync_success_def SyncUserResponse_zero_def)

lemma sync_moves:
  assumes "inv s" and "fmlookup (look s) 0 = None" and "task_ok (SyncTask us ph rs lost)"
    and "sync_advance L S now err us ph rs lost s = (t, s')"
  shows "moved inv look (SyncTask us ph rs lost) s t s'"
proof (cases ph)
  case SNext
  show ?thesis
  proof (cases us)
    case Nil
    then show ?thesis using assms SNext by (auto simp: moved_still)
  next
    case (Cons u vs)
    then show ?thesis using assms SNext
      by (auto simp: moved_still sync_send_facts simp del: created.simps split: sum.splits if_splits)
  qed
next
  case (SUpdating u)
  obtain e s1 where a: "UpdateUser S u s = (e, s1)" by fastforce
  from assms(3) SUpdating have "u_Id u \<noteq> 0" "lost = None" by simp_all
  from store_upd [OF assms(1) a this(1)] this(2) show ?thesis
    using assms a SUpdating by (auto simp: moved_def sync_send_facts simp del: created.simps split: option.splits)
next
  case (SAdding u)
  obtain e u' s1 where a: "AddUser S now u s = (e, u', s1)" by (cases "AddUser S now u s")
  from assms(3) SAdding have "u_Id u \<noteq> 0" "lost = None" by simp_all
  from store_add [OF assms(1) a this(1)] this(2) show ?thesis
    using assms a SAdding by (auto simp: moved_def sync_send_facts simp del: created.simps split: option.splits)
qed

lemma task_moves:
  assumes "inv s" and "fmlookup (look s) 0 = None" and "task_ok t" and "task_advance L S now sends t s = (t', s')"
  shows "moved inv look t s t' s'"
proof (cases t)
  case (UnaryTask c ph)
  then show ?thesis using assms unary_moves by (cases "advance S now c ph s") auto
next
  case (BatchTask us b r)
  show ?thesis
  proof (cases r)
    case None
    show ?thesis
    proof (cases us)
      case (Cons u vs)
      then show ?thesis using assms BatchTask None batch_moves by (cases "batch_step L S now u (b, s)") auto
    qed (use assms BatchTask None in \<open>auto simp: moved_still\<close>)
  qed (use assms BatchTask in \<open>auto simp: moved_still\<close>)
next
  case (ActivityTask as ph rs)
  then show ?thesis using assms activity_moves by simp
next
  case (SyncTask us ph rs lost)
  then show ?thesis using assms sync_moves by simp
next
  case (ListTask req r)
  then show ?thesis using assms by (cases r) (auto simp: moved_still)
next
  case (RoleTask req r)
  then show ?thesis using assms by (cases r) (auto simp: moved_still)
qed

lemma tasks_kept:
  assumes "tasks_reach L S s0 c" and "inv s0" and "fmlookup (look s0) 0 = None"
  shows "inv (snd c) \<and> fmlookup (look (snd c)) 0 = None \<and> list_all task_ok (fst c) \<and>
    fcard (fmdom (look (snd c))) + sum_list (map dels_of (fst c)) =
      fcard (fmdom (look s0)) + sum_list (map adds_of (fst c))"
  using assms(1)
proof (induction rule: tasks_reach.induct)
  case none
  then show ?case using assms(2,3) by simp
next
  case (arrives ts s t)
  then show ?case using fresh_task_facts [of t] by simp
next
  case (steps ts s i now sends t s')
  have ok: "task_ok (ts ! i)" using steps by (simp add: list_all_length)
  have "moved inv look (ts ! i) s t s'" using steps ok task_moves [OF _ _ ok steps.hyps(3)] by simp
  then show ?case
    using steps sum_list_map_update [OF steps.hyps(2), of adds_of t] sum_list_map_update [OF steps.hyps(2), of dels_of t]
    by (simp add: moved_def list_all_update)
next
  case (breaks ts s i e)
  have ok: "task_ok (ts ! i)" using breaks by (simp add: list_all_length)
  show ?case
    using breaks cut_off_facts [OF ok, of e] sum_list_map_update [OF breaks.hyps(2), of adds_of "cut_off e (ts ! i)"]
      sum_list_map_update [OF breaks.hyps(2), of dels_of "cut_off e (ts ! i)"]
    by (simp add: list_all_update)
qed

end

section \<open>Over the in-memory storage\<close>

text \<open>C6. Whatever calls come in, however their steps interleave and wherever their streams break: a
  server that starts empty never stores a user under the id 0, every user is stored under its own
  id, and the number of users is the number of additions the calls have carried out (by \<open>AddUser\<close>,
  within a batch and within a synchronisation) less the number of deletions. No call acknowledges
  an addition it has not carried out. The converse holds once every batch has sent its response
  and no response of a synchronisation was lost (\<open>told\<close>), and fails otherwise (\<open>unacknowledged_addition\<close>): what a batch has
  stored stays when its stream breaks, and its caller gets no count of it.\<close>

theorem users_conserved:
  assumes "tasks_reach L (memory_Storage L ord clk) NewMemoryStorage (ts, m)"
  shows "mem_inv m \<and> fmlookup (users m) 0 = None \<and>
    Count (memory_Storage L ord clk) m = Inr (int (sum_list (map adds_of ts)) - int (sum_list (map dels_of ts))) \<and>
    sum_list (map acks_of ts) \<le> sum_list (map adds_of ts) \<and>
    (list_all told ts \<longrightarrow> sum_list (map acks_of ts) = sum_list (map adds_of ts))"
proof -
  have z: "fmlookup (users NewMemoryStorage) 0 = None" "fcard (fmdom (users NewMemoryStorage)) = 0"
    by (simp_all add: NewMemoryStorage_def)
  note k = mem.tasks_kept [OF assms mem_inv_New z(1), unfolded z(2) fst_conv snd_conv]
  then have inv: "mem_inv m" by blast
  have "int (fcard (fmdom (users m))) = int (sum_list (map adds_of ts)) - int (sum_list (map dels_of ts))"
    using k by linarith
  then show ?thesis using k mem.count_total [OF inv, of L ord clk] sum_acks_adds [of ts] by simp
qed

definition admin_stored :: MemoryStorage where
  "admin_stored = NewMemoryStorage\<lparr>users := fmupd 1 (clone_fields admin) fmempty\<rparr>"

lemma admin_filled: "mem_fill sample_lib 0 admin = admin"
  by (simp add: mem_fill_def admin_def enum_defs)

text \<open>A batch that breaks after its first user: the user is stored, and nothing was acknowledged.\<close>

lemma unacknowledged_addition:
  "\<exists>t. tasks_reach sample_lib sample_store NewMemoryStorage ([t], admin_stored) \<and>
     adds_of t = 1 \<and> acks_of t = 0"
proof -
  let ?R = "tasks_reach sample_lib sample_store NewMemoryStorage"
  let ?b = "batch_init\<lparr>totalReceived := 1, totalAdded := 1\<rparr>"
  have who: "u_Id admin = 1" "u_Username admin = ''admin''" by (simp_all add: admin_def sample_user_def)
  have "?R ([BatchTask [admin] batch_init None], NewMemoryStorage)"
    using tasks_reach.arrives [OF tasks_reach.none, of "BatchTask [admin] batch_init None"] by simp
  then have "?R ([BatchTask [] ?b None], admin_stored)"
    by (drule_tac i = 0 and now = 0 and sends = "\<lambda>_. None" in tasks_reach.steps)
      (auto simp: memory_write_defs NewMemoryStorage_def Let_def admin_filled batch_step_def batch_init_def
        admin_stored_def who)
  from tasks_reach.breaks [OF this, of 0] have "?R ([BatchTask [] ?b (Some (Some e))], admin_stored)" for e
    by simp
  then show ?thesis by (intro exI conjI) (assumption, simp_all)
qed

text \<open>A deletion overtakes the synchronisation that adds its user: between the two storage calls of
  \<open>SyncUsers\<close> there is nothing to delete yet.\<close>

theorem users_conserved_witness:
  "Count sample_store admin_stored = Inr 1"
proof -
  let ?del = "CallDelete \<lparr>du_Id = 1\<rparr>"
  let ?gone = "Returned (Inl (Status NotFound ''user not found''))"
  let ?R = "tasks_reach sample_lib sample_store NewMemoryStorage"
  have "?R ([SyncTask [admin] SNext [] None], NewMemoryStorage)"
    using tasks_reach.arrives [OF tasks_reach.none, of "SyncTask [admin] SNext [] None"] by simp
  then have "?R ([SyncTask [] (SAdding admin) [] None], NewMemoryStorage)"
    by (drule_tac i = 0 and now = 0 and sends = "\<lambda>_. None" in tasks_reach.steps)
      (auto simp: memory_read_defs NewMemoryStorage_def)
  then have "?R ([SyncTask [] (SAdding admin) [] None, UnaryTask ?del Called], NewMemoryStorage)"
    using tasks_reach.arrives [of _ _ _ _ _ "UnaryTask ?del Called"] by fastforce
  then have "?R ([SyncTask [] (SAdding admin) [] None, UnaryTask ?del ?gone], NewMemoryStorage)"
    by (drule_tac i = 1 and now = 0 and sends = "\<lambda>_. None" in tasks_reach.steps)
      (auto simp: Server_DeleteUser_def memory_write_defs NewMemoryStorage_def)
  then have "?R ([SyncTask [] SNext [sync_success admin [''created'']] None, UnaryTask ?del ?gone], admin_stored)"
    by (drule_tac i = 0 and now = 0 and sends = "\<lambda>_. None" in tasks_reach.steps)
      (auto simp: memory_write_defs NewMemoryStorage_def Let_def admin_filled sync_send_def admin_stored_def)
  from users_conserved [OF this] show ?thesis by (simp add: sync_success_def)
qed

end
