(* ===== verification/Scripts.thy ===== *)
theory Scripts
  imports GatewayRoutes
begin

text \<open>
  Two small programs around the certificates: the initialiser of \<open>insecure/insecure.go\<close>, which makes
  the certificate \<open>main\<close> falls back to, and \<open>scripts/test-container-tls.go\<close>, which asks the REST
  interface for a page over TLS. A parsed certificate is a parameter of type \<open>'leaf\<close>; a pool is the
  list of those added to it.
\<close>

section \<open>The embedded certificate\<close>

record 'leaf tls_Certificate =
  tc_Certificate :: "string list"
  tc_Leaf :: "'leaf option"

record 'leaf x509 =
  X509KeyPair :: "string \<Rightarrow> string \<Rightarrow> error + 'leaf tls_Certificate"
  ParseCertificate :: "string \<Rightarrow> error + 'leaf"

datatype 'a started = Started 'a | Fatal string | Panicked

definition insecure_init :: "lib \<Rightarrow> 'leaf x509 \<Rightarrow> string \<Rightarrow> string \<Rightarrow> ('leaf tls_Certificate \<times> 'leaf list) started" where
  "insecure_init L X certPEM keyPEM = (case X509KeyPair X certPEM keyPEM of
     Inl err \<Rightarrow> Fatal (''Failed to parse key pair: '' @ error_Error L err)
   | Inr Cert \<Rightarrow> (case tc_Certificate Cert of
       [] \<Rightarrow> Panicked
     | der # _ \<Rightarrow> (case ParseCertificate X der of
         Inl err \<Rightarrow> Fatal (''Failed to parse certificate: '' @ error_Error L err)
       | Inr leaf \<Rightarrow> Started (Cert\<lparr>tc_Leaf := Some leaf\<rparr>, [leaf]))))"

text \<open>
  \<open>tls.X509KeyPair\<close> answers at least one certificate, and the first it answers it could parse. So
  \<open>init\<close> ends the process only over a bad key pair; otherwise the pool the gateway trusts holds
  exactly the certificate the server presents.
\<close>

definition key_pair_law :: "'leaf x509 \<Rightarrow> bool" where
  "key_pair_law X \<longleftrightarrow> (\<forall>c k Cert. X509KeyPair X c k = Inr Cert \<longrightarrow>
     (\<exists>der ders leaf. tc_Certificate Cert = der # ders \<and> ParseCertificate X der = Inr leaf))"

lemma insecure_trusted:
  assumes "key_pair_law X"
  shows "case insecure_init L X c k of
      Started (Cert, pool) \<Rightarrow> \<exists>leaf. tc_Leaf Cert = Some leaf \<and> pool = [leaf] \<and>
        ParseCertificate X (hd (tc_Certificate Cert)) = Inr leaf
    | Fatal msg \<Rightarrow> \<exists>err. X509KeyPair X c k = Inl err \<and> msg = ''Failed to parse key pair: '' @ error_Error L err
    | Panicked \<Rightarrow> False"
proof (cases "X509KeyPair X c k")
  case (Inr Cert)
  then obtain der ders leaf where "tc_Certificate Cert = der # ders" "ParseCertificate X der = Inr leaf"
    using assms unfolding key_pair_law_def by blast
  then show ?thesis using Inr by (simp add: insecure_init_def)
qed (simp add: insecure_init_def)

lemma sample_key_pair_law: "key_pair_law \<lparr>
    X509KeyPair = (\<lambda>c k. if c = '''' \<or> k = '''' then Inl EOF else Inr \<lparr>tc_Certificate = [c], tc_Leaf = None\<rparr>),
    ParseCertificate = (\<lambda>der. if der = '''' then Inl EOF else Inr der)\<rparr>"
  by (auto simp: key_pair_law_def split: if_splits)

section \<open>The TLS check inside a container\<close>

record tls_check_flags =
  tf_cert :: string
  tf_target :: string

definition tls_check_defaults :: tls_check_flags where
  "tls_check_defaults = \<lparr>tf_cert = ''/app/certs/server.crt'', tf_target = ''https://api:11000/v1/users''\<rparr>"

text \<open>
  The outside: the file system, the PEM decoder, and an HTTPS request with the given pool, which
  answers a status and what could be read of the body.
\<close>

record 'pool tls_check_host =
  tls_ReadFile :: "string \<Rightarrow> error + string"
  tls_AppendCertsFromPEM :: "string \<Rightarrow> 'pool option"
  tls_Get :: "'pool \<Rightarrow> nat \<Rightarrow> string \<Rightarrow> error + string \<times> string"

definition cross_mark :: string where
  "cross_mark = [CHR 0xE2, CHR 0x9D, CHR 0x8C]"

definition check_mark :: string where
  "check_mark = [CHR 0xE2, CHR 0x9C, CHR 0x85]"

text \<open>What \<open>main\<close> prints, line by line, and the code it exits with.\<close>

definition tls_check_main :: "lib \<Rightarrow> 'pool tls_check_host \<Rightarrow> tls_check_flags \<Rightarrow> string list \<times> nat" where
  "tls_check_main L H fl =
     (let start = [''Testing TLS connection to: '' @ tf_target fl, ''Using certificate: '' @ tf_cert fl, '''']
      in case tls_ReadFile H (tf_cert fl) of
        Inl err \<Rightarrow> (start @ [cross_mark @ '' Failed to read certificate: '' @ error_Error L err], 1)
      | Inr certPEM \<Rightarrow> (case tls_AppendCertsFromPEM H certPEM of
          None \<Rightarrow> (start @ [cross_mark @ '' Failed to parse certificate''], 1)
        | Some certPool \<Rightarrow> (case tls_Get H certPool VersionTLS12 (tf_target fl) of
            Inl err \<Rightarrow> (start @ [cross_mark @ '' Request failed: '' @ error_Error L err], 1)
          | Inr (status, page) \<Rightarrow> (start @ [check_mark @ '' TLS connection successful!'', ''Status: '' @ status,
              ''Response: '' @ page], 0))))"

text \<open>
  The check succeeds on any answer, and its default target is no route of the gateway: what it
  prints as a success is the page of a path that does not exist.
\<close>

lemma tls_check_target:
  assumes "mux_law Serve"
  shows "api_target L e1 e2 Serve (plain ''GET'') (segments ''/v1/users'') = NotRouted"
    and "\<exists>host. tf_target tls_check_defaults = host @ ''/v1/users''"
proof -
  have "segments ''/v1/users'' = [''v1'', ''users'']" by (simp add: segments_def split_on_eval del: split_on.simps(2))
  then show "api_target L e1 e2 Serve (plain ''GET'') (segments ''/v1/users'') = NotRouted"
    using mux_picks [OF assms, of "plain ''GET''" "[''v1'', ''users'']"]
    by (simp add: api_target_def outer_mux plain_target rest_table_def plain_def)
  show "\<exists>host. tf_target tls_check_defaults = host @ ''/v1/users''"
    by (rule exI [of _ "''https://api:11000''"]) (simp add: tls_check_defaults_def)
qed

lemma tls_check_any_answer:
  assumes "tls_ReadFile H (tf_cert fl) = Inr pem" and "tls_AppendCertsFromPEM H pem = Some pool"
  shows "snd (tls_check_main L H fl) = 0 \<longleftrightarrow> (\<exists>r. tls_Get H pool VersionTLS12 (tf_target fl) = Inr r)"
  using assms by (auto simp: tls_check_main_def Let_def split: sum.splits)

section \<open>The ACME client\<close>

text \<open>
  \<open>server/acme_lego.go\<close>, which a build tag keeps out of every build: it registers an account with
  a certificate authority and asks it for a certificate. Keys, registrations, clients and
  certificates are of any type. The library is a parameter; since its configuration points to the
  user, each call of a client sees the user as it is by then.
\<close>

record ('key, 'reg) MyUser =
  my_Email :: string
  my_Registration :: "'reg option"
  my_key :: 'key

definition MyUser_GetEmail :: "('key, 'reg) MyUser \<Rightarrow> string" where
  "MyUser_GetEmail u = my_Email u"

definition MyUser_GetRegistration :: "('key, 'reg) MyUser \<Rightarrow> 'reg option" where
  "MyUser_GetRegistration u = my_Registration u"

definition MyUser_GetPrivateKey :: "('key, 'reg) MyUser \<Rightarrow> 'key" where
  "MyUser_GetPrivateKey u = my_key u"

record 'rest lego_config =
  CADirURL :: string
  cfg_KeyType :: string
  cfg_rest :: 'rest

record ObtainRequest =
  Domains :: "string list"
  Bundle :: bool

record ('key, 'reg, 'rest, 'client, 'cert) lego_lib =
  GenerateKey :: "error + 'key"
  NewConfig :: "('key, 'reg) MyUser \<Rightarrow> 'rest lego_config"
  RSA2048 :: string
  lego_NewClient :: "'rest lego_config \<Rightarrow> ('key, 'reg) MyUser \<Rightarrow> error + 'client"
  SetHTTP01Provider :: "string \<Rightarrow> string \<Rightarrow> 'client \<Rightarrow> error + 'client"
  SetTLSALPN01Provider :: "string \<Rightarrow> string \<Rightarrow> 'client \<Rightarrow> error + 'client"
  Register :: "bool \<Rightarrow> ('key, 'reg) MyUser \<Rightarrow> 'client \<Rightarrow> error + 'reg \<times> 'client"
  Obtain :: "ObtainRequest \<Rightarrow> ('key, 'reg) MyUser \<Rightarrow> 'client \<Rightarrow> error + 'cert"

text \<open>\<open>if err != nil { log.Fatal(err) }\<close>, and what follows otherwise.\<close>

definition or_Fatal :: "lib \<Rightarrow> error + 'a \<Rightarrow> ('a \<Rightarrow> 'b started) \<Rightarrow> 'b started" where
  "or_Fatal L r k = (case r of Inl err \<Rightarrow> Fatal (error_Error L err) | Inr a \<Rightarrow> k a)"

text \<open>The certificates that are printed, and the account as it is by then.\<close>

definition Lego :: "lib \<Rightarrow> ('key, 'reg, 'rest, 'client, 'cert) lego_lib \<Rightarrow> ('cert \<times> ('key, 'reg) MyUser) started" where
  "Lego L A =
     or_Fatal L (GenerateKey A) (\<lambda>privateKey.
     let myUser = \<lparr>my_Email = ''pauleyphonic@gmail.com'', my_Registration = None, my_key = privateKey\<rparr>;
         config = (NewConfig A myUser)\<lparr>CADirURL := ''http://192.168.99.100:4000/directory'', cfg_KeyType := RSA2048 A\<rparr>
     in or_Fatal L (lego_NewClient A config myUser) (\<lambda>client.
        or_Fatal L (SetHTTP01Provider A '''' ''5002'' client) (\<lambda>client.
        or_Fatal L (SetTLSALPN01Provider A '''' ''5001'' client) (\<lambda>client.
        or_Fatal L (Register A True myUser client) (\<lambda>(reg, client).
        let myUser = myUser\<lparr>my_Registration := Some reg\<rparr>
        in or_Fatal L (Obtain A \<lparr>Domains = [''mydomain.com''], Bundle = True\<rparr> myUser client) (\<lambda>certificates.
           Started (certificates, myUser)))))))"

lemma or_Fatal_iff [simp]:
  "or_Fatal L r k = Started x \<longleftrightarrow> (\<exists>a. r = Inr a \<and> k a = Started x)"
  "or_Fatal L r k = Panicked \<longleftrightarrow> (\<exists>a. r = Inr a \<and> k a = Panicked)"
  by (simp_all add: or_Fatal_def split: sum.splits)

text \<open>
  A certificate is only ever obtained for an account that has been registered under the key
  generated at the start; a run without one ends in \<open>log.Fatal\<close>.
\<close>

lemma lego_registered:
  assumes "Lego L A = Started (cert, u)"
  shows "\<exists>reg client. MyUser_GetRegistration u = Some reg \<and> GenerateKey A = Inr (MyUser_GetPrivateKey u) \<and>
    (\<exists>fresh before. Register A True fresh before = Inr (reg, client) \<and> MyUser_GetRegistration fresh = None \<and>
       MyUser_GetEmail fresh = MyUser_GetEmail u \<and> MyUser_GetPrivateKey fresh = MyUser_GetPrivateKey u) \<and>
    Obtain A \<lparr>Domains = [''mydomain.com''], Bundle = True\<rparr> u client = Inr cert"
proof -
  from assms obtain reg client k where "GenerateKey A = Inr k" and
    u: "u = \<lparr>my_Email = ''pauleyphonic@gmail.com'', my_Registration = Some reg, my_key = k\<rparr>"
    and ob: "Obtain A \<lparr>Domains = [''mydomain.com''], Bundle = True\<rparr> u client = Inr cert"
    and "\<exists>before. Register A True \<lparr>my_Email = ''pauleyphonic@gmail.com'', my_Registration = None, my_key = k\<rparr> before =
      Inr (reg, client)"
    by (auto simp: Lego_def Let_def)
  then show ?thesis
    by (intro exI [of _ reg] exI [of _ client])
      (auto simp: MyUser_GetRegistration_def MyUser_GetPrivateKey_def MyUser_GetEmail_def)
qed

lemma lego_ends: "Lego L A \<noteq> Panicked"
  by (simp add: Lego_def Let_def split_beta)

end
